theory Spec2Isabelle
  imports Complex_Main "HOL-Library.Word" "HOL-Library.Log_Nat"
begin

unbundle bit_operations_syntax

section \<open>The validation device of NRI (Source/Validation/DeviceVal.cpp)\<close>

text \<open>
  \<^verbatim>\<open>DeviceVal\<close> sits between a client and a graphics backend. Every entry point checks its
  arguments, forwards the call to the backend when the checks pass, and wraps what the backend
  returns in a proxy object. The model below follows the C++ function by function:
  \<^item> a pointer is a \<open>nat option\<close>, \<open>None\<close> being \<^verbatim>\<open>nullptr\<close>;
  \<^item> the proxies live in stores (maps from addresses to proxy records), one per kind;
  \<^item> what the backend answers to a call is an argument of the modelled entry point, and every
    forwarded call is appended to \<open>backendCalls\<close> (the queries of the memory requirements of
    a resource apart, which are functions of the backend object);
  \<^item> a read through a null or dangling pointer, which is undefined in C++, is the value
    \<open>None\<close> of the entry point.
\<close>

subsection \<open>Declarations of the public headers\<close>

text \<open>
  Modelled from the spec: the \<^verbatim>\<open>Result\<close> enumeration is declared in a header that is not part
  of the sources. The spec lists SUCCESS, INVALID_ARGUMENT and FAILURE and says that backend
  specific failures pass through unchanged; they are the values \<open>BACKEND_FAILURE n\<close>.
\<close>

datatype Result = SUCCESS | FAILURE | INVALID_ARGUMENT | BACKEND_FAILURE nat

text \<open>
  The widths of \<^verbatim>\<open>Dim_t\<close> follow the signature of \<^verbatim>\<open>GetMaxMipNum\<close> (\<^verbatim>\<open>uint16_t\<close>). \<^verbatim>\<open>Mip_t\<close> is a
  typedef of the public header; it is an unsigned type narrower than \<^verbatim>\<open>int\<close> (the messages
  print it with \<^verbatim>\<open>%hu\<close>), taken here as \<^verbatim>\<open>uint8_t\<close>. Arithmetic on two such values is done in
  \<^verbatim>\<open>int\<close> after integer promotion, so it is written on \<open>uint\<close> below.
\<close>

type_synonym Dim_t = "16 word"
type_synonym Mip_t = "8 word"
type_synonym Sample_t = "8 word"
type_synonym StageBits = "32 word"
type_synonym MemoryType = "32 word"

text \<open>
  The enumerators and bit masks of the public header that the file uses. Their values are not
  in the sources, so they are parameters of the model: an enumeration value is its underlying
  number, a stage mask is a 32-bit word.
\<close>

record NRIDescs =
  Format_UNKNOWN :: nat
  Format_BC1_RGBA_UNORM :: nat
  Format_MAX_NUM :: nat
  Texture2DViewType_MAX_NUM :: nat
  DescriptorType_MAX_NUM :: nat
  MemoryLocation_DEVICE :: nat
  MemoryLocation_MAX_NUM :: nat
  StageBits_ALL :: StageBits
  StageBits_NONE :: StageBits
  VERTEX_SHADER :: StageBits
  MESH_CONTROL_SHADER :: StageBits
  GRAPHICS_SHADERS :: StageBits
  COMPUTE_SHADER :: StageBits
  RAY_TRACING_SHADERS :: StageBits
  Texture1DViewType_MAX_NUM :: nat
  Texture3DViewType_MAX_NUM :: nat
  BufferViewType_MAX_NUM :: nat
  SwapChainFormat_MAX_NUM :: nat
  CommandQueueType_MAX_NUM :: nat
  QueryType_MAX_NUM :: nat
  Filter_MAX_NUM :: nat
  FilterExt_NONE :: nat
  FilterExt_MAX_NUM :: nat
  AddressMode_MAX_NUM :: nat
  CompareFunc_MAX_NUM :: nat
  BorderColor_MAX_NUM :: nat

record MemoryDesc =
  md_size :: "64 word"
  md_alignment :: "64 word"   \<comment> \<open>used only in \<^verbatim>\<open>uint64_t\<close> arithmetic\<close>
  md_mustBeDedicated :: bool

record BufferDesc =
  bd_size :: "64 word"

record TextureDesc =
  td_format :: nat
  td_width :: Dim_t
  td_height :: Dim_t
  td_depth :: Dim_t
  td_mipNum :: Mip_t
  td_layerNum :: Dim_t
  td_sampleNum :: Sample_t

text \<open>The view descriptors, with the fields that the file reads.\<close>

record BufferViewDesc =
  bvd_buffer :: "nat option"
  bvd_viewType :: nat
  bvd_format :: nat
  bvd_offset :: "64 word"
  bvd_size :: "64 word"

record Texture1DViewDesc =
  t1_texture :: "nat option"
  t1_viewType :: nat
  t1_format :: nat
  t1_mipOffset :: Mip_t
  t1_mipNum :: Mip_t
  t1_layerOffset :: Dim_t
  t1_layerNum :: Dim_t

record Texture2DViewDesc =
  tv_texture :: "nat option"
  tv_viewType :: nat
  tv_format :: nat
  tv_mipOffset :: Mip_t
  tv_mipNum :: Mip_t
  tv_layerOffset :: Dim_t
  tv_layerNum :: Dim_t

record Texture3DViewDesc =
  t3_texture :: "nat option"
  t3_viewType :: nat
  t3_format :: nat
  t3_mipOffset :: Mip_t
  t3_mipNum :: Mip_t
  t3_sliceOffset :: Dim_t
  t3_sliceNum :: Dim_t

text \<open>A C array argument: a pointer with a count. The pointer is null, or it points to
  \<open>count\<close> elements.\<close>

datatype 'a c_array = NullPtr nat | Elems "'a list"

fun count :: "'a c_array \<Rightarrow> nat" where
  "count (NullPtr n) = n"
| "count (Elems xs) = length xs"

subsection \<open>The proxies and the state\<close>

text \<open>
  Modelled from the spec: the proxy classes (\<^verbatim>\<open>BufferVal\<close>, \<^verbatim>\<open>TextureVal\<close>,
  \<^verbatim>\<open>AccelerationStructureVal\<close>, \<^verbatim>\<open>MemoryVal\<close>, \<^verbatim>\<open>PipelineLayoutVal\<close>) are defined outside the
  sources. A proxy wraps the backend object (\<open>impl\<close>); a resource has a bound-to-memory
  flag, which the last constructor argument initialises; a memory has a size (0 is unknown),
  a location and the resources bound to it; a texture answers \<^verbatim>\<open>GetDesc\<close>. The proxy of any
  other kind of object (swap chain, command queue, command allocator, command buffer,
  descriptor pool, pipeline, query pool, fence) is modelled by the backend object it wraps.
\<close>

record BufferVal =
  buf_impl :: nat
  buf_isBoundToMemory :: bool

record TextureVal =
  tex_impl :: nat
  tex_isBoundToMemory :: bool
  tex_desc :: TextureDesc

record AccelerationStructureVal =
  as_impl :: nat
  as_isBoundToMemory :: bool
  as_memoryDesc :: MemoryDesc

record MemoryVal =
  mem_impl :: nat
  mem_size :: "64 word"
  mem_location :: nat
  m_Buffers :: "nat list"
  m_Textures :: "nat list"
  m_AccelerationStructures :: "nat list"

text \<open>A descriptor proxy is built from the backend object and, for a view, from the view
  descriptor (the constructor calls of lines 272, 308, 349, 390 and 414).\<close>

datatype DescriptorDesc =
    BufferView BufferViewDesc
  | Texture1DView Texture1DViewDesc
  | Texture2DView Texture2DViewDesc
  | Texture3DView Texture3DViewDesc
  | Sampler

record DescriptorVal =
  desc_impl :: nat
  desc_desc :: DescriptorDesc

text \<open>The forwarded binding descriptors hold backend objects.\<close>

record BindingDescImpl =
  bi_memory :: nat
  bi_resource :: nat
  bi_offset :: "64 word"

text \<open>The calls that the file forwards to the backend, by function table. A destroy call
  names the backend object.\<close>

datatype CoreCall =
    Core_GetCommandQueue
  | Core_CreateCommandAllocator nat
  | Core_CreateDescriptorPool
  | Core_CreateBufferView
  | Core_CreateTexture1DView
  | Core_CreateTexture3DView
  | Core_CreateSampler
  | Core_CreateComputePipeline
  | Core_CreateQueryPool
  | Core_CreateFence
  | Core_DestroyCommandBuffer nat
  | Core_DestroyCommandAllocator nat
  | Core_DestroyDescriptorPool nat
  | Core_DestroyDescriptor nat
  | Core_DestroyPipelineLayout
  | Core_DestroyPipeline nat
  | Core_DestroyQueryPool nat
  | Core_DestroyFence nat
  | Core_GetFormatSupport nat
  | Core_SetDeviceDebugName

datatype SwapChainCall =
    SwapChain_CreateSwapChain nat
  | SwapChain_DestroySwapChain nat

datatype WrapperVKCall =
    WrapperVK_CreateCommandQueueVK
  | WrapperVK_CreateCommandAllocatorVK
  | WrapperVK_CreateCommandBufferVK
  | WrapperVK_CreateDescriptorPoolVK
  | WrapperVK_CreateTextureVK
  | WrapperVK_CreateGraphicsPipelineVK
  | WrapperVK_CreateComputePipelineVK
  | WrapperVK_CreateQueryPoolVK
  | WrapperVK_CreateAccelerationStructureVK

datatype WrapperD3D11Call =
    WrapperD3D11_CreateCommandBufferD3D11
  | WrapperD3D11_CreateBufferD3D11
  | WrapperD3D11_CreateTextureD3D11

datatype WrapperD3D12Call =
    WrapperD3D12_CreateCommandBufferD3D12
  | WrapperD3D12_CreateDescriptorPoolD3D12
  | WrapperD3D12_CreateBufferD3D12
  | WrapperD3D12_CreateTextureD3D12
  | WrapperD3D12_CreateMemoryD3D12
  | WrapperD3D12_CreateAccelerationStructureD3D12

datatype BackendCall =
    Core_CreateBuffer BufferDesc
  | Core_CreateTexture TextureDesc
  | Core_CreateTexture2DView
  | Core_CreatePipelineLayout
  | Core_CreateGraphicsPipeline
  | Core_AllocateMemory
  | Core_FreeMemory nat
  | Core_BindBufferMemory "BindingDescImpl list"
  | Core_BindTextureMemory "BindingDescImpl list"
  | Core_DestroyBuffer nat
  | Core_DestroyTexture nat
  | RayTracing_CreateAccelerationStructure
  | RayTracing_BindAccelerationStructureMemory "BindingDescImpl list"
  | ResourceAllocator_AllocateBuffer BufferDesc
  | ResourceAllocator_AllocateTexture TextureDesc
  | ResourceAllocator_AllocateAccelerationStructure
  | Helper_CalculateAllocationNumber
  | Helper_AllocateAndBindMemory
  | WrapperVK_CreateMemoryVK
  | WrapperVK_CreateBufferVK
  | CoreAPI CoreCall
  | SwapChainAPI SwapChainCall
  | WrapperVKAPI WrapperVKCall
  | WrapperD3D11API WrapperD3D11Call
  | WrapperD3D12API WrapperD3D12Call
  | Helper_QueryVideoMemoryInfo nat
  | RayTracing_CreateRayTracingPipeline
  | DeviceBase_GetDesc

record DescriptorRangeDesc =
  dr_descriptorNum :: "32 word"
  dr_descriptorType :: nat
  dr_shaderStages :: StageBits
  dr_isArray :: bool
  dr_isDescriptorNumVariable :: bool

record PipelineLayoutDesc =
  pl_descriptorSets :: "DescriptorRangeDesc list list"   \<comment> \<open>the ranges of each set\<close>
  pl_shaderStages :: StageBits

record DeviceVal =
  buffers :: "nat \<rightharpoonup> BufferVal"
  textures :: "nat \<rightharpoonup> TextureVal"
  accelerationStructures :: "nat \<rightharpoonup> AccelerationStructureVal"
  memories :: "nat \<rightharpoonup> MemoryVal"
  pipelineLayouts :: "nat \<rightharpoonup> PipelineLayoutDesc"
  descriptors :: "nat \<rightharpoonup> DescriptorVal"
  pipelines :: "nat \<rightharpoonup> nat"
  m_MemoryTypeMap :: "MemoryType \<rightharpoonup> nat"
  backendCalls :: "BackendCall list"
  reports :: nat
  swapChains :: "nat \<rightharpoonup> nat"
  commandQueues :: "nat \<rightharpoonup> nat"
  commandAllocators :: "nat \<rightharpoonup> nat"
  commandBuffers :: "nat \<rightharpoonup> nat"
  descriptorPools :: "nat \<rightharpoonup> nat"
  queryPools :: "nat \<rightharpoonup> nat"
  fences :: "nat \<rightharpoonup> nat"
  m_CommandQueues :: "nat \<rightharpoonup> nat"
  m_Name :: string

text \<open>\<^verbatim>\<open>REPORT_ERROR\<close> sends one message to the diagnostic callback.\<close>

definition REPORT_ERROR :: "DeviceVal \<Rightarrow> DeviceVal" where
  "REPORT_ERROR s = s\<lparr>reports := Suc (reports s)\<rparr>"

definition call_backend :: "BackendCall \<Rightarrow> DeviceVal \<Rightarrow> DeviceVal" where
  "call_backend c s = s\<lparr>backendCalls := backendCalls s @ [c]\<rparr>"

text \<open>A run of \<^verbatim>\<open>RETURN_ON_FAILURE(condition, result)\<close> lines: the result of the first
  line whose condition fails.\<close>

fun first_failure :: "(bool \<times> Result) list \<Rightarrow> Result option" where
  "first_failure [] = None"
| "first_failure ((ok, r) # cs) = (if ok then first_failure cs else Some r)"

text \<open>\<^verbatim>\<open>Allocate<T>\<close> builds a proxy at an address \<open>p\<close> chosen by the allocator; an allocator
  never hands out an address that is still in use.\<close>

definition Allocate :: "nat \<Rightarrow> (nat \<rightharpoonup> 'a) \<Rightarrow> 'a \<Rightarrow> (nat \<rightharpoonup> 'a) option" where
  "Allocate p store v = (case store p of None \<Rightarrow> Some (store(p \<mapsto> v)) | Some _ \<Rightarrow> None)"

subsection \<open>Textures\<close>

text \<open>\<^verbatim>\<open>GetMaxMipNum\<close> (lines 190 to 207): the loop, with the counter as accumulator.\<close>

function GetMaxMipNum_loop :: "16 word \<Rightarrow> 16 word \<Rightarrow> 16 word \<Rightarrow> Mip_t \<Rightarrow> Mip_t" where
  "GetMaxMipNum_loop w h d mipNum =
     (if w > 1 \<or> h > 1 \<or> d > 1
      then GetMaxMipNum_loop (if w > 1 then drop_bit 1 w else w)
                             (if h > 1 then drop_bit 1 h else h)
                             (if d > 1 then drop_bit 1 d else d)
                             (mipNum + 1)
      else mipNum)"
  by pat_completeness auto

lemma halve_unat: "unat (drop_bit (Suc 0) (x::16 word)) = unat x div 2"
  by (simp add: drop_bit_eq_div unat_div)

termination GetMaxMipNum_loop
  by (relation "measure (\<lambda>(w, h, d, m). unat w + unat h + unat d)")
     (auto simp: word_less_nat_alt halve_unat simp del: drop_bit_Suc)

declare GetMaxMipNum_loop.simps [simp del]

definition GetMaxMipNum :: "16 word \<Rightarrow> 16 word \<Rightarrow> 16 word \<Rightarrow> Mip_t" where
  "GetMaxMipNum w h d = GetMaxMipNum_loop w h d 1"

text \<open>\<^verbatim>\<open>DeviceVal::CreateTexture(const TextureDesc&, Texture*&)\<close> (lines 209 to 228). The
  arguments \<open>answer\<close> (the result and the object of the backend) and \<open>p\<close> (the address of
  the new proxy) are read only where the C++ reaches the backend call and \<^verbatim>\<open>Allocate\<close>.\<close>

definition CreateTexture_checks :: "NRIDescs \<Rightarrow> TextureDesc \<Rightarrow> Result option" where
  "CreateTexture_checks H textureDesc =
     (let maxMipNum = GetMaxMipNum (td_width textureDesc) (td_height textureDesc) (td_depth textureDesc) in
      first_failure
        [(td_format textureDesc > Format_UNKNOWN H \<and> td_format textureDesc < Format_MAX_NUM H, INVALID_ARGUMENT),
         (td_width textureDesc \<noteq> 0, INVALID_ARGUMENT),
         (td_height textureDesc \<noteq> 0, INVALID_ARGUMENT),
         (td_depth textureDesc \<noteq> 0, INVALID_ARGUMENT),
         (td_mipNum textureDesc \<noteq> 0, INVALID_ARGUMENT),
         (td_mipNum textureDesc \<le> maxMipNum, INVALID_ARGUMENT),
         (td_layerNum textureDesc \<noteq> 0, INVALID_ARGUMENT),
         (td_sampleNum textureDesc \<noteq> 0, INVALID_ARGUMENT)])"

definition CreateTexture ::
  "NRIDescs \<Rightarrow> Result \<times> nat \<Rightarrow> nat \<Rightarrow> TextureDesc \<Rightarrow> nat option \<Rightarrow> DeviceVal
     \<Rightarrow> (Result \<times> nat option \<times> DeviceVal) option" where
  "CreateTexture H answer p textureDesc texture s =
     (case CreateTexture_checks H textureDesc of
        Some r \<Rightarrow> Some (r, texture, REPORT_ERROR s)
      | None \<Rightarrow>
          (let s1 = call_backend (Core_CreateTexture textureDesc) s in
           if fst answer = SUCCESS
           then (case Allocate p (textures s1)
                        \<lparr>tex_impl = snd answer, tex_isBoundToMemory = False, tex_desc = textureDesc\<rparr> of
                   None \<Rightarrow> None
                 | Some ts \<Rightarrow> Some (SUCCESS, Some p, s1\<lparr>textures := ts\<rparr>))
           else Some (fst answer, texture, s1)))"

text \<open>Concrete values for the declarations and an empty device, used to evaluate the model.\<close>

definition example_descs :: NRIDescs where
  "example_descs =
     \<lparr>Format_UNKNOWN = 0, Format_BC1_RGBA_UNORM = 60, Format_MAX_NUM = 80,
      Texture2DViewType_MAX_NUM = 8, DescriptorType_MAX_NUM = 8,
      MemoryLocation_DEVICE = 0, MemoryLocation_MAX_NUM = 4,
      StageBits_ALL = 0, StageBits_NONE = 0x7FFFFFFF,
      VERTEX_SHADER = 2, MESH_CONTROL_SHADER = 32, GRAPHICS_SHADERS = 254,
      COMPUTE_SHADER = 1024, RAY_TRACING_SHADERS = 129024,
      Texture1DViewType_MAX_NUM = 6, Texture3DViewType_MAX_NUM = 4, BufferViewType_MAX_NUM = 4,
      SwapChainFormat_MAX_NUM = 4, CommandQueueType_MAX_NUM = 3, QueryType_MAX_NUM = 4,
      Filter_MAX_NUM = 2, FilterExt_NONE = 0, FilterExt_MAX_NUM = 3, AddressMode_MAX_NUM = 4,
      CompareFunc_MAX_NUM = 9, BorderColor_MAX_NUM = 3\<rparr>"

definition empty_device :: DeviceVal where
  "empty_device =
     \<lparr>buffers = Map.empty, textures = Map.empty, accelerationStructures = Map.empty,
      memories = Map.empty, pipelineLayouts = Map.empty, descriptors = Map.empty,
      pipelines = Map.empty, m_MemoryTypeMap = Map.empty, backendCalls = [], reports = 0,
      swapChains = Map.empty, commandQueues = Map.empty, commandAllocators = Map.empty,
      commandBuffers = Map.empty, descriptorPools = Map.empty, queryPools = Map.empty,
      fences = Map.empty, m_CommandQueues = Map.empty, m_Name = []\<rparr>"

text \<open>The bound as the specification words it: one more than the binary logarithm of the
  largest extent, rounded down.\<close>

definition max_mip_spec :: "TextureDesc \<Rightarrow> nat" where
  "max_mip_spec t =
     1 + nat \<lfloor>log 2 (real (max (unat (td_width t)) (max (unat (td_height t)) (unat (td_depth t)))))\<rfloor>"

subsection \<open>Texture views\<close>

text \<open>The two checks of the mip range (lines 322 to 330). The operands are promoted to
  \<^verbatim>\<open>int\<close>, so the sum is exact.\<close>

definition Texture2DView_mip_checks :: "Texture2DViewDesc \<Rightarrow> TextureDesc \<Rightarrow> Result option" where
  "Texture2DView_mip_checks textureViewDesc textureDesc =
     first_failure
       [(uint (tv_mipOffset textureViewDesc) < uint (td_mipNum textureDesc), INVALID_ARGUMENT),
        (uint (tv_mipOffset textureViewDesc) + uint (tv_mipNum textureViewDesc)
           \<le> uint (td_mipNum textureDesc), INVALID_ARGUMENT)]"

text \<open>The two checks of the layer range (lines 332 to 340).\<close>

definition Texture2DView_layer_checks :: "Texture2DViewDesc \<Rightarrow> TextureDesc \<Rightarrow> Result option" where
  "Texture2DView_layer_checks textureViewDesc textureDesc =
     first_failure
       [(uint (tv_layerOffset textureViewDesc) < uint (td_layerNum textureDesc), INVALID_ARGUMENT),
        (uint (tv_layerOffset textureViewDesc) + uint (tv_layerNum textureViewDesc)
           \<le> uint (td_layerNum textureDesc), INVALID_ARGUMENT)]"

text \<open>\<^verbatim>\<open>DeviceVal::CreateDescriptor(const Texture2DViewDesc&, Descriptor*&)\<close> (lines 313 to
  352). The descriptor of the parent is read through the texture pointer after the null
  check.\<close>

definition CreateDescriptor_Texture2DView ::
  "NRIDescs \<Rightarrow> Result \<times> nat \<Rightarrow> nat \<Rightarrow> Texture2DViewDesc \<Rightarrow> nat option \<Rightarrow> DeviceVal
     \<Rightarrow> (Result \<times> nat option \<times> DeviceVal) option" where
  "CreateDescriptor_Texture2DView H answer p textureViewDesc textureView s =
     (case tv_texture textureViewDesc of
        None \<Rightarrow> Some (INVALID_ARGUMENT, textureView, REPORT_ERROR s)
      | Some t \<Rightarrow>
          (case first_failure
                  [(tv_viewType textureViewDesc < Texture2DViewType_MAX_NUM H, INVALID_ARGUMENT),
                   (tv_format textureViewDesc > Format_UNKNOWN H
                      \<and> tv_format textureViewDesc < Format_MAX_NUM H, INVALID_ARGUMENT)] of
             Some r \<Rightarrow> Some (r, textureView, REPORT_ERROR s)
           | None \<Rightarrow>
               (case textures s t of
                  None \<Rightarrow> None
                | Some texture \<Rightarrow>
                    (case Texture2DView_mip_checks textureViewDesc (tex_desc texture) of
                       Some r \<Rightarrow> Some (r, textureView, REPORT_ERROR s)
                     | None \<Rightarrow>
                         (case Texture2DView_layer_checks textureViewDesc (tex_desc texture) of
                            Some r \<Rightarrow> Some (r, textureView, REPORT_ERROR s)
                          | None \<Rightarrow>
                              (let s1 = call_backend Core_CreateTexture2DView s in
                               if fst answer = SUCCESS
                               then (case Allocate p (descriptors s1)
                                            \<lparr>desc_impl = snd answer,
                                             desc_desc = Texture2DView textureViewDesc\<rparr> of
                                       None \<Rightarrow> None
                                     | Some ds \<Rightarrow> Some (SUCCESS, Some p, s1\<lparr>descriptors := ds\<rparr>))
                               else Some (fst answer, textureView, s1)))))))"

subsection \<open>Pipeline layouts\<close>

text \<open>The number of pipeline families a stage mask reaches (lines 419 to 422).\<close>

definition supportedTypes :: "NRIDescs \<Rightarrow> StageBits \<Rightarrow> nat" where
  "supportedTypes H shaderStages =
     (let isGraphics = (shaderStages AND GRAPHICS_SHADERS H \<noteq> 0);
          isCompute = (shaderStages AND COMPUTE_SHADER H \<noteq> 0);
          isRayTracing = (shaderStages AND RAY_TRACING_SHADERS H \<noteq> 0)
      in of_bool isGraphics + of_bool isCompute + of_bool isRayTracing)"

text \<open>The three checks of the stage mask (lines 424 to 427).\<close>

definition PipelineLayout_stage_checks :: "NRIDescs \<Rightarrow> StageBits \<Rightarrow> Result option" where
  "PipelineLayout_stage_checks H shaderStages =
     first_failure
       [(shaderStages \<noteq> StageBits_NONE H, INVALID_ARGUMENT),
        (supportedTypes H shaderStages > 0, INVALID_ARGUMENT),
        (supportedTypes H shaderStages = 1, INVALID_ARGUMENT)]"

text \<open>The checks of one descriptor range (lines 435 to 450), and of all ranges of all sets
  in the order of the two loops.\<close>

definition PipelineLayout_range_conditions ::
  "NRIDescs \<Rightarrow> StageBits \<Rightarrow> DescriptorRangeDesc \<Rightarrow> (bool \<times> Result) list" where
  "PipelineLayout_range_conditions H shaderStages r =
     [(\<not> dr_isDescriptorNumVariable r \<or> dr_isArray r, INVALID_ARGUMENT),
      (dr_descriptorNum r > 0, INVALID_ARGUMENT),
      (dr_descriptorType r < DescriptorType_MAX_NUM H, INVALID_ARGUMENT),
      (if dr_shaderStages r \<noteq> StageBits_ALL H
       then (let filteredVisibilityMask = dr_shaderStages r AND shaderStages
             in dr_shaderStages r = filteredVisibilityMask)
       else True, INVALID_ARGUMENT)]"

definition PipelineLayout_range_checks :: "NRIDescs \<Rightarrow> PipelineLayoutDesc \<Rightarrow> Result option" where
  "PipelineLayout_range_checks H pipelineLayoutDesc =
     first_failure
       (concat (map (\<lambda>descriptorSetDesc.
                  concat (map (PipelineLayout_range_conditions H (pl_shaderStages pipelineLayoutDesc))
                              descriptorSetDesc))
                (pl_descriptorSets pipelineLayoutDesc)))"

text \<open>\<^verbatim>\<open>DeviceVal::CreatePipelineLayout\<close> (lines 418 to 461). The proxy records the
  descriptor.\<close>

definition CreatePipelineLayout ::
  "NRIDescs \<Rightarrow> Result \<times> nat \<Rightarrow> nat \<Rightarrow> PipelineLayoutDesc \<Rightarrow> nat option \<Rightarrow> DeviceVal
     \<Rightarrow> (Result \<times> nat option \<times> DeviceVal) option" where
  "CreatePipelineLayout H answer p pipelineLayoutDesc pipelineLayout s =
     (case PipelineLayout_stage_checks H (pl_shaderStages pipelineLayoutDesc) of
        Some r \<Rightarrow> Some (r, pipelineLayout, REPORT_ERROR s)
      | None \<Rightarrow>
          (case PipelineLayout_range_checks H pipelineLayoutDesc of
             Some r \<Rightarrow> Some (r, pipelineLayout, REPORT_ERROR s)
           | None \<Rightarrow>
               (let s1 = call_backend Core_CreatePipelineLayout s in
                if fst answer = SUCCESS
                then (case Allocate p (pipelineLayouts s1) pipelineLayoutDesc of
                        None \<Rightarrow> None
                      | Some ls \<Rightarrow> Some (SUCCESS, Some p, s1\<lparr>pipelineLayouts := ls\<rparr>))
                else Some (fst answer, pipelineLayout, s1))))"

text \<open>A device holding one unbound texture with four mip levels, at address 1.\<close>

definition example_texture :: TextureVal where
  "example_texture =
     \<lparr>tex_impl = 11, tex_isBoundToMemory = False,
      tex_desc = \<lparr>td_format = 1, td_width = 8, td_height = 8, td_depth = 1, td_mipNum = 4,
                  td_layerNum = 1, td_sampleNum = 1\<rparr>\<rparr>"

definition device_with_texture :: DeviceVal where
  "device_with_texture = empty_device\<lparr>textures := [1 \<mapsto> example_texture]\<rparr>"

definition example_view :: "Mip_t \<Rightarrow> Mip_t \<Rightarrow> Texture2DViewDesc" where
  "example_view mipOffset mipNum =
     \<lparr>tv_texture = Some 1, tv_viewType = 0, tv_format = 1, tv_mipOffset = mipOffset,
      tv_mipNum = mipNum, tv_layerOffset = 0, tv_layerNum = 1\<rparr>"

text \<open>A pipeline layout descriptor with one descriptor set of one range, visible to all stages.\<close>

definition example_layout :: "StageBits \<Rightarrow> PipelineLayoutDesc" where
  "example_layout shaderStages =
     \<lparr>pl_descriptorSets =
        [[\<lparr>dr_descriptorNum = 1, dr_descriptorType = 0, dr_shaderStages = 0,
           dr_isArray = False, dr_isDescriptorNumVariable = False\<rparr>]],
      pl_shaderStages = shaderStages\<rparr>"

subsection \<open>Graphics pipelines\<close>

text \<open>\<^verbatim>\<open>IsShaderStageValid\<close> (lines 24 to 37). The loop counts the bits of \<open>x\<close> into \<open>n\<close>;
  the function returns its result together with the updated \<open>uniqueShaderStages\<close>.\<close>

function popcount_loop :: "32 word \<Rightarrow> 32 word \<Rightarrow> 32 word" where
  "popcount_loop x n = (if x \<noteq> 0 then popcount_loop (drop_bit 1 x) (n + (x AND 1)) else n)"
  by pat_completeness auto

termination popcount_loop
proof (relation "measure (\<lambda>(x, n). unat x)")
  show "wf (measure (\<lambda>(x::32 word, n::32 word). unat x))" by simp
next
  fix x n :: "32 word"
  assume "x \<noteq> 0"
  then have "0 < unat x" by (simp add: unat_gt_0)
  moreover have "unat (drop_bit 1 x) = unat x div 2"
    by (simp add: drop_bit_eq_div unat_div)
  ultimately show "((drop_bit 1 x, n + (x AND 1)), (x, n)) \<in> measure (\<lambda>(x, n). unat x)"
    by simp
qed

declare popcount_loop.simps [simp del]

definition IsShaderStageValid :: "StageBits \<Rightarrow> 32 word \<Rightarrow> StageBits \<Rightarrow> bool \<times> 32 word" where
  "IsShaderStageValid shaderStages uniqueShaderStages allowedStages =
     (let n = popcount_loop (shaderStages AND allowedStages) 0;
          x = shaderStages;
          isUnique = (uniqueShaderStages AND x = 0)
      in (n = 1 \<and> isUnique, uniqueShaderStages OR x))"

record ShaderDesc =
  sh_stage :: StageBits
  sh_bytecode :: "nat option"
  sh_size :: "64 word"

record VertexAttributeDesc =
  va_offset :: "32 word"
  va_format :: nat
  va_streamIndex :: nat

record VertexInputDesc =
  vi_attributes :: "VertexAttributeDesc list"
  vi_streams :: "32 word list"   \<comment> \<open>the stride of each stream\<close>

record GraphicsPipelineDesc =
  gp_pipelineLayout :: "nat option"
  gp_shaders :: "ShaderDesc c_array"
  gp_colorFormats :: "nat list"   \<comment> \<open>the formats of \<^verbatim>\<open>outputMerger.color\<close>\<close>
  gp_vertexInput :: "VertexInputDesc option"

text \<open>The loop over the shaders (lines 472 to 482), with \<open>hasEntryPoint\<close> and
  \<open>uniqueShaderStages\<close> as accumulators: the first failure, or the final \<open>hasEntryPoint\<close>.\<close>

fun GraphicsPipeline_shader_loop ::
  "NRIDescs \<Rightarrow> StageBits \<Rightarrow> ShaderDesc list \<Rightarrow> bool \<Rightarrow> 32 word \<Rightarrow> Result + bool" where
  "GraphicsPipeline_shader_loop H shaderStages [] hasEntryPoint uniqueShaderStages = Inr hasEntryPoint"
| "GraphicsPipeline_shader_loop H shaderStages (shaderDesc # rest) hasEntryPoint uniqueShaderStages =
     (let hasEntryPoint' =
            (if sh_stage shaderDesc = VERTEX_SHADER H \<or> sh_stage shaderDesc = MESH_CONTROL_SHADER H
             then True else hasEntryPoint);
          valid = IsShaderStageValid (sh_stage shaderDesc) uniqueShaderStages (GRAPHICS_SHADERS H)
      in case first_failure
                [(sh_stage shaderDesc AND shaderStages \<noteq> 0, INVALID_ARGUMENT),
                 (sh_bytecode shaderDesc \<noteq> None, INVALID_ARGUMENT),
                 (sh_size shaderDesc \<noteq> 0, INVALID_ARGUMENT),
                 (fst valid, INVALID_ARGUMENT)] of
           Some r \<Rightarrow> Inl r
         | None \<Rightarrow> GraphicsPipeline_shader_loop H shaderStages rest hasEntryPoint' (snd valid))"

text \<open>The loop over the vertex attributes (lines 491 to 497). \<^verbatim>\<open>GetFormatProps\<close> is defined
  outside the sources and is a parameter; an attribute that names a stream which does not
  exist reads out of bounds.\<close>

fun GraphicsPipeline_attribute_loop ::
  "(nat \<Rightarrow> 32 word) \<Rightarrow> 32 word list \<Rightarrow> VertexAttributeDesc list \<Rightarrow> Result option option" where
  "GraphicsPipeline_attribute_loop formatStride streams [] = Some None"
| "GraphicsPipeline_attribute_loop formatStride streams (attribute # rest) =
     (if va_streamIndex attribute < length streams
      then (let size = formatStride (va_format attribute);
                stride = streams ! va_streamIndex attribute
            in if va_offset attribute + size \<le> stride
               then GraphicsPipeline_attribute_loop formatStride streams rest
               else Some (Some INVALID_ARGUMENT))
      else None)"

text \<open>\<^verbatim>\<open>DeviceVal::CreatePipeline(const GraphicsPipelineDesc&, Pipeline*&)\<close> (lines 463 to
  510).\<close>

definition CreatePipeline_Graphics ::
  "NRIDescs \<Rightarrow> (nat \<Rightarrow> 32 word) \<Rightarrow> Result \<times> nat \<Rightarrow> nat \<Rightarrow> GraphicsPipelineDesc \<Rightarrow> nat option
     \<Rightarrow> DeviceVal \<Rightarrow> (Result \<times> nat option \<times> DeviceVal) option" where
  "CreatePipeline_Graphics H formatStride answer p graphicsPipelineDesc pipeline s =
     (case gp_pipelineLayout graphicsPipelineDesc of
        None \<Rightarrow> Some (INVALID_ARGUMENT, pipeline, REPORT_ERROR s)
      | Some l \<Rightarrow>
     (case gp_shaders graphicsPipelineDesc of
        NullPtr _ \<Rightarrow> Some (INVALID_ARGUMENT, pipeline, REPORT_ERROR s)
      | Elems shaders \<Rightarrow>
     if \<not> length shaders > 0 then Some (INVALID_ARGUMENT, pipeline, REPORT_ERROR s) else
     (case pipelineLayouts s l of
        None \<Rightarrow> None
      | Some pipelineLayoutDesc \<Rightarrow>
     (case GraphicsPipeline_shader_loop H (pl_shaderStages pipelineLayoutDesc) shaders False 0 of
        Inl r \<Rightarrow> Some (r, pipeline, REPORT_ERROR s)
      | Inr hasEntryPoint \<Rightarrow>
     if \<not> hasEntryPoint then Some (INVALID_ARGUMENT, pipeline, REPORT_ERROR s) else
     (case first_failure
             (map (\<lambda>format. (format > Format_UNKNOWN H \<and> format < Format_BC1_RGBA_UNORM H,
                              INVALID_ARGUMENT))
                  (gp_colorFormats graphicsPipelineDesc)) of
        Some r \<Rightarrow> Some (r, pipeline, REPORT_ERROR s)
      | None \<Rightarrow>
     (case (case gp_vertexInput graphicsPipelineDesc of
              None \<Rightarrow> Some None
            | Some vertexInput \<Rightarrow>
                GraphicsPipeline_attribute_loop formatStride (vi_streams vertexInput)
                  (vi_attributes vertexInput)) of
        None \<Rightarrow> None
      | Some (Some r) \<Rightarrow> Some (r, pipeline, REPORT_ERROR s)
      | Some None \<Rightarrow>
          (let s1 = call_backend Core_CreateGraphicsPipeline s in
           if fst answer = SUCCESS
           then (case Allocate p (pipelines s1) (snd answer) of
                   None \<Rightarrow> None
                 | Some ps \<Rightarrow> Some (SUCCESS, Some p, s1\<lparr>pipelines := ps\<rparr>))
           else Some (fst answer, pipeline, s1))))))))"

text \<open>The number of bits set in a stage mask.\<close>

definition popcount :: "32 word \<Rightarrow> nat" where
  "popcount x = length (filter (bit x) [0..<32])"

text \<open>No two shaders of the list have a stage bit in common.\<close>

fun disjoint_stages :: "ShaderDesc list \<Rightarrow> bool" where
  "disjoint_stages [] = True"
| "disjoint_stages (x # xs) = ((\<forall>y \<in> set xs. sh_stage x AND sh_stage y = 0) \<and> disjoint_stages xs)"

text \<open>A device holding one graphics pipeline layout at address 2, and pipeline descriptors
  over it.\<close>

definition device_with_layout :: DeviceVal where
  "device_with_layout = empty_device\<lparr>pipelineLayouts := [2 \<mapsto> example_layout 254]\<rparr>"

definition example_shader :: "StageBits \<Rightarrow> ShaderDesc" where
  "example_shader stage = \<lparr>sh_stage = stage, sh_bytecode = Some 77, sh_size = 16\<rparr>"

definition example_pipeline :: "ShaderDesc list \<Rightarrow> GraphicsPipelineDesc" where
  "example_pipeline shaders =
     \<lparr>gp_pipelineLayout = Some 2, gp_shaders = Elems shaders, gp_colorFormats = [1],
      gp_vertexInput = None\<rparr>"

subsection \<open>Buffers, acceleration structures and memory objects\<close>

text \<open>\<^verbatim>\<open>DeviceVal::CreateBuffer\<close> (lines 166 to 176) and \<^verbatim>\<open>DeviceVal::AllocateBuffer\<close> (lines 178
  to 188). The second creates the proxy with the bound flag set.\<close>

definition CreateBuffer ::
  "Result \<times> nat \<Rightarrow> nat \<Rightarrow> BufferDesc \<Rightarrow> nat option \<Rightarrow> DeviceVal
     \<Rightarrow> (Result \<times> nat option \<times> DeviceVal) option" where
  "CreateBuffer answer p bufferDesc buffer s =
     (case first_failure [(bd_size bufferDesc \<noteq> 0, INVALID_ARGUMENT)] of
        Some r \<Rightarrow> Some (r, buffer, REPORT_ERROR s)
      | None \<Rightarrow>
          (let s1 = call_backend (Core_CreateBuffer bufferDesc) s in
           if fst answer = SUCCESS
           then (case Allocate p (buffers s1)
                        \<lparr>buf_impl = snd answer, buf_isBoundToMemory = False\<rparr> of
                   None \<Rightarrow> None
                 | Some bs \<Rightarrow> Some (SUCCESS, Some p, s1\<lparr>buffers := bs\<rparr>))
           else Some (fst answer, buffer, s1)))"

definition AllocateBuffer ::
  "Result \<times> nat \<Rightarrow> nat \<Rightarrow> BufferDesc \<Rightarrow> nat option \<Rightarrow> DeviceVal
     \<Rightarrow> (Result \<times> nat option \<times> DeviceVal) option" where
  "AllocateBuffer answer p bufferDesc buffer s =
     (case first_failure [(bd_size bufferDesc \<noteq> 0, INVALID_ARGUMENT)] of
        Some r \<Rightarrow> Some (r, buffer, REPORT_ERROR s)
      | None \<Rightarrow>
          (let s1 = call_backend (ResourceAllocator_AllocateBuffer bufferDesc) s in
           if fst answer = SUCCESS
           then (case Allocate p (buffers s1)
                        \<lparr>buf_impl = snd answer, buf_isBoundToMemory = True\<rparr> of
                   None \<Rightarrow> None
                 | Some bs \<Rightarrow> Some (SUCCESS, Some p, s1\<lparr>buffers := bs\<rparr>))
           else Some (fst answer, buffer, s1)))"

text \<open>\<^verbatim>\<open>DeviceVal::AllocateTexture\<close> (lines 230 to 249) makes the checks of
  \<^verbatim>\<open>CreateTexture\<close> on \<^verbatim>\<open>textureDesc.desc\<close> and creates the proxy with the bound flag set.\<close>

definition AllocateTexture ::
  "NRIDescs \<Rightarrow> Result \<times> nat \<Rightarrow> nat \<Rightarrow> TextureDesc \<Rightarrow> nat option \<Rightarrow> DeviceVal
     \<Rightarrow> (Result \<times> nat option \<times> DeviceVal) option" where
  "AllocateTexture H answer p textureDesc texture s =
     (case CreateTexture_checks H textureDesc of
        Some r \<Rightarrow> Some (r, texture, REPORT_ERROR s)
      | None \<Rightarrow>
          (let s1 = call_backend (ResourceAllocator_AllocateTexture textureDesc) s in
           if fst answer = SUCCESS
           then (case Allocate p (textures s1)
                        \<lparr>tex_impl = snd answer, tex_isBoundToMemory = True, tex_desc = textureDesc\<rparr> of
                   None \<Rightarrow> None
                 | Some ts \<Rightarrow> Some (SUCCESS, Some p, s1\<lparr>textures := ts\<rparr>))
           else Some (fst answer, texture, s1)))"

text \<open>\<^verbatim>\<open>DeviceVal::CreateAccelerationStructure\<close> (lines 1129 to 1154) and
  \<^verbatim>\<open>DeviceVal::AllocateAccelerationStructure\<close> (lines 1156 to 1180). The conversion of the
  geometry objects changes only the forwarded descriptor. On success the backend is asked for
  the memory requirements, which the proxy keeps: \<open>answer\<close> holds the result, the object
  and these requirements.\<close>

record AccelerationStructureDesc =
  ad_instanceOrGeometryObjectNum :: "32 word"

definition CreateAccelerationStructure ::
  "Result \<times> nat \<times> MemoryDesc \<Rightarrow> nat \<Rightarrow> AccelerationStructureDesc \<Rightarrow> nat option \<Rightarrow> DeviceVal
     \<Rightarrow> (Result \<times> nat option \<times> DeviceVal) option" where
  "CreateAccelerationStructure answer p accelerationStructureDesc accelerationStructure s =
     (case first_failure
             [(ad_instanceOrGeometryObjectNum accelerationStructureDesc \<noteq> 0, INVALID_ARGUMENT)] of
        Some r \<Rightarrow> Some (r, accelerationStructure, REPORT_ERROR s)
      | None \<Rightarrow>
          (let s1 = call_backend RayTracing_CreateAccelerationStructure s in
           if fst answer = SUCCESS
           then (case Allocate p (accelerationStructures s1)
                        \<lparr>as_impl = fst (snd answer), as_isBoundToMemory = False,
                         as_memoryDesc = snd (snd answer)\<rparr> of
                   None \<Rightarrow> None
                 | Some as \<Rightarrow> Some (SUCCESS, Some p, s1\<lparr>accelerationStructures := as\<rparr>))
           else Some (fst answer, accelerationStructure, s1)))"

definition AllocateAccelerationStructure ::
  "Result \<times> nat \<times> MemoryDesc \<Rightarrow> nat \<Rightarrow> AccelerationStructureDesc \<Rightarrow> nat option \<Rightarrow> DeviceVal
     \<Rightarrow> (Result \<times> nat option \<times> DeviceVal) option" where
  "AllocateAccelerationStructure answer p accelerationStructureDesc accelerationStructure s =
     (case first_failure
             [(ad_instanceOrGeometryObjectNum accelerationStructureDesc \<noteq> 0, INVALID_ARGUMENT)] of
        Some r \<Rightarrow> Some (r, accelerationStructure, REPORT_ERROR s)
      | None \<Rightarrow>
          (let s1 = call_backend ResourceAllocator_AllocateAccelerationStructure s in
           if fst answer = SUCCESS
           then (case Allocate p (accelerationStructures s1)
                        \<lparr>as_impl = fst (snd answer), as_isBoundToMemory = True,
                         as_memoryDesc = snd (snd answer)\<rparr> of
                   None \<Rightarrow> None
                 | Some as \<Rightarrow> Some (SUCCESS, Some p, s1\<lparr>accelerationStructures := as\<rparr>))
           else Some (fst answer, accelerationStructure, s1)))"

text \<open>\<^verbatim>\<open>DeviceVal::AllocateMemory\<close> (lines 603 to 624). The priority is a \<^verbatim>\<open>float\<close>: \<open>None\<close>
  is a NaN, which fails both comparisons.\<close>

record AllocateMemoryDesc =
  am_size :: "64 word"
  am_type :: MemoryType
  am_priority :: "real option"

definition AllocateMemory ::
  "Result \<times> nat \<Rightarrow> nat \<Rightarrow> AllocateMemoryDesc \<Rightarrow> nat option \<Rightarrow> DeviceVal
     \<Rightarrow> (Result \<times> nat option \<times> DeviceVal) option" where
  "AllocateMemory answer p allocateMemoryDesc memory s =
     (case first_failure
             [(am_size allocateMemoryDesc > 0, INVALID_ARGUMENT),
              (case am_priority allocateMemoryDesc of
                 None \<Rightarrow> False
               | Some priority \<Rightarrow> priority \<ge> -1 \<and> priority \<le> 1, INVALID_ARGUMENT),
              (m_MemoryTypeMap s (am_type allocateMemoryDesc) \<noteq> None, FAILURE)] of
        Some r \<Rightarrow> Some (r, memory, REPORT_ERROR s)
      | None \<Rightarrow>
          (case m_MemoryTypeMap s (am_type allocateMemoryDesc) of
             None \<Rightarrow> None
           | Some memoryLocation \<Rightarrow>
               (let s1 = call_backend Core_AllocateMemory s in
                if fst answer = SUCCESS
                then (case Allocate p (memories s1)
                             \<lparr>mem_impl = snd answer, mem_size = am_size allocateMemoryDesc,
                              mem_location = memoryLocation, m_Buffers = [], m_Textures = [],
                              m_AccelerationStructures = []\<rparr> of
                        None \<Rightarrow> None
                      | Some ms \<Rightarrow> Some (SUCCESS, Some p, s1\<lparr>memories := ms\<rparr>))
                else Some (fst answer, memory, s1))))"

text \<open>\<^verbatim>\<open>DeviceVal::CreateMemory(const MemoryVKDesc&, Memory*&)\<close> (lines 826 to 837): a memory
  made from a native handle has the location \<^verbatim>\<open>MemoryLocation::MAX_NUM\<close>.\<close>

record MemoryVKDesc =
  mv_vkDeviceMemory :: nat
  mv_size :: "64 word"

definition CreateMemory_VK ::
  "NRIDescs \<Rightarrow> Result \<times> nat \<Rightarrow> nat \<Rightarrow> MemoryVKDesc \<Rightarrow> nat option \<Rightarrow> DeviceVal
     \<Rightarrow> (Result \<times> nat option \<times> DeviceVal) option" where
  "CreateMemory_VK H answer p memoryVKDesc memory s =
     (case first_failure
             [(mv_vkDeviceMemory memoryVKDesc \<noteq> 0, INVALID_ARGUMENT),
              (mv_size memoryVKDesc > 0, INVALID_ARGUMENT)] of
        Some r \<Rightarrow> Some (r, memory, REPORT_ERROR s)
      | None \<Rightarrow>
          (let s1 = call_backend WrapperVK_CreateMemoryVK s in
           if fst answer = SUCCESS
           then (case Allocate p (memories s1)
                        \<lparr>mem_impl = snd answer, mem_size = mv_size memoryVKDesc,
                         mem_location = MemoryLocation_MAX_NUM H, m_Buffers = [], m_Textures = [],
                         m_AccelerationStructures = []\<rparr> of
                   None \<Rightarrow> None
                 | Some ms \<Rightarrow> Some (SUCCESS, Some p, s1\<lparr>memories := ms\<rparr>))
           else Some (fst answer, memory, s1)))"

subsection \<open>Binding resources to memory\<close>

text \<open>The requirement queries of the backend are functions of the backend object of the
  resource (which stands for the descriptor that \<^verbatim>\<open>GetDesc\<close> reads from it) and of the
  memory location.\<close>

record BackendQueries =
  GetBufferMemoryDesc :: "nat \<Rightarrow> nat \<Rightarrow> MemoryDesc"
  GetTextureMemoryDesc :: "nat \<Rightarrow> nat \<Rightarrow> MemoryDesc"

record BufferMemoryBindingDesc =
  bb_memory :: "nat option"
  bb_buffer :: "nat option"
  bb_offset :: "64 word"

record TextureMemoryBindingDesc =
  tb_memory :: "nat option"
  tb_texture :: "nat option"
  tb_offset :: "64 word"

record AccelerationStructureMemoryBindingDesc =
  ab_memory :: "nat option"
  ab_accelerationStructure :: "nat option"
  ab_offset :: "64 word"

text \<open>
  Modelled from the spec: \<^verbatim>\<open>MemoryVal::BindBuffer\<close>, \<^verbatim>\<open>MemoryVal::BindTexture\<close>,
  \<^verbatim>\<open>MemoryVal::BindAccelerationStructure\<close> and \<^verbatim>\<open>SetBoundToMemory\<close> are defined outside the
  sources. On backend success the layer updates the bound flag of the resource and the
  bound-set of the memory: the resource is added to the set and its flag becomes true.
\<close>

definition BufferVal_SetBoundToMemory :: "nat \<Rightarrow> DeviceVal \<Rightarrow> DeviceVal option" where
  "BufferVal_SetBoundToMemory b s =
     (case buffers s b of
        None \<Rightarrow> None
      | Some buffer \<Rightarrow> Some (s\<lparr>buffers := (buffers s)(b \<mapsto> buffer\<lparr>buf_isBoundToMemory := True\<rparr>)\<rparr>))"

definition TextureVal_SetBoundToMemory :: "nat \<Rightarrow> DeviceVal \<Rightarrow> DeviceVal option" where
  "TextureVal_SetBoundToMemory t s =
     (case textures s t of
        None \<Rightarrow> None
      | Some texture \<Rightarrow> Some (s\<lparr>textures := (textures s)(t \<mapsto> texture\<lparr>tex_isBoundToMemory := True\<rparr>)\<rparr>))"

definition AccelerationStructureVal_SetBoundToMemory :: "nat \<Rightarrow> DeviceVal \<Rightarrow> DeviceVal option" where
  "AccelerationStructureVal_SetBoundToMemory a s =
     (case accelerationStructures s a of
        None \<Rightarrow> None
      | Some accelerationStructure \<Rightarrow>
          Some (s\<lparr>accelerationStructures :=
                    (accelerationStructures s)(a \<mapsto> accelerationStructure\<lparr>as_isBoundToMemory := True\<rparr>)\<rparr>))"

definition MemoryVal_BindBuffer :: "nat \<Rightarrow> nat \<Rightarrow> DeviceVal \<Rightarrow> DeviceVal option" where
  "MemoryVal_BindBuffer m b s =
     (case memories s m of
        None \<Rightarrow> None
      | Some memory \<Rightarrow>
          BufferVal_SetBoundToMemory b
            (s\<lparr>memories := (memories s)(m \<mapsto> memory\<lparr>m_Buffers := m_Buffers memory @ [b]\<rparr>)\<rparr>))"

definition MemoryVal_BindTexture :: "nat \<Rightarrow> nat \<Rightarrow> DeviceVal \<Rightarrow> DeviceVal option" where
  "MemoryVal_BindTexture m t s =
     (case memories s m of
        None \<Rightarrow> None
      | Some memory \<Rightarrow>
          TextureVal_SetBoundToMemory t
            (s\<lparr>memories := (memories s)(m \<mapsto> memory\<lparr>m_Textures := m_Textures memory @ [t]\<rparr>)\<rparr>))"

definition MemoryVal_BindAccelerationStructure :: "nat \<Rightarrow> nat \<Rightarrow> DeviceVal \<Rightarrow> DeviceVal option" where
  "MemoryVal_BindAccelerationStructure m a s =
     (case memories s m of
        None \<Rightarrow> None
      | Some memory \<Rightarrow>
          AccelerationStructureVal_SetBoundToMemory a
            (s\<lparr>memories := (memories s)
                   (m \<mapsto> memory\<lparr>m_AccelerationStructures := m_AccelerationStructures memory @ [a]\<rparr>)\<rparr>))"

text \<open>The body of the first loop of \<^verbatim>\<open>BindBufferMemory\<close> (lines 632 to 661) for one entry:
  the first failure, or the descriptor that is forwarded.\<close>

definition BindBufferMemory_entry ::
  "NRIDescs \<Rightarrow> BackendQueries \<Rightarrow> DeviceVal \<Rightarrow> BufferMemoryBindingDesc
     \<Rightarrow> (Result + BindingDescImpl) option" where
  "BindBufferMemory_entry H Q s srcDesc =
     (case bb_buffer srcDesc of
        None \<Rightarrow> Some (Inl INVALID_ARGUMENT)
      | Some b \<Rightarrow>
     (case bb_memory srcDesc of
        None \<Rightarrow> Some (Inl INVALID_ARGUMENT)
      | Some m \<Rightarrow>
     (case buffers s b of
        None \<Rightarrow> None
      | Some buffer \<Rightarrow>
     if buf_isBoundToMemory buffer then Some (Inl INVALID_ARGUMENT) else
     (case memories s m of
        None \<Rightarrow> None
      | Some memory \<Rightarrow>
     (let destDesc = \<lparr>bi_memory = mem_impl memory, bi_resource = buf_impl buffer,
                       bi_offset = bb_offset srcDesc\<rparr> in
      if mem_location memory = MemoryLocation_MAX_NUM H then Some (Inr destDesc) else
      (let memoryDesc = GetBufferMemoryDesc Q (buf_impl buffer) (mem_location memory);
           rangeMax = bb_offset srcDesc + md_size memoryDesc;
           memorySizeIsUnknown = (mem_size memory = 0)
       in case first_failure
                 [(\<not> md_mustBeDedicated memoryDesc \<or> bb_offset srcDesc = 0, INVALID_ARGUMENT),
                  (md_alignment memoryDesc \<noteq> 0, INVALID_ARGUMENT),
                  (bb_offset srcDesc mod md_alignment memoryDesc = 0, INVALID_ARGUMENT),
                  (memorySizeIsUnknown \<or> rangeMax \<le> mem_size memory, INVALID_ARGUMENT)] of
            Some r \<Rightarrow> Some (Inl r)
          | None \<Rightarrow> Some (Inr destDesc)))))))"

text \<open>The body of the first loop of \<^verbatim>\<open>BindTextureMemory\<close> (lines 682 to 711).\<close>

definition BindTextureMemory_entry ::
  "NRIDescs \<Rightarrow> BackendQueries \<Rightarrow> DeviceVal \<Rightarrow> TextureMemoryBindingDesc
     \<Rightarrow> (Result + BindingDescImpl) option" where
  "BindTextureMemory_entry H Q s srcDesc =
     (case tb_texture srcDesc of
        None \<Rightarrow> Some (Inl INVALID_ARGUMENT)
      | Some t \<Rightarrow>
     (case tb_memory srcDesc of
        None \<Rightarrow> Some (Inl INVALID_ARGUMENT)
      | Some m \<Rightarrow>
     (case textures s t of
        None \<Rightarrow> None
      | Some texture \<Rightarrow>
     if tex_isBoundToMemory texture then Some (Inl INVALID_ARGUMENT) else
     (case memories s m of
        None \<Rightarrow> None
      | Some memory \<Rightarrow>
     (let destDesc = \<lparr>bi_memory = mem_impl memory, bi_resource = tex_impl texture,
                       bi_offset = tb_offset srcDesc\<rparr> in
      if mem_location memory = MemoryLocation_MAX_NUM H then Some (Inr destDesc) else
      (let memoryDesc = GetTextureMemoryDesc Q (tex_impl texture) (mem_location memory);
           rangeMax = tb_offset srcDesc + md_size memoryDesc;
           memorySizeIsUnknown = (mem_size memory = 0)
       in case first_failure
                 [(\<not> md_mustBeDedicated memoryDesc \<or> tb_offset srcDesc = 0, INVALID_ARGUMENT),
                  (md_alignment memoryDesc \<noteq> 0, INVALID_ARGUMENT),
                  (tb_offset srcDesc mod md_alignment memoryDesc = 0, INVALID_ARGUMENT),
                  (memorySizeIsUnknown \<or> rangeMax \<le> mem_size memory, INVALID_ARGUMENT)] of
            Some r \<Rightarrow> Some (Inl r)
          | None \<Rightarrow> Some (Inr destDesc)))))))"

text \<open>The body of the first loop of \<^verbatim>\<open>BindAccelerationStructureMemory\<close> (lines 1187 to
  1206). The two pointers are dereferenced without a null check, and the requirements are
  those that the proxy recorded at creation. The memory object is first read for its size.\<close>

definition BindAccelerationStructureMemory_entry ::
  "DeviceVal \<Rightarrow> AccelerationStructureMemoryBindingDesc \<Rightarrow> (Result + BindingDescImpl) option" where
  "BindAccelerationStructureMemory_entry s srcDesc =
     (case ab_memory srcDesc of
        None \<Rightarrow> None
      | Some m \<Rightarrow>
     (case ab_accelerationStructure srcDesc of
        None \<Rightarrow> None
      | Some a \<Rightarrow>
     (case accelerationStructures s a of
        None \<Rightarrow> None
      | Some accelerationStructure \<Rightarrow>
     (let memoryDesc = as_memoryDesc accelerationStructure in
      case first_failure
             [(\<not> as_isBoundToMemory accelerationStructure, INVALID_ARGUMENT),
              (\<not> md_mustBeDedicated memoryDesc \<or> ab_offset srcDesc = 0, INVALID_ARGUMENT),
              (md_alignment memoryDesc \<noteq> 0, INVALID_ARGUMENT),
              (ab_offset srcDesc mod md_alignment memoryDesc = 0, INVALID_ARGUMENT)] of
        Some r \<Rightarrow> Some (Inl r)
      | None \<Rightarrow>
     (case memories s m of
        None \<Rightarrow> None
      | Some memory \<Rightarrow>
     (let rangeMax = ab_offset srcDesc + md_size memoryDesc;
          memorySizeIsUnknown = (mem_size memory = 0)
      in case first_failure
                [(memorySizeIsUnknown \<or> rangeMax \<le> mem_size memory, INVALID_ARGUMENT)] of
           Some r \<Rightarrow> Some (Inl r)
         | None \<Rightarrow>
             Some (Inr \<lparr>bi_memory = mem_impl memory, bi_resource = as_impl accelerationStructure,
                        bi_offset = ab_offset srcDesc\<rparr>)))))))"

text \<open>A validation loop over the entries of an array: it returns at the first entry that fails
  and otherwise collects what is forwarded for each entry. The state is only read.\<close>

fun validate_entries ::
  "('d \<Rightarrow> (Result + 'i) option) \<Rightarrow> 'd list \<Rightarrow> (Result + 'i list) option" where
  "validate_entries entry [] = Some (Inr [])"
| "validate_entries entry (srcDesc # rest) =
     (case entry srcDesc of
        None \<Rightarrow> None
      | Some (Inl r) \<Rightarrow> Some (Inl r)
      | Some (Inr destDesc) \<Rightarrow>
          (case validate_entries entry rest of
             None \<Rightarrow> None
           | Some (Inl r) \<Rightarrow> Some (Inl r)
           | Some (Inr destDescs) \<Rightarrow> Some (Inr (destDesc # destDescs))))"

text \<open>The loop after a successful backend call: one update per entry, in order.\<close>

fun for_each_entry :: "('d \<Rightarrow> DeviceVal \<Rightarrow> DeviceVal option) \<Rightarrow> 'd list \<Rightarrow> DeviceVal \<Rightarrow> DeviceVal option" where
  "for_each_entry f [] s = Some s"
| "for_each_entry f (d # rest) s =
     (case f d s of None \<Rightarrow> None | Some s' \<Rightarrow> for_each_entry f rest s')"

definition bind_buffer_entry :: "BufferMemoryBindingDesc \<Rightarrow> DeviceVal \<Rightarrow> DeviceVal option" where
  "bind_buffer_entry d s =
     (case (bb_memory d, bb_buffer d) of
        (Some m, Some b) \<Rightarrow> MemoryVal_BindBuffer m b s
      | _ \<Rightarrow> None)"

definition bind_texture_entry :: "TextureMemoryBindingDesc \<Rightarrow> DeviceVal \<Rightarrow> DeviceVal option" where
  "bind_texture_entry d s =
     (case (tb_memory d, tb_texture d) of
        (Some m, Some t) \<Rightarrow> MemoryVal_BindTexture m t s
      | _ \<Rightarrow> None)"

definition bind_acceleration_structure_entry ::
  "AccelerationStructureMemoryBindingDesc \<Rightarrow> DeviceVal \<Rightarrow> DeviceVal option" where
  "bind_acceleration_structure_entry d s =
     (case (ab_memory d, ab_accelerationStructure d) of
        (Some m, Some a) \<Rightarrow> MemoryVal_BindAccelerationStructure m a s
      | _ \<Rightarrow> None)"

text \<open>\<^verbatim>\<open>DeviceVal::BindBufferMemory\<close> (lines 626 to 674). \<open>answer\<close> is the result of the
  backend, read only when the backend is called.\<close>

definition BindBufferMemory ::
  "NRIDescs \<Rightarrow> BackendQueries \<Rightarrow> Result \<Rightarrow> BufferMemoryBindingDesc c_array \<Rightarrow> DeviceVal
     \<Rightarrow> (Result \<times> DeviceVal) option" where
  "BindBufferMemory H Q answer memoryBindingDescs s =
     (case memoryBindingDescs of
        NullPtr _ \<Rightarrow> Some (INVALID_ARGUMENT, REPORT_ERROR s)
      | Elems descs \<Rightarrow>
          (case validate_entries (BindBufferMemory_entry H Q s) descs of
             None \<Rightarrow> None
           | Some (Inl r) \<Rightarrow> Some (r, REPORT_ERROR s)
           | Some (Inr memoryBindingDescsImpl) \<Rightarrow>
               (let s1 = call_backend (Core_BindBufferMemory memoryBindingDescsImpl) s in
                if answer = SUCCESS
                then (case for_each_entry bind_buffer_entry descs s1 of
                        None \<Rightarrow> None
                      | Some s2 \<Rightarrow> Some (SUCCESS, s2))
                else Some (answer, s1))))"

text \<open>\<^verbatim>\<open>DeviceVal::BindTextureMemory\<close> (lines 676 to 724).\<close>

definition BindTextureMemory ::
  "NRIDescs \<Rightarrow> BackendQueries \<Rightarrow> Result \<Rightarrow> TextureMemoryBindingDesc c_array \<Rightarrow> DeviceVal
     \<Rightarrow> (Result \<times> DeviceVal) option" where
  "BindTextureMemory H Q answer memoryBindingDescs s =
     (case memoryBindingDescs of
        NullPtr _ \<Rightarrow> Some (INVALID_ARGUMENT, REPORT_ERROR s)
      | Elems descs \<Rightarrow>
          (case validate_entries (BindTextureMemory_entry H Q s) descs of
             None \<Rightarrow> None
           | Some (Inl r) \<Rightarrow> Some (r, REPORT_ERROR s)
           | Some (Inr memoryBindingDescsImpl) \<Rightarrow>
               (let s1 = call_backend (Core_BindTextureMemory memoryBindingDescsImpl) s in
                if answer = SUCCESS
                then (case for_each_entry bind_texture_entry descs s1 of
                        None \<Rightarrow> None
                      | Some s2 \<Rightarrow> Some (SUCCESS, s2))
                else Some (answer, s1))))"

text \<open>\<^verbatim>\<open>DeviceVal::BindAccelerationStructureMemory\<close> (lines 1182 to 1219).\<close>

definition BindAccelerationStructureMemory ::
  "Result \<Rightarrow> AccelerationStructureMemoryBindingDesc c_array \<Rightarrow> DeviceVal
     \<Rightarrow> (Result \<times> DeviceVal) option" where
  "BindAccelerationStructureMemory answer memoryBindingDescs s =
     (case memoryBindingDescs of
        NullPtr _ \<Rightarrow> Some (INVALID_ARGUMENT, REPORT_ERROR s)
      | Elems descs \<Rightarrow>
          (case validate_entries (BindAccelerationStructureMemory_entry s) descs of
             None \<Rightarrow> None
           | Some (Inl r) \<Rightarrow> Some (r, REPORT_ERROR s)
           | Some (Inr memoryBindingDescsImpl) \<Rightarrow>
               (let s1 = call_backend (RayTracing_BindAccelerationStructureMemory memoryBindingDescsImpl) s in
                if answer = SUCCESS
                then (case for_each_entry bind_acceleration_structure_entry descs s1 of
                        None \<Rightarrow> None
                      | Some s2 \<Rightarrow> Some (SUCCESS, s2))
                else Some (answer, s1))))"

text \<open>
  \<^verbatim>\<open>DeviceVal::FreeMemory\<close> (lines 726 to 737).
  Modelled from the spec: \<^verbatim>\<open>MemoryVal::HasBoundResources\<close> and
  \<^verbatim>\<open>MemoryVal::ReportBoundResources\<close> are defined outside the sources. The first says whether
  any resource remains in the bound-set; the second enumerates the bound-set to the diagnostic
  callback, one message for each resource.
\<close>

definition HasBoundResources :: "MemoryVal \<Rightarrow> bool" where
  "HasBoundResources memory =
     (m_Buffers memory \<noteq> [] \<or> m_Textures memory \<noteq> [] \<or> m_AccelerationStructures memory \<noteq> [])"

definition ReportBoundResources :: "MemoryVal \<Rightarrow> DeviceVal \<Rightarrow> DeviceVal" where
  "ReportBoundResources memory s =
     s\<lparr>reports := reports s + length (m_Buffers memory) + length (m_Textures memory)
                    + length (m_AccelerationStructures memory)\<rparr>"

definition FreeMemory :: "nat \<Rightarrow> DeviceVal \<Rightarrow> DeviceVal option" where
  "FreeMemory m s =
     (case memories s m of
        None \<Rightarrow> None
      | Some memoryVal \<Rightarrow>
          if HasBoundResources memoryVal
          then Some (REPORT_ERROR (ReportBoundResources memoryVal s))
          else Some ((call_backend (Core_FreeMemory (mem_impl memoryVal)) s)
                       \<lparr>memories := (memories s)(m := None)\<rparr>))"

text \<open>A backend that asks 512 bytes aligned to 256 for every resource, and a device holding an
  unbound buffer (address 1, backend object 11), an unbound texture (address 3), an unbound
  acceleration structure (address 4) and two memory objects of 1024 bytes: one at a known
  location (address 2), one made from a native handle (address 5).\<close>

definition example_requirements :: MemoryDesc where
  "example_requirements = \<lparr>md_size = 512, md_alignment = 256, md_mustBeDedicated = False\<rparr>"

definition example_queries :: BackendQueries where
  "example_queries =
     \<lparr>GetBufferMemoryDesc = (\<lambda>_ _. example_requirements),
      GetTextureMemoryDesc = (\<lambda>_ _. example_requirements)\<rparr>"

definition example_memory :: "nat \<Rightarrow> MemoryVal" where
  "example_memory location =
     \<lparr>mem_impl = 12, mem_size = 1024, mem_location = location, m_Buffers = [], m_Textures = [],
      m_AccelerationStructures = []\<rparr>"

definition device_with_resources :: DeviceVal where
  "device_with_resources =
     empty_device
       \<lparr>buffers := [1 \<mapsto> \<lparr>buf_impl = 11, buf_isBoundToMemory = False\<rparr>],
        textures := [3 \<mapsto> example_texture],
        accelerationStructures :=
          [4 \<mapsto> \<lparr>as_impl = 14, as_isBoundToMemory = False, as_memoryDesc = example_requirements\<rparr>],
        memories := [2 \<mapsto> example_memory 0, 5 \<mapsto> example_memory 4]\<rparr>"

definition example_buffer_binding :: "nat \<Rightarrow> 64 word \<Rightarrow> BufferMemoryBindingDesc" where
  "example_buffer_binding m offset = \<lparr>bb_memory = Some m, bb_buffer = Some 1, bb_offset = offset\<rparr>"

definition example_texture_binding :: "nat \<Rightarrow> 64 word \<Rightarrow> TextureMemoryBindingDesc" where
  "example_texture_binding m offset = \<lparr>tb_memory = Some m, tb_texture = Some 3, tb_offset = offset\<rparr>"

definition example_as_binding :: "nat \<Rightarrow> 64 word \<Rightarrow> AccelerationStructureMemoryBindingDesc" where
  "example_as_binding m offset =
     \<lparr>ab_memory = Some m, ab_accelerationStructure = Some 4, ab_offset = offset\<rparr>"

text \<open>Two states with the same resource and memory proxies: no bound flag and no bound-set
  differs.\<close>

definition same_bindings :: "DeviceVal \<Rightarrow> DeviceVal \<Rightarrow> bool" where
  "same_bindings s s' \<longleftrightarrow>
     buffers s' = buffers s \<and> textures s' = textures s
     \<and> accelerationStructures s' = accelerationStructures s \<and> memories s' = memories s"

text \<open>The entry's resource is recorded as bound to the entry's memory.\<close>

definition buffer_entry_bound :: "DeviceVal \<Rightarrow> BufferMemoryBindingDesc \<Rightarrow> bool" where
  "buffer_entry_bound s d =
     (case (bb_memory d, bb_buffer d) of
        (Some m, Some b) \<Rightarrow>
          (case (memories s m, buffers s b) of
             (Some memory, Some buffer) \<Rightarrow> buf_isBoundToMemory buffer \<and> b \<in> set (m_Buffers memory)
           | _ \<Rightarrow> False)
      | _ \<Rightarrow> False)"

definition texture_entry_bound :: "DeviceVal \<Rightarrow> TextureMemoryBindingDesc \<Rightarrow> bool" where
  "texture_entry_bound s d =
     (case (tb_memory d, tb_texture d) of
        (Some m, Some t) \<Rightarrow>
          (case (memories s m, textures s t) of
             (Some memory, Some texture) \<Rightarrow> tex_isBoundToMemory texture \<and> t \<in> set (m_Textures memory)
           | _ \<Rightarrow> False)
      | _ \<Rightarrow> False)"

definition acceleration_structure_entry_bound ::
  "DeviceVal \<Rightarrow> AccelerationStructureMemoryBindingDesc \<Rightarrow> bool" where
  "acceleration_structure_entry_bound s d =
     (case (ab_memory d, ab_accelerationStructure d) of
        (Some m, Some a) \<Rightarrow>
          (case (memories s m, accelerationStructures s a) of
             (Some memory, Some accelerationStructure) \<Rightarrow>
               as_isBoundToMemory accelerationStructure \<and> a \<in> set (m_AccelerationStructures memory)
           | _ \<Rightarrow> False)
      | _ \<Rightarrow> False)"

text \<open>The pointers of an entry are null or point to live proxies.\<close>

definition buffer_entry_live :: "DeviceVal \<Rightarrow> BufferMemoryBindingDesc \<Rightarrow> bool" where
  "buffer_entry_live s d \<longleftrightarrow>
     (case bb_buffer d of None \<Rightarrow> True | Some b \<Rightarrow> buffers s b \<noteq> None)
     \<and> (case bb_memory d of None \<Rightarrow> True | Some m \<Rightarrow> memories s m \<noteq> None)"

definition texture_entry_live :: "DeviceVal \<Rightarrow> TextureMemoryBindingDesc \<Rightarrow> bool" where
  "texture_entry_live s d \<longleftrightarrow>
     (case tb_texture d of None \<Rightarrow> True | Some t \<Rightarrow> textures s t \<noteq> None)
     \<and> (case tb_memory d of None \<Rightarrow> True | Some m \<Rightarrow> memories s m \<noteq> None)"

text \<open>The pointers of an entry point to live proxies.\<close>

definition acceleration_structure_entry_live ::
  "DeviceVal \<Rightarrow> AccelerationStructureMemoryBindingDesc \<Rightarrow> bool" where
  "acceleration_structure_entry_live s d \<longleftrightarrow>
     (case ab_accelerationStructure d of None \<Rightarrow> False | Some a \<Rightarrow> accelerationStructures s a \<noteq> None)
     \<and> (case ab_memory d of None \<Rightarrow> False | Some m \<Rightarrow> memories s m \<noteq> None)"

subsection \<open>The validation of one binding, as the specification describes it\<close>

text \<open>Steps 4 and 5 of the algorithm of the specification: the requirement checks. A memory
  size of zero is unknown and taken as large enough.\<close>

definition requirement_checks :: "MemoryDesc \<Rightarrow> 64 word \<Rightarrow> 64 word \<Rightarrow> bool" where
  "requirement_checks requirements memorySize offset \<longleftrightarrow>
     (md_mustBeDedicated requirements \<longrightarrow> offset = 0)
     \<and> md_alignment requirements \<noteq> 0
     \<and> offset mod md_alignment requirements = 0
     \<and> (memorySize \<noteq> 0 \<longrightarrow> offset + md_size requirements \<le> memorySize)"

text \<open>Steps 1 to 5 for one entry. \<open>resources\<close> gives the bound flag and the backend object
  of a live resource, \<open>requirement\<close> is the requirement query of the resource kind.\<close>

definition spec_validate_entry ::
  "NRIDescs \<Rightarrow> (nat \<rightharpoonup> bool \<times> nat) \<Rightarrow> (nat \<rightharpoonup> MemoryVal) \<Rightarrow> (nat \<Rightarrow> nat \<Rightarrow> MemoryDesc)
     \<Rightarrow> nat option \<Rightarrow> nat option \<Rightarrow> 64 word \<Rightarrow> (Result + BindingDescImpl) option" where
  "spec_validate_entry H resources mems requirement resource memory offset =
     (case resource of
        None \<Rightarrow> Some (Inl INVALID_ARGUMENT)
      | Some r \<Rightarrow>
     (case memory of
        None \<Rightarrow> Some (Inl INVALID_ARGUMENT)
      | Some m \<Rightarrow>
     (case resources r of
        None \<Rightarrow> None
      | Some (bound, impl) \<Rightarrow>
     if bound then Some (Inl INVALID_ARGUMENT) else
     (case mems m of
        None \<Rightarrow> None
      | Some mv \<Rightarrow>
     if mem_location mv = MemoryLocation_MAX_NUM H
        \<or> requirement_checks (requirement impl (mem_location mv)) (mem_size mv) offset
     then Some (Inr \<lparr>bi_memory = mem_impl mv, bi_resource = impl, bi_offset = offset\<rparr>)
     else Some (Inl INVALID_ARGUMENT)))))"

definition buffer_view :: "DeviceVal \<Rightarrow> nat \<rightharpoonup> bool \<times> nat" where
  "buffer_view s = map_option (\<lambda>b. (buf_isBoundToMemory b, buf_impl b)) \<circ> buffers s"

definition texture_view :: "DeviceVal \<Rightarrow> nat \<rightharpoonup> bool \<times> nat" where
  "texture_view s = map_option (\<lambda>t. (tex_isBoundToMemory t, tex_impl t)) \<circ> textures s"

definition acceleration_structure_view :: "DeviceVal \<Rightarrow> nat \<rightharpoonup> bool \<times> nat" where
  "acceleration_structure_view s =
     map_option (\<lambda>a. (as_isBoundToMemory a, as_impl a)) \<circ> accelerationStructures s"

subsection \<open>Allocating and binding memory for a group of resources\<close>

record ResourceGroupDesc =
  rg_memoryLocation :: nat
  rg_buffers :: "nat option c_array"
  rg_textures :: "nat option c_array"

fun elems :: "'a c_array \<Rightarrow> 'a list" where
  "elems (NullPtr n) = []"
| "elems (Elems xs) = xs"

fun is_null :: "'a c_array \<Rightarrow> bool" where
  "is_null (NullPtr n) = True"
| "is_null (Elems xs) = False"

text \<open>The body of the loops that translate the resource pointers (lines 1022 to 1027 and
  1053 to 1058): a null entry fails, a live one gives the backend object.\<close>

definition GetImpl_entry :: "(nat \<rightharpoonup> 'a) \<Rightarrow> ('a \<Rightarrow> nat) \<Rightarrow> nat option \<Rightarrow> (Result + nat) option" where
  "GetImpl_entry store impl pointer =
     (case pointer of
        None \<Rightarrow> Some (Inl INVALID_ARGUMENT)
      | Some h \<Rightarrow> (case store h of None \<Rightarrow> None | Some v \<Rightarrow> Some (Inr (impl v))))"

text \<open>\<^verbatim>\<open>DeviceVal::CalculateAllocationNumber\<close> (lines 1015 to 1043). It returns 0 when a check
  fails; otherwise it forwards the call to the helper of the backend and returns the number
  \<open>helperAnswer\<close> that the helper answers.\<close>

definition CalculateAllocationNumber ::
  "NRIDescs \<Rightarrow> nat \<Rightarrow> ResourceGroupDesc \<Rightarrow> DeviceVal \<Rightarrow> (nat \<times> DeviceVal) option" where
  "CalculateAllocationNumber H helperAnswer resourceGroupDesc s =
     (case first_failure
             [(rg_memoryLocation resourceGroupDesc < MemoryLocation_MAX_NUM H, INVALID_ARGUMENT),
              (count (rg_buffers resourceGroupDesc) = 0 \<or> \<not> is_null (rg_buffers resourceGroupDesc),
               INVALID_ARGUMENT),
              (count (rg_textures resourceGroupDesc) = 0 \<or> \<not> is_null (rg_textures resourceGroupDesc),
               INVALID_ARGUMENT)] of
        Some r \<Rightarrow> Some (0, REPORT_ERROR s)
      | None \<Rightarrow>
     (case validate_entries (GetImpl_entry (buffers s) buf_impl) (elems (rg_buffers resourceGroupDesc)) of
        None \<Rightarrow> None
      | Some (Inl r) \<Rightarrow> Some (0, REPORT_ERROR s)
      | Some (Inr buffersImpl) \<Rightarrow>
     (case validate_entries (GetImpl_entry (textures s) tex_impl) (elems (rg_textures resourceGroupDesc)) of
        None \<Rightarrow> None
      | Some (Inl r) \<Rightarrow> Some (0, REPORT_ERROR s)
      | Some (Inr texturesImpl) \<Rightarrow>
          Some (helperAnswer, call_backend Helper_CalculateAllocationNumber s))))"

text \<open>The last loop of \<^verbatim>\<open>AllocateAndBindMemory\<close> (lines 1088 and 1089): each of the first
  \<open>allocationNum\<close> slots of the array is replaced by a new memory proxy that wraps the handle
  found there; the proxies get the addresses \<open>ps\<close>. A null handle is kept as 0.\<close>

fun wrap_allocations ::
  "nat \<Rightarrow> nat \<Rightarrow> nat list \<Rightarrow> nat option list \<Rightarrow> DeviceVal \<Rightarrow> (nat option list \<times> DeviceVal) option" where
  "wrap_allocations memoryLocation i [] allocations s = Some (allocations, s)"
| "wrap_allocations memoryLocation i (p # ps) allocations s =
     (if i < length allocations
      then (case Allocate p (memories s)
                   \<lparr>mem_impl = (case allocations ! i of None \<Rightarrow> 0 | Some impl \<Rightarrow> impl),
                    mem_size = 0, mem_location = memoryLocation, m_Buffers = [], m_Textures = [],
                    m_AccelerationStructures = []\<rparr> of
              None \<Rightarrow> None
            | Some ms \<Rightarrow>
                wrap_allocations memoryLocation (Suc i) ps (allocations[i := Some p])
                  (s\<lparr>memories := ms\<rparr>))
      else None)"

definition SetBoundToMemory_buffer_entry :: "nat option \<Rightarrow> DeviceVal \<Rightarrow> DeviceVal option" where
  "SetBoundToMemory_buffer_entry pointer s =
     (case pointer of None \<Rightarrow> None | Some b \<Rightarrow> BufferVal_SetBoundToMemory b s)"

definition SetBoundToMemory_texture_entry :: "nat option \<Rightarrow> DeviceVal \<Rightarrow> DeviceVal option" where
  "SetBoundToMemory_texture_entry pointer s =
     (case pointer of None \<Rightarrow> None | Some t \<Rightarrow> TextureVal_SetBoundToMemory t s)"

text \<open>\<^verbatim>\<open>DeviceVal::AllocateAndBindMemory\<close> (lines 1045 to 1093). \<open>allocations\<close> is the array
  of the caller (\<open>None\<close> is a null pointer). The backend receives that array itself:
  \<open>answer\<close> holds its result and the handles that it stored there, from index 0 on.
  \<open>helperAnswer\<close> is what the backend helper answers to \<^verbatim>\<open>CalculateAllocationNumber\<close>, and
  \<open>ps\<close> are the addresses of the new memory proxies, one for each allocation.\<close>

definition AllocateAndBindMemory ::
  "NRIDescs \<Rightarrow> nat \<Rightarrow> Result \<times> nat option list \<Rightarrow> nat list \<Rightarrow> ResourceGroupDesc
     \<Rightarrow> nat option list option \<Rightarrow> DeviceVal
     \<Rightarrow> (Result \<times> nat option list option \<times> DeviceVal) option" where
  "AllocateAndBindMemory H helperAnswer answer ps resourceGroupDesc allocations s =
     (case allocations of
        None \<Rightarrow> Some (INVALID_ARGUMENT, None, REPORT_ERROR s)
      | Some array \<Rightarrow>
     (case first_failure
             [(rg_memoryLocation resourceGroupDesc < MemoryLocation_MAX_NUM H, INVALID_ARGUMENT),
              (count (rg_buffers resourceGroupDesc) = 0 \<or> \<not> is_null (rg_buffers resourceGroupDesc),
               INVALID_ARGUMENT),
              (count (rg_textures resourceGroupDesc) = 0 \<or> \<not> is_null (rg_textures resourceGroupDesc),
               INVALID_ARGUMENT)] of
        Some r \<Rightarrow> Some (r, Some array, REPORT_ERROR s)
      | None \<Rightarrow>
     (case validate_entries (GetImpl_entry (buffers s) buf_impl) (elems (rg_buffers resourceGroupDesc)) of
        None \<Rightarrow> None
      | Some (Inl r) \<Rightarrow> Some (r, Some array, REPORT_ERROR s)
      | Some (Inr buffersImpl) \<Rightarrow>
     (case validate_entries (GetImpl_entry (textures s) tex_impl) (elems (rg_textures resourceGroupDesc)) of
        None \<Rightarrow> None
      | Some (Inl r) \<Rightarrow> Some (r, Some array, REPORT_ERROR s)
      | Some (Inr texturesImpl) \<Rightarrow>
     (case CalculateAllocationNumber H helperAnswer resourceGroupDesc s of
        None \<Rightarrow> None
      | Some (allocationNum, s0) \<Rightarrow>
     (let s1 = call_backend Helper_AllocateAndBindMemory s0 in
      if length (snd answer) > length array then None else
      (let array1 = snd answer @ drop (length (snd answer)) array in
       if fst answer = SUCCESS
       then (case for_each_entry SetBoundToMemory_buffer_entry (elems (rg_buffers resourceGroupDesc)) s1 of
               None \<Rightarrow> None
             | Some s2 \<Rightarrow>
            (case for_each_entry SetBoundToMemory_texture_entry (elems (rg_textures resourceGroupDesc)) s2 of
               None \<Rightarrow> None
             | Some s3 \<Rightarrow>
            if length ps \<noteq> allocationNum then None else
            (case wrap_allocations (rg_memoryLocation resourceGroupDesc) 0 ps array1 s3 of
               None \<Rightarrow> None
             | Some (array2, s4) \<Rightarrow> Some (SUCCESS, Some array2, s4))))
       else Some (fst answer, Some array1, s1))))))))"

subsection \<open>Wrapped native buffers and destruction\<close>

text \<open>\<^verbatim>\<open>DeviceVal::CreateBuffer(const BufferVKDesc&, Buffer*&)\<close> (lines 797 to 808): the proxy
  of a native buffer is created with the bound flag set.\<close>

record BufferVKDesc =
  bv_vkBuffer :: nat
  bv_size :: "64 word"

definition CreateBuffer_VK ::
  "Result \<times> nat \<Rightarrow> nat \<Rightarrow> BufferVKDesc \<Rightarrow> nat option \<Rightarrow> DeviceVal
     \<Rightarrow> (Result \<times> nat option \<times> DeviceVal) option" where
  "CreateBuffer_VK answer p bufferDesc buffer s =
     (case first_failure
             [(bv_vkBuffer bufferDesc \<noteq> 0, INVALID_ARGUMENT),
              (bv_size bufferDesc > 0, INVALID_ARGUMENT)] of
        Some r \<Rightarrow> Some (r, buffer, REPORT_ERROR s)
      | None \<Rightarrow>
          (let s1 = call_backend WrapperVK_CreateBufferVK s in
           if fst answer = SUCCESS
           then (case Allocate p (buffers s1)
                        \<lparr>buf_impl = snd answer, buf_isBoundToMemory = True\<rparr> of
                   None \<Rightarrow> None
                 | Some bs \<Rightarrow> Some (SUCCESS, Some p, s1\<lparr>buffers := bs\<rparr>))
           else Some (fst answer, buffer, s1)))"

text \<open>
  \<^verbatim>\<open>DeviceVal::DestroyBuffer\<close> (lines 568 to 571), \<^verbatim>\<open>DeviceVal::DestroyTexture\<close> (lines 573 to
  576) and \<^verbatim>\<open>DeviceVal::DestroyAccelerationStructure\<close> (lines 1221 to 1223, which makes no
  backend call itself).
  Modelled from the spec: the destructors of the proxies are defined outside the sources.
  Destroying a bound resource is how it leaves the bound-set of its memory.
\<close>

definition unbind_everywhere ::
  "(MemoryVal \<Rightarrow> MemoryVal) \<Rightarrow> (nat \<rightharpoonup> MemoryVal) \<Rightarrow> (nat \<rightharpoonup> MemoryVal)" where
  "unbind_everywhere f mems = (\<lambda>m. map_option f (mems m))"

definition DestroyBuffer :: "nat \<Rightarrow> DeviceVal \<Rightarrow> DeviceVal option" where
  "DestroyBuffer b s =
     (case buffers s b of
        None \<Rightarrow> None
      | Some buffer \<Rightarrow>
          Some ((call_backend (Core_DestroyBuffer (buf_impl buffer)) s)
                  \<lparr>buffers := (buffers s)(b := None),
                   memories := unbind_everywhere
                     (\<lambda>memory. memory\<lparr>m_Buffers := removeAll b (m_Buffers memory)\<rparr>) (memories s)\<rparr>))"

definition DestroyTexture :: "nat \<Rightarrow> DeviceVal \<Rightarrow> DeviceVal option" where
  "DestroyTexture t s =
     (case textures s t of
        None \<Rightarrow> None
      | Some texture \<Rightarrow>
          Some ((call_backend (Core_DestroyTexture (tex_impl texture)) s)
                  \<lparr>textures := (textures s)(t := None),
                   memories := unbind_everywhere
                     (\<lambda>memory. memory\<lparr>m_Textures := removeAll t (m_Textures memory)\<rparr>) (memories s)\<rparr>))"

definition DestroyAccelerationStructure :: "nat \<Rightarrow> DeviceVal \<Rightarrow> DeviceVal option" where
  "DestroyAccelerationStructure a s =
     (case accelerationStructures s a of
        None \<Rightarrow> None
      | Some accelerationStructure \<Rightarrow>
          Some (s\<lparr>accelerationStructures := (accelerationStructures s)(a := None),
                  memories := unbind_everywhere
                    (\<lambda>memory. memory\<lparr>m_AccelerationStructures :=
                                 removeAll a (m_AccelerationStructures memory)\<rparr>) (memories s)\<rparr>))"

text \<open>\<^verbatim>\<open>DeviceVal::RegisterMemoryType\<close> (lines 89 to 92).\<close>

definition RegisterMemoryType :: "MemoryType \<Rightarrow> nat \<Rightarrow> DeviceVal \<Rightarrow> DeviceVal" where
  "RegisterMemoryType memoryType memoryLocation s =
     s\<lparr>m_MemoryTypeMap := (m_MemoryTypeMap s)(memoryType \<mapsto> memoryLocation)\<rparr>"

subsection \<open>Swap chains, command queues, command allocators, descriptor pools, query pools and fences\<close>

record SwapChainDesc =
  sc_commandQueue :: "nat option"
  sc_width :: Dim_t
  sc_height :: Dim_t
  sc_textureNum :: "8 word"
  sc_format :: nat

text \<open>\<^verbatim>\<open>DeviceVal::CreateSwapChain\<close> (lines 94 to 111). The command queue proxy is read after the
  checks (\<^verbatim>\<open>NRI_GET_IMPL\<close>).\<close>

definition CreateSwapChain ::
  "NRIDescs \<Rightarrow> Result \<times> nat \<Rightarrow> nat \<Rightarrow> SwapChainDesc \<Rightarrow> nat option \<Rightarrow> DeviceVal
     \<Rightarrow> (Result \<times> nat option \<times> DeviceVal) option" where
  "CreateSwapChain H answer p swapChainDesc swapChain s =
     (case sc_commandQueue swapChainDesc of
        None \<Rightarrow> Some (INVALID_ARGUMENT, swapChain, REPORT_ERROR s)
      | Some q \<Rightarrow>
     (case first_failure
             [(sc_width swapChainDesc \<noteq> 0, INVALID_ARGUMENT),
              (sc_height swapChainDesc \<noteq> 0, INVALID_ARGUMENT),
              (sc_textureNum swapChainDesc > 0, INVALID_ARGUMENT),
              (sc_format swapChainDesc < SwapChainFormat_MAX_NUM H, INVALID_ARGUMENT)] of
        Some r \<Rightarrow> Some (r, swapChain, REPORT_ERROR s)
      | None \<Rightarrow>
     (case commandQueues s q of
        None \<Rightarrow> None
      | Some commandQueueImpl \<Rightarrow>
     (let s1 = call_backend (SwapChainAPI (SwapChain_CreateSwapChain commandQueueImpl)) s in
      if fst answer = SUCCESS
      then (case Allocate p (swapChains s1) (snd answer) of
              None \<Rightarrow> None
            | Some st \<Rightarrow> Some (SUCCESS, Some p, s1\<lparr>swapChains := st\<rparr>))
      else Some (fst answer, swapChain, s1)))))"

text \<open>\<^verbatim>\<open>DeviceVal::DestroySwapChain\<close> (lines 113 to 116).\<close>

definition DestroySwapChain :: "nat \<Rightarrow> DeviceVal \<Rightarrow> DeviceVal option" where
  "DestroySwapChain h s =
     (case swapChains s h of
        None \<Rightarrow> None
      | Some proxy \<Rightarrow>
          Some ((call_backend (SwapChainAPI (SwapChain_DestroySwapChain proxy)) s)\<lparr>swapChains := (swapChains s)(h := None)\<rparr>))"

text \<open>\<^verbatim>\<open>DeviceVal::SetDebugName\<close> (lines 118 to 121) and \<^verbatim>\<open>DeviceVal::GetDesc\<close> (lines 123 to 125),
  which asks the backend device.\<close>

definition SetDebugName :: "string \<Rightarrow> DeviceVal \<Rightarrow> DeviceVal" where
  "SetDebugName name s = call_backend (CoreAPI Core_SetDeviceDebugName) (s\<lparr>m_Name := name\<rparr>)"

definition GetDesc :: "DeviceVal \<Rightarrow> DeviceVal" where
  "GetDesc s = call_backend DeviceBase_GetDesc s"

text \<open>\<^verbatim>\<open>DeviceVal::GetCommandQueue\<close> (lines 127 to 142). The device keeps one proxy for each queue
  type in \<^verbatim>\<open>m_CommandQueues\<close>: it is created by the first successful call for the type, and
  every successful call hands out the proxy kept there.\<close>

definition GetCommandQueue ::
  "NRIDescs \<Rightarrow> Result \<times> nat \<Rightarrow> nat \<Rightarrow> nat \<Rightarrow> nat option \<Rightarrow> DeviceVal
     \<Rightarrow> (Result \<times> nat option \<times> DeviceVal) option" where
  "GetCommandQueue H answer p commandQueueType commandQueue s =
     (case first_failure
             [(commandQueueType < CommandQueueType_MAX_NUM H, INVALID_ARGUMENT)] of
        Some r \<Rightarrow> Some (r, commandQueue, REPORT_ERROR s)
      | None \<Rightarrow>
     (let s1 = call_backend (CoreAPI Core_GetCommandQueue) s in
      if fst answer = SUCCESS
      then (case m_CommandQueues s1 commandQueueType of
              Some q \<Rightarrow> Some (SUCCESS, Some q, s1)
            | None \<Rightarrow>
                (case Allocate p (commandQueues s1) (snd answer) of
                   None \<Rightarrow> None
                 | Some st \<Rightarrow>
                     Some (SUCCESS, Some p,
                           s1\<lparr>commandQueues := st,
                              m_CommandQueues := (m_CommandQueues s1)(commandQueueType \<mapsto> p)\<rparr>)))
      else Some (fst answer, commandQueue, s1)))"

text \<open>\<^verbatim>\<open>DeviceVal::CreateCommandAllocator(const CommandQueue&, CommandAllocator*&)\<close> (lines 144 to
  154). The queue is passed by reference: \<open>commandQueue\<close> is the address of its proxy.\<close>

definition CreateCommandAllocator ::
  "nat \<Rightarrow> Result \<times> nat \<Rightarrow> nat \<Rightarrow> nat option \<Rightarrow> DeviceVal
     \<Rightarrow> (Result \<times> nat option \<times> DeviceVal) option" where
  "CreateCommandAllocator commandQueue answer p commandAllocator s =
     (case commandQueues s commandQueue of
        None \<Rightarrow> None
      | Some commandQueueImpl \<Rightarrow>
     (let s1 = call_backend (CoreAPI (Core_CreateCommandAllocator commandQueueImpl)) s in
      if fst answer = SUCCESS
      then (case Allocate p (commandAllocators s1) (snd answer) of
              None \<Rightarrow> None
            | Some st \<Rightarrow> Some (SUCCESS, Some p, s1\<lparr>commandAllocators := st\<rparr>))
      else Some (fst answer, commandAllocator, s1)))"

text \<open>\<^verbatim>\<open>DeviceVal::CreateDescriptorPool(const DescriptorPoolDesc&, DescriptorPool*&)\<close> (lines 156 to
  164). The descriptor is only passed on.\<close>

definition CreateDescriptorPool ::
  "Result \<times> nat \<Rightarrow> nat \<Rightarrow> nat option \<Rightarrow> DeviceVal
     \<Rightarrow> (Result \<times> nat option \<times> DeviceVal) option" where
  "CreateDescriptorPool answer p descriptorPool s =
     (let s1 = call_backend (CoreAPI Core_CreateDescriptorPool) s in
      if fst answer = SUCCESS
      then (case Allocate p (descriptorPools s1) (snd answer) of
              None \<Rightarrow> None
            | Some st \<Rightarrow> Some (SUCCESS, Some p, s1\<lparr>descriptorPools := st\<rparr>))
      else Some (fst answer, descriptorPool, s1))"

record QueryPoolDesc =
  qp_queryType :: nat
  qp_capacity :: "32 word"

text \<open>\<^verbatim>\<open>DeviceVal::CreateQueryPool(const QueryPoolDesc&, QueryPool*&)\<close> (lines 530 to 541).\<close>

definition CreateQueryPool ::
  "NRIDescs \<Rightarrow> Result \<times> nat \<Rightarrow> nat \<Rightarrow> QueryPoolDesc \<Rightarrow> nat option \<Rightarrow> DeviceVal
     \<Rightarrow> (Result \<times> nat option \<times> DeviceVal) option" where
  "CreateQueryPool H answer p queryPoolDesc queryPool s =
     (case first_failure
             [(qp_queryType queryPoolDesc < QueryType_MAX_NUM H, INVALID_ARGUMENT),
              (qp_capacity queryPoolDesc > 0, INVALID_ARGUMENT)] of
        Some r \<Rightarrow> Some (r, queryPool, REPORT_ERROR s)
      | None \<Rightarrow>
     (let s1 = call_backend (CoreAPI Core_CreateQueryPool) s in
      if fst answer = SUCCESS
      then (case Allocate p (queryPools s1) (snd answer) of
              None \<Rightarrow> None
            | Some st \<Rightarrow> Some (SUCCESS, Some p, s1\<lparr>queryPools := st\<rparr>))
      else Some (fst answer, queryPool, s1)))"

text \<open>\<^verbatim>\<open>DeviceVal::CreateFence\<close> (lines 543 to 551). The initial value is only passed on.\<close>

definition CreateFence ::
  "Result \<times> nat \<Rightarrow> nat \<Rightarrow> nat option \<Rightarrow> DeviceVal
     \<Rightarrow> (Result \<times> nat option \<times> DeviceVal) option" where
  "CreateFence answer p fence s =
     (let s1 = call_backend (CoreAPI Core_CreateFence) s in
      if fst answer = SUCCESS
      then (case Allocate p (fences s1) (snd answer) of
              None \<Rightarrow> None
            | Some st \<Rightarrow> Some (SUCCESS, Some p, s1\<lparr>fences := st\<rparr>))
      else Some (fst answer, fence, s1))"

subsection \<open>Buffer views, the other texture views and samplers\<close>

text \<open>\<^verbatim>\<open>DeviceVal::CreateDescriptor(const BufferViewDesc&, Descriptor*&)\<close> (lines 251 to 275).
  \<open>bufferDesc\<close> is what \<^verbatim>\<open>GetDesc\<close> of the buffer proxy answers; the sum of the second range
  check is computed in \<^verbatim>\<open>uint64_t\<close>.\<close>

definition CreateDescriptor_BufferView ::
  "NRIDescs \<Rightarrow> BufferDesc \<Rightarrow> Result \<times> nat \<Rightarrow> nat \<Rightarrow> BufferViewDesc \<Rightarrow> nat option \<Rightarrow> DeviceVal
     \<Rightarrow> (Result \<times> nat option \<times> DeviceVal) option" where
  "CreateDescriptor_BufferView H bufferDesc answer p bufferViewDesc bufferView s =
     (case bvd_buffer bufferViewDesc of
        None \<Rightarrow> Some (INVALID_ARGUMENT, bufferView, REPORT_ERROR s)
      | Some b \<Rightarrow>
     (case first_failure
             [(bvd_format bufferViewDesc < Format_MAX_NUM H, INVALID_ARGUMENT),
              (bvd_viewType bufferViewDesc < BufferViewType_MAX_NUM H, INVALID_ARGUMENT)] of
        Some r \<Rightarrow> Some (r, bufferView, REPORT_ERROR s)
      | None \<Rightarrow>
     (case buffers s b of
        None \<Rightarrow> None
      | Some buffer \<Rightarrow>
     (case first_failure
             [(bvd_offset bufferViewDesc < bd_size bufferDesc, INVALID_ARGUMENT),
              (bvd_offset bufferViewDesc + bvd_size bufferViewDesc \<le> bd_size bufferDesc, INVALID_ARGUMENT)] of
        Some r \<Rightarrow> Some (r, bufferView, REPORT_ERROR s)
      | None \<Rightarrow>
     (let s1 = call_backend (CoreAPI Core_CreateBufferView) s in
      if fst answer = SUCCESS
      then (case Allocate p (descriptors s1) \<lparr>desc_impl = snd answer, desc_desc = BufferView bufferViewDesc\<rparr> of
              None \<Rightarrow> None
            | Some st \<Rightarrow> Some (SUCCESS, Some p, s1\<lparr>descriptors := st\<rparr>))
      else Some (fst answer, bufferView, s1))))))"

text \<open>The checks of the mip range (lines 286 to 291) and of the layer range (lines 293 to 299) of
  a 1D view. The operands are promoted to \<^verbatim>\<open>int\<close>, so the sums are exact.\<close>

definition Texture1DView_mip_checks :: "Texture1DViewDesc \<Rightarrow> TextureDesc \<Rightarrow> Result option" where
  "Texture1DView_mip_checks textureViewDesc textureDesc =
     first_failure
       [(uint (t1_mipOffset textureViewDesc) < uint (td_mipNum textureDesc), INVALID_ARGUMENT),
        (uint (t1_mipOffset textureViewDesc) + uint (t1_mipNum textureViewDesc)
           \<le> uint (td_mipNum textureDesc), INVALID_ARGUMENT)]"

definition Texture1DView_layer_checks :: "Texture1DViewDesc \<Rightarrow> TextureDesc \<Rightarrow> Result option" where
  "Texture1DView_layer_checks textureViewDesc textureDesc =
     first_failure
       [(uint (t1_layerOffset textureViewDesc) < uint (td_layerNum textureDesc), INVALID_ARGUMENT),
        (uint (t1_layerOffset textureViewDesc) + uint (t1_layerNum textureViewDesc)
           \<le> uint (td_layerNum textureDesc), INVALID_ARGUMENT)]"

text \<open>\<^verbatim>\<open>DeviceVal::CreateDescriptor(const Texture1DViewDesc&, Descriptor*&)\<close> (lines 277 to 311).\<close>

definition CreateDescriptor_Texture1DView ::
  "NRIDescs \<Rightarrow> Result \<times> nat \<Rightarrow> nat \<Rightarrow> Texture1DViewDesc \<Rightarrow> nat option \<Rightarrow> DeviceVal
     \<Rightarrow> (Result \<times> nat option \<times> DeviceVal) option" where
  "CreateDescriptor_Texture1DView H answer p textureViewDesc textureView s =
     (case t1_texture textureViewDesc of
        None \<Rightarrow> Some (INVALID_ARGUMENT, textureView, REPORT_ERROR s)
      | Some t \<Rightarrow>
     (case first_failure
             [(t1_viewType textureViewDesc < Texture1DViewType_MAX_NUM H, INVALID_ARGUMENT),
              (t1_format textureViewDesc > Format_UNKNOWN H
                \<and> t1_format textureViewDesc < Format_MAX_NUM H, INVALID_ARGUMENT)] of
        Some r \<Rightarrow> Some (r, textureView, REPORT_ERROR s)
      | None \<Rightarrow>
     (case textures s t of
        None \<Rightarrow> None
      | Some texture \<Rightarrow>
     (case Texture1DView_mip_checks textureViewDesc (tex_desc texture) of
        Some r \<Rightarrow> Some (r, textureView, REPORT_ERROR s)
      | None \<Rightarrow>
     (case Texture1DView_layer_checks textureViewDesc (tex_desc texture) of
        Some r \<Rightarrow> Some (r, textureView, REPORT_ERROR s)
      | None \<Rightarrow>
     (let s1 = call_backend (CoreAPI Core_CreateTexture1DView) s in
      if fst answer = SUCCESS
      then (case Allocate p (descriptors s1) \<lparr>desc_impl = snd answer, desc_desc = Texture1DView textureViewDesc\<rparr> of
              None \<Rightarrow> None
            | Some st \<Rightarrow> Some (SUCCESS, Some p, s1\<lparr>descriptors := st\<rparr>))
      else Some (fst answer, textureView, s1)))))))"

text \<open>The checks of the mip range (lines 363 to 371) and of the slice range (lines 373 to 381) of
  a 3D view. The operands are promoted to \<^verbatim>\<open>int\<close>, so the sums are exact.\<close>

definition Texture3DView_mip_checks :: "Texture3DViewDesc \<Rightarrow> TextureDesc \<Rightarrow> Result option" where
  "Texture3DView_mip_checks textureViewDesc textureDesc =
     first_failure
       [(uint (t3_mipOffset textureViewDesc) < uint (td_mipNum textureDesc), INVALID_ARGUMENT),
        (uint (t3_mipOffset textureViewDesc) + uint (t3_mipNum textureViewDesc)
           \<le> uint (td_mipNum textureDesc), INVALID_ARGUMENT)]"

definition Texture3DView_slice_checks :: "Texture3DViewDesc \<Rightarrow> TextureDesc \<Rightarrow> Result option" where
  "Texture3DView_slice_checks textureViewDesc textureDesc =
     first_failure
       [(uint (t3_sliceOffset textureViewDesc) < uint (td_depth textureDesc), INVALID_ARGUMENT),
        (uint (t3_sliceOffset textureViewDesc) + uint (t3_sliceNum textureViewDesc)
           \<le> uint (td_depth textureDesc), INVALID_ARGUMENT)]"

text \<open>\<^verbatim>\<open>DeviceVal::CreateDescriptor(const Texture3DViewDesc&, Descriptor*&)\<close> (lines 354 to 393).\<close>

definition CreateDescriptor_Texture3DView ::
  "NRIDescs \<Rightarrow> Result \<times> nat \<Rightarrow> nat \<Rightarrow> Texture3DViewDesc \<Rightarrow> nat option \<Rightarrow> DeviceVal
     \<Rightarrow> (Result \<times> nat option \<times> DeviceVal) option" where
  "CreateDescriptor_Texture3DView H answer p textureViewDesc textureView s =
     (case t3_texture textureViewDesc of
        None \<Rightarrow> Some (INVALID_ARGUMENT, textureView, REPORT_ERROR s)
      | Some t \<Rightarrow>
     (case first_failure
             [(t3_viewType textureViewDesc < Texture3DViewType_MAX_NUM H, INVALID_ARGUMENT),
              (t3_format textureViewDesc > Format_UNKNOWN H
                \<and> t3_format textureViewDesc < Format_MAX_NUM H, INVALID_ARGUMENT)] of
        Some r \<Rightarrow> Some (r, textureView, REPORT_ERROR s)
      | None \<Rightarrow>
     (case textures s t of
        None \<Rightarrow> None
      | Some texture \<Rightarrow>
     (case Texture3DView_mip_checks textureViewDesc (tex_desc texture) of
        Some r \<Rightarrow> Some (r, textureView, REPORT_ERROR s)
      | None \<Rightarrow>
     (case Texture3DView_slice_checks textureViewDesc (tex_desc texture) of
        Some r \<Rightarrow> Some (r, textureView, REPORT_ERROR s)
      | None \<Rightarrow>
     (let s1 = call_backend (CoreAPI Core_CreateTexture3DView) s in
      if fst answer = SUCCESS
      then (case Allocate p (descriptors s1) \<lparr>desc_impl = snd answer, desc_desc = Texture3DView textureViewDesc\<rparr> of
              None \<Rightarrow> None
            | Some st \<Rightarrow> Some (SUCCESS, Some p, s1\<lparr>descriptors := st\<rparr>))
      else Some (fst answer, textureView, s1)))))))"

record SamplerDesc =
  smp_filters_mag :: nat
  smp_filters_min :: nat
  smp_filters_mip :: nat
  smp_filters_ext :: nat
  smp_addressModes_u :: nat
  smp_addressModes_v :: nat
  smp_addressModes_w :: nat
  smp_compareFunc :: nat
  smp_borderColor :: nat

text \<open>\<^verbatim>\<open>DeviceVal::CreateDescriptor(const SamplerDesc&, Descriptor*&)\<close> (lines 395 to 416).
  \<open>isTextureFilterMinMaxSupported\<close> is what the device descriptor of the backend says.\<close>

definition CreateDescriptor_Sampler ::
  "NRIDescs \<Rightarrow> bool \<Rightarrow> Result \<times> nat \<Rightarrow> nat \<Rightarrow> SamplerDesc \<Rightarrow> nat option \<Rightarrow> DeviceVal
     \<Rightarrow> (Result \<times> nat option \<times> DeviceVal) option" where
  "CreateDescriptor_Sampler H isTextureFilterMinMaxSupported answer p samplerDesc sampler s =
     (case first_failure
             [(smp_filters_mag samplerDesc < Filter_MAX_NUM H, INVALID_ARGUMENT),
              (smp_filters_min samplerDesc < Filter_MAX_NUM H, INVALID_ARGUMENT),
              (smp_filters_mip samplerDesc < Filter_MAX_NUM H, INVALID_ARGUMENT),
              (smp_filters_ext samplerDesc < FilterExt_MAX_NUM H, INVALID_ARGUMENT),
              (smp_addressModes_u samplerDesc < AddressMode_MAX_NUM H, INVALID_ARGUMENT),
              (smp_addressModes_v samplerDesc < AddressMode_MAX_NUM H, INVALID_ARGUMENT),
              (smp_addressModes_w samplerDesc < AddressMode_MAX_NUM H, INVALID_ARGUMENT),
              (smp_compareFunc samplerDesc < CompareFunc_MAX_NUM H, INVALID_ARGUMENT),
              (smp_borderColor samplerDesc < BorderColor_MAX_NUM H, INVALID_ARGUMENT)] of
        Some r \<Rightarrow> Some (r, sampler, REPORT_ERROR s)
      | None \<Rightarrow>
     (if \<not> isTextureFilterMinMaxSupported \<and> \<not> smp_filters_ext samplerDesc = FilterExt_NONE H
      then Some (INVALID_ARGUMENT, sampler, REPORT_ERROR s)
      else
     (let s1 = call_backend (CoreAPI Core_CreateSampler) s in
      if fst answer = SUCCESS
      then (case Allocate p (descriptors s1) \<lparr>desc_impl = snd answer, desc_desc = Sampler\<rparr> of
              None \<Rightarrow> None
            | Some st \<Rightarrow> Some (SUCCESS, Some p, s1\<lparr>descriptors := st\<rparr>))
      else Some (fst answer, sampler, s1))))"

subsection \<open>Compute and ray tracing pipelines\<close>

record ComputePipelineDesc =
  cp_pipelineLayout :: "nat option"
  cp_shader :: ShaderDesc

text \<open>\<^verbatim>\<open>DeviceVal::CreatePipeline(const ComputePipelineDesc&, Pipeline*&)\<close> (lines 512 to 528).\<close>

definition CreatePipeline_Compute ::
  "NRIDescs \<Rightarrow> Result \<times> nat \<Rightarrow> nat \<Rightarrow> ComputePipelineDesc \<Rightarrow> nat option \<Rightarrow> DeviceVal
     \<Rightarrow> (Result \<times> nat option \<times> DeviceVal) option" where
  "CreatePipeline_Compute H answer p computePipelineDesc pipeline s =
     (case cp_pipelineLayout computePipelineDesc of
        None \<Rightarrow> Some (INVALID_ARGUMENT, pipeline, REPORT_ERROR s)
      | Some l \<Rightarrow>
     (case first_failure
             [(sh_size (cp_shader computePipelineDesc) \<noteq> 0, INVALID_ARGUMENT),
              (sh_bytecode (cp_shader computePipelineDesc) \<noteq> None, INVALID_ARGUMENT),
              (sh_stage (cp_shader computePipelineDesc) = COMPUTE_SHADER H, INVALID_ARGUMENT)] of
        Some r \<Rightarrow> Some (r, pipeline, REPORT_ERROR s)
      | None \<Rightarrow>
     (case pipelineLayouts s l of
        None \<Rightarrow> None
      | Some pipelineLayoutDesc \<Rightarrow>
     (let s1 = call_backend (CoreAPI Core_CreateComputePipeline) s in
      if fst answer = SUCCESS
      then (case Allocate p (pipelines s1) (snd answer) of
              None \<Rightarrow> None
            | Some st \<Rightarrow> Some (SUCCESS, Some p, s1\<lparr>pipelines := st\<rparr>))
      else Some (fst answer, pipeline, s1)))))"

record RayTracingPipelineDesc =
  rt_pipelineLayout :: "nat option"
  rt_shaderLibrary :: "ShaderDesc c_array option"
  rt_shaderGroupDescs :: "nat c_array"
  rt_recursionDepthMax :: "32 word"

text \<open>The shaders that the loop of lines 1107 to 1115 reads: with a count of 0 the loop does not
  run; a null array with a positive count is read through a null pointer.\<close>

fun library_shaders :: "ShaderDesc c_array \<Rightarrow> ShaderDesc list option" where
  "library_shaders (NullPtr n) = (if n = 0 then Some [] else None)"
| "library_shaders (Elems shaders) = Some shaders"

text \<open>The loop over the shaders of the library, with \<open>uniqueShaderStages\<close> as accumulator: the
  first failure, if any.\<close>

fun RayTracingPipeline_shader_loop :: "NRIDescs \<Rightarrow> ShaderDesc list \<Rightarrow> 32 word \<Rightarrow> Result option" where
  "RayTracingPipeline_shader_loop H [] uniqueShaderStages = None"
| "RayTracingPipeline_shader_loop H (shaderDesc # rest) uniqueShaderStages =
     (let valid = IsShaderStageValid (sh_stage shaderDesc) uniqueShaderStages (RAY_TRACING_SHADERS H)
      in case first_failure
                [(sh_bytecode shaderDesc \<noteq> None, INVALID_ARGUMENT),
                 (sh_size shaderDesc \<noteq> 0, INVALID_ARGUMENT),
                 (fst valid, INVALID_ARGUMENT)] of
           Some r \<Rightarrow> Some r
         | None \<Rightarrow> RayTracingPipeline_shader_loop H rest (snd valid))"

text \<open>\<^verbatim>\<open>DeviceVal::CreatePipeline(const RayTracingPipelineDesc&, Pipeline*&)\<close> (lines 1099 to
  1127). The shader library is a pointer to an array with its count; reading a shader through
  a null array is undefined.\<close>

definition CreatePipeline_RayTracing ::
  "NRIDescs \<Rightarrow> Result \<times> nat \<Rightarrow> nat \<Rightarrow> RayTracingPipelineDesc \<Rightarrow> nat option \<Rightarrow> DeviceVal
     \<Rightarrow> (Result \<times> nat option \<times> DeviceVal) option" where
  "CreatePipeline_RayTracing H answer p pipelineDesc pipeline s =
     (case rt_pipelineLayout pipelineDesc of
        None \<Rightarrow> Some (INVALID_ARGUMENT, pipeline, REPORT_ERROR s)
      | Some l \<Rightarrow>
     (case rt_shaderLibrary pipelineDesc of
        None \<Rightarrow> Some (INVALID_ARGUMENT, pipeline, REPORT_ERROR s)
      | Some shaderLibrary \<Rightarrow>
     (case first_failure
             [(\<not> is_null (rt_shaderGroupDescs pipelineDesc), INVALID_ARGUMENT),
              (count (rt_shaderGroupDescs pipelineDesc) \<noteq> 0, INVALID_ARGUMENT),
              (rt_recursionDepthMax pipelineDesc \<noteq> 0, INVALID_ARGUMENT)] of
        Some r \<Rightarrow> Some (r, pipeline, REPORT_ERROR s)
      | None \<Rightarrow>
     (case library_shaders shaderLibrary of
        None \<Rightarrow> None
      | Some shaders \<Rightarrow>
     (case RayTracingPipeline_shader_loop H shaders 0 of
        Some r \<Rightarrow> Some (r, pipeline, REPORT_ERROR s)
      | None \<Rightarrow>
     (case pipelineLayouts s l of
        None \<Rightarrow> None
      | Some pipelineLayoutDesc \<Rightarrow>
     (let s1 = call_backend RayTracing_CreateRayTracingPipeline s in
      if fst answer = SUCCESS
      then (case Allocate p (pipelines s1) (snd answer) of
              None \<Rightarrow> None
            | Some st \<Rightarrow> Some (SUCCESS, Some p, s1\<lparr>pipelines := st\<rparr>))
      else Some (fst answer, pipeline, s1))))))))"

subsection \<open>Destruction of the other objects, and the queries\<close>

text \<open>Each of these functions calls the backend on the wrapped object and destroys the proxy.\<close>

text \<open>\<^verbatim>\<open>DeviceVal::DestroyCommandBuffer\<close> (lines 553 to 556).\<close>

definition DestroyCommandBuffer :: "nat \<Rightarrow> DeviceVal \<Rightarrow> DeviceVal option" where
  "DestroyCommandBuffer h s =
     (case commandBuffers s h of
        None \<Rightarrow> None
      | Some proxy \<Rightarrow>
          Some ((call_backend (CoreAPI (Core_DestroyCommandBuffer proxy)) s)\<lparr>commandBuffers := (commandBuffers s)(h := None)\<rparr>))"

text \<open>\<^verbatim>\<open>DeviceVal::DestroyCommandAllocator\<close> (lines 558 to 561).\<close>

definition DestroyCommandAllocator :: "nat \<Rightarrow> DeviceVal \<Rightarrow> DeviceVal option" where
  "DestroyCommandAllocator h s =
     (case commandAllocators s h of
        None \<Rightarrow> None
      | Some proxy \<Rightarrow>
          Some ((call_backend (CoreAPI (Core_DestroyCommandAllocator proxy)) s)\<lparr>commandAllocators := (commandAllocators s)(h := None)\<rparr>))"

text \<open>\<^verbatim>\<open>DeviceVal::DestroyDescriptorPool\<close> (lines 563 to 566).\<close>

definition DestroyDescriptorPool :: "nat \<Rightarrow> DeviceVal \<Rightarrow> DeviceVal option" where
  "DestroyDescriptorPool h s =
     (case descriptorPools s h of
        None \<Rightarrow> None
      | Some proxy \<Rightarrow>
          Some ((call_backend (CoreAPI (Core_DestroyDescriptorPool proxy)) s)\<lparr>descriptorPools := (descriptorPools s)(h := None)\<rparr>))"

text \<open>\<^verbatim>\<open>DeviceVal::DestroyDescriptor\<close> (lines 578 to 581).\<close>

definition DestroyDescriptor :: "nat \<Rightarrow> DeviceVal \<Rightarrow> DeviceVal option" where
  "DestroyDescriptor h s =
     (case descriptors s h of
        None \<Rightarrow> None
      | Some proxy \<Rightarrow>
          Some ((call_backend (CoreAPI (Core_DestroyDescriptor (desc_impl proxy))) s)\<lparr>descriptors := (descriptors s)(h := None)\<rparr>))"

text \<open>\<^verbatim>\<open>DeviceVal::DestroyPipelineLayout\<close> (lines 583 to 586).\<close>

definition DestroyPipelineLayout :: "nat \<Rightarrow> DeviceVal \<Rightarrow> DeviceVal option" where
  "DestroyPipelineLayout h s =
     (case pipelineLayouts s h of
        None \<Rightarrow> None
      | Some proxy \<Rightarrow>
          Some ((call_backend (CoreAPI Core_DestroyPipelineLayout) s)\<lparr>pipelineLayouts := (pipelineLayouts s)(h := None)\<rparr>))"

text \<open>\<^verbatim>\<open>DeviceVal::DestroyPipeline\<close> (lines 588 to 591).\<close>

definition DestroyPipeline :: "nat \<Rightarrow> DeviceVal \<Rightarrow> DeviceVal option" where
  "DestroyPipeline h s =
     (case pipelines s h of
        None \<Rightarrow> None
      | Some proxy \<Rightarrow>
          Some ((call_backend (CoreAPI (Core_DestroyPipeline proxy)) s)\<lparr>pipelines := (pipelines s)(h := None)\<rparr>))"

text \<open>\<^verbatim>\<open>DeviceVal::DestroyQueryPool\<close> (lines 593 to 596).\<close>

definition DestroyQueryPool :: "nat \<Rightarrow> DeviceVal \<Rightarrow> DeviceVal option" where
  "DestroyQueryPool h s =
     (case queryPools s h of
        None \<Rightarrow> None
      | Some proxy \<Rightarrow>
          Some ((call_backend (CoreAPI (Core_DestroyQueryPool proxy)) s)\<lparr>queryPools := (queryPools s)(h := None)\<rparr>))"

text \<open>\<^verbatim>\<open>DeviceVal::DestroyFence\<close> (lines 598 to 601).\<close>

definition DestroyFence :: "nat \<Rightarrow> DeviceVal \<Rightarrow> DeviceVal option" where
  "DestroyFence h s =
     (case fences s h of
        None \<Rightarrow> None
      | Some proxy \<Rightarrow>
          Some ((call_backend (CoreAPI (Core_DestroyFence proxy)) s)\<lparr>fences := (fences s)(h := None)\<rparr>))"

text \<open>\<^verbatim>\<open>DeviceVal::GetFormatSupport\<close> (lines 739 to 741) and \<^verbatim>\<open>DeviceVal::QueryVideoMemoryInfo\<close>
  (lines 1095 to 1097) pass the call on; the second returns what the backend answers.\<close>

definition GetFormatSupport :: "nat \<Rightarrow> DeviceVal \<Rightarrow> DeviceVal" where
  "GetFormatSupport format s = call_backend (CoreAPI (Core_GetFormatSupport format)) s"

definition QueryVideoMemoryInfo :: "Result \<Rightarrow> nat \<Rightarrow> DeviceVal \<Rightarrow> Result \<times> DeviceVal" where
  "QueryVideoMemoryInfo answer memoryLocation s =
     (answer, call_backend (Helper_QueryVideoMemoryInfo memoryLocation) s)"

subsection \<open>Wrappers of native Vulkan objects\<close>

record CommandQueueVKDesc =
  cqv_vkQueue :: nat
  cqv_commandQueueType :: nat

text \<open>\<^verbatim>\<open>DeviceVal::CreateCommandQueue(const CommandQueueVKDesc&, CommandQueue*&)\<close> (lines 745 to 756).\<close>

definition CreateCommandQueue_VK ::
  "NRIDescs \<Rightarrow> Result \<times> nat \<Rightarrow> nat \<Rightarrow> CommandQueueVKDesc \<Rightarrow> nat option \<Rightarrow> DeviceVal
     \<Rightarrow> (Result \<times> nat option \<times> DeviceVal) option" where
  "CreateCommandQueue_VK H answer p commandQueueVKDesc commandQueue s =
     (case first_failure
             [(cqv_vkQueue commandQueueVKDesc \<noteq> 0, INVALID_ARGUMENT),
              (cqv_commandQueueType commandQueueVKDesc < CommandQueueType_MAX_NUM H, INVALID_ARGUMENT)] of
        Some r \<Rightarrow> Some (r, commandQueue, REPORT_ERROR s)
      | None \<Rightarrow>
     (let s1 = call_backend (WrapperVKAPI WrapperVK_CreateCommandQueueVK) s in
      if fst answer = SUCCESS
      then (case Allocate p (commandQueues s1) (snd answer) of
              None \<Rightarrow> None
            | Some st \<Rightarrow> Some (SUCCESS, Some p, s1\<lparr>commandQueues := st\<rparr>))
      else Some (fst answer, commandQueue, s1)))"

record CommandAllocatorVKDesc =
  cav_vkCommandPool :: nat
  cav_commandQueueType :: nat

text \<open>\<^verbatim>\<open>DeviceVal::CreateCommandAllocator(const CommandAllocatorVKDesc&, CommandAllocator*&)\<close> (lines 758 to 769).\<close>

definition CreateCommandAllocator_VK ::
  "NRIDescs \<Rightarrow> Result \<times> nat \<Rightarrow> nat \<Rightarrow> CommandAllocatorVKDesc \<Rightarrow> nat option \<Rightarrow> DeviceVal
     \<Rightarrow> (Result \<times> nat option \<times> DeviceVal) option" where
  "CreateCommandAllocator_VK H answer p commandAllocatorVKDesc commandAllocator s =
     (case first_failure
             [(cav_vkCommandPool commandAllocatorVKDesc \<noteq> 0, INVALID_ARGUMENT),
              (cav_commandQueueType commandAllocatorVKDesc < CommandQueueType_MAX_NUM H, INVALID_ARGUMENT)] of
        Some r \<Rightarrow> Some (r, commandAllocator, REPORT_ERROR s)
      | None \<Rightarrow>
     (let s1 = call_backend (WrapperVKAPI WrapperVK_CreateCommandAllocatorVK) s in
      if fst answer = SUCCESS
      then (case Allocate p (commandAllocators s1) (snd answer) of
              None \<Rightarrow> None
            | Some st \<Rightarrow> Some (SUCCESS, Some p, s1\<lparr>commandAllocators := st\<rparr>))
      else Some (fst answer, commandAllocator, s1)))"

record CommandBufferVKDesc =
  cbv_vkCommandBuffer :: nat
  cbv_commandQueueType :: nat

text \<open>\<^verbatim>\<open>DeviceVal::CreateCommandBuffer(const CommandBufferVKDesc&, CommandBuffer*&)\<close> (lines 771 to 782).\<close>

definition CreateCommandBuffer_VK ::
  "NRIDescs \<Rightarrow> Result \<times> nat \<Rightarrow> nat \<Rightarrow> CommandBufferVKDesc \<Rightarrow> nat option \<Rightarrow> DeviceVal
     \<Rightarrow> (Result \<times> nat option \<times> DeviceVal) option" where
  "CreateCommandBuffer_VK H answer p commandBufferVKDesc commandBuffer s =
     (case first_failure
             [(cbv_vkCommandBuffer commandBufferVKDesc \<noteq> 0, INVALID_ARGUMENT),
              (cbv_commandQueueType commandBufferVKDesc < CommandQueueType_MAX_NUM H, INVALID_ARGUMENT)] of
        Some r \<Rightarrow> Some (r, commandBuffer, REPORT_ERROR s)
      | None \<Rightarrow>
     (let s1 = call_backend (WrapperVKAPI WrapperVK_CreateCommandBufferVK) s in
      if fst answer = SUCCESS
      then (case Allocate p (commandBuffers s1) (snd answer) of
              None \<Rightarrow> None
            | Some st \<Rightarrow> Some (SUCCESS, Some p, s1\<lparr>commandBuffers := st\<rparr>))
      else Some (fst answer, commandBuffer, s1)))"

record DescriptorPoolVKDesc =
  dpv_vkDescriptorPool :: nat
  dpv_descriptorSetMaxNum :: "32 word"

text \<open>\<^verbatim>\<open>DeviceVal::CreateDescriptorPool(const DescriptorPoolVKDesc&, DescriptorPool*&)\<close> (lines 784 to 795).\<close>

definition CreateDescriptorPool_VK ::
  "Result \<times> nat \<Rightarrow> nat \<Rightarrow> DescriptorPoolVKDesc \<Rightarrow> nat option \<Rightarrow> DeviceVal
     \<Rightarrow> (Result \<times> nat option \<times> DeviceVal) option" where
  "CreateDescriptorPool_VK answer p descriptorPoolVKDesc descriptorPool s =
     (case first_failure
             [(dpv_vkDescriptorPool descriptorPoolVKDesc \<noteq> 0, INVALID_ARGUMENT),
              (dpv_descriptorSetMaxNum descriptorPoolVKDesc \<noteq> 0, INVALID_ARGUMENT)] of
        Some r \<Rightarrow> Some (r, descriptorPool, REPORT_ERROR s)
      | None \<Rightarrow>
     (let s1 = call_backend (WrapperVKAPI WrapperVK_CreateDescriptorPoolVK) s in
      if fst answer = SUCCESS
      then (case Allocate p (descriptorPools s1) (snd answer) of
              None \<Rightarrow> None
            | Some st \<Rightarrow> Some (SUCCESS, Some p, s1\<lparr>descriptorPools := st\<rparr>))
      else Some (fst answer, descriptorPool, s1)))"

record TextureVKDesc =
  tvk_vkImage :: nat
  tvk_vkFormat :: nat
  tvk_sampleNum :: Sample_t
  tvk_layerNum :: Dim_t
  tvk_mipNum :: Mip_t

text \<open>\<^verbatim>\<open>DeviceVal::CreateTexture(const TextureVKDesc&, Texture*&)\<close> (lines 810 to 824).
  \<open>convertedFormat\<close> is what \<^verbatim>\<open>nriConvertVKFormatToNRI\<close> answers for the format of the image, and
  \<open>textureDesc\<close> what \<^verbatim>\<open>GetDesc\<close> of the new proxy answers. The proxy is created with the bound
  flag set.\<close>

definition CreateTexture_VK ::
  "NRIDescs \<Rightarrow> nat \<Rightarrow> TextureDesc \<Rightarrow> Result \<times> nat \<Rightarrow> nat \<Rightarrow> TextureVKDesc \<Rightarrow> nat option \<Rightarrow> DeviceVal
     \<Rightarrow> (Result \<times> nat option \<times> DeviceVal) option" where
  "CreateTexture_VK H convertedFormat textureDesc answer p textureVKDesc texture s =
     (case first_failure
             [(tvk_vkImage textureVKDesc \<noteq> 0, INVALID_ARGUMENT),
              (convertedFormat \<noteq> Format_UNKNOWN H, INVALID_ARGUMENT),
              (tvk_sampleNum textureVKDesc > 0, INVALID_ARGUMENT),
              (tvk_layerNum textureVKDesc > 0, INVALID_ARGUMENT),
              (tvk_mipNum textureVKDesc > 0, INVALID_ARGUMENT)] of
        Some r \<Rightarrow> Some (r, texture, REPORT_ERROR s)
      | None \<Rightarrow>
     (let s1 = call_backend (WrapperVKAPI WrapperVK_CreateTextureVK) s in
      if fst answer = SUCCESS
      then (case Allocate p (textures s1) \<lparr>tex_impl = snd answer, tex_isBoundToMemory = True, tex_desc = textureDesc\<rparr> of
              None \<Rightarrow> None
            | Some st \<Rightarrow> Some (SUCCESS, Some p, s1\<lparr>textures := st\<rparr>))
      else Some (fst answer, texture, s1)))"

text \<open>\<^verbatim>\<open>DeviceVal::CreateGraphicsPipeline(VKNonDispatchableHandle, Pipeline*&)\<close> (lines 839 to 849).\<close>

definition CreateGraphicsPipeline_VK ::
  "Result \<times> nat \<Rightarrow> nat \<Rightarrow> nat \<Rightarrow> nat option \<Rightarrow> DeviceVal
     \<Rightarrow> (Result \<times> nat option \<times> DeviceVal) option" where
  "CreateGraphicsPipeline_VK answer p vkPipeline pipeline s =
     (case first_failure
             [(vkPipeline \<noteq> 0, INVALID_ARGUMENT)] of
        Some r \<Rightarrow> Some (r, pipeline, REPORT_ERROR s)
      | None \<Rightarrow>
     (let s1 = call_backend (WrapperVKAPI WrapperVK_CreateGraphicsPipelineVK) s in
      if fst answer = SUCCESS
      then (case Allocate p (pipelines s1) (snd answer) of
              None \<Rightarrow> None
            | Some st \<Rightarrow> Some (SUCCESS, Some p, s1\<lparr>pipelines := st\<rparr>))
      else Some (fst answer, pipeline, s1)))"

text \<open>\<^verbatim>\<open>DeviceVal::CreateComputePipeline(VKNonDispatchableHandle, Pipeline*&)\<close> (lines 851 to 861).\<close>

definition CreateComputePipeline_VK ::
  "Result \<times> nat \<Rightarrow> nat \<Rightarrow> nat \<Rightarrow> nat option \<Rightarrow> DeviceVal
     \<Rightarrow> (Result \<times> nat option \<times> DeviceVal) option" where
  "CreateComputePipeline_VK answer p vkPipeline pipeline s =
     (case first_failure
             [(vkPipeline \<noteq> 0, INVALID_ARGUMENT)] of
        Some r \<Rightarrow> Some (r, pipeline, REPORT_ERROR s)
      | None \<Rightarrow>
     (let s1 = call_backend (WrapperVKAPI WrapperVK_CreateComputePipelineVK) s in
      if fst answer = SUCCESS
      then (case Allocate p (pipelines s1) (snd answer) of
              None \<Rightarrow> None
            | Some st \<Rightarrow> Some (SUCCESS, Some p, s1\<lparr>pipelines := st\<rparr>))
      else Some (fst answer, pipeline, s1)))"

record QueryPoolVKDesc =
  qpv_vkQueryPool :: nat

text \<open>\<^verbatim>\<open>DeviceVal::CreateQueryPool(const QueryPoolVKDesc&, QueryPool*&)\<close> (lines 863 to 875).\<close>

definition CreateQueryPool_VK ::
  "Result \<times> nat \<Rightarrow> nat \<Rightarrow> QueryPoolVKDesc \<Rightarrow> nat option \<Rightarrow> DeviceVal
     \<Rightarrow> (Result \<times> nat option \<times> DeviceVal) option" where
  "CreateQueryPool_VK answer p queryPoolVKDesc queryPool s =
     (case first_failure
             [(qpv_vkQueryPool queryPoolVKDesc \<noteq> 0, INVALID_ARGUMENT)] of
        Some r \<Rightarrow> Some (r, queryPool, REPORT_ERROR s)
      | None \<Rightarrow>
     (let s1 = call_backend (WrapperVKAPI WrapperVK_CreateQueryPoolVK) s in
      if fst answer = SUCCESS
      then (case Allocate p (queryPools s1) (snd answer) of
              None \<Rightarrow> None
            | Some st \<Rightarrow> Some (SUCCESS, Some p, s1\<lparr>queryPools := st\<rparr>))
      else Some (fst answer, queryPool, s1)))"

record AccelerationStructureVKDesc =
  asv_vkAccelerationStructure :: nat

text \<open>\<^verbatim>\<open>DeviceVal::CreateAccelerationStructure(const AccelerationStructureVKDesc&, AccelerationStructure*&)\<close> (lines 877 to 889). The proxy is created with the bound flag set and a zeroed
  memory descriptor.\<close>

definition CreateAccelerationStructure_VK ::
  "Result \<times> nat \<Rightarrow> nat \<Rightarrow> AccelerationStructureVKDesc \<Rightarrow> nat option \<Rightarrow> DeviceVal
     \<Rightarrow> (Result \<times> nat option \<times> DeviceVal) option" where
  "CreateAccelerationStructure_VK answer p accelerationStructureDesc accelerationStructure s =
     (case first_failure
             [(asv_vkAccelerationStructure accelerationStructureDesc \<noteq> 0, INVALID_ARGUMENT)] of
        Some r \<Rightarrow> Some (r, accelerationStructure, REPORT_ERROR s)
      | None \<Rightarrow>
     (let s1 = call_backend (WrapperVKAPI WrapperVK_CreateAccelerationStructureVK) s in
      if fst answer = SUCCESS
      then (case Allocate p (accelerationStructures s1) 
                      \<lparr>as_impl = snd answer, as_isBoundToMemory = True,
                       as_memoryDesc = \<lparr>md_size = 0, md_alignment = 0, md_mustBeDedicated = False\<rparr>\<rparr> of
              None \<Rightarrow> None
            | Some st \<Rightarrow> Some (SUCCESS, Some p, s1\<lparr>accelerationStructures := st\<rparr>))
      else Some (fst answer, accelerationStructure, s1)))"

subsection \<open>Wrappers of native D3D11 and D3D12 objects\<close>

record CommandBufferD3D11Desc =
  cb11_d3d11DeviceContext :: "nat option"

text \<open>\<^verbatim>\<open>DeviceVal::CreateCommandBuffer(const CommandBufferD3D11Desc&, CommandBuffer*&)\<close> (lines 895 to 905).\<close>

definition CreateCommandBuffer_D3D11 ::
  "Result \<times> nat \<Rightarrow> nat \<Rightarrow> CommandBufferD3D11Desc \<Rightarrow> nat option \<Rightarrow> DeviceVal
     \<Rightarrow> (Result \<times> nat option \<times> DeviceVal) option" where
  "CreateCommandBuffer_D3D11 answer p commandBufferDesc commandBuffer s =
     (case first_failure
             [(cb11_d3d11DeviceContext commandBufferDesc \<noteq> None, INVALID_ARGUMENT)] of
        Some r \<Rightarrow> Some (r, commandBuffer, REPORT_ERROR s)
      | None \<Rightarrow>
     (let s1 = call_backend (WrapperD3D11API WrapperD3D11_CreateCommandBufferD3D11) s in
      if fst answer = SUCCESS
      then (case Allocate p (commandBuffers s1) (snd answer) of
              None \<Rightarrow> None
            | Some st \<Rightarrow> Some (SUCCESS, Some p, s1\<lparr>commandBuffers := st\<rparr>))
      else Some (fst answer, commandBuffer, s1)))"

record BufferD3D11Desc =
  b11_d3d11Resource :: "nat option"

text \<open>\<^verbatim>\<open>DeviceVal::CreateBuffer(const BufferD3D11Desc&, Buffer*&)\<close> (lines 907 to 917). The proxy is created with the bound flag set.\<close>

definition CreateBuffer_D3D11 ::
  "Result \<times> nat \<Rightarrow> nat \<Rightarrow> BufferD3D11Desc \<Rightarrow> nat option \<Rightarrow> DeviceVal
     \<Rightarrow> (Result \<times> nat option \<times> DeviceVal) option" where
  "CreateBuffer_D3D11 answer p bufferDesc buffer s =
     (case first_failure
             [(b11_d3d11Resource bufferDesc \<noteq> None, INVALID_ARGUMENT)] of
        Some r \<Rightarrow> Some (r, buffer, REPORT_ERROR s)
      | None \<Rightarrow>
     (let s1 = call_backend (WrapperD3D11API WrapperD3D11_CreateBufferD3D11) s in
      if fst answer = SUCCESS
      then (case Allocate p (buffers s1) \<lparr>buf_impl = snd answer, buf_isBoundToMemory = True\<rparr> of
              None \<Rightarrow> None
            | Some st \<Rightarrow> Some (SUCCESS, Some p, s1\<lparr>buffers := st\<rparr>))
      else Some (fst answer, buffer, s1)))"

record TextureD3D11Desc =
  t11_d3d11Resource :: "nat option"

text \<open>\<^verbatim>\<open>DeviceVal::CreateTexture(const TextureD3D11Desc&, Texture*&)\<close> (lines 919 to 929). \<open>textureDesc\<close> is what \<^verbatim>\<open>GetDesc\<close> of the new proxy
  answers. The proxy is created with the bound flag set.\<close>

definition CreateTexture_D3D11 ::
  "TextureDesc \<Rightarrow> Result \<times> nat \<Rightarrow> nat \<Rightarrow> TextureD3D11Desc \<Rightarrow> nat option \<Rightarrow> DeviceVal
     \<Rightarrow> (Result \<times> nat option \<times> DeviceVal) option" where
  "CreateTexture_D3D11 textureDesc answer p textureDesc11 texture s =
     (case first_failure
             [(t11_d3d11Resource textureDesc11 \<noteq> None, INVALID_ARGUMENT)] of
        Some r \<Rightarrow> Some (r, texture, REPORT_ERROR s)
      | None \<Rightarrow>
     (let s1 = call_backend (WrapperD3D11API WrapperD3D11_CreateTextureD3D11) s in
      if fst answer = SUCCESS
      then (case Allocate p (textures s1) \<lparr>tex_impl = snd answer, tex_isBoundToMemory = True, tex_desc = textureDesc\<rparr> of
              None \<Rightarrow> None
            | Some st \<Rightarrow> Some (SUCCESS, Some p, s1\<lparr>textures := st\<rparr>))
      else Some (fst answer, texture, s1)))"

record CommandBufferD3D12Desc =
  cb12_d3d12CommandAllocator :: "nat option"
  cb12_d3d12CommandList :: "nat option"

text \<open>\<^verbatim>\<open>DeviceVal::CreateCommandBuffer(const CommandBufferD3D12Desc&, CommandBuffer*&)\<close> (lines 935 to 946).\<close>

definition CreateCommandBuffer_D3D12 ::
  "Result \<times> nat \<Rightarrow> nat \<Rightarrow> CommandBufferD3D12Desc \<Rightarrow> nat option \<Rightarrow> DeviceVal
     \<Rightarrow> (Result \<times> nat option \<times> DeviceVal) option" where
  "CreateCommandBuffer_D3D12 answer p commandBufferDesc commandBuffer s =
     (case first_failure
             [(cb12_d3d12CommandAllocator commandBufferDesc \<noteq> None, INVALID_ARGUMENT),
              (cb12_d3d12CommandList commandBufferDesc \<noteq> None, INVALID_ARGUMENT)] of
        Some r \<Rightarrow> Some (r, commandBuffer, REPORT_ERROR s)
      | None \<Rightarrow>
     (let s1 = call_backend (WrapperD3D12API WrapperD3D12_CreateCommandBufferD3D12) s in
      if fst answer = SUCCESS
      then (case Allocate p (commandBuffers s1) (snd answer) of
              None \<Rightarrow> None
            | Some st \<Rightarrow> Some (SUCCESS, Some p, s1\<lparr>commandBuffers := st\<rparr>))
      else Some (fst answer, commandBuffer, s1)))"

record DescriptorPoolD3D12Desc =
  dp12_d3d12ResourceDescriptorHeap :: "nat option"
  dp12_d3d12SamplerDescriptorHeap :: "nat option"

text \<open>\<^verbatim>\<open>DeviceVal::CreateDescriptorPool(const DescriptorPoolD3D12Desc&, DescriptorPool*&)\<close> (lines 948 to 959).\<close>

definition CreateDescriptorPool_D3D12 ::
  "Result \<times> nat \<Rightarrow> nat \<Rightarrow> DescriptorPoolD3D12Desc \<Rightarrow> nat option \<Rightarrow> DeviceVal
     \<Rightarrow> (Result \<times> nat option \<times> DeviceVal) option" where
  "CreateDescriptorPool_D3D12 answer p descriptorPoolD3D12Desc descriptorPool s =
     (case first_failure
             [(dp12_d3d12ResourceDescriptorHeap descriptorPoolD3D12Desc \<noteq> None
                \<or> dp12_d3d12SamplerDescriptorHeap descriptorPoolD3D12Desc \<noteq> None, INVALID_ARGUMENT)] of
        Some r \<Rightarrow> Some (r, descriptorPool, REPORT_ERROR s)
      | None \<Rightarrow>
     (let s1 = call_backend (WrapperD3D12API WrapperD3D12_CreateDescriptorPoolD3D12) s in
      if fst answer = SUCCESS
      then (case Allocate p (descriptorPools s1) (snd answer) of
              None \<Rightarrow> None
            | Some st \<Rightarrow> Some (SUCCESS, Some p, s1\<lparr>descriptorPools := st\<rparr>))
      else Some (fst answer, descriptorPool, s1)))"

record BufferD3D12Desc =
  b12_d3d12Resource :: "nat option"

text \<open>\<^verbatim>\<open>DeviceVal::CreateBuffer(const BufferD3D12Desc&, Buffer*&)\<close> (lines 961 to 971). The proxy is created with the bound flag set.\<close>

definition CreateBuffer_D3D12 ::
  "Result \<times> nat \<Rightarrow> nat \<Rightarrow> BufferD3D12Desc \<Rightarrow> nat option \<Rightarrow> DeviceVal
     \<Rightarrow> (Result \<times> nat option \<times> DeviceVal) option" where
  "CreateBuffer_D3D12 answer p bufferDesc buffer s =
     (case first_failure
             [(b12_d3d12Resource bufferDesc \<noteq> None, INVALID_ARGUMENT)] of
        Some r \<Rightarrow> Some (r, buffer, REPORT_ERROR s)
      | None \<Rightarrow>
     (let s1 = call_backend (WrapperD3D12API WrapperD3D12_CreateBufferD3D12) s in
      if fst answer = SUCCESS
      then (case Allocate p (buffers s1) \<lparr>buf_impl = snd answer, buf_isBoundToMemory = True\<rparr> of
              None \<Rightarrow> None
            | Some st \<Rightarrow> Some (SUCCESS, Some p, s1\<lparr>buffers := st\<rparr>))
      else Some (fst answer, buffer, s1)))"

record TextureD3D12Desc =
  t12_d3d12Resource :: "nat option"

text \<open>\<^verbatim>\<open>DeviceVal::CreateTexture(const TextureD3D12Desc&, Texture*&)\<close> (lines 973 to 983). \<open>textureDesc\<close> is what \<^verbatim>\<open>GetDesc\<close> of the new proxy
  answers. The proxy is created with the bound flag set.\<close>

definition CreateTexture_D3D12 ::
  "TextureDesc \<Rightarrow> Result \<times> nat \<Rightarrow> nat \<Rightarrow> TextureD3D12Desc \<Rightarrow> nat option \<Rightarrow> DeviceVal
     \<Rightarrow> (Result \<times> nat option \<times> DeviceVal) option" where
  "CreateTexture_D3D12 textureDesc answer p textureDesc12 texture s =
     (case first_failure
             [(t12_d3d12Resource textureDesc12 \<noteq> None, INVALID_ARGUMENT)] of
        Some r \<Rightarrow> Some (r, texture, REPORT_ERROR s)
      | None \<Rightarrow>
     (let s1 = call_backend (WrapperD3D12API WrapperD3D12_CreateTextureD3D12) s in
      if fst answer = SUCCESS
      then (case Allocate p (textures s1) \<lparr>tex_impl = snd answer, tex_isBoundToMemory = True, tex_desc = textureDesc\<rparr> of
              None \<Rightarrow> None
            | Some st \<Rightarrow> Some (SUCCESS, Some p, s1\<lparr>textures := st\<rparr>))
      else Some (fst answer, texture, s1)))"

record MemoryD3D12Desc =
  m12_d3d12Heap :: "nat option"

text \<open>\<^verbatim>\<open>DeviceVal::CreateMemory(const MemoryD3D12Desc&, Memory*&)\<close> (lines 985 to 997). \<open>heapSize\<close> is what \<^verbatim>\<open>GetMemorySizeD3D12\<close> answers for the heap.\<close>

definition CreateMemory_D3D12 ::
  "NRIDescs \<Rightarrow> 64 word \<Rightarrow> Result \<times> nat \<Rightarrow> nat \<Rightarrow> MemoryD3D12Desc \<Rightarrow> nat option \<Rightarrow> DeviceVal
     \<Rightarrow> (Result \<times> nat option \<times> DeviceVal) option" where
  "CreateMemory_D3D12 H heapSize answer p memoryDesc memory s =
     (case first_failure
             [(m12_d3d12Heap memoryDesc \<noteq> None, INVALID_ARGUMENT)] of
        Some r \<Rightarrow> Some (r, memory, REPORT_ERROR s)
      | None \<Rightarrow>
     (let s1 = call_backend (WrapperD3D12API WrapperD3D12_CreateMemoryD3D12) s in
      if fst answer = SUCCESS
      then (case Allocate p (memories s1) 
                      \<lparr>mem_impl = snd answer, mem_size = heapSize, mem_location = MemoryLocation_MAX_NUM H,
                       m_Buffers = [], m_Textures = [], m_AccelerationStructures = []\<rparr> of
              None \<Rightarrow> None
            | Some st \<Rightarrow> Some (SUCCESS, Some p, s1\<lparr>memories := st\<rparr>))
      else Some (fst answer, memory, s1)))"

record AccelerationStructureD3D12Desc =
  as12_d3d12Resource :: "nat option"

text \<open>\<^verbatim>\<open>DeviceVal::CreateAccelerationStructure(const AccelerationStructureD3D12Desc&, AccelerationStructure*&)\<close> (lines 999 to 1011). The proxy is created with the bound flag set and a zeroed
  memory descriptor.\<close>

definition CreateAccelerationStructure_D3D12 ::
  "Result \<times> nat \<Rightarrow> nat \<Rightarrow> AccelerationStructureD3D12Desc \<Rightarrow> nat option \<Rightarrow> DeviceVal
     \<Rightarrow> (Result \<times> nat option \<times> DeviceVal) option" where
  "CreateAccelerationStructure_D3D12 answer p accelerationStructureDesc accelerationStructure s =
     (case first_failure
             [(as12_d3d12Resource accelerationStructureDesc \<noteq> None, INVALID_ARGUMENT)] of
        Some r \<Rightarrow> Some (r, accelerationStructure, REPORT_ERROR s)
      | None \<Rightarrow>
     (let s1 = call_backend (WrapperD3D12API WrapperD3D12_CreateAccelerationStructureD3D12) s in
      if fst answer = SUCCESS
      then (case Allocate p (accelerationStructures s1) 
                      \<lparr>as_impl = snd answer, as_isBoundToMemory = True,
                       as_memoryDesc = \<lparr>md_size = 0, md_alignment = 0, md_mustBeDedicated = False\<rparr>\<rparr> of
              None \<Rightarrow> None
            | Some st \<Rightarrow> Some (SUCCESS, Some p, s1\<lparr>accelerationStructures := st\<rparr>))
      else Some (fst answer, accelerationStructure, s1)))"

subsection \<open>The device as a transition system\<close>

text \<open>
  A call of a client. The creation calls are the entry points that return a \<^verbatim>\<open>Result\<close> and
  store a handle through a reference; a creation call comes with what the backend answers (its
  result and the object it made), the address \<open>p\<close> at which the allocator would build a proxy,
  and the handle variable of the caller. The constructors below carry the descriptor and what
  else the environment answers during the call. The entry points that build and tear down the
  device itself (\<^verbatim>\<open>Create\<close>, \<^verbatim>\<open>Destruct\<close>, constructor and destructor) come before the first
  and after the last state of a device and are not calls.
\<close>

datatype ResourceCreation =
    Call_CreateBuffer BufferDesc
  | Call_AllocateBuffer BufferDesc
  | Call_CreateTexture TextureDesc
  | Call_AllocateTexture TextureDesc
  | Call_CreateAccelerationStructure MemoryDesc AccelerationStructureDesc
  | Call_AllocateAccelerationStructure MemoryDesc AccelerationStructureDesc
  | Call_AllocateMemory AllocateMemoryDesc

datatype DescriptorCreation =
    Call_CreateBufferView BufferDesc BufferViewDesc
  | Call_CreateTexture1DView Texture1DViewDesc
  | Call_CreateTexture2DView Texture2DViewDesc
  | Call_CreateTexture3DView Texture3DViewDesc
  | Call_CreateSampler bool SamplerDesc

datatype PipelineCreation =
    Call_CreatePipelineLayout PipelineLayoutDesc
  | Call_CreateGraphicsPipeline GraphicsPipelineDesc
  | Call_CreateComputePipeline ComputePipelineDesc
  | Call_CreateRayTracingPipeline RayTracingPipelineDesc

datatype ObjectCreation =
    Call_CreateSwapChain SwapChainDesc
  | Call_GetCommandQueue nat
  | Call_CreateCommandAllocator nat
  | Call_CreateDescriptorPool
  | Call_CreateQueryPool QueryPoolDesc
  | Call_CreateFence

datatype VKCreation =
    Call_CreateCommandQueueVK CommandQueueVKDesc
  | Call_CreateCommandAllocatorVK CommandAllocatorVKDesc
  | Call_CreateCommandBufferVK CommandBufferVKDesc
  | Call_CreateDescriptorPoolVK DescriptorPoolVKDesc
  | Call_CreateBufferVK BufferVKDesc
  | Call_CreateTextureVK nat TextureDesc TextureVKDesc
  | Call_CreateMemoryVK MemoryVKDesc
  | Call_CreateGraphicsPipelineVK nat
  | Call_CreateComputePipelineVK nat
  | Call_CreateQueryPoolVK QueryPoolVKDesc
  | Call_CreateAccelerationStructureVK AccelerationStructureVKDesc

datatype D3D11Creation =
    Call_CreateCommandBufferD3D11 CommandBufferD3D11Desc
  | Call_CreateBufferD3D11 BufferD3D11Desc
  | Call_CreateTextureD3D11 TextureDesc TextureD3D11Desc

datatype D3D12Creation =
    Call_CreateCommandBufferD3D12 CommandBufferD3D12Desc
  | Call_CreateDescriptorPoolD3D12 DescriptorPoolD3D12Desc
  | Call_CreateBufferD3D12 BufferD3D12Desc
  | Call_CreateTextureD3D12 TextureDesc TextureD3D12Desc
  | Call_CreateMemoryD3D12 "64 word" MemoryD3D12Desc
  | Call_CreateAccelerationStructureD3D12 AccelerationStructureD3D12Desc

datatype Creation =
    Of_Resource ResourceCreation
  | Of_Descriptor DescriptorCreation
  | Of_Pipeline PipelineCreation
  | Of_Object ObjectCreation
  | Of_VK VKCreation
  | Of_D3D11 D3D11Creation
  | Of_D3D12 D3D12Creation

fun create_resource ::
  "NRIDescs \<Rightarrow> ResourceCreation \<Rightarrow> Result \<times> nat \<Rightarrow> nat \<Rightarrow> nat option \<Rightarrow> DeviceVal
     \<Rightarrow> (Result \<times> nat option \<times> DeviceVal) option" where
  "create_resource H (Call_CreateBuffer d) answer p out s =
     CreateBuffer answer p d out s"
| "create_resource H (Call_AllocateBuffer d) answer p out s =
     AllocateBuffer answer p d out s"
| "create_resource H (Call_CreateTexture d) answer p out s =
     CreateTexture H answer p d out s"
| "create_resource H (Call_AllocateTexture d) answer p out s =
     AllocateTexture H answer p d out s"
| "create_resource H (Call_CreateAccelerationStructure memoryDesc d) answer p out s =
     CreateAccelerationStructure (fst answer, snd answer, memoryDesc) p d out s"
| "create_resource H (Call_AllocateAccelerationStructure memoryDesc d) answer p out s =
     AllocateAccelerationStructure (fst answer, snd answer, memoryDesc) p d out s"
| "create_resource H (Call_AllocateMemory d) answer p out s =
     AllocateMemory answer p d out s"

fun create_descriptor ::
  "NRIDescs \<Rightarrow> DescriptorCreation \<Rightarrow> Result \<times> nat \<Rightarrow> nat \<Rightarrow> nat option \<Rightarrow> DeviceVal
     \<Rightarrow> (Result \<times> nat option \<times> DeviceVal) option" where
  "create_descriptor H (Call_CreateBufferView bufferDesc d) answer p out s =
     CreateDescriptor_BufferView H bufferDesc answer p d out s"
| "create_descriptor H (Call_CreateTexture1DView d) answer p out s =
     CreateDescriptor_Texture1DView H answer p d out s"
| "create_descriptor H (Call_CreateTexture2DView d) answer p out s =
     CreateDescriptor_Texture2DView H answer p d out s"
| "create_descriptor H (Call_CreateTexture3DView d) answer p out s =
     CreateDescriptor_Texture3DView H answer p d out s"
| "create_descriptor H (Call_CreateSampler isTextureFilterMinMaxSupported d) answer p out s =
     CreateDescriptor_Sampler H isTextureFilterMinMaxSupported answer p d out s"

fun create_pipeline ::
  "NRIDescs \<Rightarrow> (nat \<Rightarrow> 32 word) \<Rightarrow> PipelineCreation \<Rightarrow> Result \<times> nat \<Rightarrow> nat \<Rightarrow> nat option \<Rightarrow> DeviceVal
     \<Rightarrow> (Result \<times> nat option \<times> DeviceVal) option" where
  "create_pipeline H fs (Call_CreatePipelineLayout d) answer p out s =
     CreatePipelineLayout H answer p d out s"
| "create_pipeline H fs (Call_CreateGraphicsPipeline d) answer p out s =
     CreatePipeline_Graphics H fs answer p d out s"
| "create_pipeline H fs (Call_CreateComputePipeline d) answer p out s =
     CreatePipeline_Compute H answer p d out s"
| "create_pipeline H fs (Call_CreateRayTracingPipeline d) answer p out s =
     CreatePipeline_RayTracing H answer p d out s"

fun create_object ::
  "NRIDescs \<Rightarrow> ObjectCreation \<Rightarrow> Result \<times> nat \<Rightarrow> nat \<Rightarrow> nat option \<Rightarrow> DeviceVal
     \<Rightarrow> (Result \<times> nat option \<times> DeviceVal) option" where
  "create_object H (Call_CreateSwapChain d) answer p out s =
     CreateSwapChain H answer p d out s"
| "create_object H (Call_GetCommandQueue commandQueueType) answer p out s =
     GetCommandQueue H answer p commandQueueType out s"
| "create_object H (Call_CreateCommandAllocator commandQueue) answer p out s =
     CreateCommandAllocator commandQueue answer p out s"
| "create_object H Call_CreateDescriptorPool answer p out s =
     CreateDescriptorPool answer p out s"
| "create_object H (Call_CreateQueryPool d) answer p out s =
     CreateQueryPool H answer p d out s"
| "create_object H Call_CreateFence answer p out s =
     CreateFence answer p out s"

fun create_VK ::
  "NRIDescs \<Rightarrow> VKCreation \<Rightarrow> Result \<times> nat \<Rightarrow> nat \<Rightarrow> nat option \<Rightarrow> DeviceVal
     \<Rightarrow> (Result \<times> nat option \<times> DeviceVal) option" where
  "create_VK H (Call_CreateCommandQueueVK d) answer p out s =
     CreateCommandQueue_VK H answer p d out s"
| "create_VK H (Call_CreateCommandAllocatorVK d) answer p out s =
     CreateCommandAllocator_VK H answer p d out s"
| "create_VK H (Call_CreateCommandBufferVK d) answer p out s =
     CreateCommandBuffer_VK H answer p d out s"
| "create_VK H (Call_CreateDescriptorPoolVK d) answer p out s =
     CreateDescriptorPool_VK answer p d out s"
| "create_VK H (Call_CreateBufferVK d) answer p out s =
     CreateBuffer_VK answer p d out s"
| "create_VK H (Call_CreateTextureVK convertedFormat textureDesc d) answer p out s =
     CreateTexture_VK H convertedFormat textureDesc answer p d out s"
| "create_VK H (Call_CreateMemoryVK d) answer p out s =
     CreateMemory_VK H answer p d out s"
| "create_VK H (Call_CreateGraphicsPipelineVK vkPipeline) answer p out s =
     CreateGraphicsPipeline_VK answer p vkPipeline out s"
| "create_VK H (Call_CreateComputePipelineVK vkPipeline) answer p out s =
     CreateComputePipeline_VK answer p vkPipeline out s"
| "create_VK H (Call_CreateQueryPoolVK d) answer p out s =
     CreateQueryPool_VK answer p d out s"
| "create_VK H (Call_CreateAccelerationStructureVK d) answer p out s =
     CreateAccelerationStructure_VK answer p d out s"

fun create_D3D11 ::
  "D3D11Creation \<Rightarrow> Result \<times> nat \<Rightarrow> nat \<Rightarrow> nat option \<Rightarrow> DeviceVal
     \<Rightarrow> (Result \<times> nat option \<times> DeviceVal) option" where
  "create_D3D11 (Call_CreateCommandBufferD3D11 d) answer p out s =
     CreateCommandBuffer_D3D11 answer p d out s"
| "create_D3D11 (Call_CreateBufferD3D11 d) answer p out s =
     CreateBuffer_D3D11 answer p d out s"
| "create_D3D11 (Call_CreateTextureD3D11 textureDesc d) answer p out s =
     CreateTexture_D3D11 textureDesc answer p d out s"

fun create_D3D12 ::
  "NRIDescs \<Rightarrow> D3D12Creation \<Rightarrow> Result \<times> nat \<Rightarrow> nat \<Rightarrow> nat option \<Rightarrow> DeviceVal
     \<Rightarrow> (Result \<times> nat option \<times> DeviceVal) option" where
  "create_D3D12 H (Call_CreateCommandBufferD3D12 d) answer p out s =
     CreateCommandBuffer_D3D12 answer p d out s"
| "create_D3D12 H (Call_CreateDescriptorPoolD3D12 d) answer p out s =
     CreateDescriptorPool_D3D12 answer p d out s"
| "create_D3D12 H (Call_CreateBufferD3D12 d) answer p out s =
     CreateBuffer_D3D12 answer p d out s"
| "create_D3D12 H (Call_CreateTextureD3D12 textureDesc d) answer p out s =
     CreateTexture_D3D12 textureDesc answer p d out s"
| "create_D3D12 H (Call_CreateMemoryD3D12 heapSize d) answer p out s =
     CreateMemory_D3D12 H heapSize answer p d out s"
| "create_D3D12 H (Call_CreateAccelerationStructureD3D12 d) answer p out s =
     CreateAccelerationStructure_D3D12 answer p d out s"

fun create ::
  "NRIDescs \<Rightarrow> (nat \<Rightarrow> 32 word) \<Rightarrow> Creation \<Rightarrow> Result \<times> nat \<Rightarrow> nat \<Rightarrow> nat option \<Rightarrow> DeviceVal
     \<Rightarrow> (Result \<times> nat option \<times> DeviceVal) option" where
  "create H fs (Of_Resource c) answer p out s = create_resource H c answer p out s"
| "create H fs (Of_Descriptor c) answer p out s = create_descriptor H c answer p out s"
| "create H fs (Of_Pipeline c) answer p out s = create_pipeline H fs c answer p out s"
| "create H fs (Of_Object c) answer p out s = create_object H c answer p out s"
| "create H fs (Of_VK c) answer p out s = create_VK H c answer p out s"
| "create H fs (Of_D3D11 c) answer p out s = create_D3D11 c answer p out s"
| "create H fs (Of_D3D12 c) answer p out s = create_D3D12 H c answer p out s"

datatype Destruction =
    Call_DestroySwapChain nat
  | Call_DestroyCommandBuffer nat
  | Call_DestroyCommandAllocator nat
  | Call_DestroyDescriptorPool nat
  | Call_DestroyBuffer nat
  | Call_DestroyTexture nat
  | Call_DestroyDescriptor nat
  | Call_DestroyPipelineLayout nat
  | Call_DestroyPipeline nat
  | Call_DestroyQueryPool nat
  | Call_DestroyFence nat
  | Call_DestroyAccelerationStructure nat

fun destroy :: "Destruction \<Rightarrow> DeviceVal \<Rightarrow> DeviceVal option" where
  "destroy (Call_DestroySwapChain h) s = DestroySwapChain h s"
| "destroy (Call_DestroyCommandBuffer h) s = DestroyCommandBuffer h s"
| "destroy (Call_DestroyCommandAllocator h) s = DestroyCommandAllocator h s"
| "destroy (Call_DestroyDescriptorPool h) s = DestroyDescriptorPool h s"
| "destroy (Call_DestroyBuffer h) s = DestroyBuffer h s"
| "destroy (Call_DestroyTexture h) s = DestroyTexture h s"
| "destroy (Call_DestroyDescriptor h) s = DestroyDescriptor h s"
| "destroy (Call_DestroyPipelineLayout h) s = DestroyPipelineLayout h s"
| "destroy (Call_DestroyPipeline h) s = DestroyPipeline h s"
| "destroy (Call_DestroyQueryPool h) s = DestroyQueryPool h s"
| "destroy (Call_DestroyFence h) s = DestroyFence h s"
| "destroy (Call_DestroyAccelerationStructure h) s = DestroyAccelerationStructure h s"

datatype Call =
    Call_Create Creation "Result \<times> nat" nat "nat option"
  | Call_Destroy Destruction
  | Call_RegisterMemoryType MemoryType nat
  | Call_SetDebugName string
  | Call_GetDesc
  | Call_GetFormatSupport nat
  | Call_QueryVideoMemoryInfo Result nat
  | Call_BindBufferMemory Result "BufferMemoryBindingDesc c_array"
  | Call_BindTextureMemory Result "TextureMemoryBindingDesc c_array"
  | Call_BindAccelerationStructureMemory Result "AccelerationStructureMemoryBindingDesc c_array"
  | Call_CalculateAllocationNumber nat ResourceGroupDesc
  | Call_AllocateAndBindMemory nat "Result \<times> nat option list" "nat list" ResourceGroupDesc
      "nat option list option"
  | Call_FreeMemory nat

fun step :: "NRIDescs \<Rightarrow> BackendQueries \<Rightarrow> (nat \<Rightarrow> 32 word) \<Rightarrow> Call \<Rightarrow> DeviceVal \<Rightarrow> DeviceVal option" where
  "step H Q fs (Call_Create c answer p out) s =
     map_option (\<lambda>(r, out', s'). s') (create H fs c answer p out s)"
| "step H Q fs (Call_Destroy d) s = destroy d s"
| "step H Q fs (Call_RegisterMemoryType t l) s = Some (RegisterMemoryType t l s)"
| "step H Q fs (Call_SetDebugName name) s = Some (SetDebugName name s)"
| "step H Q fs Call_GetDesc s = Some (GetDesc s)"
| "step H Q fs (Call_GetFormatSupport format) s = Some (GetFormatSupport format s)"
| "step H Q fs (Call_QueryVideoMemoryInfo answer l) s = Some (snd (QueryVideoMemoryInfo answer l s))"
| "step H Q fs (Call_BindBufferMemory answer descs) s =
     map_option snd (BindBufferMemory H Q answer descs s)"
| "step H Q fs (Call_BindTextureMemory answer descs) s =
     map_option snd (BindTextureMemory H Q answer descs s)"
| "step H Q fs (Call_BindAccelerationStructureMemory answer descs) s =
     map_option snd (BindAccelerationStructureMemory answer descs s)"
| "step H Q fs (Call_CalculateAllocationNumber helperAnswer d) s =
     map_option snd (CalculateAllocationNumber H helperAnswer d s)"
| "step H Q fs (Call_AllocateAndBindMemory helperAnswer answer ps d allocations) s =
     map_option (\<lambda>(r, out', s'). s') (AllocateAndBindMemory H helperAnswer answer ps d allocations s)"
| "step H Q fs (Call_FreeMemory m) s = FreeMemory m s"

text \<open>The handle that a successful creation call stores: the address of the new proxy, except
  that \<^verbatim>\<open>GetCommandQueue\<close> hands out the proxy that the device keeps for the queue type when
  there is one.\<close>

fun handle_on_success :: "Creation \<Rightarrow> nat \<Rightarrow> DeviceVal \<Rightarrow> nat" where
  "handle_on_success (Of_Object (Call_GetCommandQueue commandQueueType)) p s =
     (case m_CommandQueues s commandQueueType of Some q \<Rightarrow> q | None \<Rightarrow> p)"
| "handle_on_success c p s = p"

text \<open>What the backend answered to the call that an entry point forwards, for the entry points
  that return the result of the backend.\<close>

fun backend_answer :: "Call \<Rightarrow> Result option" where
  "backend_answer (Call_Create c answer p out) = Some (fst answer)"
| "backend_answer (Call_QueryVideoMemoryInfo answer l) = Some answer"
| "backend_answer (Call_BindBufferMemory answer descs) = Some answer"
| "backend_answer (Call_BindTextureMemory answer descs) = Some answer"
| "backend_answer (Call_BindAccelerationStructureMemory answer descs) = Some answer"
| "backend_answer (Call_AllocateAndBindMemory helperAnswer answer ps d allocations) = Some (fst answer)"
| "backend_answer _ = None"

text \<open>The calls that the step from \<open>s\<close> to \<open>s'\<close> forwarded to the backend: what the log of
  \<open>s'\<close> has after the log of \<open>s\<close>.\<close>

definition forwarded_calls :: "DeviceVal \<Rightarrow> DeviceVal \<Rightarrow> BackendCall list" where
  "forwarded_calls s s' =
     (if take (length (backendCalls s)) (backendCalls s') = backendCalls s
      then drop (length (backendCalls s)) (backendCalls s') else [])"

text \<open>The bind entry points of the backend, and its entry points that make a resource which has
  its memory already: the resource allocator and the wrappers of native buffers, textures and
  acceleration structures.\<close>

definition is_bind_call :: "BackendCall \<Rightarrow> bool" where
  "is_bind_call c =
     (case c of
        Core_BindBufferMemory descs \<Rightarrow> True
      | Core_BindTextureMemory descs \<Rightarrow> True
      | RayTracing_BindAccelerationStructureMemory descs \<Rightarrow> True
      | Helper_AllocateAndBindMemory \<Rightarrow> True
      | _ \<Rightarrow> False)"

definition is_bound_creation_call :: "BackendCall \<Rightarrow> bool" where
  "is_bound_creation_call c =
     (case c of
        ResourceAllocator_AllocateBuffer d \<Rightarrow> True
      | ResourceAllocator_AllocateTexture d \<Rightarrow> True
      | ResourceAllocator_AllocateAccelerationStructure \<Rightarrow> True
      | WrapperVK_CreateBufferVK \<Rightarrow> True
      | WrapperVKAPI w \<Rightarrow>
          w = WrapperVK_CreateTextureVK \<or> w = WrapperVK_CreateAccelerationStructureVK
      | WrapperD3D11API w \<Rightarrow>
          w = WrapperD3D11_CreateBufferD3D11 \<or> w = WrapperD3D11_CreateTextureD3D11
      | WrapperD3D12API w \<Rightarrow>
          w = WrapperD3D12_CreateBufferD3D12 \<or> w = WrapperD3D12_CreateTextureD3D12
          \<or> w = WrapperD3D12_CreateAccelerationStructureD3D12
      | _ \<Rightarrow> False)"

text \<open>In the step from \<open>s\<close> to \<open>s'\<close> the entry point called a bind, or allocate-and-bind,
  entry point of the backend, and the backend answered SUCCESS to it.\<close>

definition successful_bind :: "Call \<Rightarrow> DeviceVal \<Rightarrow> DeviceVal \<Rightarrow> bool" where
  "successful_bind call s s' \<longleftrightarrow>
     backend_answer call = Some SUCCESS
     \<and> list_ex is_bind_call (forwarded_calls s s')"

text \<open>In the step from \<open>s\<close> to \<open>s'\<close> the entry point called the resource allocator of the
  backend, which allocates and binds the memory of the resource it makes, or a wrapper of a
  native resource, and the backend answered SUCCESS to it.\<close>

definition successful_bound_creation :: "Call \<Rightarrow> DeviceVal \<Rightarrow> DeviceVal \<Rightarrow> bool" where
  "successful_bound_creation call s s' \<longleftrightarrow>
     backend_answer call = Some SUCCESS
     \<and> list_ex is_bound_creation_call (forwarded_calls s s')"

text \<open>The bound flags of the resources of a state, by kind and address.\<close>

datatype ResourceKind = BufferKind | TextureKind | AccelerationStructureKind

fun bound_flag :: "DeviceVal \<Rightarrow> ResourceKind \<Rightarrow> nat \<Rightarrow> bool option" where
  "bound_flag s BufferKind h = map_option buf_isBoundToMemory (buffers s h)"
| "bound_flag s TextureKind h = map_option tex_isBoundToMemory (textures s h)"
| "bound_flag s AccelerationStructureKind h = map_option as_isBoundToMemory (accelerationStructures s h)"



text \<open>What a step from \<open>s\<close> to \<open>s'\<close> by \<open>call\<close> may do to the bound flag of the resource of
  kind \<open>k\<close> at address \<open>h\<close>: a flag that is set stays set while the resource lives; a flag is
  raised only by a successful bind; a resource is created with the flag set only by a
  successful call of the resource allocator or of a wrapper of a native resource.\<close>

definition flag_rule :: "Call \<Rightarrow> DeviceVal \<Rightarrow> DeviceVal \<Rightarrow> ResourceKind \<Rightarrow> nat \<Rightarrow> bool" where
  "flag_rule call s s' k h \<longleftrightarrow>
     (bound_flag s k h = Some True \<and> bound_flag s' k h \<noteq> None \<longrightarrow> bound_flag s' k h = Some True)
     \<and> (bound_flag s k h = Some False \<and> bound_flag s' k h = Some True \<longrightarrow> successful_bind call s s')
     \<and> (bound_flag s k h = None \<and> bound_flag s' k h = Some True \<longrightarrow>
           successful_bound_creation call s s')"

text \<open>The state in which the descriptors recorded for the views are replaced, the one of the
  view at address \<open>h\<close> by \<open>g h\<close> of it; and the address at which a call makes a view.\<close>

definition with_view_descs :: "(nat \<Rightarrow> DescriptorDesc \<Rightarrow> DescriptorDesc) \<Rightarrow> DeviceVal \<Rightarrow> DeviceVal" where
  "with_view_descs g s =
     s\<lparr>descriptors := (\<lambda>h. map_option (\<lambda>v. v\<lparr>desc_desc := g h (desc_desc v)\<rparr>) (descriptors s h))\<rparr>"

fun new_view_address :: "Call \<Rightarrow> nat option" where
  "new_view_address (Call_Create (Of_Descriptor c) answer p out) = Some p"
| "new_view_address call = None"

text \<open>Views of one and three dimensions of the texture at address 1, and a device that holds
  the texture with a view of its last mip level at address 5.\<close>

definition example_view_1D :: "Mip_t \<Rightarrow> Mip_t \<Rightarrow> Texture1DViewDesc" where
  "example_view_1D mipOffset mipNum =
     \<lparr>t1_texture = Some 1, t1_viewType = 0, t1_format = 1, t1_mipOffset = mipOffset,
      t1_mipNum = mipNum, t1_layerOffset = 0, t1_layerNum = 1\<rparr>"

definition example_view_3D :: "Mip_t \<Rightarrow> Mip_t \<Rightarrow> Texture3DViewDesc" where
  "example_view_3D mipOffset mipNum =
     \<lparr>t3_texture = Some 1, t3_viewType = 0, t3_format = 1, t3_mipOffset = mipOffset,
      t3_mipNum = mipNum, t3_sliceOffset = 0, t3_sliceNum = 1\<rparr>"

definition device_with_view :: DeviceVal where
  "device_with_view =
     device_with_texture
       \<lparr>descriptors := [5 \<mapsto> \<lparr>desc_impl = 9, desc_desc = Texture2DView (example_view 3 1)\<rparr>]\<rparr>"

section \<open>Properties\<close>

subsection \<open>The mip count bound\<close>

lemma halved_le:
  fixes x y :: nat
  shows "x \<le> y \<Longrightarrow> 1 < y \<Longrightarrow> (if 1 < x then x div 2 else x) \<le> y div 2"
  by (cases "1 < x") (simp_all add: div_le_mono)

lemma max_halved:
  fixes a b c :: nat
  assumes "1 < max a (max b c)"
  shows "max (if 1 < a then a div 2 else a)
           (max (if 1 < b then b div 2 else b) (if 1 < c then c div 2 else c))
         = max a (max b c) div 2"
proof (rule antisym)
  let ?M = "max a (max b c)"
  show "max (if 1 < a then a div 2 else a)
          (max (if 1 < b then b div 2 else b) (if 1 < c then c div 2 else c)) \<le> ?M div 2"
    using assms by (intro max.boundedI halved_le) simp_all
  have "?M = a \<or> ?M = b \<or> ?M = c" by (simp add: max_def)
  then consider "?M = a" | "?M = b" | "?M = c" by blast
  then show "?M div 2 \<le> max (if 1 < a then a div 2 else a)
          (max (if 1 < b then b div 2 else b) (if 1 < c then c div 2 else c))"
  proof cases
    case 1 with assms have "1 < a" by simp
    then show ?thesis using 1 by (simp add: max.coboundedI1)
  next
    case 2 with assms have "1 < b" by simp
    then show ?thesis using 2 by (simp add: max.coboundedI1 max.coboundedI2)
  next
    case 3 with assms have "1 < c" by simp
    then show ?thesis using 3 by (simp add: max.coboundedI2)
  qed
qed

lemma floorlog_halve: "0 < n \<Longrightarrow> floorlog 2 n = floorlog 2 (n div 2) + 1"
  by (subst compute_floorlog) simp

lemma floorlog_small: "n \<le> 1 \<Longrightarrow> floorlog 2 n \<le> 1"
  by (simp add: floorlog_le_iff)

lemma floorlog_pos: "0 < n \<Longrightarrow> 0 < floorlog 2 n"
  using floorlog_eq_zero_iff[of 2 n] by simp

lemma GetMaxMipNum_loop_eq:
  "GetMaxMipNum_loop w h d m = m + of_nat (floorlog 2 (max (unat w) (max (unat h) (unat d))) - 1)"
proof (induction w h d m rule: GetMaxMipNum_loop.induct)
  case (1 w h d m)
  let ?M = "max (unat w) (max (unat h) (unat d))"
  show ?case
  proof (cases "w > 1 \<or> h > 1 \<or> d > 1")
    case False
    then have "?M \<le> 1" by (simp add: word_less_nat_alt not_less)
    then have "floorlog 2 ?M - 1 = 0" using floorlog_small[of ?M] by simp
    with False show ?thesis by (subst GetMaxMipNum_loop.simps) (simp del: GetMaxMipNum_loop.simps)
  next
    case True
    then have M: "1 < ?M" by (auto simp: word_less_nat_alt)
    let ?w = "if w > 1 then drop_bit 1 w else w"
    let ?h = "if h > 1 then drop_bit 1 h else h"
    let ?d = "if d > 1 then drop_bit 1 d else d"
    have un: "unat ?w = (if 1 < unat w then unat w div 2 else unat w)"
             "unat ?h = (if 1 < unat h then unat h div 2 else unat h)"
             "unat ?d = (if 1 < unat d then unat d div 2 else unat d)"
      by (simp_all add: word_less_nat_alt halve_unat del: drop_bit_Suc)
    have M': "max (unat ?w) (max (unat ?h) (unat ?d)) = ?M div 2"
      unfolding un using max_halved[OF M] .
    have pos: "0 < floorlog 2 (?M div 2)"
      using M by (intro floorlog_pos) simp
    have "GetMaxMipNum_loop w h d m = GetMaxMipNum_loop ?w ?h ?d (m + 1)"
      using True by (subst GetMaxMipNum_loop.simps) (simp del: GetMaxMipNum_loop.simps)
    also have "\<dots> = (m + 1) + of_nat (floorlog 2 (?M div 2) - 1)"
      using "1.IH"[OF True] unfolding M' .
    also have "\<dots> = m + of_nat (floorlog 2 (?M div 2))"
      using pos by (cases "floorlog 2 (?M div 2)") simp_all
    also have "floorlog 2 (?M div 2) = floorlog 2 ?M - 1"
      using floorlog_halve[of ?M] M by simp
    finally show ?thesis .
  qed
qed

lemma unat_max16: "max (unat (w::16 word)) (max (unat (h::16 word)) (unat (d::16 word))) < 65536"
proof -
  have "\<And>x::16 word. unat x < 65536"
  proof -
    fix x :: "16 word"
    have "unat x < 2 ^ LENGTH(16)" by (rule unsigned_less)
    then show "unat x < 65536" by simp
  qed
  then show ?thesis by simp
qed

lemma floorlog_16: "n < 65536 \<Longrightarrow> floorlog 2 n \<le> 16"
  by (simp add: floorlog_le_iff)

lemma unat_GetMaxMipNum:
  assumes "w \<noteq> 0 \<or> h \<noteq> 0 \<or> d \<noteq> 0"
  shows "unat (GetMaxMipNum w h d) = floorlog 2 (max (unat w) (max (unat h) (unat d)))"
proof -
  let ?M = "max (unat w) (max (unat h) (unat d))"
  have M: "0 < ?M" using assms by (auto simp: unat_gt_0 less_max_iff_disj)
  have le: "floorlog 2 ?M \<le> 16" by (rule floorlog_16[OF unat_max16])
  have pos: "0 < floorlog 2 ?M" by (rule floorlog_pos[OF M])
  have "GetMaxMipNum w h d = of_nat (floorlog 2 ?M)"
    unfolding GetMaxMipNum_def GetMaxMipNum_loop_eq using pos
    by (cases "floorlog 2 ?M") simp_all
  then show ?thesis using le by (simp add: unat_of_nat)
qed

lemma floorlog_as_log: "0 < n \<Longrightarrow> floorlog 2 n = 1 + nat \<lfloor>log 2 (real n)\<rfloor>"
  by (simp add: floorlog_def)

lemma first_failure_INVALID:
  "\<forall>c \<in> set cs. snd c = INVALID_ARGUMENT \<Longrightarrow> \<exists>c \<in> set cs. \<not> fst c
     \<Longrightarrow> first_failure cs = Some INVALID_ARGUMENT"
proof (induction cs)
  case Nil
  then show ?case by simp
next
  case (Cons c cs)
  obtain ok r where c: "c = (ok, r)" by (cases c)
  show ?case
  proof (cases ok)
    case True
    with Cons.prems c have "\<exists>c \<in> set cs. \<not> fst c" by auto
    with Cons True c show ?thesis by simp
  next
    case False
    with Cons.prems c show ?thesis by simp
  qed
qed

lemma first_failure_None: "first_failure cs = None \<longleftrightarrow> (\<forall>c \<in> set cs. fst c)"
proof (induction cs)
  case Nil
  then show ?case by simp
next
  case (Cons c cs)
  then show ?case by (cases c) simp
qed

lemma GetMaxMipNum_spec:
  assumes "td_width t \<noteq> 0 \<or> td_height t \<noteq> 0 \<or> td_depth t \<noteq> 0"
  shows "unat (GetMaxMipNum (td_width t) (td_height t) (td_depth t)) = max_mip_spec t"
proof -
  have "0 < max (unat (td_width t)) (max (unat (td_height t)) (unat (td_depth t)))"
    using assms by (auto simp: unat_gt_0 less_max_iff_disj)
  then show ?thesis
    unfolding max_mip_spec_def using unat_GetMaxMipNum[OF assms] floorlog_as_log by simp
qed

text \<open>
  C9. For a texture descriptor with nonzero width, height and depth, the bound computed by
  \<open>GetMaxMipNum\<close> is \<open>1 + \<lfloor>log\<^sub>2 (max width height depth)\<rfloor>\<close>: the halving stops at 1x1x1.
  \<open>CreateTexture\<close> answers INVALID_ARGUMENT, without calling the backend and without touching
  the out handle, when \<open>mipNum\<close> exceeds the bound; a nonzero \<open>mipNum\<close> at or below the bound
  passes when the other checks of the descriptor pass, and the call is forwarded.
\<close>

theorem CreateTexture_mipNum_bound:
  assumes "td_width t \<noteq> 0" and "td_height t \<noteq> 0" and "td_depth t \<noteq> 0"
  shows "unat (GetMaxMipNum (td_width t) (td_height t) (td_depth t)) = max_mip_spec t
       \<and> (max_mip_spec t < unat (td_mipNum t) \<longrightarrow>
            CreateTexture H answer p t texture s = Some (INVALID_ARGUMENT, texture, REPORT_ERROR s))
       \<and> (td_mipNum t \<noteq> 0 \<and> unat (td_mipNum t) \<le> max_mip_spec t
            \<and> Format_UNKNOWN H < td_format t \<and> td_format t < Format_MAX_NUM H
            \<and> td_layerNum t \<noteq> 0 \<and> td_sampleNum t \<noteq> 0 \<and> textures s p = None \<longrightarrow>
            CreateTexture_checks H t = None
            \<and> (\<exists>out s'. CreateTexture H answer p t texture s = Some (fst answer, out, s')
                  \<and> backendCalls s' = backendCalls s @ [Core_CreateTexture t]))"
proof (intro conjI impI)
  show bound: "unat (GetMaxMipNum (td_width t) (td_height t) (td_depth t)) = max_mip_spec t"
    using assms(1) by (intro GetMaxMipNum_spec) simp
  {
    assume "max_mip_spec t < unat (td_mipNum t)"
    then have "\<not> td_mipNum t \<le> GetMaxMipNum (td_width t) (td_height t) (td_depth t)"
      using bound by (simp add: word_le_nat_alt)
    then have "CreateTexture_checks H t = Some INVALID_ARGUMENT"
      unfolding CreateTexture_checks_def Let_def
      by (intro first_failure_INVALID) simp_all
    then show "CreateTexture H answer p t texture s = Some (INVALID_ARGUMENT, texture, REPORT_ERROR s)"
      by (simp add: CreateTexture_def)
  }
  {
    assume a: "td_mipNum t \<noteq> 0 \<and> unat (td_mipNum t) \<le> max_mip_spec t
            \<and> Format_UNKNOWN H < td_format t \<and> td_format t < Format_MAX_NUM H
            \<and> td_layerNum t \<noteq> 0 \<and> td_sampleNum t \<noteq> 0 \<and> textures s p = None"
    then have "td_mipNum t \<le> GetMaxMipNum (td_width t) (td_height t) (td_depth t)"
      using bound by (simp add: word_le_nat_alt)
    with a assms show checks: "CreateTexture_checks H t = None"
      by (simp add: CreateTexture_checks_def)
    from a have "textures (call_backend (Core_CreateTexture t) s) p = None"
      by (simp add: call_backend_def)
    with checks show "\<exists>out s'. CreateTexture H answer p t texture s = Some (fst answer, out, s')
                  \<and> backendCalls s' = backendCalls s @ [Core_CreateTexture t]"
      by (simp add: CreateTexture_def Allocate_def Let_def call_backend_def)
  }
qed

theorem CreateTexture_mipNum_bound_witness:
  "unat (GetMaxMipNum 8 1 7) = 4
   \<and> max_mip_spec \<lparr>td_format = 1, td_width = 8, td_height = 1, td_depth = 7, td_mipNum = 5,
                     td_layerNum = 1, td_sampleNum = 1\<rparr> = 4
   \<and> CreateTexture example_descs (SUCCESS, 7) 3
        \<lparr>td_format = 1, td_width = 8, td_height = 1, td_depth = 7, td_mipNum = 5,
         td_layerNum = 1, td_sampleNum = 1\<rparr> None empty_device
       = Some (INVALID_ARGUMENT, None, REPORT_ERROR empty_device)
   \<and> CreateTexture_checks example_descs
        \<lparr>td_format = 1, td_width = 8, td_height = 1, td_depth = 7, td_mipNum = 4,
         td_layerNum = 1, td_sampleNum = 1\<rparr> = None
   \<and> (\<exists>out s'. CreateTexture example_descs (SUCCESS, 7) 3
        \<lparr>td_format = 1, td_width = 8, td_height = 1, td_depth = 7, td_mipNum = 4,
         td_layerNum = 1, td_sampleNum = 1\<rparr> None empty_device = Some (SUCCESS, out, s')
        \<and> backendCalls s' = [Core_CreateTexture
        \<lparr>td_format = 1, td_width = 8, td_height = 1, td_depth = 7, td_mipNum = 4,
         td_layerNum = 1, td_sampleNum = 1\<rparr>])"
proof -
  let ?t5 = "\<lparr>td_format = 1, td_width = 8, td_height = 1, td_depth = 7, td_mipNum = 5,
              td_layerNum = 1, td_sampleNum = 1\<rparr>"
  let ?t4 = "\<lparr>td_format = 1, td_width = 8, td_height = 1, td_depth = 7, td_mipNum = 4,
              td_layerNum = 1, td_sampleNum = 1\<rparr>"
  have g: "unat (GetMaxMipNum 8 1 7) = 4"
    by (simp add: GetMaxMipNum_def GetMaxMipNum_loop.simps)
  have m5: "max_mip_spec ?t5 = 4"
    using CreateTexture_mipNum_bound[of ?t5] g by simp
  have m4: "max_mip_spec ?t4 = 4"
    using CreateTexture_mipNum_bound[of ?t4] g by simp
  have r5: "CreateTexture example_descs (SUCCESS, 7) 3 ?t5 None empty_device
       = Some (INVALID_ARGUMENT, None, REPORT_ERROR empty_device)"
    using CreateTexture_mipNum_bound[of ?t5 example_descs "(SUCCESS, 7)" 3 None empty_device] m5
    by simp
  have r4: "CreateTexture_checks example_descs ?t4 = None
     \<and> (\<exists>out s'. CreateTexture example_descs (SUCCESS, 7) 3 ?t4 None empty_device = Some (SUCCESS, out, s')
        \<and> backendCalls s' = [Core_CreateTexture ?t4])"
    using CreateTexture_mipNum_bound[of ?t4 example_descs "(SUCCESS, 7)" 3 None empty_device] m4
    by (simp add: example_descs_def empty_device_def)
  from g m5 r5 r4 show ?thesis by blast
qed

subsection \<open>Texture view bounds\<close>

lemma uint_less_unat: "uint (a::'a::len word) < uint (b::'a word) \<longleftrightarrow> unat a < unat b"
  by (simp only: uint_nat of_nat_less_iff)

lemma uint_sum_le_unat:
  "uint (a::'a::len word) + uint (b::'a word) \<le> uint (c::'a word) \<longleftrightarrow> unat a + unat b \<le> unat c"
  by (simp only: uint_nat of_nat_add[symmetric] of_nat_le_iff)

lemma Texture1DView_mip_checks_None:
  "Texture1DView_mip_checks v td = None \<longleftrightarrow>
     unat (t1_mipOffset v) < unat (td_mipNum td)
     \<and> unat (t1_mipOffset v) + unat (t1_mipNum v) \<le> unat (td_mipNum td)"
  by (simp add: Texture1DView_mip_checks_def uint_less_unat uint_sum_le_unat)

lemma Texture1DView_mip_checks_Some:
  "Texture1DView_mip_checks v td = Some r \<Longrightarrow> r = INVALID_ARGUMENT"
  by (simp add: Texture1DView_mip_checks_def split: if_splits)

lemma Texture2DView_mip_checks_None:
  "Texture2DView_mip_checks v td = None \<longleftrightarrow>
     unat (tv_mipOffset v) < unat (td_mipNum td)
     \<and> unat (tv_mipOffset v) + unat (tv_mipNum v) \<le> unat (td_mipNum td)"
  by (simp add: Texture2DView_mip_checks_def uint_less_unat uint_sum_le_unat)

lemma Texture2DView_mip_checks_Some:
  "Texture2DView_mip_checks v td = Some r \<Longrightarrow> r = INVALID_ARGUMENT"
  by (simp add: Texture2DView_mip_checks_def split: if_splits)

lemma Texture3DView_mip_checks_None:
  "Texture3DView_mip_checks v td = None \<longleftrightarrow>
     unat (t3_mipOffset v) < unat (td_mipNum td)
     \<and> unat (t3_mipOffset v) + unat (t3_mipNum v) \<le> unat (td_mipNum td)"
  by (simp add: Texture3DView_mip_checks_def uint_less_unat uint_sum_le_unat)

lemma Texture3DView_mip_checks_Some:
  "Texture3DView_mip_checks v td = Some r \<Longrightarrow> r = INVALID_ARGUMENT"
  by (simp add: Texture3DView_mip_checks_def split: if_splits)

subsection \<open>The descriptors recorded for the views are not read again\<close>

lemma with_view_descs_fields:
  "buffers (with_view_descs g s) = buffers s"
  "textures (with_view_descs g s) = textures s"
  "accelerationStructures (with_view_descs g s) = accelerationStructures s"
  "memories (with_view_descs g s) = memories s"
  "backendCalls (with_view_descs g s) = backendCalls s"
  "with_view_descs g (REPORT_ERROR s) = REPORT_ERROR (with_view_descs g s)"
  "with_view_descs g (call_backend c s) = call_backend c (with_view_descs g s)"
  "with_view_descs g (s\<lparr>memories := ms\<rparr>) = (with_view_descs g s)\<lparr>memories := ms\<rparr>"
  "with_view_descs g (s\<lparr>buffers := bs\<rparr>) = (with_view_descs g s)\<lparr>buffers := bs\<rparr>"
  "with_view_descs g (s\<lparr>textures := ts\<rparr>) = (with_view_descs g s)\<lparr>textures := ts\<rparr>"
  "with_view_descs g (s\<lparr>accelerationStructures := as\<rparr>)
     = (with_view_descs g s)\<lparr>accelerationStructures := as\<rparr>"
  by (simp_all add: with_view_descs_def REPORT_ERROR_def call_backend_def)

lemma for_each_entry_views:
  assumes "\<And>d t. f d (with_view_descs g t) = map_option (with_view_descs g) (f d t)"
  shows "for_each_entry f ds (with_view_descs g s) = map_option (with_view_descs g) (for_each_entry f ds s)"
proof (induction ds arbitrary: s)
  case Nil
  show ?case by simp
next
  case (Cons d ds)
  show ?case
  proof (cases "f d s")
    case None
    with assms[of d s] show ?thesis by simp
  next
    case (Some t)
    with assms[of d s] Cons.IH[of t] show ?thesis by simp
  qed
qed

lemma bind_entries_views:
  "bind_buffer_entry b (with_view_descs g t) = map_option (with_view_descs g) (bind_buffer_entry b t)"
  "bind_texture_entry x (with_view_descs g t) = map_option (with_view_descs g) (bind_texture_entry x t)"
  "bind_acceleration_structure_entry a (with_view_descs g t)
     = map_option (with_view_descs g) (bind_acceleration_structure_entry a t)"
  "SetBoundToMemory_buffer_entry pb (with_view_descs g t)
     = map_option (with_view_descs g) (SetBoundToMemory_buffer_entry pb t)"
  "SetBoundToMemory_texture_entry pt (with_view_descs g t)
     = map_option (with_view_descs g) (SetBoundToMemory_texture_entry pt t)"
  by (simp_all add: bind_buffer_entry_def bind_texture_entry_def bind_acceleration_structure_entry_def
      SetBoundToMemory_buffer_entry_def SetBoundToMemory_texture_entry_def
      MemoryVal_BindBuffer_def MemoryVal_BindTexture_def MemoryVal_BindAccelerationStructure_def
      BufferVal_SetBoundToMemory_def TextureVal_SetBoundToMemory_def
      AccelerationStructureVal_SetBoundToMemory_def with_view_descs_def
      split: option.splits prod.splits)

lemma bind_checks_views:
  "BindBufferMemory_entry H Q (with_view_descs g s) = BindBufferMemory_entry H Q s"
  "BindTextureMemory_entry H Q (with_view_descs g s) = BindTextureMemory_entry H Q s"
  "BindAccelerationStructureMemory_entry (with_view_descs g s) = BindAccelerationStructureMemory_entry s"
  by (rule ext, simp add: BindBufferMemory_entry_def BindTextureMemory_entry_def
        BindAccelerationStructureMemory_entry_def with_view_descs_fields
        cong: option.case_cong if_cong)+

lemma for_each_bind_views:
  "for_each_entry bind_buffer_entry bs (with_view_descs g s)
     = map_option (with_view_descs g) (for_each_entry bind_buffer_entry bs s)"
  "for_each_entry bind_texture_entry xs (with_view_descs g s)
     = map_option (with_view_descs g) (for_each_entry bind_texture_entry xs s)"
  "for_each_entry bind_acceleration_structure_entry as (with_view_descs g s)
     = map_option (with_view_descs g) (for_each_entry bind_acceleration_structure_entry as s)"
  "for_each_entry SetBoundToMemory_buffer_entry pbs (with_view_descs g s)
     = map_option (with_view_descs g) (for_each_entry SetBoundToMemory_buffer_entry pbs s)"
  "for_each_entry SetBoundToMemory_texture_entry pts (with_view_descs g s)
     = map_option (with_view_descs g) (for_each_entry SetBoundToMemory_texture_entry pts s)"
  by (rule for_each_entry_views, rule bind_entries_views)+

lemma with_view_descs_new:
  assumes "\<forall>x. g p x = x"
  shows "(\<lambda>h. map_option (\<lambda>v. v\<lparr>desc_desc := g h (desc_desc v)\<rparr>) (if h = p then Some w else D h))
     = (\<lambda>h. map_option (\<lambda>v. v\<lparr>desc_desc := g h (desc_desc v)\<rparr>) (D h))(p \<mapsto> w)"
  using assms by (auto simp: fun_eq_iff)

lemma BindBufferMemory_views:
  "BindBufferMemory H Q answer descs (with_view_descs g s)
     = map_option (\<lambda>(r, s'). (r, with_view_descs g s')) (BindBufferMemory H Q answer descs s)"
  by (simp add: BindBufferMemory_def bind_checks_views with_view_descs_fields[symmetric]
      for_each_bind_views Let_def
      split: c_array.splits option.splits sum.splits)

lemma BindTextureMemory_views:
  "BindTextureMemory H Q answer descs (with_view_descs g s)
     = map_option (\<lambda>(r, s'). (r, with_view_descs g s')) (BindTextureMemory H Q answer descs s)"
  by (simp add: BindTextureMemory_def bind_checks_views with_view_descs_fields[symmetric]
      for_each_bind_views Let_def
      split: c_array.splits option.splits sum.splits)

lemma BindAccelerationStructureMemory_views:
  "BindAccelerationStructureMemory answer descs (with_view_descs g s)
     = map_option (\<lambda>(r, s'). (r, with_view_descs g s'))
         (BindAccelerationStructureMemory answer descs s)"
  by (simp add: BindAccelerationStructureMemory_def bind_checks_views with_view_descs_fields[symmetric]
      for_each_bind_views Let_def
      split: c_array.splits option.splits sum.splits)

lemma CalculateAllocationNumber_views:
  "CalculateAllocationNumber H n d (with_view_descs g s)
     = map_option (\<lambda>(k, s'). (k, with_view_descs g s')) (CalculateAllocationNumber H n d s)"
  by (simp add: CalculateAllocationNumber_def with_view_descs_fields(1-5)
      with_view_descs_fields(6-11)[symmetric] split: option.splits sum.splits)

lemma wrap_allocations_views:
  "wrap_allocations loc i ps arr (with_view_descs g s)
     = map_option (\<lambda>(arr', s'). (arr', with_view_descs g s')) (wrap_allocations loc i ps arr s)"
proof (induction ps arbitrary: i arr s)
  case Nil
  show ?case by simp
next
  case (Cons p ps)
  show ?case
    by (simp add: with_view_descs_fields(1-5) with_view_descs_fields(6-11)[symmetric] Cons.IH
        split: option.splits)
qed

lemma AllocateAndBindMemory_views:
  "AllocateAndBindMemory H n answer ps d al (with_view_descs g s)
     = map_option (\<lambda>(r, al', s'). (r, al', with_view_descs g s'))
         (AllocateAndBindMemory H n answer ps d al s)"
  by (simp add: AllocateAndBindMemory_def CalculateAllocationNumber_views wrap_allocations_views
      with_view_descs_fields(1-5) with_view_descs_fields(6-11)[symmetric]
      for_each_bind_views
      Let_def split: option.splits sum.splits prod.splits)

lemma FreeMemory_views:
  "FreeMemory m (with_view_descs g s) = map_option (with_view_descs g) (FreeMemory m s)"
  by (simp add: FreeMemory_def ReportBoundResources_def REPORT_ERROR_def call_backend_def
      with_view_descs_def split: option.splits)

lemma destroy_views:
  "destroy x (with_view_descs g s) = map_option (with_view_descs g) (destroy x s)"
  by (cases x)
     (auto simp: DestroySwapChain_def DestroyCommandBuffer_def DestroyCommandAllocator_def
        DestroyDescriptorPool_def DestroyBuffer_def DestroyTexture_def DestroyDescriptor_def
        DestroyPipelineLayout_def DestroyPipeline_def DestroyQueryPool_def DestroyFence_def
        DestroyAccelerationStructure_def call_backend_def with_view_descs_def fun_eq_iff
        split: option.splits)

lemma CreateBuffer_views:
  "CreateBuffer answer p d out (with_view_descs g s)
     = map_option (\<lambda>(r, out', s'). (r, out', with_view_descs g s')) (CreateBuffer answer p d out s)"
  by (auto simp: CreateBuffer_def with_view_descs_def Let_def Allocate_def REPORT_ERROR_def call_backend_def
      split: option.splits if_splits c_array.splits sum.splits)

lemma AllocateBuffer_views:
  "AllocateBuffer answer p d out (with_view_descs g s)
     = map_option (\<lambda>(r, out', s'). (r, out', with_view_descs g s')) (AllocateBuffer answer p d out s)"
  by (auto simp: AllocateBuffer_def with_view_descs_def Let_def Allocate_def REPORT_ERROR_def call_backend_def
      split: option.splits if_splits c_array.splits sum.splits)

lemma CreateTexture_views:
  "CreateTexture H answer p d out (with_view_descs g s)
     = map_option (\<lambda>(r, out', s'). (r, out', with_view_descs g s')) (CreateTexture H answer p d out s)"
  by (auto simp: CreateTexture_def with_view_descs_def Let_def Allocate_def REPORT_ERROR_def call_backend_def
      split: option.splits if_splits c_array.splits sum.splits)

lemma AllocateTexture_views:
  "AllocateTexture H answer p d out (with_view_descs g s)
     = map_option (\<lambda>(r, out', s'). (r, out', with_view_descs g s')) (AllocateTexture H answer p d out s)"
  by (auto simp: AllocateTexture_def with_view_descs_def Let_def Allocate_def REPORT_ERROR_def call_backend_def
      split: option.splits if_splits c_array.splits sum.splits)

lemma CreateAccelerationStructure_views:
  "CreateAccelerationStructure answerAS p d out (with_view_descs g s)
     = map_option (\<lambda>(r, out', s'). (r, out', with_view_descs g s')) (CreateAccelerationStructure answerAS p d out s)"
  by (auto simp: CreateAccelerationStructure_def with_view_descs_def Let_def Allocate_def REPORT_ERROR_def call_backend_def
      split: option.splits if_splits c_array.splits sum.splits)

lemma AllocateAccelerationStructure_views:
  "AllocateAccelerationStructure answerAS p d out (with_view_descs g s)
     = map_option (\<lambda>(r, out', s'). (r, out', with_view_descs g s')) (AllocateAccelerationStructure answerAS p d out s)"
  by (auto simp: AllocateAccelerationStructure_def with_view_descs_def Let_def Allocate_def REPORT_ERROR_def call_backend_def
      split: option.splits if_splits c_array.splits sum.splits)

lemma AllocateMemory_views:
  "AllocateMemory answer p d out (with_view_descs g s)
     = map_option (\<lambda>(r, out', s'). (r, out', with_view_descs g s')) (AllocateMemory answer p d out s)"
  by (auto simp: AllocateMemory_def with_view_descs_def Let_def Allocate_def REPORT_ERROR_def call_backend_def
      split: option.splits if_splits c_array.splits sum.splits)

lemma CreateDescriptor_BufferView_views:
  assumes "\<forall>x. g p x = x"
  shows "CreateDescriptor_BufferView H bufferDesc answer p bufferViewDesc out (with_view_descs g s)
     = map_option (\<lambda>(r, out', s'). (r, out', with_view_descs g s')) (CreateDescriptor_BufferView H bufferDesc answer p bufferViewDesc out s)"
  by (auto simp: CreateDescriptor_BufferView_def with_view_descs_def Let_def Allocate_def REPORT_ERROR_def call_backend_def
      with_view_descs_new[where g = g and p = p, OF assms] split: option.splits if_splits c_array.splits sum.splits)

lemma CreateDescriptor_Texture1DView_views:
  assumes "\<forall>x. g p x = x"
  shows "CreateDescriptor_Texture1DView H answer p textureViewDesc out (with_view_descs g s)
     = map_option (\<lambda>(r, out', s'). (r, out', with_view_descs g s')) (CreateDescriptor_Texture1DView H answer p textureViewDesc out s)"
  by (auto simp: CreateDescriptor_Texture1DView_def with_view_descs_def Let_def Allocate_def REPORT_ERROR_def call_backend_def
      with_view_descs_new[where g = g and p = p, OF assms] split: option.splits if_splits c_array.splits sum.splits)

lemma CreateDescriptor_Texture2DView_views:
  assumes "\<forall>x. g p x = x"
  shows "CreateDescriptor_Texture2DView H answer p d out (with_view_descs g s)
     = map_option (\<lambda>(r, out', s'). (r, out', with_view_descs g s')) (CreateDescriptor_Texture2DView H answer p d out s)"
  by (auto simp: CreateDescriptor_Texture2DView_def with_view_descs_def Let_def Allocate_def REPORT_ERROR_def call_backend_def
      with_view_descs_new[where g = g and p = p, OF assms] split: option.splits if_splits c_array.splits sum.splits)

lemma CreateDescriptor_Texture3DView_views:
  assumes "\<forall>x. g p x = x"
  shows "CreateDescriptor_Texture3DView H answer p textureViewDesc out (with_view_descs g s)
     = map_option (\<lambda>(r, out', s'). (r, out', with_view_descs g s')) (CreateDescriptor_Texture3DView H answer p textureViewDesc out s)"
  by (auto simp: CreateDescriptor_Texture3DView_def with_view_descs_def Let_def Allocate_def REPORT_ERROR_def call_backend_def
      with_view_descs_new[where g = g and p = p, OF assms] split: option.splits if_splits c_array.splits sum.splits)

lemma CreateDescriptor_Sampler_views:
  assumes "\<forall>x. g p x = x"
  shows "CreateDescriptor_Sampler H isTextureFilterMinMaxSupported answer p samplerDesc out (with_view_descs g s)
     = map_option (\<lambda>(r, out', s'). (r, out', with_view_descs g s')) (CreateDescriptor_Sampler H isTextureFilterMinMaxSupported answer p samplerDesc out s)"
  by (auto simp: CreateDescriptor_Sampler_def with_view_descs_def Let_def Allocate_def REPORT_ERROR_def call_backend_def
      with_view_descs_new[where g = g and p = p, OF assms] split: option.splits if_splits c_array.splits sum.splits)

lemma CreatePipelineLayout_views:
  "CreatePipelineLayout H answer p d out (with_view_descs g s)
     = map_option (\<lambda>(r, out', s'). (r, out', with_view_descs g s')) (CreatePipelineLayout H answer p d out s)"
  by (auto simp: CreatePipelineLayout_def with_view_descs_def Let_def Allocate_def REPORT_ERROR_def call_backend_def
      split: option.splits if_splits c_array.splits sum.splits)

lemma CreatePipeline_Graphics_views:
  "CreatePipeline_Graphics H fs answer p d out (with_view_descs g s)
     = map_option (\<lambda>(r, out', s'). (r, out', with_view_descs g s')) (CreatePipeline_Graphics H fs answer p d out s)"
  by (auto simp: CreatePipeline_Graphics_def with_view_descs_def Let_def Allocate_def REPORT_ERROR_def call_backend_def
      split: option.splits if_splits c_array.splits sum.splits)

lemma CreatePipeline_Compute_views:
  "CreatePipeline_Compute H answer p computePipelineDesc out (with_view_descs g s)
     = map_option (\<lambda>(r, out', s'). (r, out', with_view_descs g s')) (CreatePipeline_Compute H answer p computePipelineDesc out s)"
  by (auto simp: CreatePipeline_Compute_def with_view_descs_def Let_def Allocate_def REPORT_ERROR_def call_backend_def
      split: option.splits if_splits c_array.splits sum.splits)

lemma CreatePipeline_RayTracing_views:
  "CreatePipeline_RayTracing H answer p pipelineDesc out (with_view_descs g s)
     = map_option (\<lambda>(r, out', s'). (r, out', with_view_descs g s')) (CreatePipeline_RayTracing H answer p pipelineDesc out s)"
  by (auto simp: CreatePipeline_RayTracing_def with_view_descs_def Let_def Allocate_def REPORT_ERROR_def call_backend_def
      split: option.splits if_splits c_array.splits sum.splits)

lemma CreateSwapChain_views:
  "CreateSwapChain H answer p swapChainDesc out (with_view_descs g s)
     = map_option (\<lambda>(r, out', s'). (r, out', with_view_descs g s')) (CreateSwapChain H answer p swapChainDesc out s)"
  by (auto simp: CreateSwapChain_def with_view_descs_def Let_def Allocate_def REPORT_ERROR_def call_backend_def
      split: option.splits if_splits c_array.splits sum.splits)

lemma GetCommandQueue_views:
  "GetCommandQueue H answer p commandQueueType out (with_view_descs g s)
     = map_option (\<lambda>(r, out', s'). (r, out', with_view_descs g s')) (GetCommandQueue H answer p commandQueueType out s)"
  by (auto simp: GetCommandQueue_def with_view_descs_def Let_def Allocate_def REPORT_ERROR_def call_backend_def
      split: option.splits if_splits c_array.splits sum.splits)

lemma CreateCommandAllocator_views:
  "CreateCommandAllocator commandQueue answer p out (with_view_descs g s)
     = map_option (\<lambda>(r, out', s'). (r, out', with_view_descs g s')) (CreateCommandAllocator commandQueue answer p out s)"
  by (auto simp: CreateCommandAllocator_def with_view_descs_def Let_def Allocate_def REPORT_ERROR_def call_backend_def
      split: option.splits if_splits c_array.splits sum.splits)

lemma CreateDescriptorPool_views:
  "CreateDescriptorPool answer p out (with_view_descs g s)
     = map_option (\<lambda>(r, out', s'). (r, out', with_view_descs g s')) (CreateDescriptorPool answer p out s)"
  by (auto simp: CreateDescriptorPool_def with_view_descs_def Let_def Allocate_def REPORT_ERROR_def call_backend_def
      split: option.splits if_splits c_array.splits sum.splits)

lemma CreateQueryPool_views:
  "CreateQueryPool H answer p queryPoolDesc out (with_view_descs g s)
     = map_option (\<lambda>(r, out', s'). (r, out', with_view_descs g s')) (CreateQueryPool H answer p queryPoolDesc out s)"
  by (auto simp: CreateQueryPool_def with_view_descs_def Let_def Allocate_def REPORT_ERROR_def call_backend_def
      split: option.splits if_splits c_array.splits sum.splits)

lemma CreateFence_views:
  "CreateFence answer p out (with_view_descs g s)
     = map_option (\<lambda>(r, out', s'). (r, out', with_view_descs g s')) (CreateFence answer p out s)"
  by (auto simp: CreateFence_def with_view_descs_def Let_def Allocate_def REPORT_ERROR_def call_backend_def
      split: option.splits if_splits c_array.splits sum.splits)

lemma CreateCommandQueue_VK_views:
  "CreateCommandQueue_VK H answer p commandQueueVKDesc out (with_view_descs g s)
     = map_option (\<lambda>(r, out', s'). (r, out', with_view_descs g s')) (CreateCommandQueue_VK H answer p commandQueueVKDesc out s)"
  by (auto simp: CreateCommandQueue_VK_def with_view_descs_def Let_def Allocate_def REPORT_ERROR_def call_backend_def
      split: option.splits if_splits c_array.splits sum.splits)

lemma CreateCommandAllocator_VK_views:
  "CreateCommandAllocator_VK H answer p commandAllocatorVKDesc out (with_view_descs g s)
     = map_option (\<lambda>(r, out', s'). (r, out', with_view_descs g s')) (CreateCommandAllocator_VK H answer p commandAllocatorVKDesc out s)"
  by (auto simp: CreateCommandAllocator_VK_def with_view_descs_def Let_def Allocate_def REPORT_ERROR_def call_backend_def
      split: option.splits if_splits c_array.splits sum.splits)

lemma CreateCommandBuffer_VK_views:
  "CreateCommandBuffer_VK H answer p commandBufferVKDesc out (with_view_descs g s)
     = map_option (\<lambda>(r, out', s'). (r, out', with_view_descs g s')) (CreateCommandBuffer_VK H answer p commandBufferVKDesc out s)"
  by (auto simp: CreateCommandBuffer_VK_def with_view_descs_def Let_def Allocate_def REPORT_ERROR_def call_backend_def
      split: option.splits if_splits c_array.splits sum.splits)

lemma CreateDescriptorPool_VK_views:
  "CreateDescriptorPool_VK answer p descriptorPoolVKDesc out (with_view_descs g s)
     = map_option (\<lambda>(r, out', s'). (r, out', with_view_descs g s')) (CreateDescriptorPool_VK answer p descriptorPoolVKDesc out s)"
  by (auto simp: CreateDescriptorPool_VK_def with_view_descs_def Let_def Allocate_def REPORT_ERROR_def call_backend_def
      split: option.splits if_splits c_array.splits sum.splits)

lemma CreateBuffer_VK_views:
  "CreateBuffer_VK answer p d out (with_view_descs g s)
     = map_option (\<lambda>(r, out', s'). (r, out', with_view_descs g s')) (CreateBuffer_VK answer p d out s)"
  by (auto simp: CreateBuffer_VK_def with_view_descs_def Let_def Allocate_def REPORT_ERROR_def call_backend_def
      split: option.splits if_splits c_array.splits sum.splits)

lemma CreateTexture_VK_views:
  "CreateTexture_VK H convertedFormat textureDesc answer p textureVKDesc out (with_view_descs g s)
     = map_option (\<lambda>(r, out', s'). (r, out', with_view_descs g s')) (CreateTexture_VK H convertedFormat textureDesc answer p textureVKDesc out s)"
  by (auto simp: CreateTexture_VK_def with_view_descs_def Let_def Allocate_def REPORT_ERROR_def call_backend_def
      split: option.splits if_splits c_array.splits sum.splits)

lemma CreateMemory_VK_views:
  "CreateMemory_VK H answer p d out (with_view_descs g s)
     = map_option (\<lambda>(r, out', s'). (r, out', with_view_descs g s')) (CreateMemory_VK H answer p d out s)"
  by (auto simp: CreateMemory_VK_def with_view_descs_def Let_def Allocate_def REPORT_ERROR_def call_backend_def
      split: option.splits if_splits c_array.splits sum.splits)

lemma CreateGraphicsPipeline_VK_views:
  "CreateGraphicsPipeline_VK answer p vkPipeline out (with_view_descs g s)
     = map_option (\<lambda>(r, out', s'). (r, out', with_view_descs g s')) (CreateGraphicsPipeline_VK answer p vkPipeline out s)"
  by (auto simp: CreateGraphicsPipeline_VK_def with_view_descs_def Let_def Allocate_def REPORT_ERROR_def call_backend_def
      split: option.splits if_splits c_array.splits sum.splits)

lemma CreateComputePipeline_VK_views:
  "CreateComputePipeline_VK answer p vkPipeline out (with_view_descs g s)
     = map_option (\<lambda>(r, out', s'). (r, out', with_view_descs g s')) (CreateComputePipeline_VK answer p vkPipeline out s)"
  by (auto simp: CreateComputePipeline_VK_def with_view_descs_def Let_def Allocate_def REPORT_ERROR_def call_backend_def
      split: option.splits if_splits c_array.splits sum.splits)

lemma CreateQueryPool_VK_views:
  "CreateQueryPool_VK answer p queryPoolVKDesc out (with_view_descs g s)
     = map_option (\<lambda>(r, out', s'). (r, out', with_view_descs g s')) (CreateQueryPool_VK answer p queryPoolVKDesc out s)"
  by (auto simp: CreateQueryPool_VK_def with_view_descs_def Let_def Allocate_def REPORT_ERROR_def call_backend_def
      split: option.splits if_splits c_array.splits sum.splits)

lemma CreateAccelerationStructure_VK_views:
  "CreateAccelerationStructure_VK answer p accelerationStructureDesc out (with_view_descs g s)
     = map_option (\<lambda>(r, out', s'). (r, out', with_view_descs g s')) (CreateAccelerationStructure_VK answer p accelerationStructureDesc out s)"
  by (auto simp: CreateAccelerationStructure_VK_def with_view_descs_def Let_def Allocate_def REPORT_ERROR_def call_backend_def
      split: option.splits if_splits c_array.splits sum.splits)

lemma CreateCommandBuffer_D3D11_views:
  "CreateCommandBuffer_D3D11 answer p commandBufferDesc out (with_view_descs g s)
     = map_option (\<lambda>(r, out', s'). (r, out', with_view_descs g s')) (CreateCommandBuffer_D3D11 answer p commandBufferDesc out s)"
  by (auto simp: CreateCommandBuffer_D3D11_def with_view_descs_def Let_def Allocate_def REPORT_ERROR_def call_backend_def
      split: option.splits if_splits c_array.splits sum.splits)

lemma CreateBuffer_D3D11_views:
  "CreateBuffer_D3D11 answer p bufferDesc out (with_view_descs g s)
     = map_option (\<lambda>(r, out', s'). (r, out', with_view_descs g s')) (CreateBuffer_D3D11 answer p bufferDesc out s)"
  by (auto simp: CreateBuffer_D3D11_def with_view_descs_def Let_def Allocate_def REPORT_ERROR_def call_backend_def
      split: option.splits if_splits c_array.splits sum.splits)

lemma CreateTexture_D3D11_views:
  "CreateTexture_D3D11 textureDesc answer p textureDesc11 out (with_view_descs g s)
     = map_option (\<lambda>(r, out', s'). (r, out', with_view_descs g s')) (CreateTexture_D3D11 textureDesc answer p textureDesc11 out s)"
  by (auto simp: CreateTexture_D3D11_def with_view_descs_def Let_def Allocate_def REPORT_ERROR_def call_backend_def
      split: option.splits if_splits c_array.splits sum.splits)

lemma CreateCommandBuffer_D3D12_views:
  "CreateCommandBuffer_D3D12 answer p commandBufferDesc out (with_view_descs g s)
     = map_option (\<lambda>(r, out', s'). (r, out', with_view_descs g s')) (CreateCommandBuffer_D3D12 answer p commandBufferDesc out s)"
  by (auto simp: CreateCommandBuffer_D3D12_def with_view_descs_def Let_def Allocate_def REPORT_ERROR_def call_backend_def
      split: option.splits if_splits c_array.splits sum.splits)

lemma CreateDescriptorPool_D3D12_views:
  "CreateDescriptorPool_D3D12 answer p descriptorPoolD3D12Desc out (with_view_descs g s)
     = map_option (\<lambda>(r, out', s'). (r, out', with_view_descs g s')) (CreateDescriptorPool_D3D12 answer p descriptorPoolD3D12Desc out s)"
  by (auto simp: CreateDescriptorPool_D3D12_def with_view_descs_def Let_def Allocate_def REPORT_ERROR_def call_backend_def
      split: option.splits if_splits c_array.splits sum.splits)

lemma CreateBuffer_D3D12_views:
  "CreateBuffer_D3D12 answer p bufferDesc out (with_view_descs g s)
     = map_option (\<lambda>(r, out', s'). (r, out', with_view_descs g s')) (CreateBuffer_D3D12 answer p bufferDesc out s)"
  by (auto simp: CreateBuffer_D3D12_def with_view_descs_def Let_def Allocate_def REPORT_ERROR_def call_backend_def
      split: option.splits if_splits c_array.splits sum.splits)

lemma CreateTexture_D3D12_views:
  "CreateTexture_D3D12 textureDesc answer p textureDesc12 out (with_view_descs g s)
     = map_option (\<lambda>(r, out', s'). (r, out', with_view_descs g s')) (CreateTexture_D3D12 textureDesc answer p textureDesc12 out s)"
  by (auto simp: CreateTexture_D3D12_def with_view_descs_def Let_def Allocate_def REPORT_ERROR_def call_backend_def
      split: option.splits if_splits c_array.splits sum.splits)

lemma CreateMemory_D3D12_views:
  "CreateMemory_D3D12 H heapSize answer p memoryDesc out (with_view_descs g s)
     = map_option (\<lambda>(r, out', s'). (r, out', with_view_descs g s')) (CreateMemory_D3D12 H heapSize answer p memoryDesc out s)"
  by (auto simp: CreateMemory_D3D12_def with_view_descs_def Let_def Allocate_def REPORT_ERROR_def call_backend_def
      split: option.splits if_splits c_array.splits sum.splits)

lemma CreateAccelerationStructure_D3D12_views:
  "CreateAccelerationStructure_D3D12 answer p accelerationStructureDesc out (with_view_descs g s)
     = map_option (\<lambda>(r, out', s'). (r, out', with_view_descs g s')) (CreateAccelerationStructure_D3D12 answer p accelerationStructureDesc out s)"
  by (auto simp: CreateAccelerationStructure_D3D12_def with_view_descs_def Let_def Allocate_def REPORT_ERROR_def call_backend_def
      split: option.splits if_splits c_array.splits sum.splits)

lemma create_resource_views:
  "create_resource H c answer p out (with_view_descs g s)
     = map_option (\<lambda>(r, out', s'). (r, out', with_view_descs g s')) (create_resource H c answer p out s)"
  by (cases c) (simp_all add: AllocateAccelerationStructure_views AllocateBuffer_views AllocateMemory_views AllocateTexture_views CreateAccelerationStructure_views CreateBuffer_views CreateTexture_views)

lemma create_descriptor_views:
  assumes "\<forall>x. g p x = x"
  shows "create_descriptor H c answer p out (with_view_descs g s)
     = map_option (\<lambda>(r, out', s'). (r, out', with_view_descs g s')) (create_descriptor H c answer p out s)"
  using assms by (cases c) (simp_all add: CreateDescriptor_BufferView_views CreateDescriptor_Sampler_views CreateDescriptor_Texture1DView_views CreateDescriptor_Texture2DView_views CreateDescriptor_Texture3DView_views)

lemma create_pipeline_views:
  "create_pipeline H fs c answer p out (with_view_descs g s)
     = map_option (\<lambda>(r, out', s'). (r, out', with_view_descs g s')) (create_pipeline H fs c answer p out s)"
  by (cases c) (simp_all add: CreatePipelineLayout_views CreatePipeline_Compute_views CreatePipeline_Graphics_views CreatePipeline_RayTracing_views)

lemma create_object_views:
  "create_object H c answer p out (with_view_descs g s)
     = map_option (\<lambda>(r, out', s'). (r, out', with_view_descs g s')) (create_object H c answer p out s)"
  by (cases c) (simp_all add: CreateCommandAllocator_views CreateDescriptorPool_views CreateFence_views CreateQueryPool_views CreateSwapChain_views GetCommandQueue_views)

lemma create_VK_views:
  "create_VK H c answer p out (with_view_descs g s)
     = map_option (\<lambda>(r, out', s'). (r, out', with_view_descs g s')) (create_VK H c answer p out s)"
  by (cases c) (simp_all add: CreateAccelerationStructure_VK_views CreateBuffer_VK_views CreateCommandAllocator_VK_views CreateCommandBuffer_VK_views CreateCommandQueue_VK_views CreateComputePipeline_VK_views CreateDescriptorPool_VK_views CreateGraphicsPipeline_VK_views CreateMemory_VK_views CreateQueryPool_VK_views CreateTexture_VK_views)

lemma create_D3D11_views:
  "create_D3D11 c answer p out (with_view_descs g s)
     = map_option (\<lambda>(r, out', s'). (r, out', with_view_descs g s')) (create_D3D11 c answer p out s)"
  by (cases c) (simp_all add: CreateBuffer_D3D11_views CreateCommandBuffer_D3D11_views CreateTexture_D3D11_views)

lemma create_D3D12_views:
  "create_D3D12 H c answer p out (with_view_descs g s)
     = map_option (\<lambda>(r, out', s'). (r, out', with_view_descs g s')) (create_D3D12 H c answer p out s)"
  by (cases c) (simp_all add: CreateAccelerationStructure_D3D12_views CreateBuffer_D3D12_views CreateCommandBuffer_D3D12_views CreateDescriptorPool_D3D12_views CreateMemory_D3D12_views CreateTexture_D3D12_views)

lemma step_views:
  assumes "\<And>p x. new_view_address call = Some p \<Longrightarrow> g p x = x"
  shows "step H Q fs call (with_view_descs g s) = map_option (with_view_descs g) (step H Q fs call s)"
proof (cases call)
  case (Call_Create c answer p out)
  show ?thesis
  proof (cases c)
    case (Of_Descriptor x)
    with Call_Create assms have "\<forall>y. g p y = y" by simp
    from create_descriptor_views[where g = g and p = p, OF this] show ?thesis
      unfolding Call_Create Of_Descriptor by (simp add: option.map_comp comp_def split_def)
  qed (simp_all add: Call_Create create_resource_views create_pipeline_views create_object_views
        create_VK_views create_D3D11_views create_D3D12_views option.map_comp comp_def split_def)
next
  case (Call_Destroy x)
  then show ?thesis by (simp add: destroy_views)
next
  case (Call_RegisterMemoryType t l)
  then show ?thesis by (simp add: RegisterMemoryType_def with_view_descs_def)
next
  case (Call_SetDebugName name)
  then show ?thesis by (simp add: SetDebugName_def call_backend_def with_view_descs_def)
next
  case Call_GetDesc
  then show ?thesis by (simp add: GetDesc_def call_backend_def with_view_descs_def)
next
  case (Call_GetFormatSupport format)
  then show ?thesis by (simp add: GetFormatSupport_def call_backend_def with_view_descs_def)
next
  case (Call_QueryVideoMemoryInfo answer l)
  then show ?thesis by (simp add: QueryVideoMemoryInfo_def call_backend_def with_view_descs_def)
next
  case (Call_BindBufferMemory answer descs)
  then show ?thesis
    by (simp add: BindBufferMemory_views option.map_comp comp_def split_def)
next
  case (Call_BindTextureMemory answer descs)
  then show ?thesis
    by (simp add: BindTextureMemory_views option.map_comp comp_def split_def)
next
  case (Call_BindAccelerationStructureMemory answer descs)
  then show ?thesis
    by (simp add: BindAccelerationStructureMemory_views option.map_comp comp_def split_def)
next
  case (Call_CalculateAllocationNumber n d)
  then show ?thesis
    by (simp add: CalculateAllocationNumber_views option.map_comp comp_def split_def)
next
  case (Call_AllocateAndBindMemory n answer ps d al)
  then show ?thesis
    by (simp add: AllocateAndBindMemory_views option.map_comp comp_def split_def)
next
  case (Call_FreeMemory m)
  then show ?thesis by (simp add: FreeMemory_views)
qed

subsection \<open>The mip range of a view\<close>

text \<open>
  C8, as amended. For the views of one, two and three dimensions alike, the mip range of a view
  passes exactly when \<open>mipOffset < P\<close> and \<open>mipOffset + mipNum \<le> P\<close>, \<open>P\<close> being the mip count
  the parent texture reports; the sum is exact. When the parent is a live texture and the range
  fails, \<open>CreateDescriptor\<close> answers INVALID_ARGUMENT, leaves the out handle alone and calls
  nothing; when the range and the other checks pass, the call is forwarded to the backend. So
  \<open>mipOffset = 3\<close>, \<open>mipNum = 1\<close> against \<open>P = 4\<close> is accepted, and \<open>mipNum = 2\<close> and
  \<open>mipNum = 3\<close> at that offset are rejected. The check is made at the creation of the view and
  at no other time: whatever an entry point of the device does, it does the same when the
  descriptors that the existing views were created with are replaced by any others (the view
  that the call itself creates apart), so no call looks at the range of a view again.
\<close>

theorem CreateDescriptor_texture_view_mip_range:
  "(Texture1DView_mip_checks u td = None \<longleftrightarrow>
       unat (t1_mipOffset u) < unat (td_mipNum td)
       \<and> unat (t1_mipOffset u) + unat (t1_mipNum u) \<le> unat (td_mipNum td))
   \<and> (t1_texture u = Some t \<and> textures s t = Some tex
       \<and> \<not> (unat (t1_mipOffset u) < unat (td_mipNum (tex_desc tex))
       \<and> unat (t1_mipOffset u) + unat (t1_mipNum u) \<le> unat (td_mipNum (tex_desc tex))) \<longrightarrow>
       CreateDescriptor_Texture1DView H answer p u textureView s
         = Some (INVALID_ARGUMENT, textureView, REPORT_ERROR s))
   \<and> (t1_texture u = Some t \<and> textures s t = Some tex
       \<and> unat (t1_mipOffset u) < unat (td_mipNum (tex_desc tex))
       \<and> unat (t1_mipOffset u) + unat (t1_mipNum u) \<le> unat (td_mipNum (tex_desc tex))
       \<and> t1_viewType u < Texture1DViewType_MAX_NUM H
       \<and> Format_UNKNOWN H < t1_format u \<and> t1_format u < Format_MAX_NUM H
       \<and> Texture1DView_layer_checks u (tex_desc tex) = None
       \<and> descriptors s p = None \<longrightarrow>
       (\<exists>out s'. CreateDescriptor_Texture1DView H answer p u textureView s = Some (fst answer, out, s')
          \<and> backendCalls s' = backendCalls s @ [CoreAPI Core_CreateTexture1DView]))
   \<and> (Texture2DView_mip_checks v td = None \<longleftrightarrow>
       unat (tv_mipOffset v) < unat (td_mipNum td)
       \<and> unat (tv_mipOffset v) + unat (tv_mipNum v) \<le> unat (td_mipNum td))
   \<and> (tv_texture v = Some t \<and> textures s t = Some tex
       \<and> \<not> (unat (tv_mipOffset v) < unat (td_mipNum (tex_desc tex))
       \<and> unat (tv_mipOffset v) + unat (tv_mipNum v) \<le> unat (td_mipNum (tex_desc tex))) \<longrightarrow>
       CreateDescriptor_Texture2DView H answer p v textureView s
         = Some (INVALID_ARGUMENT, textureView, REPORT_ERROR s))
   \<and> (tv_texture v = Some t \<and> textures s t = Some tex
       \<and> unat (tv_mipOffset v) < unat (td_mipNum (tex_desc tex))
       \<and> unat (tv_mipOffset v) + unat (tv_mipNum v) \<le> unat (td_mipNum (tex_desc tex))
       \<and> tv_viewType v < Texture2DViewType_MAX_NUM H
       \<and> Format_UNKNOWN H < tv_format v \<and> tv_format v < Format_MAX_NUM H
       \<and> Texture2DView_layer_checks v (tex_desc tex) = None
       \<and> descriptors s p = None \<longrightarrow>
       (\<exists>out s'. CreateDescriptor_Texture2DView H answer p v textureView s = Some (fst answer, out, s')
          \<and> backendCalls s' = backendCalls s @ [Core_CreateTexture2DView]))
   \<and> (Texture3DView_mip_checks w td = None \<longleftrightarrow>
       unat (t3_mipOffset w) < unat (td_mipNum td)
       \<and> unat (t3_mipOffset w) + unat (t3_mipNum w) \<le> unat (td_mipNum td))
   \<and> (t3_texture w = Some t \<and> textures s t = Some tex
       \<and> \<not> (unat (t3_mipOffset w) < unat (td_mipNum (tex_desc tex))
       \<and> unat (t3_mipOffset w) + unat (t3_mipNum w) \<le> unat (td_mipNum (tex_desc tex))) \<longrightarrow>
       CreateDescriptor_Texture3DView H answer p w textureView s
         = Some (INVALID_ARGUMENT, textureView, REPORT_ERROR s))
   \<and> (t3_texture w = Some t \<and> textures s t = Some tex
       \<and> unat (t3_mipOffset w) < unat (td_mipNum (tex_desc tex))
       \<and> unat (t3_mipOffset w) + unat (t3_mipNum w) \<le> unat (td_mipNum (tex_desc tex))
       \<and> t3_viewType w < Texture3DViewType_MAX_NUM H
       \<and> Format_UNKNOWN H < t3_format w \<and> t3_format w < Format_MAX_NUM H
       \<and> Texture3DView_slice_checks w (tex_desc tex) = None
       \<and> descriptors s p = None \<longrightarrow>
       (\<exists>out s'. CreateDescriptor_Texture3DView H answer p w textureView s = Some (fst answer, out, s')
          \<and> backendCalls s' = backendCalls s @ [CoreAPI Core_CreateTexture3DView]))
   \<and> ((\<forall>q x. new_view_address call = Some q \<longrightarrow> g q x = x) \<longrightarrow>
       step H Q fs call (with_view_descs g s)
         = map_option (with_view_descs g) (step H Q fs call s))"
proof -
  have iff1: "Texture1DView_mip_checks u td = None \<longleftrightarrow>
       unat (t1_mipOffset u) < unat (td_mipNum td)
       \<and> unat (t1_mipOffset u) + unat (t1_mipNum u) \<le> unat (td_mipNum td)"
    by (rule Texture1DView_mip_checks_None)
  have rej1: "CreateDescriptor_Texture1DView H answer p u textureView s
         = Some (INVALID_ARGUMENT, textureView, REPORT_ERROR s)"
    if a: "t1_texture u = Some t \<and> textures s t = Some tex
       \<and> \<not> (unat (t1_mipOffset u) < unat (td_mipNum (tex_desc tex))
       \<and> unat (t1_mipOffset u) + unat (t1_mipNum u) \<le> unat (td_mipNum (tex_desc tex)))"
  proof -
    from a have "Texture1DView_mip_checks u (tex_desc tex) \<noteq> None"
      using Texture1DView_mip_checks_None[of u "tex_desc tex"] by blast
    then have m: "Texture1DView_mip_checks u (tex_desc tex) = Some INVALID_ARGUMENT"
      using Texture1DView_mip_checks_Some[of u "tex_desc tex"]
      by (cases "Texture1DView_mip_checks u (tex_desc tex)") auto
    show ?thesis using a m by (simp add: CreateDescriptor_Texture1DView_def)
  qed
  have fwd1: "\<exists>out s'. CreateDescriptor_Texture1DView H answer p u textureView s = Some (fst answer, out, s')
          \<and> backendCalls s' = backendCalls s @ [CoreAPI Core_CreateTexture1DView]"
    if a: "t1_texture u = Some t \<and> textures s t = Some tex
       \<and> unat (t1_mipOffset u) < unat (td_mipNum (tex_desc tex))
       \<and> unat (t1_mipOffset u) + unat (t1_mipNum u) \<le> unat (td_mipNum (tex_desc tex))
       \<and> t1_viewType u < Texture1DViewType_MAX_NUM H
       \<and> Format_UNKNOWN H < t1_format u \<and> t1_format u < Format_MAX_NUM H
       \<and> Texture1DView_layer_checks u (tex_desc tex) = None
       \<and> descriptors s p = None"
  proof -
    from a have m: "Texture1DView_mip_checks u (tex_desc tex) = None"
      using Texture1DView_mip_checks_None[of u "tex_desc tex"] by blast
    from a have d: "descriptors (call_backend (CoreAPI Core_CreateTexture1DView) s) p = None"
      by (simp add: call_backend_def)
    show ?thesis
      using a m d
      by (simp add: CreateDescriptor_Texture1DView_def Allocate_def Let_def call_backend_def)
  qed
  have iff2: "Texture2DView_mip_checks v td = None \<longleftrightarrow>
       unat (tv_mipOffset v) < unat (td_mipNum td)
       \<and> unat (tv_mipOffset v) + unat (tv_mipNum v) \<le> unat (td_mipNum td)"
    by (rule Texture2DView_mip_checks_None)
  have rej2: "CreateDescriptor_Texture2DView H answer p v textureView s
         = Some (INVALID_ARGUMENT, textureView, REPORT_ERROR s)"
    if a: "tv_texture v = Some t \<and> textures s t = Some tex
       \<and> \<not> (unat (tv_mipOffset v) < unat (td_mipNum (tex_desc tex))
       \<and> unat (tv_mipOffset v) + unat (tv_mipNum v) \<le> unat (td_mipNum (tex_desc tex)))"
  proof -
    from a have "Texture2DView_mip_checks v (tex_desc tex) \<noteq> None"
      using Texture2DView_mip_checks_None[of v "tex_desc tex"] by blast
    then have m: "Texture2DView_mip_checks v (tex_desc tex) = Some INVALID_ARGUMENT"
      using Texture2DView_mip_checks_Some[of v "tex_desc tex"]
      by (cases "Texture2DView_mip_checks v (tex_desc tex)") auto
    show ?thesis using a m by (simp add: CreateDescriptor_Texture2DView_def)
  qed
  have fwd2: "\<exists>out s'. CreateDescriptor_Texture2DView H answer p v textureView s = Some (fst answer, out, s')
          \<and> backendCalls s' = backendCalls s @ [Core_CreateTexture2DView]"
    if a: "tv_texture v = Some t \<and> textures s t = Some tex
       \<and> unat (tv_mipOffset v) < unat (td_mipNum (tex_desc tex))
       \<and> unat (tv_mipOffset v) + unat (tv_mipNum v) \<le> unat (td_mipNum (tex_desc tex))
       \<and> tv_viewType v < Texture2DViewType_MAX_NUM H
       \<and> Format_UNKNOWN H < tv_format v \<and> tv_format v < Format_MAX_NUM H
       \<and> Texture2DView_layer_checks v (tex_desc tex) = None
       \<and> descriptors s p = None"
  proof -
    from a have m: "Texture2DView_mip_checks v (tex_desc tex) = None"
      using Texture2DView_mip_checks_None[of v "tex_desc tex"] by blast
    from a have d: "descriptors (call_backend (Core_CreateTexture2DView) s) p = None"
      by (simp add: call_backend_def)
    show ?thesis
      using a m d
      by (simp add: CreateDescriptor_Texture2DView_def Allocate_def Let_def call_backend_def)
  qed
  have iff3: "Texture3DView_mip_checks w td = None \<longleftrightarrow>
       unat (t3_mipOffset w) < unat (td_mipNum td)
       \<and> unat (t3_mipOffset w) + unat (t3_mipNum w) \<le> unat (td_mipNum td)"
    by (rule Texture3DView_mip_checks_None)
  have rej3: "CreateDescriptor_Texture3DView H answer p w textureView s
         = Some (INVALID_ARGUMENT, textureView, REPORT_ERROR s)"
    if a: "t3_texture w = Some t \<and> textures s t = Some tex
       \<and> \<not> (unat (t3_mipOffset w) < unat (td_mipNum (tex_desc tex))
       \<and> unat (t3_mipOffset w) + unat (t3_mipNum w) \<le> unat (td_mipNum (tex_desc tex)))"
  proof -
    from a have "Texture3DView_mip_checks w (tex_desc tex) \<noteq> None"
      using Texture3DView_mip_checks_None[of w "tex_desc tex"] by blast
    then have m: "Texture3DView_mip_checks w (tex_desc tex) = Some INVALID_ARGUMENT"
      using Texture3DView_mip_checks_Some[of w "tex_desc tex"]
      by (cases "Texture3DView_mip_checks w (tex_desc tex)") auto
    show ?thesis using a m by (simp add: CreateDescriptor_Texture3DView_def)
  qed
  have fwd3: "\<exists>out s'. CreateDescriptor_Texture3DView H answer p w textureView s = Some (fst answer, out, s')
          \<and> backendCalls s' = backendCalls s @ [CoreAPI Core_CreateTexture3DView]"
    if a: "t3_texture w = Some t \<and> textures s t = Some tex
       \<and> unat (t3_mipOffset w) < unat (td_mipNum (tex_desc tex))
       \<and> unat (t3_mipOffset w) + unat (t3_mipNum w) \<le> unat (td_mipNum (tex_desc tex))
       \<and> t3_viewType w < Texture3DViewType_MAX_NUM H
       \<and> Format_UNKNOWN H < t3_format w \<and> t3_format w < Format_MAX_NUM H
       \<and> Texture3DView_slice_checks w (tex_desc tex) = None
       \<and> descriptors s p = None"
  proof -
    from a have m: "Texture3DView_mip_checks w (tex_desc tex) = None"
      using Texture3DView_mip_checks_None[of w "tex_desc tex"] by blast
    from a have d: "descriptors (call_backend (CoreAPI Core_CreateTexture3DView) s) p = None"
      by (simp add: call_backend_def)
    show ?thesis
      using a m d
      by (simp add: CreateDescriptor_Texture3DView_def Allocate_def Let_def call_backend_def)
  qed
  have only: "step H Q fs call (with_view_descs g s)
         = map_option (with_view_descs g) (step H Q fs call s)"
    if "\<forall>q x. new_view_address call = Some q \<longrightarrow> g q x = x"
    using that by (intro step_views) blast
  from iff1 rej1 fwd1 iff2 rej2 fwd2 iff3 rej3 fwd3 only show ?thesis by blast
qed

theorem CreateDescriptor_texture_view_mip_range_witness:
  "Texture2DView_mip_checks (example_view 3 1) (tex_desc example_texture) = None
   \<and> (\<exists>out s'. CreateDescriptor_Texture1DView example_descs (SUCCESS, 9) 5 (example_view_1D 3 1) None
                 device_with_texture = Some (SUCCESS, out, s')
        \<and> backendCalls s' = [CoreAPI Core_CreateTexture1DView])
   \<and> CreateDescriptor_Texture1DView example_descs (SUCCESS, 9) 5 (example_view_1D 3 3) None
       device_with_texture = Some (INVALID_ARGUMENT, None, REPORT_ERROR device_with_texture)
   \<and> (\<exists>out s'. CreateDescriptor_Texture2DView example_descs (SUCCESS, 9) 5 (example_view 3 1) None
                 device_with_texture = Some (SUCCESS, out, s')
        \<and> backendCalls s' = [Core_CreateTexture2DView])
   \<and> CreateDescriptor_Texture2DView example_descs (SUCCESS, 9) 5 (example_view 3 3) None
       device_with_texture = Some (INVALID_ARGUMENT, None, REPORT_ERROR device_with_texture)
   \<and> (\<exists>out s'. CreateDescriptor_Texture3DView example_descs (SUCCESS, 9) 5 (example_view_3D 3 1) None
                 device_with_texture = Some (SUCCESS, out, s')
        \<and> backendCalls s' = [CoreAPI Core_CreateTexture3DView])
   \<and> CreateDescriptor_Texture3DView example_descs (SUCCESS, 9) 5 (example_view_3D 3 3) None
       device_with_texture = Some (INVALID_ARGUMENT, None, REPORT_ERROR device_with_texture)
   \<and> step example_descs example_queries (\<lambda>_. 0)
       (Call_Destroy (Call_DestroyTexture 1))
       (with_view_descs (\<lambda>h d. if h = 5 then Texture2DView (example_view 3 3) else d) device_with_view)
     = map_option (with_view_descs (\<lambda>h d. if h = 5 then Texture2DView (example_view 3 3) else d))
         (step example_descs example_queries (\<lambda>_. 0)
            (Call_Destroy (Call_DestroyTexture 1)) device_with_view)
   \<and> step example_descs example_queries (\<lambda>_. 0)
       (Call_Create (Of_Descriptor (Call_CreateTexture2DView (example_view 3 1))) (SUCCESS, 9) 6 None)
       (with_view_descs (\<lambda>h d. if h = 5 then Texture2DView (example_view 3 3) else d) device_with_view)
     = map_option (with_view_descs (\<lambda>h d. if h = 5 then Texture2DView (example_view 3 3) else d))
         (step example_descs example_queries (\<lambda>_. 0)
            (Call_Create (Of_Descriptor (Call_CreateTexture2DView (example_view 3 1))) (SUCCESS, 9) 6 None) device_with_view)"
proof -
  note inst = CreateDescriptor_texture_view_mip_range[where H = example_descs and s = device_with_texture]
  have t: "textures device_with_texture 1 = Some example_texture"
    by (simp add: device_with_texture_def)
  have ok: "Texture2DView_mip_checks (example_view 3 1) (tex_desc example_texture) = None"
    using CreateDescriptor_texture_view_mip_range[where v = "example_view 3 1"
        and td = "tex_desc example_texture"]
    by (simp add: example_view_def example_texture_def)
  have fwd1: "\<exists>out s'. CreateDescriptor_Texture1DView example_descs (SUCCESS, 9) 5 (example_view_1D 3 1) None
                 device_with_texture = Some (SUCCESS, out, s')
        \<and> backendCalls s' = [CoreAPI Core_CreateTexture1DView]"
    using inst[where u = "example_view_1D 3 1" and t = 1 and tex = example_texture and answer = "(SUCCESS, 9)"
        and p = 5 and textureView = None] t
    by (simp add: example_view_1D_def example_texture_def example_descs_def
        Texture1DView_layer_checks_def device_with_texture_def empty_device_def)
  have rej1: "CreateDescriptor_Texture1DView example_descs (SUCCESS, 9) 5 (example_view_1D 3 3) None
       device_with_texture = Some (INVALID_ARGUMENT, None, REPORT_ERROR device_with_texture)"
    using inst[where u = "example_view_1D 3 3" and t = 1 and tex = example_texture and answer = "(SUCCESS, 9)"
        and p = 5 and textureView = None] t
    by (simp add: example_view_1D_def example_texture_def)
  have fwd2: "\<exists>out s'. CreateDescriptor_Texture2DView example_descs (SUCCESS, 9) 5 (example_view 3 1) None
                 device_with_texture = Some (SUCCESS, out, s')
        \<and> backendCalls s' = [Core_CreateTexture2DView]"
    using inst[where v = "example_view 3 1" and t = 1 and tex = example_texture and answer = "(SUCCESS, 9)"
        and p = 5 and textureView = None] t
    by (simp add: example_view_def example_texture_def example_descs_def
        Texture2DView_layer_checks_def device_with_texture_def empty_device_def)
  have rej2: "CreateDescriptor_Texture2DView example_descs (SUCCESS, 9) 5 (example_view 3 3) None
       device_with_texture = Some (INVALID_ARGUMENT, None, REPORT_ERROR device_with_texture)"
    using inst[where v = "example_view 3 3" and t = 1 and tex = example_texture and answer = "(SUCCESS, 9)"
        and p = 5 and textureView = None] t
    by (simp add: example_view_def example_texture_def)
  have fwd3: "\<exists>out s'. CreateDescriptor_Texture3DView example_descs (SUCCESS, 9) 5 (example_view_3D 3 1) None
                 device_with_texture = Some (SUCCESS, out, s')
        \<and> backendCalls s' = [CoreAPI Core_CreateTexture3DView]"
    using inst[where w = "example_view_3D 3 1" and t = 1 and tex = example_texture and answer = "(SUCCESS, 9)"
        and p = 5 and textureView = None] t
    by (simp add: example_view_3D_def example_texture_def example_descs_def
        Texture3DView_slice_checks_def device_with_texture_def empty_device_def)
  have rej3: "CreateDescriptor_Texture3DView example_descs (SUCCESS, 9) 5 (example_view_3D 3 3) None
       device_with_texture = Some (INVALID_ARGUMENT, None, REPORT_ERROR device_with_texture)"
    using inst[where w = "example_view_3D 3 3" and t = 1 and tex = example_texture and answer = "(SUCCESS, 9)"
        and p = 5 and textureView = None] t
    by (simp add: example_view_3D_def example_texture_def)
  have only1: "step example_descs example_queries (\<lambda>_. 0)
       (Call_Destroy (Call_DestroyTexture 1))
       (with_view_descs (\<lambda>h d. if h = 5 then Texture2DView (example_view 3 3) else d) device_with_view)
     = map_option (with_view_descs (\<lambda>h d. if h = 5 then Texture2DView (example_view 3 3) else d))
         (step example_descs example_queries (\<lambda>_. 0)
            (Call_Destroy (Call_DestroyTexture 1)) device_with_view)"
    using CreateDescriptor_texture_view_mip_range[where H = example_descs and Q = example_queries
        and fs = "\<lambda>_. 0" and s = device_with_view and g = "\<lambda>h d. if h = 5 then Texture2DView (example_view 3 3) else d"
        and call = "Call_Destroy (Call_DestroyTexture 1)"]
    by simp
  have only2: "step example_descs example_queries (\<lambda>_. 0)
       (Call_Create (Of_Descriptor (Call_CreateTexture2DView (example_view 3 1))) (SUCCESS, 9) 6 None)
       (with_view_descs (\<lambda>h d. if h = 5 then Texture2DView (example_view 3 3) else d) device_with_view)
     = map_option (with_view_descs (\<lambda>h d. if h = 5 then Texture2DView (example_view 3 3) else d))
         (step example_descs example_queries (\<lambda>_. 0)
            (Call_Create (Of_Descriptor (Call_CreateTexture2DView (example_view 3 1))) (SUCCESS, 9) 6 None) device_with_view)"
    using CreateDescriptor_texture_view_mip_range[where H = example_descs and Q = example_queries
        and fs = "\<lambda>_. 0" and s = device_with_view and g = "\<lambda>h d. if h = 5 then Texture2DView (example_view 3 3) else d"
        and call = "Call_Create (Of_Descriptor (Call_CreateTexture2DView (example_view 3 1))) (SUCCESS, 9) 6 None"]
    by simp
  from ok fwd1 rej1 fwd2 rej2 fwd3 rej3 only1 only2 show ?thesis by blast
qed

theorem CreateDescriptor_Texture2DView_3_2_of_4_counterexample:
  "Texture2DView_mip_checks (example_view 3 2) (tex_desc example_texture) = Some INVALID_ARGUMENT
   \<and> td_mipNum (tex_desc example_texture) = 4
   \<and> CreateDescriptor_Texture2DView example_descs (SUCCESS, 9) 5 (example_view 3 2) None
        device_with_texture = Some (INVALID_ARGUMENT, None, REPORT_ERROR device_with_texture)"
  by (simp add: Texture2DView_mip_checks_def CreateDescriptor_Texture2DView_def example_view_def
      example_texture_def example_descs_def device_with_texture_def)

subsection \<open>Stage families of a pipeline layout\<close>


lemma PipelineLayout_stage_checks_Some:
  "PipelineLayout_stage_checks H m = Some r \<Longrightarrow> r = INVALID_ARGUMENT"
  by (simp add: PipelineLayout_stage_checks_def split: if_splits)





subsection \<open>Shader stages of a graphics pipeline\<close>

lemma filter_bit_Suc:
  "length (filter (bit (x::32 word)) [0..<Suc k])
     = (if bit x 0 then 1 else 0) + length (filter (bit (drop_bit 1 x)) [0..<k])"
proof -
  have "[0..<Suc k] = 0 # map Suc [0..<k]"
    by (simp add: upt_conv_Cons map_Suc_upt del: upt_Suc)
  moreover have "filter (bit x) (map Suc [0..<k]) = map Suc (filter (bit x \<circ> Suc) [0..<k])"
    by (simp add: filter_map)
  moreover have "bit x \<circ> Suc = bit (drop_bit 1 x)"
    by (rule ext) (simp add: bit_drop_bit_eq)
  ultimately show ?thesis by (simp del: upt_Suc)
qed

lemma popcount_loop_bounded:
  "unat x < 2 ^ k \<Longrightarrow> popcount_loop x n = n + of_nat (length (filter (bit x) [0..<k]))"
proof (induction k arbitrary: x n)
  case 0
  then have "x = 0" by (simp add: unat_eq_0)
  then show ?case by (simp add: popcount_loop.simps)
next
  case (Suc k)
  show ?case
  proof (cases "x = 0")
    case True
    then show ?thesis by (simp add: popcount_loop.simps del: upt_Suc)
  next
    case False
    have "unat (drop_bit 1 x) = unat x div 2"
      by (simp add: drop_bit_eq_div unat_div)
    with Suc.prems have "unat (drop_bit 1 x) < 2 ^ k" by simp
    then have IH: "popcount_loop (drop_bit 1 x) (n + (x AND 1))
        = n + (x AND 1) + of_nat (length (filter (bit (drop_bit 1 x)) [0..<k]))"
      by (rule Suc.IH)
    have one: "x AND 1 = (if bit x 0 then 1 else 0)"
      by (simp add: and_one_eq bit_0 mod2_eq_if)
    have "popcount_loop x n = popcount_loop (drop_bit 1 x) (n + (x AND 1))"
      using False by (subst popcount_loop.simps) simp
    also note IH
    finally show ?thesis
      unfolding filter_bit_Suc one by simp
  qed
qed

lemma popcount_le: "popcount x \<le> 32"
  unfolding popcount_def using length_filter_le[of "bit x" "[0..<32]"] by simp

lemma popcount_loop_eq: "popcount_loop x n = n + of_nat (popcount x)"
proof -
  have "unat x < 2 ^ LENGTH(32)" by (rule unsigned_less)
  then have "unat x < 2 ^ 32" by simp
  then show ?thesis unfolding popcount_def by (rule popcount_loop_bounded)
qed

lemma popcount_loop_is_1: "popcount_loop x 0 = 1 \<longleftrightarrow> popcount x = 1"
proof -
  have "unat (popcount_loop x 0) = popcount x"
    using popcount_le[of x] by (simp add: popcount_loop_eq unat_of_nat)
  then show ?thesis by (simp add: word_unat_eq_iff)
qed

lemma or_and_eq_0: "(u OR a) AND (b::32 word) = 0 \<longleftrightarrow> u AND b = 0 \<and> a AND b = 0"
  by (simp add: word_ao_dist or_eq_0_iff)

lemma shader_loop_Inl:
  "GraphicsPipeline_shader_loop H st xs hep u = Inl r \<Longrightarrow> r = INVALID_ARGUMENT"
proof (induction xs arbitrary: hep u)
  case Nil
  then show ?case by simp
next
  case (Cons x xs)
  then show ?case
    by (simp add: Let_def split: if_splits)
qed

lemma shader_loop_Inr:
  "GraphicsPipeline_shader_loop H st xs hep u = Inr b \<longleftrightarrow>
     (\<forall>sd \<in> set xs. sh_stage sd AND st \<noteq> 0 \<and> sh_bytecode sd \<noteq> None \<and> sh_size sd \<noteq> 0
        \<and> popcount (sh_stage sd AND GRAPHICS_SHADERS H) = 1 \<and> u AND sh_stage sd = 0)
     \<and> disjoint_stages xs
     \<and> b = (hep \<or> (\<exists>sd \<in> set xs. sh_stage sd = VERTEX_SHADER H \<or> sh_stage sd = MESH_CONTROL_SHADER H))"
proof (induction xs arbitrary: hep u)
  case Nil
  then show ?case by auto
next
  case (Cons x xs)
  let ?hep = "if sh_stage x = VERTEX_SHADER H \<or> sh_stage x = MESH_CONTROL_SHADER H then True else hep"
  let ?ok = "sh_stage x AND st \<noteq> 0 \<and> sh_bytecode x \<noteq> None \<and> sh_size x \<noteq> 0
        \<and> popcount (sh_stage x AND GRAPHICS_SHADERS H) = 1 \<and> u AND sh_stage x = 0"
  have step: "GraphicsPipeline_shader_loop H st (x # xs) hep u = Inr b \<longleftrightarrow>
      ?ok \<and> GraphicsPipeline_shader_loop H st xs ?hep (u OR sh_stage x) = Inr b"
    by (auto simp: Let_def IsShaderStageValid_def popcount_loop_is_1)
  show ?case
    unfolding step Cons.IH or_and_eq_0
    by (auto simp: and.commute)
qed

lemma disjoint_stages_nth:
  "disjoint_stages xs \<Longrightarrow> i < j \<Longrightarrow> j < length xs \<Longrightarrow> sh_stage (xs ! i) AND sh_stage (xs ! j) = 0"
proof (induction xs arbitrary: i j)
  case Nil
  then show ?case by simp
next
  case (Cons x xs)
  from Cons.prems obtain j' where j: "j = Suc j'" "j' < length xs" by (cases j) auto
  show ?case
  proof (cases i)
    case 0
    with Cons.prems j show ?thesis by simp
  next
    case (Suc i')
    with Cons.prems j have "sh_stage (xs ! i') AND sh_stage (xs ! j') = 0"
      by (intro Cons.IH) simp_all
    with Suc j show ?thesis by simp
  qed
qed

lemma two_pow_and_two_pow: "j \<noteq> k \<Longrightarrow> (2 ^ j AND 2 ^ k :: 32 word) = 0"
  by (rule bit_eqI) (auto simp: bit_and_iff bit_exp_iff)

lemma two_pow_and_mask: "bit (G::32 word) k \<Longrightarrow> 2 ^ k AND G = 2 ^ k"
  by (rule bit_eqI) (auto simp: bit_and_iff bit_exp_iff)

lemma two_pow_neq_0: "k < 32 \<Longrightarrow> (2 ^ k :: 32 word) \<noteq> 0"
  by (simp add: exp_eq_zero_iff)

lemma popcount_two_pow:
  assumes "k < 32"
  shows "popcount (2 ^ k) = 1"
proof -
  have "{i. i < length [0..<32] \<and> bit (2 ^ k :: 32 word) ([0..<32] ! i)} = {k}"
    using assms by (auto simp: bit_exp_iff)
  then have "card {i. i < length [0..<32] \<and> bit (2 ^ k :: 32 word) ([0..<32] ! i)} = 1"
    by simp
  then show ?thesis
    unfolding popcount_def length_filter_conv_card .
qed

lemma single_bits_disjoint:
  assumes "\<forall>sd \<in> set xs. \<exists>k<32. sh_stage sd = 2 ^ k" and "distinct (map sh_stage xs)"
  shows "disjoint_stages xs"
  using assms
proof (induction xs)
  case Nil
  then show ?case by simp
next
  case (Cons x xs)
  have "sh_stage x AND sh_stage y = 0" if "y \<in> set xs" for y
  proof -
    from Cons.prems(1) obtain j where j: "sh_stage x = 2 ^ j" by auto
    from Cons.prems(1) that obtain k where k: "sh_stage y = 2 ^ k" by auto
    from Cons.prems(2) that have "sh_stage x \<noteq> sh_stage y" by auto
    with j k have "j \<noteq> k" by auto
    then show ?thesis unfolding j k by (rule two_pow_and_two_pow)
  qed
  with Cons show ?case by simp
qed

lemma CreatePipeline_Graphics_loop_fails:
  assumes "gp_shaders d = Elems xs"
    and "\<forall>l. gp_pipelineLayout d = Some l \<longrightarrow> pipelineLayouts s l \<noteq> None"
    and "\<And>st. GraphicsPipeline_shader_loop H st xs False 0 \<noteq> Inr True"
  shows "CreatePipeline_Graphics H fs answer p d pipeline s
           = Some (INVALID_ARGUMENT, pipeline, REPORT_ERROR s)"
proof (cases "gp_pipelineLayout d")
  case None
  then show ?thesis by (simp add: CreatePipeline_Graphics_def)
next
  case (Some l)
  with assms(2) obtain ld where ld: "pipelineLayouts s l = Some ld" by auto
  show ?thesis
  proof (cases "GraphicsPipeline_shader_loop H (pl_shaderStages ld) xs False 0")
    case (Inl r)
    then have "r = INVALID_ARGUMENT" by (rule shader_loop_Inl)
    with Inl Some ld assms(1) show ?thesis by (simp add: CreatePipeline_Graphics_def)
  next
    case (Inr b)
    with assms(3)[of "pl_shaderStages ld"] have "\<not> b" by auto
    with Inr Some ld assms(1) show ?thesis by (simp add: CreatePipeline_Graphics_def)
  qed
qed

text \<open>
  C7. With the shaders \<open>xs\<close> and a pipeline layout pointer that is null or live,
  \<open>CreatePipeline\<close> answers INVALID_ARGUMENT, without calling the backend or touching the out
  handle, when two entries share a stage bit of the graphics family, when the graphics bits
  of some entry do not have popcount one, or when no entry's stage is the vertex or the mesh
  control stage. A list in which every entry's stage is one graphics bit enabled in the layout,
  the stages are distinct, every entry has bytecode of nonzero size and some entry is a vertex
  or mesh control shader passes the loop over the shaders; and \<open>CreatePipeline\<close> accepts a
  descriptor with such a list over a live layout: when its other checks pass too (the colour
  formats are in range and the vertex attributes fit their streams), it forwards the call to
  the backend and returns what the backend answers, with the new proxy in the out handle on
  SUCCESS.
\<close>

theorem CreatePipeline_Graphics_shader_stages:
  "(gp_shaders d = Elems xs
      \<and> (\<forall>l. gp_pipelineLayout d = Some l \<longrightarrow> pipelineLayouts s l \<noteq> None)
      \<and> ((\<exists>i j. i < j \<and> j < length xs
              \<and> sh_stage (xs ! i) AND sh_stage (xs ! j) AND GRAPHICS_SHADERS H \<noteq> 0)
          \<or> (\<exists>sd \<in> set xs. popcount (sh_stage sd AND GRAPHICS_SHADERS H) \<noteq> 1)
          \<or> (\<forall>sd \<in> set xs. sh_stage sd \<noteq> VERTEX_SHADER H \<and> sh_stage sd \<noteq> MESH_CONTROL_SHADER H)) \<longrightarrow>
      CreatePipeline_Graphics H fs answer p d pipeline s
        = Some (INVALID_ARGUMENT, pipeline, REPORT_ERROR s))
   \<and> ((\<forall>sd \<in> set xs. \<exists>k<32. sh_stage sd = 2 ^ k \<and> bit (GRAPHICS_SHADERS H) k \<and> bit st k)
        \<and> distinct (map sh_stage xs)
        \<and> (\<forall>sd \<in> set xs. sh_bytecode sd \<noteq> None \<and> sh_size sd \<noteq> 0)
        \<and> (\<exists>sd \<in> set xs. sh_stage sd = VERTEX_SHADER H \<or> sh_stage sd = MESH_CONTROL_SHADER H) \<longrightarrow>
      GraphicsPipeline_shader_loop H st xs False 0 = Inr True)
   \<and> (gp_shaders d = Elems xs \<and> gp_pipelineLayout d = Some l \<and> pipelineLayouts s l = Some ld
        \<and> (\<forall>sd \<in> set xs. \<exists>k<32. sh_stage sd = 2 ^ k \<and> bit (GRAPHICS_SHADERS H) k
               \<and> bit (pl_shaderStages ld) k)
        \<and> distinct (map sh_stage xs)
        \<and> (\<forall>sd \<in> set xs. sh_bytecode sd \<noteq> None \<and> sh_size sd \<noteq> 0)
        \<and> (\<exists>sd \<in> set xs. sh_stage sd = VERTEX_SHADER H \<or> sh_stage sd = MESH_CONTROL_SHADER H)
        \<and> (\<forall>format \<in> set (gp_colorFormats d).
               format > Format_UNKNOWN H \<and> format < Format_BC1_RGBA_UNORM H)
        \<and> (case gp_vertexInput d of
              None \<Rightarrow> True
            | Some vertexInput \<Rightarrow>
                GraphicsPipeline_attribute_loop fs (vi_streams vertexInput) (vi_attributes vertexInput)
                  = Some None)
        \<and> pipelines s p = None \<longrightarrow>
      CreatePipeline_Graphics H fs answer p d pipeline s
        = (if fst answer = SUCCESS
           then Some (SUCCESS, Some p,
                      (call_backend Core_CreateGraphicsPipeline s)
                        \<lparr>pipelines := (pipelines s)(p \<mapsto> snd answer)\<rparr>)
           else Some (fst answer, pipeline, call_backend Core_CreateGraphicsPipeline s)))"
proof -
  have passes: "GraphicsPipeline_shader_loop H st' xs False 0 = Inr True"
    if a: "(\<forall>sd \<in> set xs. \<exists>k<32. sh_stage sd = 2 ^ k \<and> bit (GRAPHICS_SHADERS H) k \<and> bit st' k)
        \<and> distinct (map sh_stage xs)
        \<and> (\<forall>sd \<in> set xs. sh_bytecode sd \<noteq> None \<and> sh_size sd \<noteq> 0)
        \<and> (\<exists>sd \<in> set xs. sh_stage sd = VERTEX_SHADER H \<or> sh_stage sd = MESH_CONTROL_SHADER H)"
    for st'
  proof -
    have each: "sh_stage sd AND st' \<noteq> 0 \<and> popcount (sh_stage sd AND GRAPHICS_SHADERS H) = 1"
      if "sd \<in> set xs" for sd
    proof -
      from a that obtain k where k: "k < 32" "sh_stage sd = 2 ^ k" "bit (GRAPHICS_SHADERS H) k" "bit st' k"
        by blast
      have "sh_stage sd AND st' = 2 ^ k" unfolding k(2) using k(4) by (rule two_pow_and_mask)
      moreover have "sh_stage sd AND GRAPHICS_SHADERS H = 2 ^ k"
        unfolding k(2) using k(3) by (rule two_pow_and_mask)
      ultimately show ?thesis using k(1) by (simp add: popcount_two_pow two_pow_neq_0)
    qed
    have dis: "disjoint_stages xs"
      using a by (intro single_bits_disjoint) blast+
    show ?thesis
      unfolding shader_loop_Inr using a each dis by auto
  qed
  show ?thesis
proof (intro conjI impI)
  assume a: "gp_shaders d = Elems xs
      \<and> (\<forall>l. gp_pipelineLayout d = Some l \<longrightarrow> pipelineLayouts s l \<noteq> None)
      \<and> ((\<exists>i j. i < j \<and> j < length xs
              \<and> sh_stage (xs ! i) AND sh_stage (xs ! j) AND GRAPHICS_SHADERS H \<noteq> 0)
          \<or> (\<exists>sd \<in> set xs. popcount (sh_stage sd AND GRAPHICS_SHADERS H) \<noteq> 1)
          \<or> (\<forall>sd \<in> set xs. sh_stage sd \<noteq> VERTEX_SHADER H \<and> sh_stage sd \<noteq> MESH_CONTROL_SHADER H))"
  have "GraphicsPipeline_shader_loop H st' xs False 0 \<noteq> Inr True" for st'
  proof
    assume "GraphicsPipeline_shader_loop H st' xs False 0 = Inr True"
    then have ok: "\<forall>sd \<in> set xs. popcount (sh_stage sd AND GRAPHICS_SHADERS H) = 1"
      and dis: "disjoint_stages xs"
      and ep: "\<exists>sd \<in> set xs. sh_stage sd = VERTEX_SHADER H \<or> sh_stage sd = MESH_CONTROL_SHADER H"
      unfolding shader_loop_Inr by auto
    from a consider
        (share) i j where "i < j" "j < length xs"
          "sh_stage (xs ! i) AND sh_stage (xs ! j) AND GRAPHICS_SHADERS H \<noteq> 0"
      | (count) "\<exists>sd \<in> set xs. popcount (sh_stage sd AND GRAPHICS_SHADERS H) \<noteq> 1"
      | (entry) "\<forall>sd \<in> set xs. sh_stage sd \<noteq> VERTEX_SHADER H \<and> sh_stage sd \<noteq> MESH_CONTROL_SHADER H"
      by blast
    then show False
    proof cases
      case share
      have "sh_stage (xs ! i) AND sh_stage (xs ! j) AND GRAPHICS_SHADERS H
              = (sh_stage (xs ! i) AND sh_stage (xs ! j)) AND GRAPHICS_SHADERS H"
        by (simp only: and.assoc)
      also have "\<dots> = 0"
        by (simp only: disjoint_stages_nth[OF dis share(1,2)] and_zero_eq zero_and_eq)
      finally show False using share(3) by simp
    next
      case count
      with ok show False by blast
    next
      case entry
      with ep show False by blast
    qed
  qed
  with a show "CreatePipeline_Graphics H fs answer p d pipeline s
        = Some (INVALID_ARGUMENT, pipeline, REPORT_ERROR s)"
    by (intro CreatePipeline_Graphics_loop_fails[of d xs]) auto
next
  assume "(\<forall>sd \<in> set xs. \<exists>k<32. sh_stage sd = 2 ^ k \<and> bit (GRAPHICS_SHADERS H) k \<and> bit st k)
        \<and> distinct (map sh_stage xs)
        \<and> (\<forall>sd \<in> set xs. sh_bytecode sd \<noteq> None \<and> sh_size sd \<noteq> 0)
        \<and> (\<exists>sd \<in> set xs. sh_stage sd = VERTEX_SHADER H \<or> sh_stage sd = MESH_CONTROL_SHADER H)"
  then show "GraphicsPipeline_shader_loop H st xs False 0 = Inr True" by (rule passes)
next
  assume a: "gp_shaders d = Elems xs \<and> gp_pipelineLayout d = Some l \<and> pipelineLayouts s l = Some ld
        \<and> (\<forall>sd \<in> set xs. \<exists>k<32. sh_stage sd = 2 ^ k \<and> bit (GRAPHICS_SHADERS H) k
               \<and> bit (pl_shaderStages ld) k)
        \<and> distinct (map sh_stage xs)
        \<and> (\<forall>sd \<in> set xs. sh_bytecode sd \<noteq> None \<and> sh_size sd \<noteq> 0)
        \<and> (\<exists>sd \<in> set xs. sh_stage sd = VERTEX_SHADER H \<or> sh_stage sd = MESH_CONTROL_SHADER H)
        \<and> (\<forall>format \<in> set (gp_colorFormats d).
               format > Format_UNKNOWN H \<and> format < Format_BC1_RGBA_UNORM H)
        \<and> (case gp_vertexInput d of
              None \<Rightarrow> True
            | Some vertexInput \<Rightarrow>
                GraphicsPipeline_attribute_loop fs (vi_streams vertexInput) (vi_attributes vertexInput)
                  = Some None)
        \<and> pipelines s p = None"
  then have loop: "GraphicsPipeline_shader_loop H (pl_shaderStages ld) xs False 0 = Inr True"
    by (intro passes) blast
  from a have nonempty: "length xs > 0" by auto
  from a have formats: "first_failure
      (map (\<lambda>format. (format > Format_UNKNOWN H \<and> format < Format_BC1_RGBA_UNORM H, INVALID_ARGUMENT))
           (gp_colorFormats d)) = None"
    unfolding first_failure_None by auto
  from a have vertex: "(case gp_vertexInput d of
              None \<Rightarrow> Some None
            | Some vertexInput \<Rightarrow>
                GraphicsPipeline_attribute_loop fs (vi_streams vertexInput) (vi_attributes vertexInput))
          = Some None"
    by (auto split: option.splits)
  from a have d: "gp_shaders d = Elems xs" "gp_pipelineLayout d = Some l"
    "pipelineLayouts s l = Some ld" "pipelines s p = None" by blast+
  show "CreatePipeline_Graphics H fs answer p d pipeline s
        = (if fst answer = SUCCESS
           then Some (SUCCESS, Some p,
                      (call_backend Core_CreateGraphicsPipeline s)
                        \<lparr>pipelines := (pipelines s)(p \<mapsto> snd answer)\<rparr>)
           else Some (fst answer, pipeline, call_backend Core_CreateGraphicsPipeline s))"
    using nonempty d loop formats vertex
    by (simp add: CreatePipeline_Graphics_def Let_def Allocate_def call_backend_def)
qed
qed

theorem CreatePipeline_Graphics_shader_stages_witness:
  "CreatePipeline_Graphics example_descs (\<lambda>_. 4) (SUCCESS, 9) 5
       (example_pipeline [example_shader 2, example_shader 2]) None device_with_layout
     = Some (INVALID_ARGUMENT, None, REPORT_ERROR device_with_layout)
   \<and> CreatePipeline_Graphics example_descs (\<lambda>_. 4) (SUCCESS, 9) 5
       (example_pipeline [example_shader 6]) None device_with_layout
     = Some (INVALID_ARGUMENT, None, REPORT_ERROR device_with_layout)
   \<and> CreatePipeline_Graphics example_descs (\<lambda>_. 4) (SUCCESS, 9) 5
       (example_pipeline [example_shader 128]) None device_with_layout
     = Some (INVALID_ARGUMENT, None, REPORT_ERROR device_with_layout)
   \<and> GraphicsPipeline_shader_loop example_descs 254 [example_shader 2, example_shader 128] False 0
     = Inr True
   \<and> CreatePipeline_Graphics example_descs (\<lambda>_. 4) (SUCCESS, 9) 5
       (example_pipeline [example_shader 2, example_shader 128]) None device_with_layout
     = Some (SUCCESS, Some 5,
             (call_backend Core_CreateGraphicsPipeline device_with_layout)\<lparr>pipelines := [5 \<mapsto> 9]\<rparr>)"
proof -
  note inst = CreatePipeline_Graphics_shader_stages[where H = example_descs and fs = "\<lambda>_. 4"
      and answer = "(SUCCESS, 9)" and p = 5 and pipeline = None and s = device_with_layout]
  have live: "\<forall>l. gp_pipelineLayout (example_pipeline xs) = Some l
                \<longrightarrow> pipelineLayouts device_with_layout l \<noteq> None" for xs
    by (simp add: example_pipeline_def device_with_layout_def)
  have share: "\<exists>i j. i < j \<and> j < length [example_shader 2, example_shader 2]
      \<and> sh_stage ([example_shader 2, example_shader 2] ! i)
          AND sh_stage ([example_shader 2, example_shader 2] ! j)
          AND GRAPHICS_SHADERS example_descs \<noteq> 0"
    by (intro exI[of _ 0] exI[of _ 1]) (simp add: example_shader_def example_descs_def)
  have r1: "CreatePipeline_Graphics example_descs (\<lambda>_. 4) (SUCCESS, 9) 5
       (example_pipeline [example_shader 2, example_shader 2]) None device_with_layout
     = Some (INVALID_ARGUMENT, None, REPORT_ERROR device_with_layout)"
    using inst[of "example_pipeline [example_shader 2, example_shader 2]"
        "[example_shader 2, example_shader 2]"] live share
    by (simp add: example_pipeline_def)
  have "popcount_loop (6 AND 254) 0 = 2"
    by (simp add: popcount_loop.simps)
  then have "popcount_loop (6 AND 254) 0 \<noteq> 1" by simp
  then have count: "popcount (sh_stage (example_shader 6) AND GRAPHICS_SHADERS example_descs) \<noteq> 1"
    by (simp add: popcount_loop_is_1 example_shader_def example_descs_def)
  have r2: "CreatePipeline_Graphics example_descs (\<lambda>_. 4) (SUCCESS, 9) 5
       (example_pipeline [example_shader 6]) None device_with_layout
     = Some (INVALID_ARGUMENT, None, REPORT_ERROR device_with_layout)"
    using inst[of "example_pipeline [example_shader 6]" "[example_shader 6]"] live count
    by (simp add: example_pipeline_def)
  have r3: "CreatePipeline_Graphics example_descs (\<lambda>_. 4) (SUCCESS, 9) 5
       (example_pipeline [example_shader 128]) None device_with_layout
     = Some (INVALID_ARGUMENT, None, REPORT_ERROR device_with_layout)"
    using inst[of "example_pipeline [example_shader 128]" "[example_shader 128]"] live
    by (simp add: example_pipeline_def example_shader_def example_descs_def)
  have v: "\<exists>k<32. (2::32 word) = 2 ^ k \<and> bit (254::32 word) k \<and> bit (254::32 word) k"
    by (rule exI[of _ 1]) simp
  have f: "\<exists>k<32. (128::32 word) = 2 ^ k \<and> bit (254::32 word) k \<and> bit (254::32 word) k"
    by (rule exI[of _ 7]) simp
  have r4: "GraphicsPipeline_shader_loop example_descs 254 [example_shader 2, example_shader 128] False 0
     = Inr True"
    using inst[of _ "[example_shader 2, example_shader 128]" 254] v f
    by (simp add: example_shader_def example_descs_def)
  have r5: "CreatePipeline_Graphics example_descs (\<lambda>_. 4) (SUCCESS, 9) 5
       (example_pipeline [example_shader 2, example_shader 128]) None device_with_layout
     = Some (SUCCESS, Some 5,
             (call_backend Core_CreateGraphicsPipeline device_with_layout)\<lparr>pipelines := [5 \<mapsto> 9]\<rparr>)"
    using inst[where d = "example_pipeline [example_shader 2, example_shader 128]"
        and xs = "[example_shader 2, example_shader 128]" and l = 2 and ld = "example_layout 254",
        THEN conjunct2, THEN conjunct2] v f
    by (simp add: example_pipeline_def example_shader_def example_descs_def example_layout_def
        device_with_layout_def empty_device_def)
  from r1 r2 r3 r4 r5 show ?thesis by blast
qed

subsection \<open>The range check of a binding\<close>

text \<open>
  C2. The sum \<open>offset + size\<close> is computed in 64 bits and wraps: with the offset
  \<open>2\<^sup>6\<^sup>4 - 256\<close>, a requirement of 512 bytes aligned to 256 and a memory of 1024 bytes at a
  known location, \<open>rangeMax\<close> is 256 and the entry passes, although the range ends far
  beyond the memory. The batch is forwarded and, when the backend succeeds, the buffer is
  recorded as bound.
\<close>

theorem BindBufferMemory_range_sum_wraps:
  "BindBufferMemory_entry example_descs example_queries device_with_resources
       (example_buffer_binding 2 0xFFFFFFFFFFFFFF00)
     = Some (Inr \<lparr>bi_memory = 12, bi_resource = 11, bi_offset = 0xFFFFFFFFFFFFFF00\<rparr>)
   \<and> mem_location (example_memory 0) \<noteq> MemoryLocation_MAX_NUM example_descs
   \<and> mem_size (example_memory 0) \<noteq> 0
   \<and> unat (mem_size (example_memory 0))
        < unat (0xFFFFFFFFFFFFFF00 :: 64 word)
          + unat (md_size (GetBufferMemoryDesc example_queries 11 0))
   \<and> (\<exists>s'. BindBufferMemory example_descs example_queries SUCCESS
               (Elems [example_buffer_binding 2 0xFFFFFFFFFFFFFF00]) device_with_resources
             = Some (SUCCESS, s')
           \<and> buffers s' 1 = Some \<lparr>buf_impl = 11, buf_isBoundToMemory = True\<rparr>)"
  by (simp add: BindBufferMemory_entry_def BindBufferMemory_def example_descs_def
      example_queries_def example_requirements_def device_with_resources_def
      example_memory_def example_buffer_binding_def empty_device_def call_backend_def
      bind_buffer_entry_def MemoryVal_BindBuffer_def BufferVal_SetBoundToMemory_def)

theorem BindBufferMemory_range_sum_wraps_witness:
  "\<not> md_mustBeDedicated (GetBufferMemoryDesc example_queries 11 0)
   \<and> (0xFFFFFFFFFFFFFF00 :: 64 word) + md_size (GetBufferMemoryDesc example_queries 11 0) = 256
   \<and> (\<exists>dest. BindBufferMemory_entry example_descs example_queries device_with_resources
                 (example_buffer_binding 2 0xFFFFFFFFFFFFFF00) = Some (Inr dest))"
  using BindBufferMemory_range_sum_wraps
  by (simp add: example_queries_def example_requirements_def)

lemma BindBufferMemory_entry_in_range:
  assumes "bb_buffer d = Some b" and "bb_memory d = Some m"
    and "buffers s b = Some buffer" and "\<not> buf_isBoundToMemory buffer"
    and "memories s m = Some memory" and "mem_location memory \<noteq> MemoryLocation_MAX_NUM H"
    and "GetBufferMemoryDesc Q (buf_impl buffer) (mem_location memory) = md"
    and "unat (bb_offset d) + unat (md_size md) < 2 ^ 64"
  shows "(\<exists>dest. BindBufferMemory_entry H Q s d = Some (Inr dest)) \<longleftrightarrow>
           (md_mustBeDedicated md \<longrightarrow> bb_offset d = 0)
           \<and> md_alignment md \<noteq> 0
           \<and> unat (bb_offset d) mod unat (md_alignment md) = 0
           \<and> (mem_size memory = 0 \<or> unat (bb_offset d) + unat (md_size md) \<le> unat (mem_size memory))"
proof -
  have sum: "unat (bb_offset d + md_size md) = unat (bb_offset d) + unat (md_size md)"
    using assms(8) by (simp add: unat_add_lem[THEN iffD1])
  have m: "bb_offset d mod md_alignment md = 0 \<longleftrightarrow> unat (bb_offset d) mod unat (md_alignment md) = 0"
    by (simp add: word_unat_eq_iff unat_mod)
  show ?thesis
    using assms(1-7) sum m
    by (auto simp: BindBufferMemory_entry_def Let_def word_le_nat_alt split: option.splits)
qed

subsection \<open>Freeing memory\<close>

text \<open>
  C5. \<open>FreeMemory\<close> on a live memory object whose bound-set is not empty reports errors and
  returns: no backend call is made, no proxy is destroyed, and the state differs only in the
  count of reported messages. When the bound-set is empty, the backend free is called on the
  wrapped object and the proxy is destroyed.
\<close>

theorem FreeMemory_refused_while_bound:
  "(HasBoundResources mv \<longleftrightarrow>
      m_Buffers mv @ m_Textures mv @ m_AccelerationStructures mv \<noteq> [])
   \<and> (memories s m = Some mv \<and> HasBoundResources mv \<longrightarrow>
        (\<exists>n. FreeMemory m s = Some (s\<lparr>reports := reports s + Suc n\<rparr>)))
   \<and> (memories s m = Some mv \<and> \<not> HasBoundResources mv \<longrightarrow>
        FreeMemory m s = Some (s\<lparr>memories := (memories s)(m := None),
                                  backendCalls := backendCalls s @ [Core_FreeMemory (mem_impl mv)]\<rparr>))"
proof (intro conjI impI)
  show "HasBoundResources mv \<longleftrightarrow>
      m_Buffers mv @ m_Textures mv @ m_AccelerationStructures mv \<noteq> []"
    by (simp add: HasBoundResources_def)
next
  assume a: "memories s m = Some mv \<and> HasBoundResources mv"
  have "REPORT_ERROR (ReportBoundResources mv s)
      = s\<lparr>reports := reports s + Suc (length (m_Buffers mv) + length (m_Textures mv)
                        + length (m_AccelerationStructures mv))\<rparr>"
    by (simp add: REPORT_ERROR_def ReportBoundResources_def)
  with a show "\<exists>n. FreeMemory m s = Some (s\<lparr>reports := reports s + Suc n\<rparr>)"
    by (auto simp: FreeMemory_def)
next
  assume "memories s m = Some mv \<and> \<not> HasBoundResources mv"
  then show "FreeMemory m s = Some (s\<lparr>memories := (memories s)(m := None),
                                  backendCalls := backendCalls s @ [Core_FreeMemory (mem_impl mv)]\<rparr>)"
    by (simp add: FreeMemory_def call_backend_def)
qed

theorem FreeMemory_refused_while_bound_witness:
  "HasBoundResources ((example_memory 0)\<lparr>m_Buffers := [1]\<rparr>)
   \<and> (\<exists>n. FreeMemory 2 (device_with_resources\<lparr>memories := [2 \<mapsto> (example_memory 0)\<lparr>m_Buffers := [1]\<rparr>]\<rparr>)
          = Some (device_with_resources\<lparr>memories := [2 \<mapsto> (example_memory 0)\<lparr>m_Buffers := [1]\<rparr>],
                                        reports := Suc n\<rparr>))
   \<and> \<not> HasBoundResources (example_memory 0)
   \<and> FreeMemory 2 device_with_resources
       = Some (device_with_resources\<lparr>memories := [5 \<mapsto> example_memory 4],
                                     backendCalls := [Core_FreeMemory 12]\<rparr>)"
proof -
  let ?mv = "(example_memory 0)\<lparr>m_Buffers := [1]\<rparr>"
  let ?s = "device_with_resources\<lparr>memories := [2 \<mapsto> ?mv]\<rparr>"
  have b: "HasBoundResources ?mv"
    using FreeMemory_refused_while_bound[of ?mv ?s 2] by (simp add: example_memory_def)
  have "\<exists>n. FreeMemory 2 ?s = Some (?s\<lparr>reports := reports ?s + Suc n\<rparr>)"
    using FreeMemory_refused_while_bound[of ?mv ?s 2] b by simp
  then have r1: "\<exists>n. FreeMemory 2 ?s = Some (?s\<lparr>reports := Suc n\<rparr>)"
    by (simp add: device_with_resources_def empty_device_def)
  have nb: "\<not> HasBoundResources (example_memory 0)"
    using FreeMemory_refused_while_bound[of "example_memory 0" device_with_resources 2]
    by (simp add: example_memory_def)
  have live: "memories device_with_resources 2 = Some (example_memory 0)"
    by (simp add: device_with_resources_def)
  have upd: "(memories device_with_resources)(2 := None) = [5 \<mapsto> example_memory 4]"
    by (rule ext) (simp add: device_with_resources_def)
  have r2: "FreeMemory 2 device_with_resources
       = Some (device_with_resources\<lparr>memories := [5 \<mapsto> example_memory 4],
                                     backendCalls := [Core_FreeMemory 12]\<rparr>)"
    using FreeMemory_refused_while_bound[of "example_memory 0" device_with_resources 2] nb live upd
    by (simp add: device_with_resources_def empty_device_def example_memory_def)
  from b r1 nb r2 show ?thesis by blast
qed

subsection \<open>Batched binding\<close>

lemma validate_entries_Inl:
  "validate_entries e ds = Some (Inl r) \<Longrightarrow> \<exists>d \<in> set ds. e d = Some (Inl r)"
  by (induction ds) (auto split: option.splits sum.splits)

lemma validate_entries_Inr:
  "validate_entries e ds = Some (Inr xs) \<Longrightarrow> \<forall>d \<in> set ds. \<exists>x. e d = Some (Inr x)"
  by (induction ds arbitrary: xs) (auto split: option.splits sum.splits)

lemma validate_entries_total:
  "\<forall>d \<in> set ds. e d \<noteq> None \<Longrightarrow> validate_entries e ds \<noteq> None"
  by (induction ds) (auto split: option.splits sum.splits)

lemma for_each_entry_invariant:
  assumes "for_each_entry f ds s = Some s'" and "P s"
    and "\<And>d t t'. d \<in> set ds \<Longrightarrow> P t \<Longrightarrow> f d t = Some t' \<Longrightarrow> P t'"
  shows "P s'"
  using assms
proof (induction ds arbitrary: s)
  case Nil
  then show ?case by simp
next
  case (Cons d ds)
  from Cons.prems(1) obtain t where t: "f d s = Some t" "for_each_entry f ds t = Some s'"
    by (auto split: option.splits)
  have "P t" using Cons.prems(3)[of d s t] Cons.prems(2) t(1) by simp
  moreover have "\<And>d' u u'. d' \<in> set ds \<Longrightarrow> P u \<Longrightarrow> f d' u = Some u' \<Longrightarrow> P u'"
    using Cons.prems(3) by (meson list.set_intros(2))
  ultimately show ?case using Cons.IH[OF t(2)] by blast
qed

lemma for_each_entry_establishes:
  assumes "for_each_entry f ds s = Some s'" and "d \<in> set ds"
    and "\<And>t t'. f d t = Some t' \<Longrightarrow> G t'"
    and "\<And>e t t'. e \<in> set ds \<Longrightarrow> G t \<Longrightarrow> f e t = Some t' \<Longrightarrow> G t'"
  shows "G s'"
  using assms(1,2,4)
proof (induction ds arbitrary: s)
  case Nil
  then show ?case by simp
next
  case (Cons x ds)
  from Cons.prems(1) obtain t where t: "f x s = Some t" "for_each_entry f ds t = Some s'"
    by (auto split: option.splits)
  show ?case
  proof (cases "x = d")
    case True
    with t(1) assms(3) have "G t" by simp
    moreover have "\<And>e u u'. e \<in> set ds \<Longrightarrow> G u \<Longrightarrow> f e u = Some u' \<Longrightarrow> G u'"
      using Cons.prems(3) by (meson list.set_intros(2))
    ultimately show ?thesis
      using for_each_entry_invariant[OF t(2), of G] by blast
  next
    case False
    with Cons.prems(2) have "d \<in> set ds" by simp
    moreover have "\<And>e u u'. e \<in> set ds \<Longrightarrow> G u \<Longrightarrow> f e u = Some u' \<Longrightarrow> G u'"
      using Cons.prems(3) by (meson list.set_intros(2))
    ultimately show ?thesis using Cons.IH[OF t(2)] by blast
  qed
qed

lemma for_each_entry_total:
  assumes "I s" and "\<And>d t. d \<in> set ds \<Longrightarrow> I t \<Longrightarrow> \<exists>t'. f d t = Some t' \<and> I t'"
  shows "for_each_entry f ds s \<noteq> None"
  using assms
proof (induction ds arbitrary: s)
  case Nil
  then show ?case by simp
next
  case (Cons d ds)
  from Cons.prems(2)[of d s] Cons.prems(1) obtain t where t: "f d s = Some t" "I t" by auto
  moreover have "\<And>e u. e \<in> set ds \<Longrightarrow> I u \<Longrightarrow> \<exists>u'. f e u = Some u' \<and> I u'"
    using Cons.prems(2) by (meson list.set_intros(2))
  ultimately show ?case using Cons.IH[of t] by simp
qed

lemma BindBufferMemory_entry_Inl:
  "BindBufferMemory_entry H Q s d = Some (Inl r) \<Longrightarrow> r = INVALID_ARGUMENT"
  by (auto simp: BindBufferMemory_entry_def Let_def split: option.splits if_splits)

lemma BindBufferMemory_entry_Inr:
  "BindBufferMemory_entry H Q s d = Some (Inr x) \<Longrightarrow>
     \<exists>m b. bb_memory d = Some m \<and> bb_buffer d = Some b \<and> buffers s b \<noteq> None \<and> memories s m \<noteq> None"
  by (auto simp: BindBufferMemory_entry_def Let_def split: option.splits if_splits)

lemma BindBufferMemory_entry_total:
  "buffer_entry_live s d \<Longrightarrow> BindBufferMemory_entry H Q s d \<noteq> None"
  by (auto simp: BindBufferMemory_entry_def buffer_entry_live_def Let_def split: option.splits)

lemma bind_buffer_entry_Some:
  "bind_buffer_entry d t = Some t' \<longleftrightarrow>
     (\<exists>m b memory buffer. bb_memory d = Some m \<and> bb_buffer d = Some b
        \<and> memories t m = Some memory \<and> buffers t b = Some buffer
        \<and> t' = t\<lparr>memories := (memories t)(m \<mapsto> memory\<lparr>m_Buffers := m_Buffers memory @ [b]\<rparr>),
                  buffers := (buffers t)(b \<mapsto> buffer\<lparr>buf_isBoundToMemory := True\<rparr>)\<rparr>)"
  by (auto simp: bind_buffer_entry_def MemoryVal_BindBuffer_def BufferVal_SetBoundToMemory_def
      split: option.splits)

lemma bind_buffer_entry_effect:
  "bind_buffer_entry d t = Some t' \<Longrightarrow> buffer_entry_bound t' d"
  unfolding bind_buffer_entry_Some by (auto simp: buffer_entry_bound_def)

lemma bind_buffer_entry_keeps:
  "buffer_entry_bound t e \<Longrightarrow> bind_buffer_entry d t = Some t' \<Longrightarrow> buffer_entry_bound t' e"
  unfolding bind_buffer_entry_Some
  by (auto simp: buffer_entry_bound_def split: option.splits)

lemma bind_buffer_entry_frame:
  "bind_buffer_entry d t = Some t' \<Longrightarrow>
     backendCalls t' = backendCalls t \<and> reports t' = reports t
     \<and> dom (buffers t') = dom (buffers t) \<and> dom (memories t') = dom (memories t)"
  unfolding bind_buffer_entry_Some by (auto split: if_splits)

lemma BindBufferMemory_cases:
  assumes "BindBufferMemory H Q answer (Elems ds) s = Some (r, s')"
  shows "(r = INVALID_ARGUMENT \<and> s' = REPORT_ERROR s
        \<and> (\<exists>e. validate_entries (BindBufferMemory_entry H Q s) ds = Some (Inl e)))
     \<or> (r = answer \<and> answer \<noteq> SUCCESS
          \<and> (\<exists>impl. validate_entries (BindBufferMemory_entry H Q s) ds = Some (Inr impl)
                \<and> s' = call_backend (Core_BindBufferMemory impl) s))
     \<or> (r = SUCCESS \<and> answer = SUCCESS
          \<and> (\<exists>impl. validate_entries (BindBufferMemory_entry H Q s) ds = Some (Inr impl)
                \<and> for_each_entry bind_buffer_entry ds (call_backend (Core_BindBufferMemory impl) s)
                    = Some s'))"
proof (cases "validate_entries (BindBufferMemory_entry H Q s) ds")
  case None
  with assms show ?thesis by (simp add: BindBufferMemory_def)
next
  case (Some v)
  show ?thesis
  proof (cases v)
    case (Inl e)
    with Some have "\<exists>d \<in> set ds. BindBufferMemory_entry H Q s d = Some (Inl e)"
      by (intro validate_entries_Inl) simp
    then have "e = INVALID_ARGUMENT" using BindBufferMemory_entry_Inl by blast
    with assms Some Inl show ?thesis by (auto simp: BindBufferMemory_def)
  next
    case (Inr impl)
    with assms Some show ?thesis
      by (auto simp: BindBufferMemory_def Let_def split: option.splits if_splits)
  qed
qed

lemma BindBufferMemory_rejected:
  assumes "\<exists>d \<in> set ds. \<exists>e. BindBufferMemory_entry H Q s d = Some (Inl e)"
    and "BindBufferMemory H Q answer (Elems ds) s = Some (r, s')"
  shows "r = INVALID_ARGUMENT \<and> s' = REPORT_ERROR s"
proof -
  have "\<not> (\<exists>impl. validate_entries (BindBufferMemory_entry H Q s) ds = Some (Inr impl))"
    using validate_entries_Inr[of "BindBufferMemory_entry H Q s" ds] assms(1) by fastforce
  with BindBufferMemory_cases[OF assms(2)] show ?thesis by blast
qed

lemma BindBufferMemory_changes:
  assumes "BindBufferMemory H Q answer (Elems ds) s = Some (r, s')" and "\<not> same_bindings s s'"
  shows "answer = SUCCESS \<and> r = SUCCESS"
proof -
  have "same_bindings s (REPORT_ERROR s)" "\<And>c. same_bindings s (call_backend c s)"
    by (simp_all add: same_bindings_def REPORT_ERROR_def call_backend_def)
  with assms(2) BindBufferMemory_cases[OF assms(1)] show ?thesis by auto
qed

lemma BindBufferMemory_success:
  assumes "BindBufferMemory H Q answer (Elems ds) s = Some (SUCCESS, s')"
  shows "(\<exists>impl. validate_entries (BindBufferMemory_entry H Q s) ds = Some (Inr impl)
            \<and> backendCalls s' = backendCalls s @ [Core_BindBufferMemory impl])
        \<and> (\<forall>d \<in> set ds. buffer_entry_bound s' d)"
proof -
  from BindBufferMemory_cases[OF assms]
  obtain impl where impl: "validate_entries (BindBufferMemory_entry H Q s) ds = Some (Inr impl)"
    and loop: "for_each_entry bind_buffer_entry ds (call_backend (Core_BindBufferMemory impl) s) = Some s'"
    by auto
  have "backendCalls s' = backendCalls (call_backend (Core_BindBufferMemory impl) s)"
    by (rule for_each_entry_invariant[OF loop, of "\<lambda>t. backendCalls t
          = backendCalls (call_backend (Core_BindBufferMemory impl) s)"])
       (simp_all add: bind_buffer_entry_frame)
  then have calls: "backendCalls s' = backendCalls s @ [Core_BindBufferMemory impl]"
    by (simp add: call_backend_def)
  have "buffer_entry_bound s' d" if "d \<in> set ds" for d
    using loop that
    by (rule for_each_entry_establishes)
       (auto intro: bind_buffer_entry_effect bind_buffer_entry_keeps)
  with impl calls show ?thesis by blast
qed

lemma BindBufferMemory_returns:
  assumes live: "\<forall>d \<in> set ds. buffer_entry_live s d"
  shows "BindBufferMemory H Q answer (Elems ds) s \<noteq> None"
proof -
  from live have "validate_entries (BindBufferMemory_entry H Q s) ds \<noteq> None"
    by (intro validate_entries_total) (simp add: BindBufferMemory_entry_total)
  then obtain v where v: "validate_entries (BindBufferMemory_entry H Q s) ds = Some v" by auto
  show ?thesis
  proof (cases v)
    case (Inl e)
    with v show ?thesis by (simp add: BindBufferMemory_def)
  next
    case (Inr impl)
    let ?s1 = "call_backend (Core_BindBufferMemory impl) s"
    let ?I = "\<lambda>t::DeviceVal. dom (buffers t) = dom (buffers s) \<and> dom (memories t) = dom (memories s)"
    have ptrs: "\<forall>d \<in> set ds. \<exists>m b. bb_memory d = Some m \<and> bb_buffer d = Some b
        \<and> buffers s b \<noteq> None \<and> memories s m \<noteq> None"
      using validate_entries_Inr[of "BindBufferMemory_entry H Q s" ds impl] v Inr
        BindBufferMemory_entry_Inr[of H Q s] by blast
    have "for_each_entry bind_buffer_entry ds ?s1 \<noteq> None"
    proof (rule for_each_entry_total[of ?I])
      show "?I ?s1" by (simp add: call_backend_def)
    next
      fix d t assume d: "d \<in> set ds" and t: "?I t"
      from ptrs d obtain m b where mb: "bb_memory d = Some m" "bb_buffer d = Some b"
        "buffers s b \<noteq> None" "memories s m \<noteq> None" by blast
      from mb(3) t have "b \<in> dom (buffers t)" by (simp add: domIff)
      moreover from mb(4) t have "m \<in> dom (memories t)" by (simp add: domIff)
      ultimately obtain buffer memory where "buffers t b = Some buffer" "memories t m = Some memory"
        by auto
      with mb have "\<exists>t'. bind_buffer_entry d t = Some t'"
        unfolding bind_buffer_entry_Some by blast
      then obtain t' where t': "bind_buffer_entry d t = Some t'" by blast
      with t bind_buffer_entry_frame[OF t'] show "\<exists>t'. bind_buffer_entry d t = Some t' \<and> ?I t'"
        by auto
    qed
    with v Inr show ?thesis by (auto simp: BindBufferMemory_def Let_def)
  qed
qed

lemma BindTextureMemory_entry_Inl:
  "BindTextureMemory_entry H Q s d = Some (Inl r) \<Longrightarrow> r = INVALID_ARGUMENT"
  by (auto simp: BindTextureMemory_entry_def Let_def split: option.splits if_splits)

lemma BindTextureMemory_entry_Inr:
  "BindTextureMemory_entry H Q s d = Some (Inr x) \<Longrightarrow>
     \<exists>m b. tb_memory d = Some m \<and> tb_texture d = Some b \<and> textures s b \<noteq> None \<and> memories s m \<noteq> None"
  by (auto simp: BindTextureMemory_entry_def Let_def split: option.splits if_splits)

lemma BindTextureMemory_entry_total:
  "texture_entry_live s d \<Longrightarrow> BindTextureMemory_entry H Q s d \<noteq> None"
  by (auto simp: BindTextureMemory_entry_def texture_entry_live_def Let_def split: option.splits)

lemma bind_texture_entry_Some:
  "bind_texture_entry d t = Some t' \<longleftrightarrow>
     (\<exists>m b memory texture. tb_memory d = Some m \<and> tb_texture d = Some b
        \<and> memories t m = Some memory \<and> textures t b = Some texture
        \<and> t' = t\<lparr>memories := (memories t)(m \<mapsto> memory\<lparr>m_Textures := m_Textures memory @ [b]\<rparr>),
                  textures := (textures t)(b \<mapsto> texture\<lparr>tex_isBoundToMemory := True\<rparr>)\<rparr>)"
  by (auto simp: bind_texture_entry_def MemoryVal_BindTexture_def TextureVal_SetBoundToMemory_def
      split: option.splits)

lemma bind_texture_entry_effect:
  "bind_texture_entry d t = Some t' \<Longrightarrow> texture_entry_bound t' d"
  unfolding bind_texture_entry_Some by (auto simp: texture_entry_bound_def)

lemma bind_texture_entry_keeps:
  "texture_entry_bound t e \<Longrightarrow> bind_texture_entry d t = Some t' \<Longrightarrow> texture_entry_bound t' e"
  unfolding bind_texture_entry_Some
  by (auto simp: texture_entry_bound_def split: option.splits)

lemma bind_texture_entry_frame:
  "bind_texture_entry d t = Some t' \<Longrightarrow>
     backendCalls t' = backendCalls t \<and> reports t' = reports t
     \<and> dom (textures t') = dom (textures t) \<and> dom (memories t') = dom (memories t)"
  unfolding bind_texture_entry_Some by (auto split: if_splits)

lemma BindTextureMemory_cases:
  assumes "BindTextureMemory H Q answer (Elems ds) s = Some (r, s')"
  shows "(r = INVALID_ARGUMENT \<and> s' = REPORT_ERROR s
        \<and> (\<exists>e. validate_entries (BindTextureMemory_entry H Q s) ds = Some (Inl e)))
     \<or> (r = answer \<and> answer \<noteq> SUCCESS
          \<and> (\<exists>impl. validate_entries (BindTextureMemory_entry H Q s) ds = Some (Inr impl)
                \<and> s' = call_backend (Core_BindTextureMemory impl) s))
     \<or> (r = SUCCESS \<and> answer = SUCCESS
          \<and> (\<exists>impl. validate_entries (BindTextureMemory_entry H Q s) ds = Some (Inr impl)
                \<and> for_each_entry bind_texture_entry ds (call_backend (Core_BindTextureMemory impl) s)
                    = Some s'))"
proof (cases "validate_entries (BindTextureMemory_entry H Q s) ds")
  case None
  with assms show ?thesis by (simp add: BindTextureMemory_def)
next
  case (Some v)
  show ?thesis
  proof (cases v)
    case (Inl e)
    with Some have "\<exists>d \<in> set ds. BindTextureMemory_entry H Q s d = Some (Inl e)"
      by (intro validate_entries_Inl) simp
    then have "e = INVALID_ARGUMENT" using BindTextureMemory_entry_Inl by blast
    with assms Some Inl show ?thesis by (auto simp: BindTextureMemory_def)
  next
    case (Inr impl)
    with assms Some show ?thesis
      by (auto simp: BindTextureMemory_def Let_def split: option.splits if_splits)
  qed
qed

lemma BindTextureMemory_rejected:
  assumes "\<exists>d \<in> set ds. \<exists>e. BindTextureMemory_entry H Q s d = Some (Inl e)"
    and "BindTextureMemory H Q answer (Elems ds) s = Some (r, s')"
  shows "r = INVALID_ARGUMENT \<and> s' = REPORT_ERROR s"
proof -
  have "\<not> (\<exists>impl. validate_entries (BindTextureMemory_entry H Q s) ds = Some (Inr impl))"
    using validate_entries_Inr[of "BindTextureMemory_entry H Q s" ds] assms(1) by fastforce
  with BindTextureMemory_cases[OF assms(2)] show ?thesis by blast
qed

lemma BindTextureMemory_changes:
  assumes "BindTextureMemory H Q answer (Elems ds) s = Some (r, s')" and "\<not> same_bindings s s'"
  shows "answer = SUCCESS \<and> r = SUCCESS"
proof -
  have "same_bindings s (REPORT_ERROR s)" "\<And>c. same_bindings s (call_backend c s)"
    by (simp_all add: same_bindings_def REPORT_ERROR_def call_backend_def)
  with assms(2) BindTextureMemory_cases[OF assms(1)] show ?thesis by auto
qed

lemma BindTextureMemory_success:
  assumes "BindTextureMemory H Q answer (Elems ds) s = Some (SUCCESS, s')"
  shows "(\<exists>impl. validate_entries (BindTextureMemory_entry H Q s) ds = Some (Inr impl)
            \<and> backendCalls s' = backendCalls s @ [Core_BindTextureMemory impl])
        \<and> (\<forall>d \<in> set ds. texture_entry_bound s' d)"
proof -
  from BindTextureMemory_cases[OF assms]
  obtain impl where impl: "validate_entries (BindTextureMemory_entry H Q s) ds = Some (Inr impl)"
    and loop: "for_each_entry bind_texture_entry ds (call_backend (Core_BindTextureMemory impl) s) = Some s'"
    by auto
  have "backendCalls s' = backendCalls (call_backend (Core_BindTextureMemory impl) s)"
    by (rule for_each_entry_invariant[OF loop, of "\<lambda>t. backendCalls t
          = backendCalls (call_backend (Core_BindTextureMemory impl) s)"])
       (simp_all add: bind_texture_entry_frame)
  then have calls: "backendCalls s' = backendCalls s @ [Core_BindTextureMemory impl]"
    by (simp add: call_backend_def)
  have "texture_entry_bound s' d" if "d \<in> set ds" for d
    using loop that
    by (rule for_each_entry_establishes)
       (auto intro: bind_texture_entry_effect bind_texture_entry_keeps)
  with impl calls show ?thesis by blast
qed

lemma BindTextureMemory_returns:
  assumes live: "\<forall>d \<in> set ds. texture_entry_live s d"
  shows "BindTextureMemory H Q answer (Elems ds) s \<noteq> None"
proof -
  from live have "validate_entries (BindTextureMemory_entry H Q s) ds \<noteq> None"
    by (intro validate_entries_total) (simp add: BindTextureMemory_entry_total)
  then obtain v where v: "validate_entries (BindTextureMemory_entry H Q s) ds = Some v" by auto
  show ?thesis
  proof (cases v)
    case (Inl e)
    with v show ?thesis by (simp add: BindTextureMemory_def)
  next
    case (Inr impl)
    let ?s1 = "call_backend (Core_BindTextureMemory impl) s"
    let ?I = "\<lambda>t::DeviceVal. dom (textures t) = dom (textures s) \<and> dom (memories t) = dom (memories s)"
    have ptrs: "\<forall>d \<in> set ds. \<exists>m b. tb_memory d = Some m \<and> tb_texture d = Some b
        \<and> textures s b \<noteq> None \<and> memories s m \<noteq> None"
      using validate_entries_Inr[of "BindTextureMemory_entry H Q s" ds impl] v Inr
        BindTextureMemory_entry_Inr[of H Q s] by blast
    have "for_each_entry bind_texture_entry ds ?s1 \<noteq> None"
    proof (rule for_each_entry_total[of ?I])
      show "?I ?s1" by (simp add: call_backend_def)
    next
      fix d t assume d: "d \<in> set ds" and t: "?I t"
      from ptrs d obtain m b where mb: "tb_memory d = Some m" "tb_texture d = Some b"
        "textures s b \<noteq> None" "memories s m \<noteq> None" by blast
      from mb(3) t have "b \<in> dom (textures t)" by (simp add: domIff)
      moreover from mb(4) t have "m \<in> dom (memories t)" by (simp add: domIff)
      ultimately obtain texture memory where "textures t b = Some texture" "memories t m = Some memory"
        by auto
      with mb have "\<exists>t'. bind_texture_entry d t = Some t'"
        unfolding bind_texture_entry_Some by blast
      then obtain t' where t': "bind_texture_entry d t = Some t'" by blast
      with t bind_texture_entry_frame[OF t'] show "\<exists>t'. bind_texture_entry d t = Some t' \<and> ?I t'"
        by auto
    qed
    with v Inr show ?thesis by (auto simp: BindTextureMemory_def Let_def)
  qed
qed

lemma BindAccelerationStructureMemory_entry_Inl:
  "BindAccelerationStructureMemory_entry s d = Some (Inl r) \<Longrightarrow> r = INVALID_ARGUMENT"
  by (auto simp: BindAccelerationStructureMemory_entry_def Let_def split: option.splits if_splits)

lemma BindAccelerationStructureMemory_entry_Inr:
  "BindAccelerationStructureMemory_entry s d = Some (Inr x) \<Longrightarrow>
     \<exists>m b. ab_memory d = Some m \<and> ab_accelerationStructure d = Some b \<and> accelerationStructures s b \<noteq> None \<and> memories s m \<noteq> None"
  by (auto simp: BindAccelerationStructureMemory_entry_def Let_def split: option.splits if_splits)

lemma BindAccelerationStructureMemory_entry_total:
  "acceleration_structure_entry_live s d \<Longrightarrow> BindAccelerationStructureMemory_entry s d \<noteq> None"
  by (auto simp: BindAccelerationStructureMemory_entry_def acceleration_structure_entry_live_def Let_def split: option.splits)

lemma bind_acceleration_structure_entry_Some:
  "bind_acceleration_structure_entry d t = Some t' \<longleftrightarrow>
     (\<exists>m b memory accelerationStructure. ab_memory d = Some m \<and> ab_accelerationStructure d = Some b
        \<and> memories t m = Some memory \<and> accelerationStructures t b = Some accelerationStructure
        \<and> t' = t\<lparr>memories := (memories t)(m \<mapsto> memory\<lparr>m_AccelerationStructures := m_AccelerationStructures memory @ [b]\<rparr>),
                  accelerationStructures := (accelerationStructures t)(b \<mapsto> accelerationStructure\<lparr>as_isBoundToMemory := True\<rparr>)\<rparr>)"
  by (auto simp: bind_acceleration_structure_entry_def MemoryVal_BindAccelerationStructure_def AccelerationStructureVal_SetBoundToMemory_def
      split: option.splits)

lemma bind_acceleration_structure_entry_effect:
  "bind_acceleration_structure_entry d t = Some t' \<Longrightarrow> acceleration_structure_entry_bound t' d"
  unfolding bind_acceleration_structure_entry_Some by (auto simp: acceleration_structure_entry_bound_def)

lemma bind_acceleration_structure_entry_keeps:
  "acceleration_structure_entry_bound t e \<Longrightarrow> bind_acceleration_structure_entry d t = Some t' \<Longrightarrow> acceleration_structure_entry_bound t' e"
  unfolding bind_acceleration_structure_entry_Some
  by (auto simp: acceleration_structure_entry_bound_def split: option.splits)

lemma bind_acceleration_structure_entry_frame:
  "bind_acceleration_structure_entry d t = Some t' \<Longrightarrow>
     backendCalls t' = backendCalls t \<and> reports t' = reports t
     \<and> dom (accelerationStructures t') = dom (accelerationStructures t) \<and> dom (memories t') = dom (memories t)"
  unfolding bind_acceleration_structure_entry_Some by (auto split: if_splits)

lemma BindAccelerationStructureMemory_cases:
  assumes "BindAccelerationStructureMemory answer (Elems ds) s = Some (r, s')"
  shows "(r = INVALID_ARGUMENT \<and> s' = REPORT_ERROR s
        \<and> (\<exists>e. validate_entries (BindAccelerationStructureMemory_entry s) ds = Some (Inl e)))
     \<or> (r = answer \<and> answer \<noteq> SUCCESS
          \<and> (\<exists>impl. validate_entries (BindAccelerationStructureMemory_entry s) ds = Some (Inr impl)
                \<and> s' = call_backend (RayTracing_BindAccelerationStructureMemory impl) s))
     \<or> (r = SUCCESS \<and> answer = SUCCESS
          \<and> (\<exists>impl. validate_entries (BindAccelerationStructureMemory_entry s) ds = Some (Inr impl)
                \<and> for_each_entry bind_acceleration_structure_entry ds (call_backend (RayTracing_BindAccelerationStructureMemory impl) s)
                    = Some s'))"
proof (cases "validate_entries (BindAccelerationStructureMemory_entry s) ds")
  case None
  with assms show ?thesis by (simp add: BindAccelerationStructureMemory_def)
next
  case (Some v)
  show ?thesis
  proof (cases v)
    case (Inl e)
    with Some have "\<exists>d \<in> set ds. BindAccelerationStructureMemory_entry s d = Some (Inl e)"
      by (intro validate_entries_Inl) simp
    then have "e = INVALID_ARGUMENT" using BindAccelerationStructureMemory_entry_Inl by blast
    with assms Some Inl show ?thesis by (auto simp: BindAccelerationStructureMemory_def)
  next
    case (Inr impl)
    with assms Some show ?thesis
      by (auto simp: BindAccelerationStructureMemory_def Let_def split: option.splits if_splits)
  qed
qed

lemma BindAccelerationStructureMemory_rejected:
  assumes "\<exists>d \<in> set ds. \<exists>e. BindAccelerationStructureMemory_entry s d = Some (Inl e)"
    and "BindAccelerationStructureMemory answer (Elems ds) s = Some (r, s')"
  shows "r = INVALID_ARGUMENT \<and> s' = REPORT_ERROR s"
proof -
  have "\<not> (\<exists>impl. validate_entries (BindAccelerationStructureMemory_entry s) ds = Some (Inr impl))"
    using validate_entries_Inr[of "BindAccelerationStructureMemory_entry s" ds] assms(1) by fastforce
  with BindAccelerationStructureMemory_cases[OF assms(2)] show ?thesis by blast
qed

lemma BindAccelerationStructureMemory_changes:
  assumes "BindAccelerationStructureMemory answer (Elems ds) s = Some (r, s')" and "\<not> same_bindings s s'"
  shows "answer = SUCCESS \<and> r = SUCCESS"
proof -
  have "same_bindings s (REPORT_ERROR s)" "\<And>c. same_bindings s (call_backend c s)"
    by (simp_all add: same_bindings_def REPORT_ERROR_def call_backend_def)
  with assms(2) BindAccelerationStructureMemory_cases[OF assms(1)] show ?thesis by auto
qed

lemma BindAccelerationStructureMemory_success:
  assumes "BindAccelerationStructureMemory answer (Elems ds) s = Some (SUCCESS, s')"
  shows "(\<exists>impl. validate_entries (BindAccelerationStructureMemory_entry s) ds = Some (Inr impl)
            \<and> backendCalls s' = backendCalls s @ [RayTracing_BindAccelerationStructureMemory impl])
        \<and> (\<forall>d \<in> set ds. acceleration_structure_entry_bound s' d)"
proof -
  from BindAccelerationStructureMemory_cases[OF assms]
  obtain impl where impl: "validate_entries (BindAccelerationStructureMemory_entry s) ds = Some (Inr impl)"
    and loop: "for_each_entry bind_acceleration_structure_entry ds (call_backend (RayTracing_BindAccelerationStructureMemory impl) s) = Some s'"
    by auto
  have "backendCalls s' = backendCalls (call_backend (RayTracing_BindAccelerationStructureMemory impl) s)"
    by (rule for_each_entry_invariant[OF loop, of "\<lambda>t. backendCalls t
          = backendCalls (call_backend (RayTracing_BindAccelerationStructureMemory impl) s)"])
       (simp_all add: bind_acceleration_structure_entry_frame)
  then have calls: "backendCalls s' = backendCalls s @ [RayTracing_BindAccelerationStructureMemory impl]"
    by (simp add: call_backend_def)
  have "acceleration_structure_entry_bound s' d" if "d \<in> set ds" for d
    using loop that
    by (rule for_each_entry_establishes)
       (auto intro: bind_acceleration_structure_entry_effect bind_acceleration_structure_entry_keeps)
  with impl calls show ?thesis by blast
qed

lemma BindAccelerationStructureMemory_returns:
  assumes live: "\<forall>d \<in> set ds. acceleration_structure_entry_live s d"
  shows "BindAccelerationStructureMemory answer (Elems ds) s \<noteq> None"
proof -
  from live have "validate_entries (BindAccelerationStructureMemory_entry s) ds \<noteq> None"
    by (intro validate_entries_total) (simp add: BindAccelerationStructureMemory_entry_total)
  then obtain v where v: "validate_entries (BindAccelerationStructureMemory_entry s) ds = Some v" by auto
  show ?thesis
  proof (cases v)
    case (Inl e)
    with v show ?thesis by (simp add: BindAccelerationStructureMemory_def)
  next
    case (Inr impl)
    let ?s1 = "call_backend (RayTracing_BindAccelerationStructureMemory impl) s"
    let ?I = "\<lambda>t::DeviceVal. dom (accelerationStructures t) = dom (accelerationStructures s) \<and> dom (memories t) = dom (memories s)"
    have ptrs: "\<forall>d \<in> set ds. \<exists>m b. ab_memory d = Some m \<and> ab_accelerationStructure d = Some b
        \<and> accelerationStructures s b \<noteq> None \<and> memories s m \<noteq> None"
      using validate_entries_Inr[of "BindAccelerationStructureMemory_entry s" ds impl] v Inr
        BindAccelerationStructureMemory_entry_Inr[of s] by blast
    have "for_each_entry bind_acceleration_structure_entry ds ?s1 \<noteq> None"
    proof (rule for_each_entry_total[of ?I])
      show "?I ?s1" by (simp add: call_backend_def)
    next
      fix d t assume d: "d \<in> set ds" and t: "?I t"
      from ptrs d obtain m b where mb: "ab_memory d = Some m" "ab_accelerationStructure d = Some b"
        "accelerationStructures s b \<noteq> None" "memories s m \<noteq> None" by blast
      from mb(3) t have "b \<in> dom (accelerationStructures t)" by (simp add: domIff)
      moreover from mb(4) t have "m \<in> dom (memories t)" by (simp add: domIff)
      ultimately obtain accelerationStructure memory where "accelerationStructures t b = Some accelerationStructure" "memories t m = Some memory"
        by auto
      with mb have "\<exists>t'. bind_acceleration_structure_entry d t = Some t'"
        unfolding bind_acceleration_structure_entry_Some by blast
      then obtain t' where t': "bind_acceleration_structure_entry d t = Some t'" by blast
      with t bind_acceleration_structure_entry_frame[OF t'] show "\<exists>t'. bind_acceleration_structure_entry d t = Some t' \<and> ?I t'"
        by auto
    qed
    with v Inr show ?thesis by (auto simp: BindAccelerationStructureMemory_def Let_def)
  qed
qed

lemma same_bindings_entry_bound:
  assumes "same_bindings s s'"
  shows "buffer_entry_bound s' b = buffer_entry_bound s b"
    and "texture_entry_bound s' t = texture_entry_bound s t"
    and "acceleration_structure_entry_bound s' a = acceleration_structure_entry_bound s a"
proof -
  from assms have eq: "buffers s' = buffers s" "textures s' = textures s"
    "accelerationStructures s' = accelerationStructures s" "memories s' = memories s"
    by (simp_all add: same_bindings_def)
  show "buffer_entry_bound s' b = buffer_entry_bound s b"
    by (simp only: buffer_entry_bound_def eq)
  show "texture_entry_bound s' t = texture_entry_bound s t"
    by (simp only: texture_entry_bound_def eq)
  show "acceleration_structure_entry_bound s' a = acceleration_structure_entry_bound s a"
    by (simp only: acceleration_structure_entry_bound_def eq)
qed

text \<open>
  C1. For each of the three batched binding calls: a null array is rejected; if some entry of
  the batch fails validation, a call that returns answers INVALID_ARGUMENT and changes nothing
  but the count of reported messages, so the backend binding entry point is not called and no
  bound flag or bound-set changes; a bound flag or bound-set changes only when the backend was
  called and answered SUCCESS; after SUCCESS the batch was forwarded as one backend call and
  every entry's resource is flagged as bound and is in the bound-set of its memory; and the
  call returns whenever the pointers of the entries are live.
\<close>

theorem binding_batches_all_or_nothing:
  "(BindBufferMemory H Q answer (NullPtr n) s = Some (INVALID_ARGUMENT, REPORT_ERROR s)
    \<and> ((\<exists>d \<in> set bs. \<exists>e. BindBufferMemory_entry H Q s d = Some (Inl e))
         \<and> BindBufferMemory H Q answer (Elems bs) s = Some (r, s') \<longrightarrow>
         r = INVALID_ARGUMENT \<and> s' = REPORT_ERROR s)
    \<and> (BindBufferMemory H Q answer (Elems bs) s = Some (r, s') \<and> \<not> same_bindings s s' \<longrightarrow>
         answer = SUCCESS \<and> r = SUCCESS)
    \<and> (BindBufferMemory H Q answer (Elems bs) s = Some (SUCCESS, s') \<longrightarrow>
         (\<exists>impl. validate_entries (BindBufferMemory_entry H Q s) bs = Some (Inr impl)
             \<and> backendCalls s' = backendCalls s @ [Core_BindBufferMemory impl])
         \<and> (\<forall>d \<in> set bs. buffer_entry_bound s' d))
    \<and> ((\<forall>d \<in> set bs. buffer_entry_live s d) \<longrightarrow>
         BindBufferMemory H Q answer (Elems bs) s \<noteq> None))
   \<and> (BindTextureMemory H Q answer (NullPtr n) s = Some (INVALID_ARGUMENT, REPORT_ERROR s)
    \<and> ((\<exists>d \<in> set ts. \<exists>e. BindTextureMemory_entry H Q s d = Some (Inl e))
         \<and> BindTextureMemory H Q answer (Elems ts) s = Some (r, s') \<longrightarrow>
         r = INVALID_ARGUMENT \<and> s' = REPORT_ERROR s)
    \<and> (BindTextureMemory H Q answer (Elems ts) s = Some (r, s') \<and> \<not> same_bindings s s' \<longrightarrow>
         answer = SUCCESS \<and> r = SUCCESS)
    \<and> (BindTextureMemory H Q answer (Elems ts) s = Some (SUCCESS, s') \<longrightarrow>
         (\<exists>impl. validate_entries (BindTextureMemory_entry H Q s) ts = Some (Inr impl)
             \<and> backendCalls s' = backendCalls s @ [Core_BindTextureMemory impl])
         \<and> (\<forall>d \<in> set ts. texture_entry_bound s' d))
    \<and> ((\<forall>d \<in> set ts. texture_entry_live s d) \<longrightarrow>
         BindTextureMemory H Q answer (Elems ts) s \<noteq> None))
   \<and> (BindAccelerationStructureMemory answer (NullPtr n) s = Some (INVALID_ARGUMENT, REPORT_ERROR s)
    \<and> ((\<exists>d \<in> set as. \<exists>e. BindAccelerationStructureMemory_entry s d = Some (Inl e))
         \<and> BindAccelerationStructureMemory answer (Elems as) s = Some (r, s') \<longrightarrow>
         r = INVALID_ARGUMENT \<and> s' = REPORT_ERROR s)
    \<and> (BindAccelerationStructureMemory answer (Elems as) s = Some (r, s') \<and> \<not> same_bindings s s' \<longrightarrow>
         answer = SUCCESS \<and> r = SUCCESS)
    \<and> (BindAccelerationStructureMemory answer (Elems as) s = Some (SUCCESS, s') \<longrightarrow>
         (\<exists>impl. validate_entries (BindAccelerationStructureMemory_entry s) as = Some (Inr impl)
             \<and> backendCalls s' = backendCalls s @ [RayTracing_BindAccelerationStructureMemory impl])
         \<and> (\<forall>d \<in> set as. acceleration_structure_entry_bound s' d))
    \<and> ((\<forall>d \<in> set as. acceleration_structure_entry_live s d) \<longrightarrow>
         BindAccelerationStructureMemory answer (Elems as) s \<noteq> None))
   \<and> same_bindings s (REPORT_ERROR s) \<and> backendCalls (REPORT_ERROR s) = backendCalls s"
proof -
  have b1: "BindBufferMemory H Q answer (NullPtr n) s = Some (INVALID_ARGUMENT, REPORT_ERROR s)"
    by (simp add: BindBufferMemory_def)
  have b2: "(\<exists>d \<in> set bs. \<exists>e. BindBufferMemory_entry H Q s d = Some (Inl e))
         \<and> BindBufferMemory H Q answer (Elems bs) s = Some (r, s') \<longrightarrow>
         r = INVALID_ARGUMENT \<and> s' = REPORT_ERROR s"
    using BindBufferMemory_rejected[of bs H Q s answer r s'] by blast
  have b3: "BindBufferMemory H Q answer (Elems bs) s = Some (r, s') \<and> \<not> same_bindings s s' \<longrightarrow>
         answer = SUCCESS \<and> r = SUCCESS"
    using BindBufferMemory_changes[of H Q answer bs s r s'] by blast
  have b4: "BindBufferMemory H Q answer (Elems bs) s = Some (SUCCESS, s') \<longrightarrow>
         (\<exists>impl. validate_entries (BindBufferMemory_entry H Q s) bs = Some (Inr impl)
             \<and> backendCalls s' = backendCalls s @ [Core_BindBufferMemory impl])
         \<and> (\<forall>d \<in> set bs. buffer_entry_bound s' d)"
    using BindBufferMemory_success[of H Q answer bs s s'] by blast
  have b5: "(\<forall>d \<in> set bs. buffer_entry_live s d) \<longrightarrow>
         BindBufferMemory H Q answer (Elems bs) s \<noteq> None"
    using BindBufferMemory_returns[of bs s H Q answer] by blast
  have t1: "BindTextureMemory H Q answer (NullPtr n) s = Some (INVALID_ARGUMENT, REPORT_ERROR s)"
    by (simp add: BindTextureMemory_def)
  have t2: "(\<exists>d \<in> set ts. \<exists>e. BindTextureMemory_entry H Q s d = Some (Inl e))
         \<and> BindTextureMemory H Q answer (Elems ts) s = Some (r, s') \<longrightarrow>
         r = INVALID_ARGUMENT \<and> s' = REPORT_ERROR s"
    using BindTextureMemory_rejected[of ts H Q s answer r s'] by blast
  have t3: "BindTextureMemory H Q answer (Elems ts) s = Some (r, s') \<and> \<not> same_bindings s s' \<longrightarrow>
         answer = SUCCESS \<and> r = SUCCESS"
    using BindTextureMemory_changes[of H Q answer ts s r s'] by blast
  have t4: "BindTextureMemory H Q answer (Elems ts) s = Some (SUCCESS, s') \<longrightarrow>
         (\<exists>impl. validate_entries (BindTextureMemory_entry H Q s) ts = Some (Inr impl)
             \<and> backendCalls s' = backendCalls s @ [Core_BindTextureMemory impl])
         \<and> (\<forall>d \<in> set ts. texture_entry_bound s' d)"
    using BindTextureMemory_success[of H Q answer ts s s'] by blast
  have t5: "(\<forall>d \<in> set ts. texture_entry_live s d) \<longrightarrow>
         BindTextureMemory H Q answer (Elems ts) s \<noteq> None"
    using BindTextureMemory_returns[of ts s H Q answer] by blast
  have a1: "BindAccelerationStructureMemory answer (NullPtr n) s = Some (INVALID_ARGUMENT, REPORT_ERROR s)"
    by (simp add: BindAccelerationStructureMemory_def)
  have a2: "(\<exists>d \<in> set as. \<exists>e. BindAccelerationStructureMemory_entry s d = Some (Inl e))
         \<and> BindAccelerationStructureMemory answer (Elems as) s = Some (r, s') \<longrightarrow>
         r = INVALID_ARGUMENT \<and> s' = REPORT_ERROR s"
    using BindAccelerationStructureMemory_rejected[of as s answer r s'] by blast
  have a3: "BindAccelerationStructureMemory answer (Elems as) s = Some (r, s') \<and> \<not> same_bindings s s' \<longrightarrow>
         answer = SUCCESS \<and> r = SUCCESS"
    using BindAccelerationStructureMemory_changes[of answer as s r s'] by blast
  have a4: "BindAccelerationStructureMemory answer (Elems as) s = Some (SUCCESS, s') \<longrightarrow>
         (\<exists>impl. validate_entries (BindAccelerationStructureMemory_entry s) as = Some (Inr impl)
             \<and> backendCalls s' = backendCalls s @ [RayTracing_BindAccelerationStructureMemory impl])
         \<and> (\<forall>d \<in> set as. acceleration_structure_entry_bound s' d)"
    using BindAccelerationStructureMemory_success[of answer as s s'] by blast
  have a5: "(\<forall>d \<in> set as. acceleration_structure_entry_live s d) \<longrightarrow>
         BindAccelerationStructureMemory answer (Elems as) s \<noteq> None"
    using BindAccelerationStructureMemory_returns[of as s answer] by blast
  have e1: "same_bindings s (REPORT_ERROR s)"
    by (simp add: same_bindings_def REPORT_ERROR_def)
  have e2: "backendCalls (REPORT_ERROR s) = backendCalls s"
    by (simp add: REPORT_ERROR_def)
  show ?thesis
    by (intro conjI b1 b2 b3 b4 b5 t1 t2 t3 t4 t5 a1 a2 a3 a4 a5 e1 e2)
qed

theorem binding_batches_all_or_nothing_witness:
  "BindBufferMemory example_descs example_queries SUCCESS
      (Elems [example_buffer_binding 2 0, example_buffer_binding 2 100]) device_with_resources
     = Some (INVALID_ARGUMENT, REPORT_ERROR device_with_resources)
   \<and> (\<exists>s'. BindBufferMemory example_descs example_queries SUCCESS
               (Elems [example_buffer_binding 2 0]) device_with_resources = Some (SUCCESS, s')
          \<and> \<not> same_bindings device_with_resources s'
          \<and> buffer_entry_bound s' (example_buffer_binding 2 0)
          \<and> backendCalls s' = [Core_BindBufferMemory [\<lparr>bi_memory = 12, bi_resource = 11, bi_offset = 0\<rparr>]])
   \<and> BindTextureMemory example_descs example_queries SUCCESS
      (Elems [example_texture_binding 2 0, example_texture_binding 2 100]) device_with_resources
     = Some (INVALID_ARGUMENT, REPORT_ERROR device_with_resources)
   \<and> (\<exists>s'. BindTextureMemory example_descs example_queries SUCCESS
               (Elems [example_texture_binding 2 0]) device_with_resources = Some (SUCCESS, s')
          \<and> \<not> same_bindings device_with_resources s'
          \<and> texture_entry_bound s' (example_texture_binding 2 0))
   \<and> BindAccelerationStructureMemory SUCCESS
      (Elems [example_as_binding 2 0, example_as_binding 2 100]) device_with_resources
     = Some (INVALID_ARGUMENT, REPORT_ERROR device_with_resources)
   \<and> (\<exists>s'. BindAccelerationStructureMemory SUCCESS
               (Elems [example_as_binding 2 0]) device_with_resources = Some (SUCCESS, s')
          \<and> \<not> same_bindings device_with_resources s'
          \<and> acceleration_structure_entry_bound s' (example_as_binding 2 0))"
proof -
  note defs = example_descs_def example_queries_def example_requirements_def
    device_with_resources_def example_memory_def example_texture_def empty_device_def
    example_buffer_binding_def example_texture_binding_def example_as_binding_def
  note inst = binding_batches_all_or_nothing[where H = example_descs and Q = example_queries
      and answer = SUCCESS and s = device_with_resources]
  note buf = inst[THEN conjunct1]
  note tex = inst[THEN conjunct2, THEN conjunct1]
  note acc = inst[THEN conjunct2, THEN conjunct2, THEN conjunct1]
  let ?s = device_with_resources
  let ?bs = "[example_buffer_binding 2 0, example_buffer_binding 2 100]"
  let ?ts = "[example_texture_binding 2 0, example_texture_binding 2 100]"
  let ?as = "[example_as_binding 2 0, example_as_binding 2 100]"

  have bad_b: "\<exists>d \<in> set ?bs. \<exists>e. BindBufferMemory_entry example_descs example_queries ?s d = Some (Inl e)"
    by (simp add: BindBufferMemory_entry_def defs)
  have live_b: "\<forall>d \<in> set ?bs. buffer_entry_live ?s d"
    by (simp add: buffer_entry_live_def defs)
  from binding_batches_all_or_nothing[where H = example_descs and Q = example_queries and answer = SUCCESS
      and s = device_with_resources and bs = ?bs, THEN conjunct1, THEN conjunct2, THEN conjunct2, THEN conjunct2, THEN conjunct2] live_b
  obtain rb sb where
    rb: "BindBufferMemory example_descs example_queries SUCCESS (Elems ?bs) ?s = Some (rb, sb)"
    by (cases "BindBufferMemory example_descs example_queries SUCCESS (Elems ?bs) ?s") auto
  from binding_batches_all_or_nothing[where H = example_descs and Q = example_queries and answer = SUCCESS
      and s = device_with_resources and bs = ?bs and r = rb and s' = sb, THEN conjunct1, THEN conjunct2, THEN conjunct1] bad_b rb
  have w1: "BindBufferMemory example_descs example_queries SUCCESS (Elems ?bs) ?s
     = Some (INVALID_ARGUMENT, REPORT_ERROR ?s)" by blast
  have "\<exists>s'. BindBufferMemory example_descs example_queries SUCCESS
               (Elems [example_buffer_binding 2 0]) ?s = Some (SUCCESS, s')"
    by (simp add: BindBufferMemory_def BindBufferMemory_entry_def defs call_backend_def
        bind_buffer_entry_def MemoryVal_BindBuffer_def BufferVal_SetBoundToMemory_def)
  then obtain s2 where s2: "BindBufferMemory example_descs example_queries SUCCESS
               (Elems [example_buffer_binding 2 0]) ?s = Some (SUCCESS, s2)" by blast
  have e2: "validate_entries (BindBufferMemory_entry example_descs example_queries ?s)
              [example_buffer_binding 2 0]
            = Some (Inr [\<lparr>bi_memory = 12, bi_resource = 11, bi_offset = 0\<rparr>])"
    by (simp add: BindBufferMemory_entry_def defs)
  from binding_batches_all_or_nothing[where H = example_descs and Q = example_queries and answer = SUCCESS
      and s = device_with_resources and bs = "[example_buffer_binding 2 0]" and s' = s2,
      THEN conjunct1, THEN conjunct2, THEN conjunct2, THEN conjunct2, THEN conjunct1] s2 e2
  have b2: "buffer_entry_bound s2 (example_buffer_binding 2 0)"
    and c2: "backendCalls s2 = [Core_BindBufferMemory [\<lparr>bi_memory = 12, bi_resource = 11, bi_offset = 0\<rparr>]]"
    by (simp_all add: device_with_resources_def empty_device_def)
  have "\<not> buffer_entry_bound ?s (example_buffer_binding 2 0)"
    by (simp add: buffer_entry_bound_def defs)
  with b2 have n2: "\<not> same_bindings ?s s2"
    using same_bindings_entry_bound(1)[of ?s s2] by blast
  from s2 n2 b2 c2 have w2: "\<exists>s'. BindBufferMemory example_descs example_queries SUCCESS
               (Elems [example_buffer_binding 2 0]) device_with_resources = Some (SUCCESS, s')
          \<and> \<not> same_bindings device_with_resources s'
          \<and> buffer_entry_bound s' (example_buffer_binding 2 0)
          \<and> backendCalls s' = [Core_BindBufferMemory [\<lparr>bi_memory = 12, bi_resource = 11, bi_offset = 0\<rparr>]]"
    by blast

  have bad_t: "\<exists>d \<in> set ?ts. \<exists>e. BindTextureMemory_entry example_descs example_queries ?s d = Some (Inl e)"
    by (simp add: BindTextureMemory_entry_def defs)
  have live_t: "\<forall>d \<in> set ?ts. texture_entry_live ?s d"
    by (simp add: texture_entry_live_def defs)
  from binding_batches_all_or_nothing[where H = example_descs and Q = example_queries and answer = SUCCESS
      and s = device_with_resources and ts = ?ts, THEN conjunct2, THEN conjunct1, THEN conjunct2, THEN conjunct2, THEN conjunct2, THEN conjunct2] live_t
  obtain rt st where
    rt: "BindTextureMemory example_descs example_queries SUCCESS (Elems ?ts) ?s = Some (rt, st)"
    by (cases "BindTextureMemory example_descs example_queries SUCCESS (Elems ?ts) ?s") auto
  from binding_batches_all_or_nothing[where H = example_descs and Q = example_queries and answer = SUCCESS
      and s = device_with_resources and ts = ?ts and r = rt and s' = st, THEN conjunct2, THEN conjunct1, THEN conjunct2, THEN conjunct1] bad_t rt
  have w3: "BindTextureMemory example_descs example_queries SUCCESS (Elems ?ts) ?s
     = Some (INVALID_ARGUMENT, REPORT_ERROR ?s)" by blast
  have "\<exists>s'. BindTextureMemory example_descs example_queries SUCCESS
               (Elems [example_texture_binding 2 0]) ?s = Some (SUCCESS, s')"
    by (simp add: BindTextureMemory_def BindTextureMemory_entry_def defs call_backend_def
        bind_texture_entry_def MemoryVal_BindTexture_def TextureVal_SetBoundToMemory_def)
  then obtain s4 where s4: "BindTextureMemory example_descs example_queries SUCCESS
               (Elems [example_texture_binding 2 0]) ?s = Some (SUCCESS, s4)" by blast
  from binding_batches_all_or_nothing[where H = example_descs and Q = example_queries and answer = SUCCESS
      and s = device_with_resources and ts = "[example_texture_binding 2 0]" and s' = s4,
      THEN conjunct2, THEN conjunct1, THEN conjunct2, THEN conjunct2, THEN conjunct2, THEN conjunct1] s4
  have b4: "texture_entry_bound s4 (example_texture_binding 2 0)"
    by simp
  have "\<not> texture_entry_bound ?s (example_texture_binding 2 0)"
    by (simp add: texture_entry_bound_def defs)
  with b4 have n4: "\<not> same_bindings ?s s4"
    using same_bindings_entry_bound(2)[of ?s s4] by blast
  from s4 n4 b4 have w4: "\<exists>s'. BindTextureMemory example_descs example_queries SUCCESS
               (Elems [example_texture_binding 2 0]) device_with_resources = Some (SUCCESS, s')
          \<and> \<not> same_bindings device_with_resources s'
          \<and> texture_entry_bound s' (example_texture_binding 2 0)"
    by blast

  have bad_a: "\<exists>d \<in> set ?as. \<exists>e. BindAccelerationStructureMemory_entry ?s d = Some (Inl e)"
    by (simp add: BindAccelerationStructureMemory_entry_def defs)
  have live_a: "\<forall>d \<in> set ?as. acceleration_structure_entry_live ?s d"
    by (simp add: acceleration_structure_entry_live_def defs)
  from binding_batches_all_or_nothing[where H = example_descs and Q = example_queries and answer = SUCCESS
      and s = device_with_resources and as = ?as, THEN conjunct2, THEN conjunct2, THEN conjunct1, THEN conjunct2, THEN conjunct2, THEN conjunct2, THEN conjunct2] live_a
  obtain ra sa where
    ra: "BindAccelerationStructureMemory SUCCESS (Elems ?as) ?s = Some (ra, sa)"
    by (cases "BindAccelerationStructureMemory SUCCESS (Elems ?as) ?s") auto
  from binding_batches_all_or_nothing[where H = example_descs and Q = example_queries and answer = SUCCESS
      and s = device_with_resources and as = ?as and r = ra and s' = sa, THEN conjunct2, THEN conjunct2, THEN conjunct1, THEN conjunct2, THEN conjunct1] bad_a ra
  have w5: "BindAccelerationStructureMemory SUCCESS (Elems ?as) ?s
     = Some (INVALID_ARGUMENT, REPORT_ERROR ?s)" by blast
  have "\<exists>s'. BindAccelerationStructureMemory SUCCESS (Elems [example_as_binding 2 0]) ?s
          = Some (SUCCESS, s')"
    by (simp add: BindAccelerationStructureMemory_def BindAccelerationStructureMemory_entry_def defs
        call_backend_def bind_acceleration_structure_entry_def
        MemoryVal_BindAccelerationStructure_def AccelerationStructureVal_SetBoundToMemory_def)
  then obtain s6 where s6: "BindAccelerationStructureMemory SUCCESS
               (Elems [example_as_binding 2 0]) ?s = Some (SUCCESS, s6)" by blast
  from binding_batches_all_or_nothing[where H = example_descs and Q = example_queries and answer = SUCCESS
      and s = device_with_resources and as = "[example_as_binding 2 0]" and s' = s6,
      THEN conjunct2, THEN conjunct2, THEN conjunct1, THEN conjunct2, THEN conjunct2, THEN conjunct2, THEN conjunct1] s6
  have b6: "acceleration_structure_entry_bound s6 (example_as_binding 2 0)"
    by simp
  have "\<not> acceleration_structure_entry_bound ?s (example_as_binding 2 0)"
    by (simp add: acceleration_structure_entry_bound_def defs)
  with b6 have n6: "\<not> same_bindings ?s s6"
    using same_bindings_entry_bound(3)[of ?s s6] by blast
  from s6 n6 b6 have w6: "\<exists>s'. BindAccelerationStructureMemory SUCCESS
               (Elems [example_as_binding 2 0]) device_with_resources = Some (SUCCESS, s')
          \<and> \<not> same_bindings device_with_resources s'
          \<and> acceleration_structure_entry_bound s' (example_as_binding 2 0)"
    by blast
  show ?thesis
    by (intro conjI w1 w2 w3 w4 w5 w6)
qed

subsection \<open>The three validations compared\<close>

lemma requirement_conditions:
  "first_failure
     [(\<not> md_mustBeDedicated md \<or> offset = 0, INVALID_ARGUMENT),
      (md_alignment md \<noteq> 0, INVALID_ARGUMENT),
      (offset mod md_alignment md = 0, INVALID_ARGUMENT),
      (msize = 0 \<or> offset + md_size md \<le> msize, INVALID_ARGUMENT)]
   = (if requirement_checks md msize offset then None else Some INVALID_ARGUMENT)"
  by (auto simp: requirement_checks_def)

lemma BindBufferMemory_entry_spec:
  "BindBufferMemory_entry H Q s d =
     spec_validate_entry H (buffer_view s) (memories s) (GetBufferMemoryDesc Q)
       (bb_buffer d) (bb_memory d) (bb_offset d)"
  unfolding BindBufferMemory_entry_def spec_validate_entry_def Let_def requirement_conditions
  by (auto simp: buffer_view_def split: option.splits)

lemma BindTextureMemory_entry_spec:
  "BindTextureMemory_entry H Q s d =
     spec_validate_entry H (texture_view s) (memories s) (GetTextureMemoryDesc Q)
       (tb_texture d) (tb_memory d) (tb_offset d)"
  unfolding BindTextureMemory_entry_def spec_validate_entry_def Let_def requirement_conditions
  by (auto simp: texture_view_def split: option.splits)

lemma BindAccelerationStructureMemory_entry_checks:
  assumes "ab_accelerationStructure d = Some a" and "ab_memory d = Some m"
    and "accelerationStructures s a = Some asv" and "memories s m = Some mv"
  shows "BindAccelerationStructureMemory_entry s d =
     (if \<not> as_isBoundToMemory asv \<and> requirement_checks (as_memoryDesc asv) (mem_size mv) (ab_offset d)
      then Some (Inr \<lparr>bi_memory = mem_impl mv, bi_resource = as_impl asv, bi_offset = ab_offset d\<rparr>)
      else Some (Inl INVALID_ARGUMENT))"
  using assms
  by (auto simp: BindAccelerationStructureMemory_entry_def Let_def requirement_checks_def)

text \<open>
  C3, as amended. The per-entry validations of \<open>BindBufferMemory\<close> and \<open>BindTextureMemory\<close>
  are the algorithm of the specification: an absent resource or memory pointer is rejected, an
  already bound resource is rejected, and the requirement checks are skipped exactly when the
  location of the memory is the sentinel; the two differ only in the requirement query.
  \<open>BindAccelerationStructureMemory\<close>, for an entry whose two pointers are present and live,
  rejects an already bound acceleration structure and makes the same requirement checks
  against the requirements recorded in the proxy, whatever the location of the memory; where
  the location is not the sentinel this is again the algorithm of the specification.
\<close>

theorem binding_entry_validations_compared:
  "BindBufferMemory_entry H Q s bd =
     spec_validate_entry H (buffer_view s) (memories s) (GetBufferMemoryDesc Q)
       (bb_buffer bd) (bb_memory bd) (bb_offset bd)
   \<and> BindTextureMemory_entry H Q s td =
     spec_validate_entry H (texture_view s) (memories s) (GetTextureMemoryDesc Q)
       (tb_texture td) (tb_memory td) (tb_offset td)
   \<and> (ab_accelerationStructure ad = Some a \<and> ab_memory ad = Some m
        \<and> accelerationStructures s a = Some asv \<and> memories s m = Some mv \<longrightarrow>
        BindAccelerationStructureMemory_entry s ad =
          (if \<not> as_isBoundToMemory asv
              \<and> requirement_checks (as_memoryDesc asv) (mem_size mv) (ab_offset ad)
           then Some (Inr \<lparr>bi_memory = mem_impl mv, bi_resource = as_impl asv,
                           bi_offset = ab_offset ad\<rparr>)
           else Some (Inl INVALID_ARGUMENT))
        \<and> (mem_location mv \<noteq> MemoryLocation_MAX_NUM H \<longrightarrow>
             BindAccelerationStructureMemory_entry s ad =
               spec_validate_entry H (acceleration_structure_view s) (memories s)
                 (\<lambda>_ _. as_memoryDesc asv) (Some a) (Some m) (ab_offset ad)))"
proof (intro conjI impI)
  show "BindBufferMemory_entry H Q s bd =
     spec_validate_entry H (buffer_view s) (memories s) (GetBufferMemoryDesc Q)
       (bb_buffer bd) (bb_memory bd) (bb_offset bd)"
    by (rule BindBufferMemory_entry_spec)
  show "BindTextureMemory_entry H Q s td =
     spec_validate_entry H (texture_view s) (memories s) (GetTextureMemoryDesc Q)
       (tb_texture td) (tb_memory td) (tb_offset td)"
    by (rule BindTextureMemory_entry_spec)
next
  assume a: "ab_accelerationStructure ad = Some a \<and> ab_memory ad = Some m
        \<and> accelerationStructures s a = Some asv \<and> memories s m = Some mv"
  then have p: "ab_accelerationStructure ad = Some a" "ab_memory ad = Some m"
    "accelerationStructures s a = Some asv" "memories s m = Some mv" by simp_all
  show checks: "BindAccelerationStructureMemory_entry s ad =
          (if \<not> as_isBoundToMemory asv
              \<and> requirement_checks (as_memoryDesc asv) (mem_size mv) (ab_offset ad)
           then Some (Inr \<lparr>bi_memory = mem_impl mv, bi_resource = as_impl asv,
                           bi_offset = ab_offset ad\<rparr>)
           else Some (Inl INVALID_ARGUMENT))"
    by (rule BindAccelerationStructureMemory_entry_checks[OF p])
  assume "mem_location mv \<noteq> MemoryLocation_MAX_NUM H"
  with a show "BindAccelerationStructureMemory_entry s ad =
               spec_validate_entry H (acceleration_structure_view s) (memories s)
                 (\<lambda>_ _. as_memoryDesc asv) (Some a) (Some m) (ab_offset ad)"
    unfolding checks by (simp add: spec_validate_entry_def acceleration_structure_view_def)
qed

theorem binding_entry_validations_compared_witness:
  "BindAccelerationStructureMemory_entry device_with_resources (example_as_binding 2 256)
     = Some (Inr \<lparr>bi_memory = 12, bi_resource = 14, bi_offset = 256\<rparr>)
   \<and> BindAccelerationStructureMemory_entry device_with_resources (example_as_binding 2 256)
     = spec_validate_entry example_descs (acceleration_structure_view device_with_resources)
         (memories device_with_resources) (\<lambda>_ _. example_requirements) (Some 4) (Some 2) 256
   \<and> BindBufferMemory_entry example_descs example_queries device_with_resources
        (example_buffer_binding 2 256)
     = spec_validate_entry example_descs (buffer_view device_with_resources)
         (memories device_with_resources) (\<lambda>_ _. example_requirements) (Some 1) (Some 2) 256"
proof -
  note defs = example_descs_def example_requirements_def device_with_resources_def
    example_memory_def example_as_binding_def example_buffer_binding_def
  note inst = binding_entry_validations_compared[where H = example_descs and Q = example_queries
      and s = device_with_resources and bd = "example_buffer_binding 2 256"
      and ad = "example_as_binding 2 256" and a = 4 and m = 2
      and asv = "\<lparr>as_impl = 14, as_isBoundToMemory = False, as_memoryDesc = example_requirements\<rparr>"
      and mv = "example_memory 0"]
  have hyp: "ab_accelerationStructure (example_as_binding 2 256) = Some 4
      \<and> ab_memory (example_as_binding 2 256) = Some 2
      \<and> accelerationStructures device_with_resources 4
          = Some \<lparr>as_impl = 14, as_isBoundToMemory = False, as_memoryDesc = example_requirements\<rparr>
      \<and> memories device_with_resources 2 = Some (example_memory 0)"
    by (simp add: device_with_resources_def example_as_binding_def)
  have loc: "mem_location (example_memory 0) \<noteq> MemoryLocation_MAX_NUM example_descs"
    by (simp add: example_memory_def example_descs_def)
  have rc: "requirement_checks example_requirements (mem_size (example_memory 0)) 256"
    by (simp add: requirement_checks_def example_requirements_def example_memory_def)
  note acc = inst[THEN conjunct2, THEN conjunct2, rule_format, OF hyp]
  from acc[THEN conjunct1] rc
  have w1: "BindAccelerationStructureMemory_entry device_with_resources (example_as_binding 2 256)
       = Some (Inr \<lparr>bi_memory = 12, bi_resource = 14, bi_offset = 256\<rparr>)"
    by (simp add: example_memory_def example_as_binding_def)
  from acc[THEN conjunct2, rule_format, OF loc]
  have w2: "BindAccelerationStructureMemory_entry device_with_resources (example_as_binding 2 256)
     = spec_validate_entry example_descs (acceleration_structure_view device_with_resources)
         (memories device_with_resources) (\<lambda>_ _. example_requirements) (Some 4) (Some 2) 256"
    by (simp add: example_as_binding_def)
  from inst[THEN conjunct1]
  have w3: "BindBufferMemory_entry example_descs example_queries device_with_resources
        (example_buffer_binding 2 256)
     = spec_validate_entry example_descs (buffer_view device_with_resources)
         (memories device_with_resources) (\<lambda>_ _. example_requirements) (Some 1) (Some 2) 256"
    by (simp add: example_queries_def example_buffer_binding_def)
  show ?thesis by (intro conjI w1 w2 w3)
qed

theorem binding_entry_validations_sentinel_counterexample:
  "memories device_with_resources 5 = Some (example_memory 4)
   \<and> mem_location (example_memory 4) = MemoryLocation_MAX_NUM example_descs
   \<and> BindBufferMemory_entry example_descs example_queries device_with_resources
        (example_buffer_binding 5 100)
       = Some (Inr \<lparr>bi_memory = 12, bi_resource = 11, bi_offset = 100\<rparr>)
   \<and> BindTextureMemory_entry example_descs example_queries device_with_resources
        (example_texture_binding 5 100)
       = Some (Inr \<lparr>bi_memory = 12, bi_resource = 11, bi_offset = 100\<rparr>)
   \<and> BindAccelerationStructureMemory_entry device_with_resources (example_as_binding 5 100)
       = Some (Inl INVALID_ARGUMENT)"
  by (simp add: BindBufferMemory_entry_def BindTextureMemory_entry_def
      BindAccelerationStructureMemory_entry_def example_descs_def example_queries_def
      example_requirements_def device_with_resources_def example_memory_def example_texture_def
      example_buffer_binding_def example_texture_binding_def example_as_binding_def)

subsection \<open>What the entry points do to the proxies\<close>

lemma bound_flag_same_stores:
  assumes "buffers t = buffers s" and "textures t = textures s"
    and "accelerationStructures t = accelerationStructures s"
  shows "bound_flag t k h = bound_flag s k h"
  using assms by (cases k) simp_all











lemma forwarded_callsI: "backendCalls s' = backendCalls s @ cs \<Longrightarrow> forwarded_calls s s' = cs"
  by (simp add: forwarded_calls_def)


lemma successful_bound_creationI:
  assumes "backend_answer call = Some SUCCESS" and "backendCalls s' = backendCalls s @ [c]"
    and "is_bound_creation_call c"
  shows "successful_bound_creation call s s'"
  using assms by (simp add: successful_bound_creation_def forwarded_callsI)



lemma flag_rule_same:
  assumes "buffers s' = buffers s" and "textures s' = textures s"
    and "accelerationStructures s' = accelerationStructures s"
  shows "flag_rule call s s' k h"
  unfolding flag_rule_def bound_flag_same_stores[OF assms] by auto


lemma flag_rule_new_buffer:
  assumes "buffers s p = None" and "buffers s' = (buffers s)(p \<mapsto> b)"
    and "textures s' = textures s" and "accelerationStructures s' = accelerationStructures s"
    and "buf_isBoundToMemory b \<Longrightarrow> successful_bound_creation call s s'"
  shows "flag_rule call s s' k h"
  using assms unfolding flag_rule_def by (cases k) auto

lemma flag_rule_new_texture:
  assumes "textures s p = None" and "textures s' = (textures s)(p \<mapsto> b)"
    and "buffers s' = buffers s" and "accelerationStructures s' = accelerationStructures s"
    and "tex_isBoundToMemory b \<Longrightarrow> successful_bound_creation call s s'"
  shows "flag_rule call s s' k h"
  using assms unfolding flag_rule_def by (cases k) auto

lemma flag_rule_new_acceleration_structure:
  assumes "accelerationStructures s p = None" and "accelerationStructures s' = (accelerationStructures s)(p \<mapsto> b)"
    and "buffers s' = buffers s" and "textures s' = textures s"
    and "as_isBoundToMemory b \<Longrightarrow> successful_bound_creation call s s'"
  shows "flag_rule call s s' k h"
  using assms unfolding flag_rule_def by (cases k) auto


lemma first_failure_in: "first_failure cs = Some r \<Longrightarrow> r \<in> snd ` set cs"
  by (induction cs) (auto split: if_splits)

lemma CreateTexture_checks_Some: "CreateTexture_checks H d = Some r \<Longrightarrow> r = INVALID_ARGUMENT"
  by (simp add: CreateTexture_checks_def Let_def split: if_splits)

lemma Texture2DView_layer_checks_Some:
  "Texture2DView_layer_checks v td = Some r \<Longrightarrow> r = INVALID_ARGUMENT"
  by (simp add: Texture2DView_layer_checks_def split: if_splits)

lemma PipelineLayout_range_checks_Some:
  "PipelineLayout_range_checks H d = Some r \<Longrightarrow> r = INVALID_ARGUMENT"
  unfolding PipelineLayout_range_checks_def
  by (drule first_failure_in) (auto simp: PipelineLayout_range_conditions_def)

lemma attribute_loop_Some:
  "GraphicsPipeline_attribute_loop fs streams as = Some (Some r) \<Longrightarrow> r = INVALID_ARGUMENT"
  by (induction as) (auto simp: Let_def split: if_splits)

lemma first_failure_format:
  "first_failure (map (\<lambda>format. (P format, INVALID_ARGUMENT)) formats) = Some r \<Longrightarrow> r = INVALID_ARGUMENT"
  by (drule first_failure_in) auto

lemma Texture1DView_layer_checks_Some:
  "Texture1DView_layer_checks v td = Some r \<Longrightarrow> r = INVALID_ARGUMENT"
  by (simp add: Texture1DView_layer_checks_def split: if_splits)

lemma Texture3DView_slice_checks_Some:
  "Texture3DView_slice_checks v td = Some r \<Longrightarrow> r = INVALID_ARGUMENT"
  by (simp add: Texture3DView_slice_checks_def split: if_splits)

lemma RayTracingPipeline_shader_loop_Some:
  "RayTracingPipeline_shader_loop H xs u = Some r \<Longrightarrow> r = INVALID_ARGUMENT"
  by (induction xs arbitrary: u) (auto simp: Let_def split: if_splits)

lemma CreateBuffer_effect:
  assumes "CreateBuffer answer p d out s = Some (r, out', s')"
    and "backend_answer call = Some (fst answer)"
  shows "(if r = SUCCESS then out' = Some p else out' = out)
      \<and> flag_rule call s s' k h"
proof -
  from assms(1) have a: "(if r = SUCCESS then out' = Some p else out' = out)
      \<and> textures s' = textures s \<and> accelerationStructures s' = accelerationStructures s
      \<and> (buffers s' = buffers s
           \<or> (fst answer = SUCCESS \<and> backendCalls s' = backendCalls s @ [Core_CreateBuffer d]
               \<and> buffers s p = None
               \<and> buffers s' = (buffers s)(p \<mapsto> \<lparr>buf_impl = snd answer, buf_isBoundToMemory = False\<rparr>)))"
    by (auto simp: CreateBuffer_def Let_def Allocate_def REPORT_ERROR_def call_backend_def
        split: option.splits if_splits )
  from a have "buffers s' = buffers s
      \<or> (fst answer = SUCCESS \<and> backendCalls s' = backendCalls s @ [Core_CreateBuffer d]
               \<and> buffers s p = None
               \<and> buffers s' = (buffers s)(p \<mapsto> \<lparr>buf_impl = snd answer, buf_isBoundToMemory = False\<rparr>))" by simp
  then have c: "flag_rule call s s' k h"
  proof (elim disjE conjE)
    assume same: "buffers s' = buffers s"
    with a show ?thesis by (intro flag_rule_same) simp_all
  next
    assume new: "fst answer = SUCCESS" "backendCalls s' = backendCalls s @ [Core_CreateBuffer d]"
      "buffers s p = None" "buffers s' = (buffers s)(p \<mapsto> \<lparr>buf_impl = snd answer, buf_isBoundToMemory = False\<rparr>)"
    with a show ?thesis
      by (intro flag_rule_new_buffer[where p = p and b = "\<lparr>buf_impl = snd answer, buf_isBoundToMemory = False\<rparr>"]) simp_all
  qed
  from a c show ?thesis by blast
qed

lemma AllocateBuffer_effect:
  assumes "AllocateBuffer answer p d out s = Some (r, out', s')"
    and "backend_answer call = Some (fst answer)"
  shows "(if r = SUCCESS then out' = Some p else out' = out)
      \<and> flag_rule call s s' k h"
proof -
  from assms(1) have a: "(if r = SUCCESS then out' = Some p else out' = out)
      \<and> textures s' = textures s \<and> accelerationStructures s' = accelerationStructures s
      \<and> (buffers s' = buffers s
           \<or> (fst answer = SUCCESS \<and> backendCalls s' = backendCalls s @ [ResourceAllocator_AllocateBuffer d]
               \<and> buffers s p = None
               \<and> buffers s' = (buffers s)(p \<mapsto> \<lparr>buf_impl = snd answer, buf_isBoundToMemory = True\<rparr>)))"
    by (auto simp: AllocateBuffer_def Let_def Allocate_def REPORT_ERROR_def call_backend_def
        split: option.splits if_splits )
  from a have "buffers s' = buffers s
      \<or> (fst answer = SUCCESS \<and> backendCalls s' = backendCalls s @ [ResourceAllocator_AllocateBuffer d]
               \<and> buffers s p = None
               \<and> buffers s' = (buffers s)(p \<mapsto> \<lparr>buf_impl = snd answer, buf_isBoundToMemory = True\<rparr>))" by simp
  then have c: "flag_rule call s s' k h"
  proof (elim disjE conjE)
    assume same: "buffers s' = buffers s"
    with a show ?thesis by (intro flag_rule_same) simp_all
  next
    assume new: "fst answer = SUCCESS" "backendCalls s' = backendCalls s @ [ResourceAllocator_AllocateBuffer d]"
      "buffers s p = None" "buffers s' = (buffers s)(p \<mapsto> \<lparr>buf_impl = snd answer, buf_isBoundToMemory = True\<rparr>)"
    have "successful_bound_creation call s s'"
      using assms(2) new(1,2)
      by (intro successful_bound_creationI[where c = "ResourceAllocator_AllocateBuffer d"])
         (simp_all add: is_bound_creation_call_def)
    with a new show ?thesis
      by (intro flag_rule_new_buffer[where p = p and b = "\<lparr>buf_impl = snd answer, buf_isBoundToMemory = True\<rparr>"]) simp_all
  qed
  from a c show ?thesis by blast
qed

lemma CreateTexture_effect:
  assumes "CreateTexture H answer p d out s = Some (r, out', s')"
    and "backend_answer call = Some (fst answer)"
  shows "(if r = SUCCESS then out' = Some p else out' = out)
      \<and> flag_rule call s s' k h"
proof -
  from assms(1) have a: "(if r = SUCCESS then out' = Some p else out' = out)
      \<and> buffers s' = buffers s \<and> accelerationStructures s' = accelerationStructures s
      \<and> (textures s' = textures s
           \<or> (fst answer = SUCCESS \<and> backendCalls s' = backendCalls s @ [Core_CreateTexture d]
               \<and> textures s p = None
               \<and> textures s' = (textures s)(p \<mapsto> \<lparr>tex_impl = snd answer, tex_isBoundToMemory = False, tex_desc = d\<rparr>)))"
    by (auto simp: CreateTexture_def Let_def Allocate_def REPORT_ERROR_def call_backend_def
        split: option.splits if_splits 
        dest: CreateTexture_checks_Some)
  from a have "textures s' = textures s
      \<or> (fst answer = SUCCESS \<and> backendCalls s' = backendCalls s @ [Core_CreateTexture d]
               \<and> textures s p = None
               \<and> textures s' = (textures s)(p \<mapsto> \<lparr>tex_impl = snd answer, tex_isBoundToMemory = False, tex_desc = d\<rparr>))" by simp
  then have c: "flag_rule call s s' k h"
  proof (elim disjE conjE)
    assume same: "textures s' = textures s"
    with a show ?thesis by (intro flag_rule_same) simp_all
  next
    assume new: "fst answer = SUCCESS" "backendCalls s' = backendCalls s @ [Core_CreateTexture d]"
      "textures s p = None" "textures s' = (textures s)(p \<mapsto> \<lparr>tex_impl = snd answer, tex_isBoundToMemory = False, tex_desc = d\<rparr>)"
    with a show ?thesis
      by (intro flag_rule_new_texture[where p = p and b = "\<lparr>tex_impl = snd answer, tex_isBoundToMemory = False, tex_desc = d\<rparr>"]) simp_all
  qed
  from a c show ?thesis by blast
qed

lemma AllocateTexture_effect:
  assumes "AllocateTexture H answer p d out s = Some (r, out', s')"
    and "backend_answer call = Some (fst answer)"
  shows "(if r = SUCCESS then out' = Some p else out' = out)
      \<and> flag_rule call s s' k h"
proof -
  from assms(1) have a: "(if r = SUCCESS then out' = Some p else out' = out)
      \<and> buffers s' = buffers s \<and> accelerationStructures s' = accelerationStructures s
      \<and> (textures s' = textures s
           \<or> (fst answer = SUCCESS \<and> backendCalls s' = backendCalls s @ [ResourceAllocator_AllocateTexture d]
               \<and> textures s p = None
               \<and> textures s' = (textures s)(p \<mapsto> \<lparr>tex_impl = snd answer, tex_isBoundToMemory = True, tex_desc = d\<rparr>)))"
    by (auto simp: AllocateTexture_def Let_def Allocate_def REPORT_ERROR_def call_backend_def
        split: option.splits if_splits 
        dest: CreateTexture_checks_Some)
  from a have "textures s' = textures s
      \<or> (fst answer = SUCCESS \<and> backendCalls s' = backendCalls s @ [ResourceAllocator_AllocateTexture d]
               \<and> textures s p = None
               \<and> textures s' = (textures s)(p \<mapsto> \<lparr>tex_impl = snd answer, tex_isBoundToMemory = True, tex_desc = d\<rparr>))" by simp
  then have c: "flag_rule call s s' k h"
  proof (elim disjE conjE)
    assume same: "textures s' = textures s"
    with a show ?thesis by (intro flag_rule_same) simp_all
  next
    assume new: "fst answer = SUCCESS" "backendCalls s' = backendCalls s @ [ResourceAllocator_AllocateTexture d]"
      "textures s p = None" "textures s' = (textures s)(p \<mapsto> \<lparr>tex_impl = snd answer, tex_isBoundToMemory = True, tex_desc = d\<rparr>)"
    have "successful_bound_creation call s s'"
      using assms(2) new(1,2)
      by (intro successful_bound_creationI[where c = "ResourceAllocator_AllocateTexture d"])
         (simp_all add: is_bound_creation_call_def)
    with a new show ?thesis
      by (intro flag_rule_new_texture[where p = p and b = "\<lparr>tex_impl = snd answer, tex_isBoundToMemory = True, tex_desc = d\<rparr>"]) simp_all
  qed
  from a c show ?thesis by blast
qed

lemma CreateAccelerationStructure_effect:
  assumes "CreateAccelerationStructure answerAS p d out s = Some (r, out', s')"
    and "backend_answer call = Some (fst answerAS)"
  shows "(if r = SUCCESS then out' = Some p else out' = out)
      \<and> flag_rule call s s' k h"
proof -
  from assms(1) have a: "(if r = SUCCESS then out' = Some p else out' = out)
      \<and> buffers s' = buffers s \<and> textures s' = textures s
      \<and> (accelerationStructures s' = accelerationStructures s
           \<or> (fst answerAS = SUCCESS \<and> backendCalls s' = backendCalls s @ [RayTracing_CreateAccelerationStructure]
               \<and> accelerationStructures s p = None
               \<and> accelerationStructures s' = (accelerationStructures s)(p \<mapsto> \<lparr>as_impl = fst (snd answerAS), as_isBoundToMemory = False, as_memoryDesc = snd (snd answerAS)\<rparr>)))"
    by (auto simp: CreateAccelerationStructure_def Let_def Allocate_def REPORT_ERROR_def call_backend_def
        split: option.splits if_splits )
  from a have "accelerationStructures s' = accelerationStructures s
      \<or> (fst answerAS = SUCCESS \<and> backendCalls s' = backendCalls s @ [RayTracing_CreateAccelerationStructure]
               \<and> accelerationStructures s p = None
               \<and> accelerationStructures s' = (accelerationStructures s)(p \<mapsto> \<lparr>as_impl = fst (snd answerAS), as_isBoundToMemory = False, as_memoryDesc = snd (snd answerAS)\<rparr>))" by simp
  then have c: "flag_rule call s s' k h"
  proof (elim disjE conjE)
    assume same: "accelerationStructures s' = accelerationStructures s"
    with a show ?thesis by (intro flag_rule_same) simp_all
  next
    assume new: "fst answerAS = SUCCESS" "backendCalls s' = backendCalls s @ [RayTracing_CreateAccelerationStructure]"
      "accelerationStructures s p = None" "accelerationStructures s' = (accelerationStructures s)(p \<mapsto> \<lparr>as_impl = fst (snd answerAS), as_isBoundToMemory = False, as_memoryDesc = snd (snd answerAS)\<rparr>)"
    with a show ?thesis
      by (intro flag_rule_new_acceleration_structure[where p = p and b = "\<lparr>as_impl = fst (snd answerAS), as_isBoundToMemory = False, as_memoryDesc = snd (snd answerAS)\<rparr>"]) simp_all
  qed
  from a c show ?thesis by blast
qed

lemma AllocateAccelerationStructure_effect:
  assumes "AllocateAccelerationStructure answerAS p d out s = Some (r, out', s')"
    and "backend_answer call = Some (fst answerAS)"
  shows "(if r = SUCCESS then out' = Some p else out' = out)
      \<and> flag_rule call s s' k h"
proof -
  from assms(1) have a: "(if r = SUCCESS then out' = Some p else out' = out)
      \<and> buffers s' = buffers s \<and> textures s' = textures s
      \<and> (accelerationStructures s' = accelerationStructures s
           \<or> (fst answerAS = SUCCESS \<and> backendCalls s' = backendCalls s @ [ResourceAllocator_AllocateAccelerationStructure]
               \<and> accelerationStructures s p = None
               \<and> accelerationStructures s' = (accelerationStructures s)(p \<mapsto> \<lparr>as_impl = fst (snd answerAS), as_isBoundToMemory = True, as_memoryDesc = snd (snd answerAS)\<rparr>)))"
    by (auto simp: AllocateAccelerationStructure_def Let_def Allocate_def REPORT_ERROR_def call_backend_def
        split: option.splits if_splits )
  from a have "accelerationStructures s' = accelerationStructures s
      \<or> (fst answerAS = SUCCESS \<and> backendCalls s' = backendCalls s @ [ResourceAllocator_AllocateAccelerationStructure]
               \<and> accelerationStructures s p = None
               \<and> accelerationStructures s' = (accelerationStructures s)(p \<mapsto> \<lparr>as_impl = fst (snd answerAS), as_isBoundToMemory = True, as_memoryDesc = snd (snd answerAS)\<rparr>))" by simp
  then have c: "flag_rule call s s' k h"
  proof (elim disjE conjE)
    assume same: "accelerationStructures s' = accelerationStructures s"
    with a show ?thesis by (intro flag_rule_same) simp_all
  next
    assume new: "fst answerAS = SUCCESS" "backendCalls s' = backendCalls s @ [ResourceAllocator_AllocateAccelerationStructure]"
      "accelerationStructures s p = None" "accelerationStructures s' = (accelerationStructures s)(p \<mapsto> \<lparr>as_impl = fst (snd answerAS), as_isBoundToMemory = True, as_memoryDesc = snd (snd answerAS)\<rparr>)"
    have "successful_bound_creation call s s'"
      using assms(2) new(1,2)
      by (intro successful_bound_creationI[where c = "ResourceAllocator_AllocateAccelerationStructure"])
         (simp_all add: is_bound_creation_call_def)
    with a new show ?thesis
      by (intro flag_rule_new_acceleration_structure[where p = p and b = "\<lparr>as_impl = fst (snd answerAS), as_isBoundToMemory = True, as_memoryDesc = snd (snd answerAS)\<rparr>"]) simp_all
  qed
  from a c show ?thesis by blast
qed

lemma AllocateMemory_effect:
  assumes "AllocateMemory answer p d out s = Some (r, out', s')"
    and "backend_answer call = Some (fst answer)"
  shows "(if r = SUCCESS then out' = Some p else out' = out)
      \<and> flag_rule call s s' k h"
proof -
  from assms(1) have a: "(if r = SUCCESS then out' = Some p else out' = out)
      \<and> buffers s' = buffers s \<and> textures s' = textures s
      \<and> accelerationStructures s' = accelerationStructures s"
    by (auto simp: AllocateMemory_def Let_def Allocate_def REPORT_ERROR_def call_backend_def
        split: option.splits if_splits )
  from a have c: "flag_rule call s s' k h" by (intro flag_rule_same) simp_all
  from a c show ?thesis by blast
qed

lemma CreateDescriptor_BufferView_effect:
  assumes "CreateDescriptor_BufferView H bufferDesc answer p bufferViewDesc out s = Some (r, out', s')"
    and "backend_answer call = Some (fst answer)"
  shows "(if r = SUCCESS then out' = Some p else out' = out)
      \<and> flag_rule call s s' k h"
proof -
  from assms(1) have a: "(if r = SUCCESS then out' = Some p else out' = out)
      \<and> buffers s' = buffers s \<and> textures s' = textures s
      \<and> accelerationStructures s' = accelerationStructures s"
    by (auto simp: CreateDescriptor_BufferView_def Let_def Allocate_def REPORT_ERROR_def call_backend_def
        split: option.splits if_splits )
  from a have c: "flag_rule call s s' k h" by (intro flag_rule_same) simp_all
  from a c show ?thesis by blast
qed

lemma CreateDescriptor_Texture1DView_effect:
  assumes "CreateDescriptor_Texture1DView H answer p textureViewDesc out s = Some (r, out', s')"
    and "backend_answer call = Some (fst answer)"
  shows "(if r = SUCCESS then out' = Some p else out' = out)
      \<and> flag_rule call s s' k h"
proof -
  from assms(1) have a: "(if r = SUCCESS then out' = Some p else out' = out)
      \<and> buffers s' = buffers s \<and> textures s' = textures s
      \<and> accelerationStructures s' = accelerationStructures s"
    by (auto simp: CreateDescriptor_Texture1DView_def Let_def Allocate_def REPORT_ERROR_def call_backend_def
        split: option.splits if_splits 
        dest: Texture1DView_mip_checks_Some Texture1DView_layer_checks_Some)
  from a have c: "flag_rule call s s' k h" by (intro flag_rule_same) simp_all
  from a c show ?thesis by blast
qed

lemma CreateDescriptor_Texture2DView_effect:
  assumes "CreateDescriptor_Texture2DView H answer p d out s = Some (r, out', s')"
    and "backend_answer call = Some (fst answer)"
  shows "(if r = SUCCESS then out' = Some p else out' = out)
      \<and> flag_rule call s s' k h"
proof -
  from assms(1) have a: "(if r = SUCCESS then out' = Some p else out' = out)
      \<and> buffers s' = buffers s \<and> textures s' = textures s
      \<and> accelerationStructures s' = accelerationStructures s"
    by (auto simp: CreateDescriptor_Texture2DView_def Let_def Allocate_def REPORT_ERROR_def call_backend_def
        split: option.splits if_splits 
        dest: Texture2DView_mip_checks_Some Texture2DView_layer_checks_Some)
  from a have c: "flag_rule call s s' k h" by (intro flag_rule_same) simp_all
  from a c show ?thesis by blast
qed

lemma CreateDescriptor_Texture3DView_effect:
  assumes "CreateDescriptor_Texture3DView H answer p textureViewDesc out s = Some (r, out', s')"
    and "backend_answer call = Some (fst answer)"
  shows "(if r = SUCCESS then out' = Some p else out' = out)
      \<and> flag_rule call s s' k h"
proof -
  from assms(1) have a: "(if r = SUCCESS then out' = Some p else out' = out)
      \<and> buffers s' = buffers s \<and> textures s' = textures s
      \<and> accelerationStructures s' = accelerationStructures s"
    by (auto simp: CreateDescriptor_Texture3DView_def Let_def Allocate_def REPORT_ERROR_def call_backend_def
        split: option.splits if_splits 
        dest: Texture3DView_mip_checks_Some Texture3DView_slice_checks_Some)
  from a have c: "flag_rule call s s' k h" by (intro flag_rule_same) simp_all
  from a c show ?thesis by blast
qed

lemma CreateDescriptor_Sampler_effect:
  assumes "CreateDescriptor_Sampler H isTextureFilterMinMaxSupported answer p samplerDesc out s = Some (r, out', s')"
    and "backend_answer call = Some (fst answer)"
  shows "(if r = SUCCESS then out' = Some p else out' = out)
      \<and> flag_rule call s s' k h"
proof -
  from assms(1) have a: "(if r = SUCCESS then out' = Some p else out' = out)
      \<and> buffers s' = buffers s \<and> textures s' = textures s
      \<and> accelerationStructures s' = accelerationStructures s"
    by (auto simp: CreateDescriptor_Sampler_def Let_def Allocate_def REPORT_ERROR_def call_backend_def
        split: option.splits if_splits )
  from a have c: "flag_rule call s s' k h" by (intro flag_rule_same) simp_all
  from a c show ?thesis by blast
qed

lemma CreatePipelineLayout_effect:
  assumes "CreatePipelineLayout H answer p d out s = Some (r, out', s')"
    and "backend_answer call = Some (fst answer)"
  shows "(if r = SUCCESS then out' = Some p else out' = out)
      \<and> flag_rule call s s' k h"
proof -
  from assms(1) have a: "(if r = SUCCESS then out' = Some p else out' = out)
      \<and> buffers s' = buffers s \<and> textures s' = textures s
      \<and> accelerationStructures s' = accelerationStructures s"
    by (auto simp: CreatePipelineLayout_def Let_def Allocate_def REPORT_ERROR_def call_backend_def
        split: option.splits if_splits 
        dest: PipelineLayout_stage_checks_Some PipelineLayout_range_checks_Some)
  from a have c: "flag_rule call s s' k h" by (intro flag_rule_same) simp_all
  from a c show ?thesis by blast
qed

lemma CreatePipeline_Graphics_effect:
  assumes "CreatePipeline_Graphics H fs answer p d out s = Some (r, out', s')"
    and "backend_answer call = Some (fst answer)"
  shows "(if r = SUCCESS then out' = Some p else out' = out)
      \<and> flag_rule call s s' k h"
proof -
  from assms(1) have a: "(if r = SUCCESS then out' = Some p else out' = out)
      \<and> buffers s' = buffers s \<and> textures s' = textures s
      \<and> accelerationStructures s' = accelerationStructures s"
    by (auto simp: CreatePipeline_Graphics_def Let_def Allocate_def REPORT_ERROR_def call_backend_def
        split: option.splits if_splits c_array.splits sum.splits
        dest: shader_loop_Inl attribute_loop_Some first_failure_format)
  from a have c: "flag_rule call s s' k h" by (intro flag_rule_same) simp_all
  from a c show ?thesis by blast
qed

lemma CreatePipeline_Compute_effect:
  assumes "CreatePipeline_Compute H answer p computePipelineDesc out s = Some (r, out', s')"
    and "backend_answer call = Some (fst answer)"
  shows "(if r = SUCCESS then out' = Some p else out' = out)
      \<and> flag_rule call s s' k h"
proof -
  from assms(1) have a: "(if r = SUCCESS then out' = Some p else out' = out)
      \<and> buffers s' = buffers s \<and> textures s' = textures s
      \<and> accelerationStructures s' = accelerationStructures s"
    by (auto simp: CreatePipeline_Compute_def Let_def Allocate_def REPORT_ERROR_def call_backend_def
        split: option.splits if_splits )
  from a have c: "flag_rule call s s' k h" by (intro flag_rule_same) simp_all
  from a c show ?thesis by blast
qed

lemma CreatePipeline_RayTracing_effect:
  assumes "CreatePipeline_RayTracing H answer p pipelineDesc out s = Some (r, out', s')"
    and "backend_answer call = Some (fst answer)"
  shows "(if r = SUCCESS then out' = Some p else out' = out)
      \<and> flag_rule call s s' k h"
proof -
  from assms(1) have a: "(if r = SUCCESS then out' = Some p else out' = out)
      \<and> buffers s' = buffers s \<and> textures s' = textures s
      \<and> accelerationStructures s' = accelerationStructures s"
    by (auto simp: CreatePipeline_RayTracing_def Let_def Allocate_def REPORT_ERROR_def call_backend_def
        split: option.splits if_splits 
        dest: RayTracingPipeline_shader_loop_Some)
  from a have c: "flag_rule call s s' k h" by (intro flag_rule_same) simp_all
  from a c show ?thesis by blast
qed

lemma CreateSwapChain_effect:
  assumes "CreateSwapChain H answer p swapChainDesc out s = Some (r, out', s')"
    and "backend_answer call = Some (fst answer)"
  shows "(if r = SUCCESS then out' = Some p else out' = out)
      \<and> flag_rule call s s' k h"
proof -
  from assms(1) have a: "(if r = SUCCESS then out' = Some p else out' = out)
      \<and> buffers s' = buffers s \<and> textures s' = textures s
      \<and> accelerationStructures s' = accelerationStructures s"
    by (auto simp: CreateSwapChain_def Let_def Allocate_def REPORT_ERROR_def call_backend_def
        split: option.splits if_splits )
  from a have c: "flag_rule call s s' k h" by (intro flag_rule_same) simp_all
  from a c show ?thesis by blast
qed

lemma GetCommandQueue_effect:
  assumes "GetCommandQueue H answer p commandQueueType out s = Some (r, out', s')"
    and "backend_answer call = Some (fst answer)"
  shows "(if r = SUCCESS then out' = Some (case m_CommandQueues s commandQueueType of Some q \<Rightarrow> q | None \<Rightarrow> p) else out' = out)
      \<and> flag_rule call s s' k h"
proof -
  from assms(1) have a: "(if r = SUCCESS then out' = Some (case m_CommandQueues s commandQueueType of Some q \<Rightarrow> q | None \<Rightarrow> p) else out' = out)
      \<and> buffers s' = buffers s \<and> textures s' = textures s
      \<and> accelerationStructures s' = accelerationStructures s"
    by (auto simp: GetCommandQueue_def Let_def Allocate_def REPORT_ERROR_def call_backend_def
        split: option.splits if_splits )
  from a have c: "flag_rule call s s' k h" by (intro flag_rule_same) simp_all
  from a c show ?thesis by blast
qed

lemma CreateCommandAllocator_effect:
  assumes "CreateCommandAllocator commandQueue answer p out s = Some (r, out', s')"
    and "backend_answer call = Some (fst answer)"
  shows "(if r = SUCCESS then out' = Some p else out' = out)
      \<and> flag_rule call s s' k h"
proof -
  from assms(1) have a: "(if r = SUCCESS then out' = Some p else out' = out)
      \<and> buffers s' = buffers s \<and> textures s' = textures s
      \<and> accelerationStructures s' = accelerationStructures s"
    by (auto simp: CreateCommandAllocator_def Let_def Allocate_def REPORT_ERROR_def call_backend_def
        split: option.splits if_splits )
  from a have c: "flag_rule call s s' k h" by (intro flag_rule_same) simp_all
  from a c show ?thesis by blast
qed

lemma CreateDescriptorPool_effect:
  assumes "CreateDescriptorPool answer p out s = Some (r, out', s')"
    and "backend_answer call = Some (fst answer)"
  shows "(if r = SUCCESS then out' = Some p else out' = out)
      \<and> flag_rule call s s' k h"
proof -
  from assms(1) have a: "(if r = SUCCESS then out' = Some p else out' = out)
      \<and> buffers s' = buffers s \<and> textures s' = textures s
      \<and> accelerationStructures s' = accelerationStructures s"
    by (auto simp: CreateDescriptorPool_def Let_def Allocate_def REPORT_ERROR_def call_backend_def
        split: option.splits if_splits )
  from a have c: "flag_rule call s s' k h" by (intro flag_rule_same) simp_all
  from a c show ?thesis by blast
qed

lemma CreateQueryPool_effect:
  assumes "CreateQueryPool H answer p queryPoolDesc out s = Some (r, out', s')"
    and "backend_answer call = Some (fst answer)"
  shows "(if r = SUCCESS then out' = Some p else out' = out)
      \<and> flag_rule call s s' k h"
proof -
  from assms(1) have a: "(if r = SUCCESS then out' = Some p else out' = out)
      \<and> buffers s' = buffers s \<and> textures s' = textures s
      \<and> accelerationStructures s' = accelerationStructures s"
    by (auto simp: CreateQueryPool_def Let_def Allocate_def REPORT_ERROR_def call_backend_def
        split: option.splits if_splits )
  from a have c: "flag_rule call s s' k h" by (intro flag_rule_same) simp_all
  from a c show ?thesis by blast
qed

lemma CreateFence_effect:
  assumes "CreateFence answer p out s = Some (r, out', s')"
    and "backend_answer call = Some (fst answer)"
  shows "(if r = SUCCESS then out' = Some p else out' = out)
      \<and> flag_rule call s s' k h"
proof -
  from assms(1) have a: "(if r = SUCCESS then out' = Some p else out' = out)
      \<and> buffers s' = buffers s \<and> textures s' = textures s
      \<and> accelerationStructures s' = accelerationStructures s"
    by (auto simp: CreateFence_def Let_def Allocate_def REPORT_ERROR_def call_backend_def
        split: option.splits if_splits )
  from a have c: "flag_rule call s s' k h" by (intro flag_rule_same) simp_all
  from a c show ?thesis by blast
qed

lemma CreateCommandQueue_VK_effect:
  assumes "CreateCommandQueue_VK H answer p commandQueueVKDesc out s = Some (r, out', s')"
    and "backend_answer call = Some (fst answer)"
  shows "(if r = SUCCESS then out' = Some p else out' = out)
      \<and> flag_rule call s s' k h"
proof -
  from assms(1) have a: "(if r = SUCCESS then out' = Some p else out' = out)
      \<and> buffers s' = buffers s \<and> textures s' = textures s
      \<and> accelerationStructures s' = accelerationStructures s"
    by (auto simp: CreateCommandQueue_VK_def Let_def Allocate_def REPORT_ERROR_def call_backend_def
        split: option.splits if_splits )
  from a have c: "flag_rule call s s' k h" by (intro flag_rule_same) simp_all
  from a c show ?thesis by blast
qed

lemma CreateCommandAllocator_VK_effect:
  assumes "CreateCommandAllocator_VK H answer p commandAllocatorVKDesc out s = Some (r, out', s')"
    and "backend_answer call = Some (fst answer)"
  shows "(if r = SUCCESS then out' = Some p else out' = out)
      \<and> flag_rule call s s' k h"
proof -
  from assms(1) have a: "(if r = SUCCESS then out' = Some p else out' = out)
      \<and> buffers s' = buffers s \<and> textures s' = textures s
      \<and> accelerationStructures s' = accelerationStructures s"
    by (auto simp: CreateCommandAllocator_VK_def Let_def Allocate_def REPORT_ERROR_def call_backend_def
        split: option.splits if_splits )
  from a have c: "flag_rule call s s' k h" by (intro flag_rule_same) simp_all
  from a c show ?thesis by blast
qed

lemma CreateCommandBuffer_VK_effect:
  assumes "CreateCommandBuffer_VK H answer p commandBufferVKDesc out s = Some (r, out', s')"
    and "backend_answer call = Some (fst answer)"
  shows "(if r = SUCCESS then out' = Some p else out' = out)
      \<and> flag_rule call s s' k h"
proof -
  from assms(1) have a: "(if r = SUCCESS then out' = Some p else out' = out)
      \<and> buffers s' = buffers s \<and> textures s' = textures s
      \<and> accelerationStructures s' = accelerationStructures s"
    by (auto simp: CreateCommandBuffer_VK_def Let_def Allocate_def REPORT_ERROR_def call_backend_def
        split: option.splits if_splits )
  from a have c: "flag_rule call s s' k h" by (intro flag_rule_same) simp_all
  from a c show ?thesis by blast
qed

lemma CreateDescriptorPool_VK_effect:
  assumes "CreateDescriptorPool_VK answer p descriptorPoolVKDesc out s = Some (r, out', s')"
    and "backend_answer call = Some (fst answer)"
  shows "(if r = SUCCESS then out' = Some p else out' = out)
      \<and> flag_rule call s s' k h"
proof -
  from assms(1) have a: "(if r = SUCCESS then out' = Some p else out' = out)
      \<and> buffers s' = buffers s \<and> textures s' = textures s
      \<and> accelerationStructures s' = accelerationStructures s"
    by (auto simp: CreateDescriptorPool_VK_def Let_def Allocate_def REPORT_ERROR_def call_backend_def
        split: option.splits if_splits )
  from a have c: "flag_rule call s s' k h" by (intro flag_rule_same) simp_all
  from a c show ?thesis by blast
qed

lemma CreateBuffer_VK_effect:
  assumes "CreateBuffer_VK answer p d out s = Some (r, out', s')"
    and "backend_answer call = Some (fst answer)"
  shows "(if r = SUCCESS then out' = Some p else out' = out)
      \<and> flag_rule call s s' k h"
proof -
  from assms(1) have a: "(if r = SUCCESS then out' = Some p else out' = out)
      \<and> textures s' = textures s \<and> accelerationStructures s' = accelerationStructures s
      \<and> (buffers s' = buffers s
           \<or> (fst answer = SUCCESS \<and> backendCalls s' = backendCalls s @ [WrapperVK_CreateBufferVK]
               \<and> buffers s p = None
               \<and> buffers s' = (buffers s)(p \<mapsto> \<lparr>buf_impl = snd answer, buf_isBoundToMemory = True\<rparr>)))"
    by (auto simp: CreateBuffer_VK_def Let_def Allocate_def REPORT_ERROR_def call_backend_def
        split: option.splits if_splits )
  from a have "buffers s' = buffers s
      \<or> (fst answer = SUCCESS \<and> backendCalls s' = backendCalls s @ [WrapperVK_CreateBufferVK]
               \<and> buffers s p = None
               \<and> buffers s' = (buffers s)(p \<mapsto> \<lparr>buf_impl = snd answer, buf_isBoundToMemory = True\<rparr>))" by simp
  then have c: "flag_rule call s s' k h"
  proof (elim disjE conjE)
    assume same: "buffers s' = buffers s"
    with a show ?thesis by (intro flag_rule_same) simp_all
  next
    assume new: "fst answer = SUCCESS" "backendCalls s' = backendCalls s @ [WrapperVK_CreateBufferVK]"
      "buffers s p = None" "buffers s' = (buffers s)(p \<mapsto> \<lparr>buf_impl = snd answer, buf_isBoundToMemory = True\<rparr>)"
    have "successful_bound_creation call s s'"
      using assms(2) new(1,2)
      by (intro successful_bound_creationI[where c = "WrapperVK_CreateBufferVK"])
         (simp_all add: is_bound_creation_call_def)
    with a new show ?thesis
      by (intro flag_rule_new_buffer[where p = p and b = "\<lparr>buf_impl = snd answer, buf_isBoundToMemory = True\<rparr>"]) simp_all
  qed
  from a c show ?thesis by blast
qed

lemma CreateTexture_VK_effect:
  assumes "CreateTexture_VK H convertedFormat textureDesc answer p textureVKDesc out s = Some (r, out', s')"
    and "backend_answer call = Some (fst answer)"
  shows "(if r = SUCCESS then out' = Some p else out' = out)
      \<and> flag_rule call s s' k h"
proof -
  from assms(1) have a: "(if r = SUCCESS then out' = Some p else out' = out)
      \<and> buffers s' = buffers s \<and> accelerationStructures s' = accelerationStructures s
      \<and> (textures s' = textures s
           \<or> (fst answer = SUCCESS \<and> backendCalls s' = backendCalls s @ [WrapperVKAPI WrapperVK_CreateTextureVK]
               \<and> textures s p = None
               \<and> textures s' = (textures s)(p \<mapsto> \<lparr>tex_impl = snd answer, tex_isBoundToMemory = True, tex_desc = textureDesc\<rparr>)))"
    by (auto simp: CreateTexture_VK_def Let_def Allocate_def REPORT_ERROR_def call_backend_def
        split: option.splits if_splits )
  from a have "textures s' = textures s
      \<or> (fst answer = SUCCESS \<and> backendCalls s' = backendCalls s @ [WrapperVKAPI WrapperVK_CreateTextureVK]
               \<and> textures s p = None
               \<and> textures s' = (textures s)(p \<mapsto> \<lparr>tex_impl = snd answer, tex_isBoundToMemory = True, tex_desc = textureDesc\<rparr>))" by simp
  then have c: "flag_rule call s s' k h"
  proof (elim disjE conjE)
    assume same: "textures s' = textures s"
    with a show ?thesis by (intro flag_rule_same) simp_all
  next
    assume new: "fst answer = SUCCESS" "backendCalls s' = backendCalls s @ [WrapperVKAPI WrapperVK_CreateTextureVK]"
      "textures s p = None" "textures s' = (textures s)(p \<mapsto> \<lparr>tex_impl = snd answer, tex_isBoundToMemory = True, tex_desc = textureDesc\<rparr>)"
    have "successful_bound_creation call s s'"
      using assms(2) new(1,2)
      by (intro successful_bound_creationI[where c = "WrapperVKAPI WrapperVK_CreateTextureVK"])
         (simp_all add: is_bound_creation_call_def)
    with a new show ?thesis
      by (intro flag_rule_new_texture[where p = p and b = "\<lparr>tex_impl = snd answer, tex_isBoundToMemory = True, tex_desc = textureDesc\<rparr>"]) simp_all
  qed
  from a c show ?thesis by blast
qed

lemma CreateMemory_VK_effect:
  assumes "CreateMemory_VK H answer p d out s = Some (r, out', s')"
    and "backend_answer call = Some (fst answer)"
  shows "(if r = SUCCESS then out' = Some p else out' = out)
      \<and> flag_rule call s s' k h"
proof -
  from assms(1) have a: "(if r = SUCCESS then out' = Some p else out' = out)
      \<and> buffers s' = buffers s \<and> textures s' = textures s
      \<and> accelerationStructures s' = accelerationStructures s"
    by (auto simp: CreateMemory_VK_def Let_def Allocate_def REPORT_ERROR_def call_backend_def
        split: option.splits if_splits )
  from a have c: "flag_rule call s s' k h" by (intro flag_rule_same) simp_all
  from a c show ?thesis by blast
qed

lemma CreateGraphicsPipeline_VK_effect:
  assumes "CreateGraphicsPipeline_VK answer p vkPipeline out s = Some (r, out', s')"
    and "backend_answer call = Some (fst answer)"
  shows "(if r = SUCCESS then out' = Some p else out' = out)
      \<and> flag_rule call s s' k h"
proof -
  from assms(1) have a: "(if r = SUCCESS then out' = Some p else out' = out)
      \<and> buffers s' = buffers s \<and> textures s' = textures s
      \<and> accelerationStructures s' = accelerationStructures s"
    by (auto simp: CreateGraphicsPipeline_VK_def Let_def Allocate_def REPORT_ERROR_def call_backend_def
        split: option.splits if_splits )
  from a have c: "flag_rule call s s' k h" by (intro flag_rule_same) simp_all
  from a c show ?thesis by blast
qed

lemma CreateComputePipeline_VK_effect:
  assumes "CreateComputePipeline_VK answer p vkPipeline out s = Some (r, out', s')"
    and "backend_answer call = Some (fst answer)"
  shows "(if r = SUCCESS then out' = Some p else out' = out)
      \<and> flag_rule call s s' k h"
proof -
  from assms(1) have a: "(if r = SUCCESS then out' = Some p else out' = out)
      \<and> buffers s' = buffers s \<and> textures s' = textures s
      \<and> accelerationStructures s' = accelerationStructures s"
    by (auto simp: CreateComputePipeline_VK_def Let_def Allocate_def REPORT_ERROR_def call_backend_def
        split: option.splits if_splits )
  from a have c: "flag_rule call s s' k h" by (intro flag_rule_same) simp_all
  from a c show ?thesis by blast
qed

lemma CreateQueryPool_VK_effect:
  assumes "CreateQueryPool_VK answer p queryPoolVKDesc out s = Some (r, out', s')"
    and "backend_answer call = Some (fst answer)"
  shows "(if r = SUCCESS then out' = Some p else out' = out)
      \<and> flag_rule call s s' k h"
proof -
  from assms(1) have a: "(if r = SUCCESS then out' = Some p else out' = out)
      \<and> buffers s' = buffers s \<and> textures s' = textures s
      \<and> accelerationStructures s' = accelerationStructures s"
    by (auto simp: CreateQueryPool_VK_def Let_def Allocate_def REPORT_ERROR_def call_backend_def
        split: option.splits if_splits )
  from a have c: "flag_rule call s s' k h" by (intro flag_rule_same) simp_all
  from a c show ?thesis by blast
qed

lemma CreateAccelerationStructure_VK_effect:
  assumes "CreateAccelerationStructure_VK answer p accelerationStructureDesc out s = Some (r, out', s')"
    and "backend_answer call = Some (fst answer)"
  shows "(if r = SUCCESS then out' = Some p else out' = out)
      \<and> flag_rule call s s' k h"
proof -
  from assms(1) have a: "(if r = SUCCESS then out' = Some p else out' = out)
      \<and> buffers s' = buffers s \<and> textures s' = textures s
      \<and> (accelerationStructures s' = accelerationStructures s
           \<or> (fst answer = SUCCESS \<and> backendCalls s' = backendCalls s @ [WrapperVKAPI WrapperVK_CreateAccelerationStructureVK]
               \<and> accelerationStructures s p = None
               \<and> accelerationStructures s' = (accelerationStructures s)(p \<mapsto> \<lparr>as_impl = snd answer, as_isBoundToMemory = True, as_memoryDesc = \<lparr>md_size = 0, md_alignment = 0, md_mustBeDedicated = False\<rparr>\<rparr>)))"
    by (auto simp: CreateAccelerationStructure_VK_def Let_def Allocate_def REPORT_ERROR_def call_backend_def
        split: option.splits if_splits )
  from a have "accelerationStructures s' = accelerationStructures s
      \<or> (fst answer = SUCCESS \<and> backendCalls s' = backendCalls s @ [WrapperVKAPI WrapperVK_CreateAccelerationStructureVK]
               \<and> accelerationStructures s p = None
               \<and> accelerationStructures s' = (accelerationStructures s)(p \<mapsto> \<lparr>as_impl = snd answer, as_isBoundToMemory = True, as_memoryDesc = \<lparr>md_size = 0, md_alignment = 0, md_mustBeDedicated = False\<rparr>\<rparr>))" by simp
  then have c: "flag_rule call s s' k h"
  proof (elim disjE conjE)
    assume same: "accelerationStructures s' = accelerationStructures s"
    with a show ?thesis by (intro flag_rule_same) simp_all
  next
    assume new: "fst answer = SUCCESS" "backendCalls s' = backendCalls s @ [WrapperVKAPI WrapperVK_CreateAccelerationStructureVK]"
      "accelerationStructures s p = None" "accelerationStructures s' = (accelerationStructures s)(p \<mapsto> \<lparr>as_impl = snd answer, as_isBoundToMemory = True, as_memoryDesc = \<lparr>md_size = 0, md_alignment = 0, md_mustBeDedicated = False\<rparr>\<rparr>)"
    have "successful_bound_creation call s s'"
      using assms(2) new(1,2)
      by (intro successful_bound_creationI[where c = "WrapperVKAPI WrapperVK_CreateAccelerationStructureVK"])
         (simp_all add: is_bound_creation_call_def)
    with a new show ?thesis
      by (intro flag_rule_new_acceleration_structure[where p = p and b = "\<lparr>as_impl = snd answer, as_isBoundToMemory = True, as_memoryDesc = \<lparr>md_size = 0, md_alignment = 0, md_mustBeDedicated = False\<rparr>\<rparr>"]) simp_all
  qed
  from a c show ?thesis by blast
qed

lemma CreateCommandBuffer_D3D11_effect:
  assumes "CreateCommandBuffer_D3D11 answer p commandBufferDesc out s = Some (r, out', s')"
    and "backend_answer call = Some (fst answer)"
  shows "(if r = SUCCESS then out' = Some p else out' = out)
      \<and> flag_rule call s s' k h"
proof -
  from assms(1) have a: "(if r = SUCCESS then out' = Some p else out' = out)
      \<and> buffers s' = buffers s \<and> textures s' = textures s
      \<and> accelerationStructures s' = accelerationStructures s"
    by (auto simp: CreateCommandBuffer_D3D11_def Let_def Allocate_def REPORT_ERROR_def call_backend_def
        split: option.splits if_splits )
  from a have c: "flag_rule call s s' k h" by (intro flag_rule_same) simp_all
  from a c show ?thesis by blast
qed

lemma CreateBuffer_D3D11_effect:
  assumes "CreateBuffer_D3D11 answer p bufferDesc out s = Some (r, out', s')"
    and "backend_answer call = Some (fst answer)"
  shows "(if r = SUCCESS then out' = Some p else out' = out)
      \<and> flag_rule call s s' k h"
proof -
  from assms(1) have a: "(if r = SUCCESS then out' = Some p else out' = out)
      \<and> textures s' = textures s \<and> accelerationStructures s' = accelerationStructures s
      \<and> (buffers s' = buffers s
           \<or> (fst answer = SUCCESS \<and> backendCalls s' = backendCalls s @ [WrapperD3D11API WrapperD3D11_CreateBufferD3D11]
               \<and> buffers s p = None
               \<and> buffers s' = (buffers s)(p \<mapsto> \<lparr>buf_impl = snd answer, buf_isBoundToMemory = True\<rparr>)))"
    by (auto simp: CreateBuffer_D3D11_def Let_def Allocate_def REPORT_ERROR_def call_backend_def
        split: option.splits if_splits )
  from a have "buffers s' = buffers s
      \<or> (fst answer = SUCCESS \<and> backendCalls s' = backendCalls s @ [WrapperD3D11API WrapperD3D11_CreateBufferD3D11]
               \<and> buffers s p = None
               \<and> buffers s' = (buffers s)(p \<mapsto> \<lparr>buf_impl = snd answer, buf_isBoundToMemory = True\<rparr>))" by simp
  then have c: "flag_rule call s s' k h"
  proof (elim disjE conjE)
    assume same: "buffers s' = buffers s"
    with a show ?thesis by (intro flag_rule_same) simp_all
  next
    assume new: "fst answer = SUCCESS" "backendCalls s' = backendCalls s @ [WrapperD3D11API WrapperD3D11_CreateBufferD3D11]"
      "buffers s p = None" "buffers s' = (buffers s)(p \<mapsto> \<lparr>buf_impl = snd answer, buf_isBoundToMemory = True\<rparr>)"
    have "successful_bound_creation call s s'"
      using assms(2) new(1,2)
      by (intro successful_bound_creationI[where c = "WrapperD3D11API WrapperD3D11_CreateBufferD3D11"])
         (simp_all add: is_bound_creation_call_def)
    with a new show ?thesis
      by (intro flag_rule_new_buffer[where p = p and b = "\<lparr>buf_impl = snd answer, buf_isBoundToMemory = True\<rparr>"]) simp_all
  qed
  from a c show ?thesis by blast
qed

lemma CreateTexture_D3D11_effect:
  assumes "CreateTexture_D3D11 textureDesc answer p textureDesc11 out s = Some (r, out', s')"
    and "backend_answer call = Some (fst answer)"
  shows "(if r = SUCCESS then out' = Some p else out' = out)
      \<and> flag_rule call s s' k h"
proof -
  from assms(1) have a: "(if r = SUCCESS then out' = Some p else out' = out)
      \<and> buffers s' = buffers s \<and> accelerationStructures s' = accelerationStructures s
      \<and> (textures s' = textures s
           \<or> (fst answer = SUCCESS \<and> backendCalls s' = backendCalls s @ [WrapperD3D11API WrapperD3D11_CreateTextureD3D11]
               \<and> textures s p = None
               \<and> textures s' = (textures s)(p \<mapsto> \<lparr>tex_impl = snd answer, tex_isBoundToMemory = True, tex_desc = textureDesc\<rparr>)))"
    by (auto simp: CreateTexture_D3D11_def Let_def Allocate_def REPORT_ERROR_def call_backend_def
        split: option.splits if_splits )
  from a have "textures s' = textures s
      \<or> (fst answer = SUCCESS \<and> backendCalls s' = backendCalls s @ [WrapperD3D11API WrapperD3D11_CreateTextureD3D11]
               \<and> textures s p = None
               \<and> textures s' = (textures s)(p \<mapsto> \<lparr>tex_impl = snd answer, tex_isBoundToMemory = True, tex_desc = textureDesc\<rparr>))" by simp
  then have c: "flag_rule call s s' k h"
  proof (elim disjE conjE)
    assume same: "textures s' = textures s"
    with a show ?thesis by (intro flag_rule_same) simp_all
  next
    assume new: "fst answer = SUCCESS" "backendCalls s' = backendCalls s @ [WrapperD3D11API WrapperD3D11_CreateTextureD3D11]"
      "textures s p = None" "textures s' = (textures s)(p \<mapsto> \<lparr>tex_impl = snd answer, tex_isBoundToMemory = True, tex_desc = textureDesc\<rparr>)"
    have "successful_bound_creation call s s'"
      using assms(2) new(1,2)
      by (intro successful_bound_creationI[where c = "WrapperD3D11API WrapperD3D11_CreateTextureD3D11"])
         (simp_all add: is_bound_creation_call_def)
    with a new show ?thesis
      by (intro flag_rule_new_texture[where p = p and b = "\<lparr>tex_impl = snd answer, tex_isBoundToMemory = True, tex_desc = textureDesc\<rparr>"]) simp_all
  qed
  from a c show ?thesis by blast
qed

lemma CreateCommandBuffer_D3D12_effect:
  assumes "CreateCommandBuffer_D3D12 answer p commandBufferDesc out s = Some (r, out', s')"
    and "backend_answer call = Some (fst answer)"
  shows "(if r = SUCCESS then out' = Some p else out' = out)
      \<and> flag_rule call s s' k h"
proof -
  from assms(1) have a: "(if r = SUCCESS then out' = Some p else out' = out)
      \<and> buffers s' = buffers s \<and> textures s' = textures s
      \<and> accelerationStructures s' = accelerationStructures s"
    by (auto simp: CreateCommandBuffer_D3D12_def Let_def Allocate_def REPORT_ERROR_def call_backend_def
        split: option.splits if_splits )
  from a have c: "flag_rule call s s' k h" by (intro flag_rule_same) simp_all
  from a c show ?thesis by blast
qed

lemma CreateDescriptorPool_D3D12_effect:
  assumes "CreateDescriptorPool_D3D12 answer p descriptorPoolD3D12Desc out s = Some (r, out', s')"
    and "backend_answer call = Some (fst answer)"
  shows "(if r = SUCCESS then out' = Some p else out' = out)
      \<and> flag_rule call s s' k h"
proof -
  from assms(1) have a: "(if r = SUCCESS then out' = Some p else out' = out)
      \<and> buffers s' = buffers s \<and> textures s' = textures s
      \<and> accelerationStructures s' = accelerationStructures s"
    by (auto simp: CreateDescriptorPool_D3D12_def Let_def Allocate_def REPORT_ERROR_def call_backend_def
        split: option.splits if_splits )
  from a have c: "flag_rule call s s' k h" by (intro flag_rule_same) simp_all
  from a c show ?thesis by blast
qed

lemma CreateBuffer_D3D12_effect:
  assumes "CreateBuffer_D3D12 answer p bufferDesc out s = Some (r, out', s')"
    and "backend_answer call = Some (fst answer)"
  shows "(if r = SUCCESS then out' = Some p else out' = out)
      \<and> flag_rule call s s' k h"
proof -
  from assms(1) have a: "(if r = SUCCESS then out' = Some p else out' = out)
      \<and> textures s' = textures s \<and> accelerationStructures s' = accelerationStructures s
      \<and> (buffers s' = buffers s
           \<or> (fst answer = SUCCESS \<and> backendCalls s' = backendCalls s @ [WrapperD3D12API WrapperD3D12_CreateBufferD3D12]
               \<and> buffers s p = None
               \<and> buffers s' = (buffers s)(p \<mapsto> \<lparr>buf_impl = snd answer, buf_isBoundToMemory = True\<rparr>)))"
    by (auto simp: CreateBuffer_D3D12_def Let_def Allocate_def REPORT_ERROR_def call_backend_def
        split: option.splits if_splits )
  from a have "buffers s' = buffers s
      \<or> (fst answer = SUCCESS \<and> backendCalls s' = backendCalls s @ [WrapperD3D12API WrapperD3D12_CreateBufferD3D12]
               \<and> buffers s p = None
               \<and> buffers s' = (buffers s)(p \<mapsto> \<lparr>buf_impl = snd answer, buf_isBoundToMemory = True\<rparr>))" by simp
  then have c: "flag_rule call s s' k h"
  proof (elim disjE conjE)
    assume same: "buffers s' = buffers s"
    with a show ?thesis by (intro flag_rule_same) simp_all
  next
    assume new: "fst answer = SUCCESS" "backendCalls s' = backendCalls s @ [WrapperD3D12API WrapperD3D12_CreateBufferD3D12]"
      "buffers s p = None" "buffers s' = (buffers s)(p \<mapsto> \<lparr>buf_impl = snd answer, buf_isBoundToMemory = True\<rparr>)"
    have "successful_bound_creation call s s'"
      using assms(2) new(1,2)
      by (intro successful_bound_creationI[where c = "WrapperD3D12API WrapperD3D12_CreateBufferD3D12"])
         (simp_all add: is_bound_creation_call_def)
    with a new show ?thesis
      by (intro flag_rule_new_buffer[where p = p and b = "\<lparr>buf_impl = snd answer, buf_isBoundToMemory = True\<rparr>"]) simp_all
  qed
  from a c show ?thesis by blast
qed

lemma CreateTexture_D3D12_effect:
  assumes "CreateTexture_D3D12 textureDesc answer p textureDesc12 out s = Some (r, out', s')"
    and "backend_answer call = Some (fst answer)"
  shows "(if r = SUCCESS then out' = Some p else out' = out)
      \<and> flag_rule call s s' k h"
proof -
  from assms(1) have a: "(if r = SUCCESS then out' = Some p else out' = out)
      \<and> buffers s' = buffers s \<and> accelerationStructures s' = accelerationStructures s
      \<and> (textures s' = textures s
           \<or> (fst answer = SUCCESS \<and> backendCalls s' = backendCalls s @ [WrapperD3D12API WrapperD3D12_CreateTextureD3D12]
               \<and> textures s p = None
               \<and> textures s' = (textures s)(p \<mapsto> \<lparr>tex_impl = snd answer, tex_isBoundToMemory = True, tex_desc = textureDesc\<rparr>)))"
    by (auto simp: CreateTexture_D3D12_def Let_def Allocate_def REPORT_ERROR_def call_backend_def
        split: option.splits if_splits )
  from a have "textures s' = textures s
      \<or> (fst answer = SUCCESS \<and> backendCalls s' = backendCalls s @ [WrapperD3D12API WrapperD3D12_CreateTextureD3D12]
               \<and> textures s p = None
               \<and> textures s' = (textures s)(p \<mapsto> \<lparr>tex_impl = snd answer, tex_isBoundToMemory = True, tex_desc = textureDesc\<rparr>))" by simp
  then have c: "flag_rule call s s' k h"
  proof (elim disjE conjE)
    assume same: "textures s' = textures s"
    with a show ?thesis by (intro flag_rule_same) simp_all
  next
    assume new: "fst answer = SUCCESS" "backendCalls s' = backendCalls s @ [WrapperD3D12API WrapperD3D12_CreateTextureD3D12]"
      "textures s p = None" "textures s' = (textures s)(p \<mapsto> \<lparr>tex_impl = snd answer, tex_isBoundToMemory = True, tex_desc = textureDesc\<rparr>)"
    have "successful_bound_creation call s s'"
      using assms(2) new(1,2)
      by (intro successful_bound_creationI[where c = "WrapperD3D12API WrapperD3D12_CreateTextureD3D12"])
         (simp_all add: is_bound_creation_call_def)
    with a new show ?thesis
      by (intro flag_rule_new_texture[where p = p and b = "\<lparr>tex_impl = snd answer, tex_isBoundToMemory = True, tex_desc = textureDesc\<rparr>"]) simp_all
  qed
  from a c show ?thesis by blast
qed

lemma CreateMemory_D3D12_effect:
  assumes "CreateMemory_D3D12 H heapSize answer p memoryDesc out s = Some (r, out', s')"
    and "backend_answer call = Some (fst answer)"
  shows "(if r = SUCCESS then out' = Some p else out' = out)
      \<and> flag_rule call s s' k h"
proof -
  from assms(1) have a: "(if r = SUCCESS then out' = Some p else out' = out)
      \<and> buffers s' = buffers s \<and> textures s' = textures s
      \<and> accelerationStructures s' = accelerationStructures s"
    by (auto simp: CreateMemory_D3D12_def Let_def Allocate_def REPORT_ERROR_def call_backend_def
        split: option.splits if_splits )
  from a have c: "flag_rule call s s' k h" by (intro flag_rule_same) simp_all
  from a c show ?thesis by blast
qed

lemma CreateAccelerationStructure_D3D12_effect:
  assumes "CreateAccelerationStructure_D3D12 answer p accelerationStructureDesc out s = Some (r, out', s')"
    and "backend_answer call = Some (fst answer)"
  shows "(if r = SUCCESS then out' = Some p else out' = out)
      \<and> flag_rule call s s' k h"
proof -
  from assms(1) have a: "(if r = SUCCESS then out' = Some p else out' = out)
      \<and> buffers s' = buffers s \<and> textures s' = textures s
      \<and> (accelerationStructures s' = accelerationStructures s
           \<or> (fst answer = SUCCESS \<and> backendCalls s' = backendCalls s @ [WrapperD3D12API WrapperD3D12_CreateAccelerationStructureD3D12]
               \<and> accelerationStructures s p = None
               \<and> accelerationStructures s' = (accelerationStructures s)(p \<mapsto> \<lparr>as_impl = snd answer, as_isBoundToMemory = True, as_memoryDesc = \<lparr>md_size = 0, md_alignment = 0, md_mustBeDedicated = False\<rparr>\<rparr>)))"
    by (auto simp: CreateAccelerationStructure_D3D12_def Let_def Allocate_def REPORT_ERROR_def call_backend_def
        split: option.splits if_splits )
  from a have "accelerationStructures s' = accelerationStructures s
      \<or> (fst answer = SUCCESS \<and> backendCalls s' = backendCalls s @ [WrapperD3D12API WrapperD3D12_CreateAccelerationStructureD3D12]
               \<and> accelerationStructures s p = None
               \<and> accelerationStructures s' = (accelerationStructures s)(p \<mapsto> \<lparr>as_impl = snd answer, as_isBoundToMemory = True, as_memoryDesc = \<lparr>md_size = 0, md_alignment = 0, md_mustBeDedicated = False\<rparr>\<rparr>))" by simp
  then have c: "flag_rule call s s' k h"
  proof (elim disjE conjE)
    assume same: "accelerationStructures s' = accelerationStructures s"
    with a show ?thesis by (intro flag_rule_same) simp_all
  next
    assume new: "fst answer = SUCCESS" "backendCalls s' = backendCalls s @ [WrapperD3D12API WrapperD3D12_CreateAccelerationStructureD3D12]"
      "accelerationStructures s p = None" "accelerationStructures s' = (accelerationStructures s)(p \<mapsto> \<lparr>as_impl = snd answer, as_isBoundToMemory = True, as_memoryDesc = \<lparr>md_size = 0, md_alignment = 0, md_mustBeDedicated = False\<rparr>\<rparr>)"
    have "successful_bound_creation call s s'"
      using assms(2) new(1,2)
      by (intro successful_bound_creationI[where c = "WrapperD3D12API WrapperD3D12_CreateAccelerationStructureD3D12"])
         (simp_all add: is_bound_creation_call_def)
    with a new show ?thesis
      by (intro flag_rule_new_acceleration_structure[where p = p and b = "\<lparr>as_impl = snd answer, as_isBoundToMemory = True, as_memoryDesc = \<lparr>md_size = 0, md_alignment = 0, md_mustBeDedicated = False\<rparr>\<rparr>"]) simp_all
  qed
  from a c show ?thesis by blast
qed

lemma create_resource_effect:
  assumes "create_resource H c answer p out s = Some (r, out', s')"
  shows "(if r = SUCCESS then out' = Some (handle_on_success (Of_Resource c) p s) else out' = out)
      \<and> flag_rule (Call_Create (Of_Resource c) answer p out) s s' k h"
proof (cases c)
  case (Call_CreateBuffer d)
  with assms have e: "CreateBuffer answer p d out s = Some (r, out', s')" by simp
  show ?thesis unfolding Call_CreateBuffer
    using CreateBuffer_effect[where call = "Call_Create (Of_Resource (Call_CreateBuffer d)) answer p out"
        and k = k and h = h, OF e]
    by simp
next
  case (Call_AllocateBuffer d)
  with assms have e: "AllocateBuffer answer p d out s = Some (r, out', s')" by simp
  show ?thesis unfolding Call_AllocateBuffer
    using AllocateBuffer_effect[where call = "Call_Create (Of_Resource (Call_AllocateBuffer d)) answer p out"
        and k = k and h = h, OF e]
    by simp
next
  case (Call_CreateTexture d)
  with assms have e: "CreateTexture H answer p d out s = Some (r, out', s')" by simp
  show ?thesis unfolding Call_CreateTexture
    using CreateTexture_effect[where call = "Call_Create (Of_Resource (Call_CreateTexture d)) answer p out"
        and k = k and h = h, OF e]
    by simp
next
  case (Call_AllocateTexture d)
  with assms have e: "AllocateTexture H answer p d out s = Some (r, out', s')" by simp
  show ?thesis unfolding Call_AllocateTexture
    using AllocateTexture_effect[where call = "Call_Create (Of_Resource (Call_AllocateTexture d)) answer p out"
        and k = k and h = h, OF e]
    by simp
next
  case (Call_CreateAccelerationStructure memoryDesc d)
  with assms have e: "CreateAccelerationStructure (fst answer, snd answer, memoryDesc) p d out s = Some (r, out', s')" by simp
  show ?thesis unfolding Call_CreateAccelerationStructure
    using CreateAccelerationStructure_effect[where call = "Call_Create (Of_Resource (Call_CreateAccelerationStructure memoryDesc d)) answer p out"
        and k = k and h = h, OF e]
    by simp
next
  case (Call_AllocateAccelerationStructure memoryDesc d)
  with assms have e: "AllocateAccelerationStructure (fst answer, snd answer, memoryDesc) p d out s = Some (r, out', s')" by simp
  show ?thesis unfolding Call_AllocateAccelerationStructure
    using AllocateAccelerationStructure_effect[where call = "Call_Create (Of_Resource (Call_AllocateAccelerationStructure memoryDesc d)) answer p out"
        and k = k and h = h, OF e]
    by simp
next
  case (Call_AllocateMemory d)
  with assms have e: "AllocateMemory answer p d out s = Some (r, out', s')" by simp
  show ?thesis unfolding Call_AllocateMemory
    using AllocateMemory_effect[where call = "Call_Create (Of_Resource (Call_AllocateMemory d)) answer p out"
        and k = k and h = h, OF e]
    by simp
qed

lemma create_descriptor_effect:
  assumes "create_descriptor H c answer p out s = Some (r, out', s')"
  shows "(if r = SUCCESS then out' = Some (handle_on_success (Of_Descriptor c) p s) else out' = out)
      \<and> flag_rule (Call_Create (Of_Descriptor c) answer p out) s s' k h"
proof (cases c)
  case (Call_CreateBufferView bufferDesc d)
  with assms have e: "CreateDescriptor_BufferView H bufferDesc answer p d out s = Some (r, out', s')" by simp
  show ?thesis unfolding Call_CreateBufferView
    using CreateDescriptor_BufferView_effect[where call = "Call_Create (Of_Descriptor (Call_CreateBufferView bufferDesc d)) answer p out"
        and k = k and h = h, OF e]
    by simp
next
  case (Call_CreateTexture1DView d)
  with assms have e: "CreateDescriptor_Texture1DView H answer p d out s = Some (r, out', s')" by simp
  show ?thesis unfolding Call_CreateTexture1DView
    using CreateDescriptor_Texture1DView_effect[where call = "Call_Create (Of_Descriptor (Call_CreateTexture1DView d)) answer p out"
        and k = k and h = h, OF e]
    by simp
next
  case (Call_CreateTexture2DView d)
  with assms have e: "CreateDescriptor_Texture2DView H answer p d out s = Some (r, out', s')" by simp
  show ?thesis unfolding Call_CreateTexture2DView
    using CreateDescriptor_Texture2DView_effect[where call = "Call_Create (Of_Descriptor (Call_CreateTexture2DView d)) answer p out"
        and k = k and h = h, OF e]
    by simp
next
  case (Call_CreateTexture3DView d)
  with assms have e: "CreateDescriptor_Texture3DView H answer p d out s = Some (r, out', s')" by simp
  show ?thesis unfolding Call_CreateTexture3DView
    using CreateDescriptor_Texture3DView_effect[where call = "Call_Create (Of_Descriptor (Call_CreateTexture3DView d)) answer p out"
        and k = k and h = h, OF e]
    by simp
next
  case (Call_CreateSampler isTextureFilterMinMaxSupported d)
  with assms have e: "CreateDescriptor_Sampler H isTextureFilterMinMaxSupported answer p d out s = Some (r, out', s')" by simp
  show ?thesis unfolding Call_CreateSampler
    using CreateDescriptor_Sampler_effect[where call = "Call_Create (Of_Descriptor (Call_CreateSampler isTextureFilterMinMaxSupported d)) answer p out"
        and k = k and h = h, OF e]
    by simp
qed

lemma create_pipeline_effect:
  assumes "create_pipeline H fs c answer p out s = Some (r, out', s')"
  shows "(if r = SUCCESS then out' = Some (handle_on_success (Of_Pipeline c) p s) else out' = out)
      \<and> flag_rule (Call_Create (Of_Pipeline c) answer p out) s s' k h"
proof (cases c)
  case (Call_CreatePipelineLayout d)
  with assms have e: "CreatePipelineLayout H answer p d out s = Some (r, out', s')" by simp
  show ?thesis unfolding Call_CreatePipelineLayout
    using CreatePipelineLayout_effect[where call = "Call_Create (Of_Pipeline (Call_CreatePipelineLayout d)) answer p out"
        and k = k and h = h, OF e]
    by simp
next
  case (Call_CreateGraphicsPipeline d)
  with assms have e: "CreatePipeline_Graphics H fs answer p d out s = Some (r, out', s')" by simp
  show ?thesis unfolding Call_CreateGraphicsPipeline
    using CreatePipeline_Graphics_effect[where call = "Call_Create (Of_Pipeline (Call_CreateGraphicsPipeline d)) answer p out"
        and k = k and h = h, OF e]
    by simp
next
  case (Call_CreateComputePipeline d)
  with assms have e: "CreatePipeline_Compute H answer p d out s = Some (r, out', s')" by simp
  show ?thesis unfolding Call_CreateComputePipeline
    using CreatePipeline_Compute_effect[where call = "Call_Create (Of_Pipeline (Call_CreateComputePipeline d)) answer p out"
        and k = k and h = h, OF e]
    by simp
next
  case (Call_CreateRayTracingPipeline d)
  with assms have e: "CreatePipeline_RayTracing H answer p d out s = Some (r, out', s')" by simp
  show ?thesis unfolding Call_CreateRayTracingPipeline
    using CreatePipeline_RayTracing_effect[where call = "Call_Create (Of_Pipeline (Call_CreateRayTracingPipeline d)) answer p out"
        and k = k and h = h, OF e]
    by simp
qed

lemma create_object_effect:
  assumes "create_object H c answer p out s = Some (r, out', s')"
  shows "(if r = SUCCESS then out' = Some (handle_on_success (Of_Object c) p s) else out' = out)
      \<and> flag_rule (Call_Create (Of_Object c) answer p out) s s' k h"
proof (cases c)
  case (Call_CreateSwapChain d)
  with assms have e: "CreateSwapChain H answer p d out s = Some (r, out', s')" by simp
  show ?thesis unfolding Call_CreateSwapChain
    using CreateSwapChain_effect[where call = "Call_Create (Of_Object (Call_CreateSwapChain d)) answer p out"
        and k = k and h = h, OF e]
    by simp
next
  case (Call_GetCommandQueue commandQueueType)
  with assms have e: "GetCommandQueue H answer p commandQueueType out s = Some (r, out', s')" by simp
  show ?thesis unfolding Call_GetCommandQueue
    using GetCommandQueue_effect[where call = "Call_Create (Of_Object (Call_GetCommandQueue commandQueueType)) answer p out"
        and k = k and h = h, OF e]
    by simp
next
  case (Call_CreateCommandAllocator commandQueue)
  with assms have e: "CreateCommandAllocator commandQueue answer p out s = Some (r, out', s')" by simp
  show ?thesis unfolding Call_CreateCommandAllocator
    using CreateCommandAllocator_effect[where call = "Call_Create (Of_Object (Call_CreateCommandAllocator commandQueue)) answer p out"
        and k = k and h = h, OF e]
    by simp
next
  case Call_CreateDescriptorPool
  with assms have e: "CreateDescriptorPool answer p out s = Some (r, out', s')" by simp
  show ?thesis unfolding Call_CreateDescriptorPool
    using CreateDescriptorPool_effect[where call = "Call_Create (Of_Object Call_CreateDescriptorPool) answer p out"
        and k = k and h = h, OF e]
    by simp
next
  case (Call_CreateQueryPool d)
  with assms have e: "CreateQueryPool H answer p d out s = Some (r, out', s')" by simp
  show ?thesis unfolding Call_CreateQueryPool
    using CreateQueryPool_effect[where call = "Call_Create (Of_Object (Call_CreateQueryPool d)) answer p out"
        and k = k and h = h, OF e]
    by simp
next
  case Call_CreateFence
  with assms have e: "CreateFence answer p out s = Some (r, out', s')" by simp
  show ?thesis unfolding Call_CreateFence
    using CreateFence_effect[where call = "Call_Create (Of_Object Call_CreateFence) answer p out"
        and k = k and h = h, OF e]
    by simp
qed

lemma create_VK_effect:
  assumes "create_VK H c answer p out s = Some (r, out', s')"
  shows "(if r = SUCCESS then out' = Some (handle_on_success (Of_VK c) p s) else out' = out)
      \<and> flag_rule (Call_Create (Of_VK c) answer p out) s s' k h"
proof (cases c)
  case (Call_CreateCommandQueueVK d)
  with assms have e: "CreateCommandQueue_VK H answer p d out s = Some (r, out', s')" by simp
  show ?thesis unfolding Call_CreateCommandQueueVK
    using CreateCommandQueue_VK_effect[where call = "Call_Create (Of_VK (Call_CreateCommandQueueVK d)) answer p out"
        and k = k and h = h, OF e]
    by simp
next
  case (Call_CreateCommandAllocatorVK d)
  with assms have e: "CreateCommandAllocator_VK H answer p d out s = Some (r, out', s')" by simp
  show ?thesis unfolding Call_CreateCommandAllocatorVK
    using CreateCommandAllocator_VK_effect[where call = "Call_Create (Of_VK (Call_CreateCommandAllocatorVK d)) answer p out"
        and k = k and h = h, OF e]
    by simp
next
  case (Call_CreateCommandBufferVK d)
  with assms have e: "CreateCommandBuffer_VK H answer p d out s = Some (r, out', s')" by simp
  show ?thesis unfolding Call_CreateCommandBufferVK
    using CreateCommandBuffer_VK_effect[where call = "Call_Create (Of_VK (Call_CreateCommandBufferVK d)) answer p out"
        and k = k and h = h, OF e]
    by simp
next
  case (Call_CreateDescriptorPoolVK d)
  with assms have e: "CreateDescriptorPool_VK answer p d out s = Some (r, out', s')" by simp
  show ?thesis unfolding Call_CreateDescriptorPoolVK
    using CreateDescriptorPool_VK_effect[where call = "Call_Create (Of_VK (Call_CreateDescriptorPoolVK d)) answer p out"
        and k = k and h = h, OF e]
    by simp
next
  case (Call_CreateBufferVK d)
  with assms have e: "CreateBuffer_VK answer p d out s = Some (r, out', s')" by simp
  show ?thesis unfolding Call_CreateBufferVK
    using CreateBuffer_VK_effect[where call = "Call_Create (Of_VK (Call_CreateBufferVK d)) answer p out"
        and k = k and h = h, OF e]
    by simp
next
  case (Call_CreateTextureVK convertedFormat textureDesc d)
  with assms have e: "CreateTexture_VK H convertedFormat textureDesc answer p d out s = Some (r, out', s')" by simp
  show ?thesis unfolding Call_CreateTextureVK
    using CreateTexture_VK_effect[where call = "Call_Create (Of_VK (Call_CreateTextureVK convertedFormat textureDesc d)) answer p out"
        and k = k and h = h, OF e]
    by simp
next
  case (Call_CreateMemoryVK d)
  with assms have e: "CreateMemory_VK H answer p d out s = Some (r, out', s')" by simp
  show ?thesis unfolding Call_CreateMemoryVK
    using CreateMemory_VK_effect[where call = "Call_Create (Of_VK (Call_CreateMemoryVK d)) answer p out"
        and k = k and h = h, OF e]
    by simp
next
  case (Call_CreateGraphicsPipelineVK vkPipeline)
  with assms have e: "CreateGraphicsPipeline_VK answer p vkPipeline out s = Some (r, out', s')" by simp
  show ?thesis unfolding Call_CreateGraphicsPipelineVK
    using CreateGraphicsPipeline_VK_effect[where call = "Call_Create (Of_VK (Call_CreateGraphicsPipelineVK vkPipeline)) answer p out"
        and k = k and h = h, OF e]
    by simp
next
  case (Call_CreateComputePipelineVK vkPipeline)
  with assms have e: "CreateComputePipeline_VK answer p vkPipeline out s = Some (r, out', s')" by simp
  show ?thesis unfolding Call_CreateComputePipelineVK
    using CreateComputePipeline_VK_effect[where call = "Call_Create (Of_VK (Call_CreateComputePipelineVK vkPipeline)) answer p out"
        and k = k and h = h, OF e]
    by simp
next
  case (Call_CreateQueryPoolVK d)
  with assms have e: "CreateQueryPool_VK answer p d out s = Some (r, out', s')" by simp
  show ?thesis unfolding Call_CreateQueryPoolVK
    using CreateQueryPool_VK_effect[where call = "Call_Create (Of_VK (Call_CreateQueryPoolVK d)) answer p out"
        and k = k and h = h, OF e]
    by simp
next
  case (Call_CreateAccelerationStructureVK d)
  with assms have e: "CreateAccelerationStructure_VK answer p d out s = Some (r, out', s')" by simp
  show ?thesis unfolding Call_CreateAccelerationStructureVK
    using CreateAccelerationStructure_VK_effect[where call = "Call_Create (Of_VK (Call_CreateAccelerationStructureVK d)) answer p out"
        and k = k and h = h, OF e]
    by simp
qed

lemma create_D3D11_effect:
  assumes "create_D3D11 c answer p out s = Some (r, out', s')"
  shows "(if r = SUCCESS then out' = Some (handle_on_success (Of_D3D11 c) p s) else out' = out)
      \<and> flag_rule (Call_Create (Of_D3D11 c) answer p out) s s' k h"
proof (cases c)
  case (Call_CreateCommandBufferD3D11 d)
  with assms have e: "CreateCommandBuffer_D3D11 answer p d out s = Some (r, out', s')" by simp
  show ?thesis unfolding Call_CreateCommandBufferD3D11
    using CreateCommandBuffer_D3D11_effect[where call = "Call_Create (Of_D3D11 (Call_CreateCommandBufferD3D11 d)) answer p out"
        and k = k and h = h, OF e]
    by simp
next
  case (Call_CreateBufferD3D11 d)
  with assms have e: "CreateBuffer_D3D11 answer p d out s = Some (r, out', s')" by simp
  show ?thesis unfolding Call_CreateBufferD3D11
    using CreateBuffer_D3D11_effect[where call = "Call_Create (Of_D3D11 (Call_CreateBufferD3D11 d)) answer p out"
        and k = k and h = h, OF e]
    by simp
next
  case (Call_CreateTextureD3D11 textureDesc d)
  with assms have e: "CreateTexture_D3D11 textureDesc answer p d out s = Some (r, out', s')" by simp
  show ?thesis unfolding Call_CreateTextureD3D11
    using CreateTexture_D3D11_effect[where call = "Call_Create (Of_D3D11 (Call_CreateTextureD3D11 textureDesc d)) answer p out"
        and k = k and h = h, OF e]
    by simp
qed

lemma create_D3D12_effect:
  assumes "create_D3D12 H c answer p out s = Some (r, out', s')"
  shows "(if r = SUCCESS then out' = Some (handle_on_success (Of_D3D12 c) p s) else out' = out)
      \<and> flag_rule (Call_Create (Of_D3D12 c) answer p out) s s' k h"
proof (cases c)
  case (Call_CreateCommandBufferD3D12 d)
  with assms have e: "CreateCommandBuffer_D3D12 answer p d out s = Some (r, out', s')" by simp
  show ?thesis unfolding Call_CreateCommandBufferD3D12
    using CreateCommandBuffer_D3D12_effect[where call = "Call_Create (Of_D3D12 (Call_CreateCommandBufferD3D12 d)) answer p out"
        and k = k and h = h, OF e]
    by simp
next
  case (Call_CreateDescriptorPoolD3D12 d)
  with assms have e: "CreateDescriptorPool_D3D12 answer p d out s = Some (r, out', s')" by simp
  show ?thesis unfolding Call_CreateDescriptorPoolD3D12
    using CreateDescriptorPool_D3D12_effect[where call = "Call_Create (Of_D3D12 (Call_CreateDescriptorPoolD3D12 d)) answer p out"
        and k = k and h = h, OF e]
    by simp
next
  case (Call_CreateBufferD3D12 d)
  with assms have e: "CreateBuffer_D3D12 answer p d out s = Some (r, out', s')" by simp
  show ?thesis unfolding Call_CreateBufferD3D12
    using CreateBuffer_D3D12_effect[where call = "Call_Create (Of_D3D12 (Call_CreateBufferD3D12 d)) answer p out"
        and k = k and h = h, OF e]
    by simp
next
  case (Call_CreateTextureD3D12 textureDesc d)
  with assms have e: "CreateTexture_D3D12 textureDesc answer p d out s = Some (r, out', s')" by simp
  show ?thesis unfolding Call_CreateTextureD3D12
    using CreateTexture_D3D12_effect[where call = "Call_Create (Of_D3D12 (Call_CreateTextureD3D12 textureDesc d)) answer p out"
        and k = k and h = h, OF e]
    by simp
next
  case (Call_CreateMemoryD3D12 heapSize d)
  with assms have e: "CreateMemory_D3D12 H heapSize answer p d out s = Some (r, out', s')" by simp
  show ?thesis unfolding Call_CreateMemoryD3D12
    using CreateMemory_D3D12_effect[where call = "Call_Create (Of_D3D12 (Call_CreateMemoryD3D12 heapSize d)) answer p out"
        and k = k and h = h, OF e]
    by simp
next
  case (Call_CreateAccelerationStructureD3D12 d)
  with assms have e: "CreateAccelerationStructure_D3D12 answer p d out s = Some (r, out', s')" by simp
  show ?thesis unfolding Call_CreateAccelerationStructureD3D12
    using CreateAccelerationStructure_D3D12_effect[where call = "Call_Create (Of_D3D12 (Call_CreateAccelerationStructureD3D12 d)) answer p out"
        and k = k and h = h, OF e]
    by simp
qed

lemma create_effect:
  assumes "create H fs c answer p out s = Some (r, out', s')"
  shows "(if r = SUCCESS then out' = Some (handle_on_success c p s) else out' = out)
      \<and> flag_rule (Call_Create c answer p out) s s' k h"
proof (cases c)
  case (Of_Resource x)
  with assms have e: "create_resource H x answer p out s = Some (r, out', s')" by simp
  show ?thesis unfolding Of_Resource by (rule create_resource_effect[OF e])
next
  case (Of_Descriptor x)
  with assms have e: "create_descriptor H x answer p out s = Some (r, out', s')" by simp
  show ?thesis unfolding Of_Descriptor by (rule create_descriptor_effect[OF e])
next
  case (Of_Pipeline x)
  with assms have e: "create_pipeline H fs x answer p out s = Some (r, out', s')" by simp
  show ?thesis unfolding Of_Pipeline by (rule create_pipeline_effect[OF e])
next
  case (Of_Object x)
  with assms have e: "create_object H x answer p out s = Some (r, out', s')" by simp
  show ?thesis unfolding Of_Object by (rule create_object_effect[OF e])
next
  case (Of_VK x)
  with assms have e: "create_VK H x answer p out s = Some (r, out', s')" by simp
  show ?thesis unfolding Of_VK by (rule create_VK_effect[OF e])
next
  case (Of_D3D11 x)
  with assms have e: "create_D3D11 x answer p out s = Some (r, out', s')" by simp
  show ?thesis unfolding Of_D3D11 by (rule create_D3D11_effect[OF e])
next
  case (Of_D3D12 x)
  with assms have e: "create_D3D12 H x answer p out s = Some (r, out', s')" by simp
  show ?thesis unfolding Of_D3D12 by (rule create_D3D12_effect[OF e])
qed















subsection \<open>The bound flag over time\<close>




subsection \<open>The out handles\<close>

lemma wrap_allocations_array:
  "wrap_allocations loc i ps arr s = Some (arr', s') \<Longrightarrow>
     arr' = take i arr @ map Some ps @ drop (i + length ps) arr"
proof (induction ps arbitrary: i arr s)
  case Nil
  then show ?case by simp
next
  case (Cons p ps)
  from Cons.prems have i: "i < length arr" by (simp split: if_splits)
  from Cons.prems obtain ms where
    rest: "wrap_allocations loc (Suc i) ps (arr[i := Some p]) (s\<lparr>memories := ms\<rparr>) = Some (arr', s')"
    by (auto split: if_splits option.splits)
  have "arr' = take (Suc i) (arr[i := Some p]) @ map Some ps
                @ drop (Suc i + length ps) (arr[i := Some p])"
    by (rule Cons.IH[OF rest])
  moreover have "take (Suc i) (arr[i := Some p]) = take i arr @ [Some p]"
    using i by (simp add: take_Suc_conv_app_nth)
  moreover have "drop (Suc i + length ps) (arr[i := Some p]) = drop (Suc i + length ps) arr"
    by (simp add: drop_update_cancel)
  ultimately show ?case by simp
qed

lemma validate_entries_GetImpl_Inl:
  assumes "validate_entries (GetImpl_entry store impl) xs = Some (Inl e)"
  shows "e = INVALID_ARGUMENT"
proof -
  from validate_entries_Inl[OF assms] obtain x where "GetImpl_entry store impl x = Some (Inl e)"
    by blast
  then show ?thesis by (cases x) (auto simp: GetImpl_entry_def split: option.splits)
qed

lemma AllocateAndBindMemory_out:
  assumes "AllocateAndBindMemory H n ans ps d al s = Some (r, al', s')"
  shows "(r \<noteq> SUCCESS \<and> backendCalls s' = backendCalls s \<and> al' = al)
       \<or> (r = fst ans \<and> fst ans \<noteq> SUCCESS
            \<and> backendCalls s'
                = backendCalls s @ [Helper_CalculateAllocationNumber, Helper_AllocateAndBindMemory]
            \<and> (\<exists>array. al = Some array
                  \<and> al' = Some (snd ans @ drop (length (snd ans)) array)))
       \<or> (r = SUCCESS \<and> fst ans = SUCCESS
            \<and> (\<exists>array. al = Some array
                  \<and> al' = Some (map Some ps
                                 @ drop (length ps) (snd ans @ drop (length (snd ans)) array))))"
proof (cases al)
  case None
  with assms show ?thesis by (auto simp: AllocateAndBindMemory_def REPORT_ERROR_def)
next
  case (Some array)
  let ?array1 = "snd ans @ drop (length (snd ans)) array"
  from assms Some have
    "(r = INVALID_ARGUMENT \<and> s' = REPORT_ERROR s \<and> al' = al)
     \<or> (r = fst ans \<and> fst ans \<noteq> SUCCESS
          \<and> s' = call_backend Helper_AllocateAndBindMemory
                   (call_backend Helper_CalculateAllocationNumber s)
          \<and> al' = Some ?array1)
     \<or> (r = SUCCESS \<and> fst ans = SUCCESS
          \<and> (\<exists>s3 arr2. wrap_allocations (rg_memoryLocation d) 0 ps ?array1 s3 = Some (arr2, s')
                 \<and> al' = Some arr2))"
    by (auto simp: AllocateAndBindMemory_def CalculateAllocationNumber_def Let_def
        split: option.splits sum.splits if_splits prod.splits
        dest: validate_entries_GetImpl_Inl)
  then consider (val) "r = INVALID_ARGUMENT" "s' = REPORT_ERROR s" "al' = al"
    | (fail) "r = fst ans" "fst ans \<noteq> SUCCESS"
        "s' = call_backend Helper_AllocateAndBindMemory (call_backend Helper_CalculateAllocationNumber s)"
        "al' = Some ?array1"
    | (ok) s3 arr2 where "r = SUCCESS" "fst ans = SUCCESS"
        "wrap_allocations (rg_memoryLocation d) 0 ps ?array1 s3 = Some (arr2, s')" "al' = Some arr2"
    by blast
  then show ?thesis
  proof cases
    case val
    then show ?thesis by (simp add: REPORT_ERROR_def)
  next
    case fail
    with Some show ?thesis by (simp add: call_backend_def)
  next
    case ok
    from wrap_allocations_array[OF ok(3)] ok Some show ?thesis by simp
  qed
qed

text \<open>
  C10, as amended. Every creation or allocation entry point of \<^verbatim>\<open>DeviceVal\<close> that returns a
  Result and has a single out handle (all those that \<open>create\<close> covers: the creations and
  allocations of resources and memory, of descriptors, of pipelines and pipeline layouts, of
  swap chains, queues, command allocators, descriptor pools, query pools and fences, and the
  wrappers of native Vulkan, D3D11 and D3D12 objects) assigns the handle exactly when it returns
  SUCCESS, and then to the proxy it hands out; after a validation failure or a backend failure
  the handle of the caller is as before.
  \<^verbatim>\<open>AllocateAndBindMemory\<close>, whose out parameter is the array of the caller, leaves the array
  as it was when validation fails (the backend is not called) and stores the new proxies in it
  on SUCCESS; but it hands the array itself to the backend, so after a backend failure the
  array holds what the backend left there and may differ from what the caller passed.
\<close>

theorem out_handle_assigned_on_success_only:
  "(create H fs c answer p out s = Some (r, out', s') \<longrightarrow>
        (if r = SUCCESS then out' = Some (handle_on_success c p s) else out' = out))
   \<and> (AllocateAndBindMemory H n ans ps rg al s = Some (ra, al', sa) \<longrightarrow>
        (ra \<noteq> SUCCESS \<and> backendCalls sa = backendCalls s \<and> al' = al)
        \<or> (ra = fst ans \<and> fst ans \<noteq> SUCCESS
             \<and> backendCalls sa
                 = backendCalls s @ [Helper_CalculateAllocationNumber, Helper_AllocateAndBindMemory]
             \<and> (\<exists>array. al = Some array
                   \<and> al' = Some (snd ans @ drop (length (snd ans)) array)))
        \<or> (ra = SUCCESS \<and> fst ans = SUCCESS
             \<and> (\<exists>array. al = Some array
                   \<and> al' = Some (map Some ps
                                  @ drop (length ps) (snd ans @ drop (length (snd ans)) array)))))"
proof (intro conjI impI)
  assume "create H fs c answer p out s = Some (r, out', s')"
  from create_effect[OF this, of BufferKind 0]
  show "if r = SUCCESS then out' = Some (handle_on_success c p s) else out' = out" by blast
next
  assume "AllocateAndBindMemory H n ans ps rg al s = Some (ra, al', sa)"
  then show "(ra \<noteq> SUCCESS \<and> backendCalls sa = backendCalls s \<and> al' = al)
        \<or> (ra = fst ans \<and> fst ans \<noteq> SUCCESS
             \<and> backendCalls sa
                 = backendCalls s @ [Helper_CalculateAllocationNumber, Helper_AllocateAndBindMemory]
             \<and> (\<exists>array. al = Some array
                   \<and> al' = Some (snd ans @ drop (length (snd ans)) array)))
        \<or> (ra = SUCCESS \<and> fst ans = SUCCESS
             \<and> (\<exists>array. al = Some array
                   \<and> al' = Some (map Some ps
                                  @ drop (length ps) (snd ans @ drop (length (snd ans)) array))))"
    by (rule AllocateAndBindMemory_out)
qed

theorem out_handle_assigned_on_success_only_witness:
  "(\<exists>r s'. create example_descs (\<lambda>_. 0)
          (Of_Resource (Call_CreateBuffer \<lparr>bd_size = 64\<rparr>)) (BACKEND_FAILURE 3, 0) 7 (Some 99) empty_device
        = Some (r, Some 99, s') \<and> r \<noteq> SUCCESS)
   \<and> (\<exists>r s'. create example_descs (\<lambda>_. 0)
          (Of_Resource (Call_CreateBuffer \<lparr>bd_size = 0\<rparr>)) (SUCCESS, 21) 7 (Some 99) empty_device
        = Some (r, Some 99, s') \<and> r \<noteq> SUCCESS)
   \<and> (\<exists>s'. create example_descs (\<lambda>_. 0)
          (Of_Resource (Call_CreateBuffer \<lparr>bd_size = 64\<rparr>)) (SUCCESS, 21) 7 (Some 99) empty_device
        = Some (SUCCESS, Some 7, s'))
   \<and> (\<exists>r s'. create example_descs (\<lambda>_. 0)
          (Of_Resource (Call_AllocateMemory \<lparr>am_size = 64, am_type = 0, am_priority = Some 0\<rparr>)) (SUCCESS, 21) 7 (Some 99) empty_device
        = Some (r, Some 99, s') \<and> r \<noteq> SUCCESS)
   \<and> (\<exists>r s'. create example_descs (\<lambda>_. 0)
          (Of_Descriptor (Call_CreateTexture2DView ((example_view 0 1)\<lparr>tv_texture := None\<rparr>))) (SUCCESS, 21) 7 (Some 99) empty_device
        = Some (r, Some 99, s') \<and> r \<noteq> SUCCESS)
   \<and> (\<exists>r s'. create example_descs (\<lambda>_. 0)
          (Of_Pipeline (Call_CreatePipelineLayout (example_layout 0))) (SUCCESS, 21) 7 (Some 99) empty_device
        = Some (r, Some 99, s') \<and> r \<noteq> SUCCESS)
   \<and> (\<exists>s'. create example_descs (\<lambda>_. 0)
          (Of_Object (Call_GetCommandQueue 0)) (SUCCESS, 21) 7 (Some 99) empty_device
        = Some (SUCCESS, Some 7, s'))
   \<and> (\<exists>r s'. create example_descs (\<lambda>_. 0)
          (Of_Object (Call_GetCommandQueue 0)) (FAILURE, 0) 7 (Some 99) empty_device
        = Some (r, Some 99, s') \<and> r \<noteq> SUCCESS)
   \<and> (\<exists>r s'. create example_descs (\<lambda>_. 0)
          (Of_VK (Call_CreateBufferVK \<lparr>bv_vkBuffer = 9, bv_size = 64\<rparr>)) (FAILURE, 0) 7 (Some 99) empty_device
        = Some (r, Some 99, s') \<and> r \<noteq> SUCCESS)
   \<and> (\<exists>r s'. create example_descs (\<lambda>_. 0)
          (Of_D3D12 (Call_CreateBufferD3D12 \<lparr>b12_d3d12Resource = None\<rparr>)) (SUCCESS, 21) 7 (Some 99) empty_device
        = Some (r, Some 99, s') \<and> r \<noteq> SUCCESS)
   \<and> (\<exists>r s'. AllocateAndBindMemory example_descs 1 (SUCCESS, [Some 77]) [9]
          \<lparr>rg_memoryLocation = 0, rg_buffers = Elems [None], rg_textures = Elems []\<rparr> (Some [None])
          device_with_resources
        = Some (r, Some [None], s') \<and> r \<noteq> SUCCESS)
   \<and> (\<exists>s'. AllocateAndBindMemory example_descs 1 (SUCCESS, [Some 77]) [9]
          \<lparr>rg_memoryLocation = 0, rg_buffers = Elems [Some 1], rg_textures = Elems []\<rparr> (Some [None])
          device_with_resources
        = Some (SUCCESS, Some [Some 9], s'))"
proof -
  have "\<exists>r out' s'. create example_descs (\<lambda>_. 0)
          (Of_Resource (Call_CreateBuffer \<lparr>bd_size = 64\<rparr>)) (BACKEND_FAILURE 3, 0) 7 (Some 99) empty_device
        = Some (r, out', s') \<and> r \<noteq> SUCCESS"
    by (simp add: CreateBuffer_def Let_def Allocate_def call_backend_def REPORT_ERROR_def empty_device_def)
  then obtain r1 o1 s1 where e1: "create example_descs (\<lambda>_. 0)
          (Of_Resource (Call_CreateBuffer \<lparr>bd_size = 64\<rparr>)) (BACKEND_FAILURE 3, 0) 7 (Some 99) empty_device
        = Some (r1, o1, s1)" and n1: "r1 \<noteq> SUCCESS" by blast
  from out_handle_assigned_on_success_only[where H = example_descs and fs = "\<lambda>_. 0"
      and c = "Of_Resource (Call_CreateBuffer \<lparr>bd_size = 64\<rparr>)" and answer = "(BACKEND_FAILURE 3, 0)" and p = 7 and out = "Some 99" and s = empty_device
      and r = r1 and out' = o1 and s' = s1, THEN conjunct1, THEN mp, OF e1] n1
  have "o1 = Some 99" by (simp add: empty_device_def)
  with e1 n1 have w1: "\<exists>r s'. create example_descs (\<lambda>_. 0)
          (Of_Resource (Call_CreateBuffer \<lparr>bd_size = 64\<rparr>)) (BACKEND_FAILURE 3, 0) 7 (Some 99) empty_device
        = Some (r, Some 99, s') \<and> r \<noteq> SUCCESS" by blast
  have "\<exists>r out' s'. create example_descs (\<lambda>_. 0)
          (Of_Resource (Call_CreateBuffer \<lparr>bd_size = 0\<rparr>)) (SUCCESS, 21) 7 (Some 99) empty_device
        = Some (r, out', s') \<and> r \<noteq> SUCCESS"
    by (simp add: CreateBuffer_def Let_def Allocate_def call_backend_def REPORT_ERROR_def empty_device_def)
  then obtain r2 o2 s2 where e2: "create example_descs (\<lambda>_. 0)
          (Of_Resource (Call_CreateBuffer \<lparr>bd_size = 0\<rparr>)) (SUCCESS, 21) 7 (Some 99) empty_device
        = Some (r2, o2, s2)" and n2: "r2 \<noteq> SUCCESS" by blast
  from out_handle_assigned_on_success_only[where H = example_descs and fs = "\<lambda>_. 0"
      and c = "Of_Resource (Call_CreateBuffer \<lparr>bd_size = 0\<rparr>)" and answer = "(SUCCESS, 21)" and p = 7 and out = "Some 99" and s = empty_device
      and r = r2 and out' = o2 and s' = s2, THEN conjunct1, THEN mp, OF e2] n2
  have "o2 = Some 99" by (simp add: empty_device_def)
  with e2 n2 have w2: "\<exists>r s'. create example_descs (\<lambda>_. 0)
          (Of_Resource (Call_CreateBuffer \<lparr>bd_size = 0\<rparr>)) (SUCCESS, 21) 7 (Some 99) empty_device
        = Some (r, Some 99, s') \<and> r \<noteq> SUCCESS" by blast
  have "\<exists>r out' s'. create example_descs (\<lambda>_. 0)
          (Of_Resource (Call_CreateBuffer \<lparr>bd_size = 64\<rparr>)) (SUCCESS, 21) 7 (Some 99) empty_device
        = Some (r, out', s') \<and> r = SUCCESS"
    by (simp add: CreateBuffer_def Let_def Allocate_def call_backend_def REPORT_ERROR_def empty_device_def)
  then obtain r3 o3 s3 where e3: "create example_descs (\<lambda>_. 0)
          (Of_Resource (Call_CreateBuffer \<lparr>bd_size = 64\<rparr>)) (SUCCESS, 21) 7 (Some 99) empty_device
        = Some (r3, o3, s3)" and n3: "r3 = SUCCESS" by blast
  from out_handle_assigned_on_success_only[where H = example_descs and fs = "\<lambda>_. 0"
      and c = "Of_Resource (Call_CreateBuffer \<lparr>bd_size = 64\<rparr>)" and answer = "(SUCCESS, 21)" and p = 7 and out = "Some 99" and s = empty_device
      and r = r3 and out' = o3 and s' = s3, THEN conjunct1, THEN mp, OF e3] n3
  have "o3 = Some 7" by (simp add: empty_device_def)
  with e3 n3 have w3: "\<exists>s'. create example_descs (\<lambda>_. 0)
          (Of_Resource (Call_CreateBuffer \<lparr>bd_size = 64\<rparr>)) (SUCCESS, 21) 7 (Some 99) empty_device
        = Some (SUCCESS, Some 7, s')" by blast
  have "\<exists>r out' s'. create example_descs (\<lambda>_. 0)
          (Of_Resource (Call_AllocateMemory \<lparr>am_size = 64, am_type = 0, am_priority = Some 0\<rparr>)) (SUCCESS, 21) 7 (Some 99) empty_device
        = Some (r, out', s') \<and> r \<noteq> SUCCESS"
    by (simp add: AllocateMemory_def Let_def Allocate_def call_backend_def REPORT_ERROR_def empty_device_def)
  then obtain r4 o4 s4 where e4: "create example_descs (\<lambda>_. 0)
          (Of_Resource (Call_AllocateMemory \<lparr>am_size = 64, am_type = 0, am_priority = Some 0\<rparr>)) (SUCCESS, 21) 7 (Some 99) empty_device
        = Some (r4, o4, s4)" and n4: "r4 \<noteq> SUCCESS" by blast
  from out_handle_assigned_on_success_only[where H = example_descs and fs = "\<lambda>_. 0"
      and c = "Of_Resource (Call_AllocateMemory \<lparr>am_size = 64, am_type = 0, am_priority = Some 0\<rparr>)" and answer = "(SUCCESS, 21)" and p = 7 and out = "Some 99" and s = empty_device
      and r = r4 and out' = o4 and s' = s4, THEN conjunct1, THEN mp, OF e4] n4
  have "o4 = Some 99" by (simp add: empty_device_def)
  with e4 n4 have w4: "\<exists>r s'. create example_descs (\<lambda>_. 0)
          (Of_Resource (Call_AllocateMemory \<lparr>am_size = 64, am_type = 0, am_priority = Some 0\<rparr>)) (SUCCESS, 21) 7 (Some 99) empty_device
        = Some (r, Some 99, s') \<and> r \<noteq> SUCCESS" by blast
  have "\<exists>r out' s'. create example_descs (\<lambda>_. 0)
          (Of_Descriptor (Call_CreateTexture2DView ((example_view 0 1)\<lparr>tv_texture := None\<rparr>))) (SUCCESS, 21) 7 (Some 99) empty_device
        = Some (r, out', s') \<and> r \<noteq> SUCCESS"
    by (simp add: CreateDescriptor_Texture2DView_def example_view_def Let_def Allocate_def call_backend_def REPORT_ERROR_def empty_device_def)
  then obtain r5 o5 s5 where e5: "create example_descs (\<lambda>_. 0)
          (Of_Descriptor (Call_CreateTexture2DView ((example_view 0 1)\<lparr>tv_texture := None\<rparr>))) (SUCCESS, 21) 7 (Some 99) empty_device
        = Some (r5, o5, s5)" and n5: "r5 \<noteq> SUCCESS" by blast
  from out_handle_assigned_on_success_only[where H = example_descs and fs = "\<lambda>_. 0"
      and c = "Of_Descriptor (Call_CreateTexture2DView ((example_view 0 1)\<lparr>tv_texture := None\<rparr>))" and answer = "(SUCCESS, 21)" and p = 7 and out = "Some 99" and s = empty_device
      and r = r5 and out' = o5 and s' = s5, THEN conjunct1, THEN mp, OF e5] n5
  have "o5 = Some 99" by (simp add: empty_device_def)
  with e5 n5 have w5: "\<exists>r s'. create example_descs (\<lambda>_. 0)
          (Of_Descriptor (Call_CreateTexture2DView ((example_view 0 1)\<lparr>tv_texture := None\<rparr>))) (SUCCESS, 21) 7 (Some 99) empty_device
        = Some (r, Some 99, s') \<and> r \<noteq> SUCCESS" by blast
  have "\<exists>r out' s'. create example_descs (\<lambda>_. 0)
          (Of_Pipeline (Call_CreatePipelineLayout (example_layout 0))) (SUCCESS, 21) 7 (Some 99) empty_device
        = Some (r, out', s') \<and> r \<noteq> SUCCESS"
    by (simp add: CreatePipelineLayout_def PipelineLayout_stage_checks_def supportedTypes_def example_layout_def example_descs_def Let_def Allocate_def call_backend_def REPORT_ERROR_def empty_device_def)
  then obtain r6 o6 s6 where e6: "create example_descs (\<lambda>_. 0)
          (Of_Pipeline (Call_CreatePipelineLayout (example_layout 0))) (SUCCESS, 21) 7 (Some 99) empty_device
        = Some (r6, o6, s6)" and n6: "r6 \<noteq> SUCCESS" by blast
  from out_handle_assigned_on_success_only[where H = example_descs and fs = "\<lambda>_. 0"
      and c = "Of_Pipeline (Call_CreatePipelineLayout (example_layout 0))" and answer = "(SUCCESS, 21)" and p = 7 and out = "Some 99" and s = empty_device
      and r = r6 and out' = o6 and s' = s6, THEN conjunct1, THEN mp, OF e6] n6
  have "o6 = Some 99" by (simp add: empty_device_def)
  with e6 n6 have w6: "\<exists>r s'. create example_descs (\<lambda>_. 0)
          (Of_Pipeline (Call_CreatePipelineLayout (example_layout 0))) (SUCCESS, 21) 7 (Some 99) empty_device
        = Some (r, Some 99, s') \<and> r \<noteq> SUCCESS" by blast
  have "\<exists>r out' s'. create example_descs (\<lambda>_. 0)
          (Of_Object (Call_GetCommandQueue 0)) (SUCCESS, 21) 7 (Some 99) empty_device
        = Some (r, out', s') \<and> r = SUCCESS"
    by (simp add: GetCommandQueue_def example_descs_def Let_def Allocate_def call_backend_def REPORT_ERROR_def empty_device_def)
  then obtain r7 o7 s7 where e7: "create example_descs (\<lambda>_. 0)
          (Of_Object (Call_GetCommandQueue 0)) (SUCCESS, 21) 7 (Some 99) empty_device
        = Some (r7, o7, s7)" and n7: "r7 = SUCCESS" by blast
  from out_handle_assigned_on_success_only[where H = example_descs and fs = "\<lambda>_. 0"
      and c = "Of_Object (Call_GetCommandQueue 0)" and answer = "(SUCCESS, 21)" and p = 7 and out = "Some 99" and s = empty_device
      and r = r7 and out' = o7 and s' = s7, THEN conjunct1, THEN mp, OF e7] n7
  have "o7 = Some 7" by (simp add: empty_device_def)
  with e7 n7 have w7: "\<exists>s'. create example_descs (\<lambda>_. 0)
          (Of_Object (Call_GetCommandQueue 0)) (SUCCESS, 21) 7 (Some 99) empty_device
        = Some (SUCCESS, Some 7, s')" by blast
  have "\<exists>r out' s'. create example_descs (\<lambda>_. 0)
          (Of_Object (Call_GetCommandQueue 0)) (FAILURE, 0) 7 (Some 99) empty_device
        = Some (r, out', s') \<and> r \<noteq> SUCCESS"
    by (simp add: GetCommandQueue_def example_descs_def Let_def Allocate_def call_backend_def REPORT_ERROR_def empty_device_def)
  then obtain r8 o8 s8 where e8: "create example_descs (\<lambda>_. 0)
          (Of_Object (Call_GetCommandQueue 0)) (FAILURE, 0) 7 (Some 99) empty_device
        = Some (r8, o8, s8)" and n8: "r8 \<noteq> SUCCESS" by blast
  from out_handle_assigned_on_success_only[where H = example_descs and fs = "\<lambda>_. 0"
      and c = "Of_Object (Call_GetCommandQueue 0)" and answer = "(FAILURE, 0)" and p = 7 and out = "Some 99" and s = empty_device
      and r = r8 and out' = o8 and s' = s8, THEN conjunct1, THEN mp, OF e8] n8
  have "o8 = Some 99" by (simp add: empty_device_def)
  with e8 n8 have w8: "\<exists>r s'. create example_descs (\<lambda>_. 0)
          (Of_Object (Call_GetCommandQueue 0)) (FAILURE, 0) 7 (Some 99) empty_device
        = Some (r, Some 99, s') \<and> r \<noteq> SUCCESS" by blast
  have "\<exists>r out' s'. create example_descs (\<lambda>_. 0)
          (Of_VK (Call_CreateBufferVK \<lparr>bv_vkBuffer = 9, bv_size = 64\<rparr>)) (FAILURE, 0) 7 (Some 99) empty_device
        = Some (r, out', s') \<and> r \<noteq> SUCCESS"
    by (simp add: CreateBuffer_VK_def Let_def Allocate_def call_backend_def REPORT_ERROR_def empty_device_def)
  then obtain r9 o9 s9 where e9: "create example_descs (\<lambda>_. 0)
          (Of_VK (Call_CreateBufferVK \<lparr>bv_vkBuffer = 9, bv_size = 64\<rparr>)) (FAILURE, 0) 7 (Some 99) empty_device
        = Some (r9, o9, s9)" and n9: "r9 \<noteq> SUCCESS" by blast
  from out_handle_assigned_on_success_only[where H = example_descs and fs = "\<lambda>_. 0"
      and c = "Of_VK (Call_CreateBufferVK \<lparr>bv_vkBuffer = 9, bv_size = 64\<rparr>)" and answer = "(FAILURE, 0)" and p = 7 and out = "Some 99" and s = empty_device
      and r = r9 and out' = o9 and s' = s9, THEN conjunct1, THEN mp, OF e9] n9
  have "o9 = Some 99" by (simp add: empty_device_def)
  with e9 n9 have w9: "\<exists>r s'. create example_descs (\<lambda>_. 0)
          (Of_VK (Call_CreateBufferVK \<lparr>bv_vkBuffer = 9, bv_size = 64\<rparr>)) (FAILURE, 0) 7 (Some 99) empty_device
        = Some (r, Some 99, s') \<and> r \<noteq> SUCCESS" by blast
  have "\<exists>r out' s'. create example_descs (\<lambda>_. 0)
          (Of_D3D12 (Call_CreateBufferD3D12 \<lparr>b12_d3d12Resource = None\<rparr>)) (SUCCESS, 21) 7 (Some 99) empty_device
        = Some (r, out', s') \<and> r \<noteq> SUCCESS"
    by (simp add: CreateBuffer_D3D12_def Let_def Allocate_def call_backend_def REPORT_ERROR_def empty_device_def)
  then obtain r10 o10 s10 where e10: "create example_descs (\<lambda>_. 0)
          (Of_D3D12 (Call_CreateBufferD3D12 \<lparr>b12_d3d12Resource = None\<rparr>)) (SUCCESS, 21) 7 (Some 99) empty_device
        = Some (r10, o10, s10)" and n10: "r10 \<noteq> SUCCESS" by blast
  from out_handle_assigned_on_success_only[where H = example_descs and fs = "\<lambda>_. 0"
      and c = "Of_D3D12 (Call_CreateBufferD3D12 \<lparr>b12_d3d12Resource = None\<rparr>)" and answer = "(SUCCESS, 21)" and p = 7 and out = "Some 99" and s = empty_device
      and r = r10 and out' = o10 and s' = s10, THEN conjunct1, THEN mp, OF e10] n10
  have "o10 = Some 99" by (simp add: empty_device_def)
  with e10 n10 have w10: "\<exists>r s'. create example_descs (\<lambda>_. 0)
          (Of_D3D12 (Call_CreateBufferD3D12 \<lparr>b12_d3d12Resource = None\<rparr>)) (SUCCESS, 21) 7 (Some 99) empty_device
        = Some (r, Some 99, s') \<and> r \<noteq> SUCCESS" by blast
  have "\<exists>r al' s'. AllocateAndBindMemory example_descs 1 (SUCCESS, [Some 77]) [9]
          \<lparr>rg_memoryLocation = 0, rg_buffers = Elems [None], rg_textures = Elems []\<rparr> (Some [None])
          device_with_resources
        = Some (r, al', s') \<and> r \<noteq> SUCCESS \<and> backendCalls s' = backendCalls device_with_resources"
    by (simp add: AllocateAndBindMemory_def CalculateAllocationNumber_def GetImpl_entry_def Let_def example_descs_def device_with_resources_def empty_device_def call_backend_def REPORT_ERROR_def SetBoundToMemory_buffer_entry_def BufferVal_SetBoundToMemory_def Allocate_def example_memory_def)
  then obtain ra oa sa where ea: "AllocateAndBindMemory example_descs 1 (SUCCESS, [Some 77]) [9]
          \<lparr>rg_memoryLocation = 0, rg_buffers = Elems [None], rg_textures = Elems []\<rparr> (Some [None])
          device_with_resources
        = Some (ra, oa, sa)" and na: "ra \<noteq> SUCCESS"
    and ca: "backendCalls sa = backendCalls device_with_resources" by blast
  from out_handle_assigned_on_success_only[where H = example_descs and n = 1
      and ans = "(SUCCESS, [Some 77])" and ps = "[9]" and rg = "\<lparr>rg_memoryLocation = 0, rg_buffers = Elems [None], rg_textures = Elems []\<rparr>"
      and al = "Some [None]" and s = device_with_resources and ra = ra and al' = oa and sa = sa,
      THEN conjunct2, THEN mp, OF ea] na ca
  have "oa = Some [None]" by simp
  with ea na have wa: "\<exists>r s'. AllocateAndBindMemory example_descs 1 (SUCCESS, [Some 77]) [9]
          \<lparr>rg_memoryLocation = 0, rg_buffers = Elems [None], rg_textures = Elems []\<rparr> (Some [None])
          device_with_resources
        = Some (r, Some [None], s') \<and> r \<noteq> SUCCESS" by blast
  have "\<exists>r al' s'. AllocateAndBindMemory example_descs 1 (SUCCESS, [Some 77]) [9]
          \<lparr>rg_memoryLocation = 0, rg_buffers = Elems [Some 1], rg_textures = Elems []\<rparr> (Some [None])
          device_with_resources
        = Some (r, al', s') \<and> r = SUCCESS"
    by (simp add: AllocateAndBindMemory_def CalculateAllocationNumber_def GetImpl_entry_def Let_def example_descs_def device_with_resources_def empty_device_def call_backend_def REPORT_ERROR_def SetBoundToMemory_buffer_entry_def BufferVal_SetBoundToMemory_def Allocate_def example_memory_def)
  then obtain rb ob sb where eb: "AllocateAndBindMemory example_descs 1 (SUCCESS, [Some 77]) [9]
          \<lparr>rg_memoryLocation = 0, rg_buffers = Elems [Some 1], rg_textures = Elems []\<rparr> (Some [None])
          device_with_resources
        = Some (rb, ob, sb)" and nb: "rb = SUCCESS" by blast
  from out_handle_assigned_on_success_only[where H = example_descs and n = 1
      and ans = "(SUCCESS, [Some 77])" and ps = "[9]" and rg = "\<lparr>rg_memoryLocation = 0, rg_buffers = Elems [Some 1], rg_textures = Elems []\<rparr>"
      and al = "Some [None]" and s = device_with_resources and ra = rb and al' = ob and sa = sb,
      THEN conjunct2, THEN mp, OF eb] nb
  have "ob = Some [Some 9]" by simp
  with eb nb have wb: "\<exists>s'. AllocateAndBindMemory example_descs 1 (SUCCESS, [Some 77]) [9]
          \<lparr>rg_memoryLocation = 0, rg_buffers = Elems [Some 1], rg_textures = Elems []\<rparr> (Some [None])
          device_with_resources
        = Some (SUCCESS, Some [Some 9], s')" by blast
  show ?thesis by (intro conjI w1 w2 w3 w4 w5 w6 w7 w8 w9 w10 wa wb)
qed

text \<open>The claim as stated fails for \<^verbatim>\<open>AllocateAndBindMemory\<close>: the backend stores a handle in
  the array of the caller and then fails; the call returns the failure and the array of the
  caller has changed.\<close>

theorem AllocateAndBindMemory_backend_failure_counterexample:
  "\<exists>s'. AllocateAndBindMemory example_descs 1 (FAILURE, [Some 77]) [9]
           \<lparr>rg_memoryLocation = 0, rg_buffers = Elems [Some 1], rg_textures = Elems []\<rparr>
           (Some [None]) device_with_resources
         = Some (FAILURE, Some [Some 77], s')
       \<and> backendCalls s' = [Helper_CalculateAllocationNumber, Helper_AllocateAndBindMemory]"
  by (simp add: AllocateAndBindMemory_def CalculateAllocationNumber_def GetImpl_entry_def Let_def
      example_descs_def device_with_resources_def empty_device_def call_backend_def)

end
